(* ===== verification/Go_Prelude.thy ===== *)
theory Go_Prelude
  imports Main "HOL-Library.Word"
begin

text \<open>
  Shared ground of the development: the vocabulary in which the Go program is
  written down. Go's \<open>int\<close> and \<open>int64\<close> are 64-bit words read with \<open>sint\<close>;
  \<open>uint64\<close> is the same word type read with \<open>unat\<close>. A run-time panic is a value
  of \<open>gopanic\<close>, and code that may panic has a result of type \<open>'a run\<close>
  (\<open>Inl\<close> the panic, \<open>Inr\<close> the value). An \<open>error\<close> result of the source is a value
  of \<open>goerror\<close>. The lemmas at the end are the generic facts on lists and runs that
  the component theories share.
\<close>

subsection \<open>Types\<close>

type_synonym goint = "64 word"
type_synonym gotime = int \<comment> \<open>nanoseconds since Go's zero time; \<open>0\<close> is \<open>time.Time{}\<close>\<close>

datatype gopanic =
    IndexOutOfRange
  | NilDereference
  | NonPositiveTicker
  | NilMapWrite
  | DivideByZero

type_synonym 'a run = "gopanic + 'a"

datatype goerror = GoError string

type_synonym tagmap = "(string \<times> string) list"

subsection \<open>Runs that may panic\<close>

definition run_bind :: "'a run \<Rightarrow> ('a \<Rightarrow> 'b run) \<Rightarrow> 'b run" where
  "run_bind r f = (case r of Inl p \<Rightarrow> Inl p | Inr x \<Rightarrow> f x)"

text \<open>A \<open>for ... range\<close> loop whose body may panic.\<close>

fun run_fold :: "('s \<Rightarrow> 'a \<Rightarrow> 's run) \<Rightarrow> 's \<Rightarrow> 'a list \<Rightarrow> 's run" where
  "run_fold f s [] = Inr s"
| "run_fold f s (x # xs) = (case f s x of Inl p \<Rightarrow> Inl p | Inr s' \<Rightarrow> run_fold f s' xs)"

text \<open>Go's \<open>xs[i]\<close>: out of range it panics.\<close>

definition at_index :: "'a list \<Rightarrow> int \<Rightarrow> 'a run" where
  "at_index xs i = (if 0 \<le> i \<and> i < int (length xs) then Inr (xs ! nat i) else Inl IndexOutOfRange)"

subsection \<open>Standard library operations on slices\<close>

text \<open>\<open>slices.Index\<close>: the first position of a value, \<open>-1\<close> if there is none.\<close>

fun slices_index :: "'a list \<Rightarrow> 'a \<Rightarrow> int" where
  "slices_index [] v = -1"
| "slices_index (x # xs) v =
     (if x = v then 0 else (let i = slices_index xs v in if i < 0 then -1 else i + 1))"

text \<open>\<open>slices.Sort\<close> on \<open>[]int\<close> and \<open>slices.Compact\<close> (drops equal neighbours).\<close>

definition sort_ints :: "goint list \<Rightarrow> goint list" where
  "sort_ints xs = sort_key sint xs"

definition compact :: "'a list \<Rightarrow> 'a list" where
  "compact xs = remdups_adj xs"

text \<open>A Go map literal or a map read with \<open>m[k]\<close>: an association list, later stores win.\<close>

definition map_put :: "'k \<Rightarrow> 'v \<Rightarrow> ('k \<times> 'v) list \<Rightarrow> ('k \<times> 'v) list" where
  "map_put k v m = (if k \<in> fst ` set m then map (\<lambda>(k', v'). if k' = k then (k, v) else (k', v')) m
                    else m @ [(k, v)])"

definition map_del :: "'k \<Rightarrow> ('k \<times> 'v) list \<Rightarrow> ('k \<times> 'v) list" where
  "map_del k m = filter (\<lambda>(k', _). k' \<noteq> k) m"

subsection \<open>Runs of concurrent components\<close>

text \<open>
  Goroutines and their environment are step relations with labels; a run of a relation is
  a finite sequence of steps, with its labels in order.
\<close>

inductive lrun :: "('s \<Rightarrow> 'e \<Rightarrow> 's \<Rightarrow> bool) \<Rightarrow> 's \<Rightarrow> 'e list \<Rightarrow> 's \<Rightarrow> bool"
  for R s where
  run_nil: "lrun R s [] s"
| run_step: "lrun R s tr t \<Longrightarrow> R t ev u \<Longrightarrow> lrun R s (tr @ [ev]) u"

inductive_simps lrun_Nil [simp]: "lrun R s [] t"
inductive_simps lrun_snoc: "lrun R s (tr @ [ev]) u"

subsection \<open>Lemmas\<close>

lemma lrun_append: "lrun R t tr' u \<Longrightarrow> lrun R s tr t \<Longrightarrow> lrun R s (tr @ tr') u"
proof (induction rule: lrun.induct)
  case (run_step tr' v ev u)
  then show ?case using lrun.run_step [of R s "tr @ tr'" v ev u] by simp
qed simp

lemma lrun_single: "R s ev t \<Longrightarrow> lrun R s [ev] t"
  using lrun.run_step [OF lrun.run_nil, of R s ev t] by simp

lemma lrun_cons: "R s ev t \<Longrightarrow> lrun R t tr u \<Longrightarrow> lrun R s (ev # tr) u"
  using lrun_append [OF _ lrun_single, of R t tr u s ev] by simp

text \<open>Every label of a run belongs to a step from a state the run has reached.\<close>

lemma lrun_split:
  assumes "lrun R s tr u" and "tr = tr1 @ ev # tr2"
  shows "\<exists>t t'. lrun R s tr1 t \<and> R t ev t' \<and> lrun R t' tr2 u"
  using assms(1) unfolding assms(2)
proof (induction tr2 arbitrary: u rule: rev_induct)
  case Nil
  then show ?case by (auto simp: lrun_snoc)
next
  case (snoc e tr2)
  with lrun_snoc [of R s "tr1 @ ev # tr2" e u] show ?case by (auto simp: lrun_snoc) blast
qed

text \<open>
  Two contracts of a step relation, each proved step by step and used on runs: a relation
  between the first and the last state, and an invariant, which is a case of the former.
\<close>

locale step_order =
  fixes step :: "'s \<Rightarrow> 'e \<Rightarrow> 's \<Rightarrow> bool" and rel :: "'s \<Rightarrow> 's \<Rightarrow> bool"
  assumes rel_refl: "rel s s"
    and rel_trans: "rel s t \<Longrightarrow> rel t u \<Longrightarrow> rel s u"
    and rel_step: "step s ev t \<Longrightarrow> rel s t"
begin

lemma rel_run: "lrun step s tr t \<Longrightarrow> rel s t"
  by (induction rule: lrun.induct) (blast intro: rel_refl rel_trans rel_step)+

end

locale step_invariant =
  fixes step :: "'s \<Rightarrow> 'e \<Rightarrow> 's \<Rightarrow> bool" and inv :: "'s \<Rightarrow> bool"
  assumes inv_step: "step s ev t \<Longrightarrow> inv s \<Longrightarrow> inv t"

sublocale step_invariant \<subseteq> kept: step_order step "\<lambda>s t. inv s \<longrightarrow> inv t"
  by unfold_locales (auto intro: inv_step)

context step_invariant
begin

lemma inv_run: "lrun step s tr t \<Longrightarrow> inv s \<Longrightarrow> inv t"
  using kept.rel_run by blast

end

named_theorems run_simps

lemma run_bind_simps [simp]:
  "run_bind (Inl p) f = Inl p"
  "run_bind (Inr x) f = f x"
  by (simp_all add: run_bind_def)

lemma run_bind_Inr_iff [run_simps]:
  "run_bind r f = Inr y \<longleftrightarrow> (\<exists>x. r = Inr x \<and> f x = Inr y)"
  by (cases r) auto

lemma run_bind_Inl_iff: "run_bind r f = Inl p \<longleftrightarrow> r = Inl p \<or> (\<exists>x. r = Inr x \<and> f x = Inl p)"
  by (cases r) auto

lemma at_index_Inr_iff [run_simps]:
  "at_index xs i = Inr x \<longleftrightarrow> 0 \<le> i \<and> i < int (length xs) \<and> x = xs ! nat i"
  by (auto simp: at_index_def)

lemma at_index_Inl_iff [run_simps]:
  "at_index xs i = Inl p \<longleftrightarrow> p = IndexOutOfRange \<and> \<not> (0 \<le> i \<and> i < int (length xs))"
  by (auto simp: at_index_def)

lemma run_fold_append:
  "run_fold f s (xs @ ys) = run_bind (run_fold f s xs) (\<lambda>s'. run_fold f s' ys)"
  by (induction xs arbitrary: s) (auto split: sum.splits)

text \<open>The invariant rule of a loop: what every iteration keeps, the loop keeps.\<close>

lemma run_fold_invariant:
  assumes "run_fold f s xs = Inr t"
    and "I s"
    and "\<And>u x v. x \<in> set xs \<Longrightarrow> I u \<Longrightarrow> f u x = Inr v \<Longrightarrow> I v"
  shows "I t"
  using assms
proof (induction xs arbitrary: s)
  case Nil
  then show ?case by simp
next
  case (Cons x xs)
  from Cons.prems(1) obtain v where v: "f s x = Inr v" "run_fold f v xs = Inr t"
    by (auto split: sum.splits)
  with Cons.prems(2,3) have "I v" by (meson list.set_intros(1))
  with v(2) show ?case
    by (rule Cons.IH) (meson Cons.prems(3) list.set_intros(2))
qed

text \<open>A loop whose body never panics under an invariant does not panic.\<close>

lemma run_fold_total:
  assumes "I s"
    and "\<And>u x. x \<in> set xs \<Longrightarrow> I u \<Longrightarrow> \<exists>v. f u x = Inr v \<and> I v"
  shows "\<exists>t. run_fold f s xs = Inr t \<and> I t"
  using assms
proof (induction xs arbitrary: s)
  case Nil
  then show ?case by simp
next
  case (Cons x xs)
  then obtain v where "f s x = Inr v" "I v" by (meson list.set_intros(1))
  moreover from Cons have "\<exists>t. run_fold f v xs = Inr t \<and> I t"
    using \<open>I v\<close> by (meson list.set_intros(2))
  ultimately show ?case by simp
qed

lemma run_fold_pure:
  assumes "\<And>s x. f s x = Inr (g x s)"
  shows "run_fold f s xs = Inr (fold g xs s)"
  by (induction xs arbitrary: s) (simp_all add: assms)

lemma slices_index_bounds: "-1 \<le> slices_index xs v \<and> slices_index xs v < int (length xs)"
  by (induction xs) (auto simp: Let_def)

lemma slices_index_found:
  "v \<in> set xs \<Longrightarrow> 0 \<le> slices_index xs v \<and> xs ! nat (slices_index xs v) = v"
  by (induction xs) (auto simp: Let_def nat_add_distrib)

lemma slices_index_missing: "v \<notin> set xs \<Longrightarrow> slices_index xs v = -1"
  by (induction xs) auto

lemma set_sort_ints [simp]: "set (sort_ints xs) = set xs"
  by (simp add: sort_ints_def)

lemma length_sort_ints [simp]: "length (sort_ints xs) = length xs"
  by (simp add: sort_ints_def)

lemma sorted_sort_ints: "sorted (map sint (sort_ints xs))"
  by (simp add: sort_ints_def)

lemma set_compact [simp]: "set (compact xs) = set xs"
  by (simp add: compact_def)

lemma sint_eq_iff: "sint x = sint y \<longleftrightarrow> x = (y :: goint)"
  by (auto intro: signed_word_eqI)

lemma sint_range:
  fixes v :: goint
  shows "- 9223372036854775808 \<le> sint v" and "sint v < 9223372036854775808"
  using sint_ge [of v] sint_lt [of v] by simp_all

lemma sint_of_int_range:
  assumes "- 9223372036854775808 \<le> n" and "n < 9223372036854775808"
  shows "sint (word_of_int n :: goint) = n"
  using assms by (simp only: sint_sbintrunc') (simp add: signed_take_bit_int_eq_self)

text \<open>Sums and differences that stay in range are the integer ones.\<close>

lemma sint_add_in_range:
  fixes a b :: goint
  assumes "- 9223372036854775808 \<le> sint a + sint b" and "sint a + sint b < 9223372036854775808"
  shows "sint (a + b) = sint a + sint b"
  using assms by (simp add: sint_word_add signed_take_bit_int_eq_self)

lemma sint_sub_in_range:
  fixes a b :: goint
  assumes "- 9223372036854775808 \<le> sint a - sint b" and "sint a - sint b < 9223372036854775808"
  shows "sint (a - b) = sint a - sint b"
  using assms by (simp add: sint_word_ariths signed_take_bit_int_eq_self)

lemma sorted_map_distinct_adj:
  assumes "sorted (map sint xs)" and "distinct_adj (xs :: goint list)"
  shows "distinct xs"
  using assms
proof (induction xs)
  case Nil
  then show ?case by simp
next
  case (Cons x xs)
  then have "distinct xs" by (cases xs) simp_all
  moreover have "x \<notin> set xs"
  proof
    assume "x \<in> set xs"
    then obtain y ys where xs: "xs = y # ys" by (cases xs) auto
    with Cons.prems have "sint x \<le> sint y" "x \<noteq> y" by auto
    then have "sint x < sint y" using sint_eq_iff [of x y] by linarith
    moreover from Cons.prems(1) xs have "\<forall>z \<in> set xs. sint y \<le> sint z" by auto
    ultimately show False using \<open>x \<in> set xs\<close> by auto
  qed
  ultimately show ?case by simp
qed

lemma sorted_map_remdups_adj: "sorted (map f xs) \<Longrightarrow> sorted (map f (remdups_adj xs))"
  by (induction xs rule: remdups_adj.induct) auto

lemma compact_sort_ints:
  "sorted (map sint (compact (sort_ints xs)))" "distinct (compact (sort_ints xs))"
proof -
  show "sorted (map sint (compact (sort_ints xs)))"
    by (simp add: compact_def sorted_map_remdups_adj sorted_sort_ints)
  then show "distinct (compact (sort_ints xs))"
    by (rule sorted_map_distinct_adj) (simp add: compact_def)
qed

lemma map_put_lookup [simp]:
  "map_of (map_put k v m) = (map_of m)(k \<mapsto> v)"
proof (cases "k \<in> fst ` set m")
  case True
  have "map_of (map (\<lambda>(k', v'). if k' = k then (k, v) else (k', v')) m) =
        (\<lambda>x. if x = k then (if k \<in> fst ` set m then Some v else None) else map_of m x)"
    by (induction m) (auto simp: fun_eq_iff)
  with True show ?thesis by (auto simp: map_put_def fun_eq_iff)
next
  case False
  have "map_of (m @ [(k, v)]) = (map_of m)(k \<mapsto> v)"
    using False by (induction m) (auto simp: fun_eq_iff)
  with False show ?thesis by (simp add: map_put_def)
qed

lemma map_put_keys: "fst ` set (map_put k v m) = insert k (fst ` set m)"
  using map_put_lookup [of k v m] by (metis dom_fun_upd dom_map_of_conv_image_fst option.distinct(1))

lemma map_put_new: "k \<notin> fst ` set m \<Longrightarrow> map_put k v m = m @ [(k, v)]"
  by (simp add: map_put_def)

text \<open>Stores under new and different keys append.\<close>

lemma fold_map_put_new:
  "distinct (map fst m @ map fst es) \<Longrightarrow> fold (\<lambda>(k, v). map_put k v) es m = m @ es"
  by (induction es arbitrary: m) (auto simp: map_put_new)

lemma map_put_distinct:
  assumes "distinct (map fst m)"
  shows "distinct (map fst (map_put k v m))"
proof (cases "k \<in> fst ` set m")
  case True
  have "map fst (map (\<lambda>(k', v'). if k' = k then (k, v) else (k', v')) m) = map fst m"
    by (induction m) auto
  with True assms show ?thesis by (simp only: map_put_def if_True)
next
  case False
  with assms show ?thesis by (simp add: map_put_def)
qed

lemma set_map_put: "set (map_put k v m) \<subseteq> insert (k, v) (set m)"
  by (auto simp: map_put_def split: if_splits)

lemma map_del_lookup [simp]: "map_of (map_del k m) = (map_of m)(k := None)"
  by (induction m) (auto simp: map_del_def fun_eq_iff)

lemma map_filter_append: "List.map_filter f (xs @ ys) = List.map_filter f xs @ List.map_filter f ys"
  by (induction xs) (auto split: option.splits)

lemmas run_fold_simps = run_fold.simps

end
