(* ===== verification/Go_Strings.thy ===== *)
theory Go_Strings
  imports Go_Prelude
begin

text \<open>
  The part of Go's \<open>strings\<close>, \<open>strconv\<close>, \<open>bufio\<close> and \<open>path/filepath\<close> packages that
  the sources use, on byte strings. White space is ASCII white space: the files the
  program parses (procfs, sysfs) are ASCII. The number parsers follow
  \<open>strconv.ParseUint\<close> and \<open>strconv.ParseInt\<close>, with base prefixes, underscores, and
  the value that accompanies a range error.
\<close>

subsection \<open>Package strings\<close>

definition has_prefix :: "string \<Rightarrow> string \<Rightarrow> bool" where
  "has_prefix s p = (take (length p) s = p)"

definition trim_prefix :: "string \<Rightarrow> string \<Rightarrow> string" where
  "trim_prefix s p = (if has_prefix s p then drop (length p) s else s)"

definition trim_suffix :: "string \<Rightarrow> string \<Rightarrow> string" where
  "trim_suffix s suf =
     (if length suf \<le> length s \<and> drop (length s - length suf) s = suf then take (length s - length suf) s else s)"

fun contains :: "string \<Rightarrow> string \<Rightarrow> bool" where
  "contains [] sub = (sub = [])"
| "contains (c # s) sub = (has_prefix (c # s) sub \<or> contains s sub)"

text \<open>\<open>strings.Split(s, sep)\<close> for a one-character separator.\<close>

fun split_on :: "char \<Rightarrow> string \<Rightarrow> string list" where
  "split_on sep [] = [[]]"
| "split_on sep (c # s) =
     (if c = sep then [] # split_on sep s
      else (case split_on sep s of w # ws \<Rightarrow> (c # w) # ws | [] \<Rightarrow> [[c]]))"

text \<open>\<open>strings.SplitN(s, sep, 2)[0]\<close>: everything before the first separator.\<close>

definition before_sep :: "char \<Rightarrow> string \<Rightarrow> string" where
  "before_sep sep s = takeWhile (\<lambda>c. c \<noteq> sep) s"

definition is_space :: "char \<Rightarrow> bool" where
  "is_space c = (c \<in> {CHR '' '', CHR 0x09, CHR 0x0A, CHR 0x0B, CHR 0x0C, CHR 0x0D})"

definition trim_left :: "(char \<Rightarrow> bool) \<Rightarrow> string \<Rightarrow> string" where
  "trim_left p s = dropWhile p s"

definition trim_right :: "(char \<Rightarrow> bool) \<Rightarrow> string \<Rightarrow> string" where
  "trim_right p s = rev (dropWhile p (rev s))"

definition trim :: "(char \<Rightarrow> bool) \<Rightarrow> string \<Rightarrow> string" where
  "trim p s = trim_right p (trim_left p s)"

definition trim_space :: "string \<Rightarrow> string" where
  "trim_space s = trim is_space s"

text \<open>\<open>strings.Trim(s, cutset)\<close>.\<close>

definition trim_cutset :: "string \<Rightarrow> string \<Rightarrow> string" where
  "trim_cutset s cutset = trim (\<lambda>c. c \<in> set cutset) s"

text \<open>\<open>strings.Fields\<close>: the maximal runs of non-space characters.\<close>

fun fields_acc :: "string \<Rightarrow> string \<Rightarrow> string list" where
  "fields_acc w [] = (if w = [] then [] else [rev w])"
| "fields_acc w (c # s) =
     (if is_space c then (if w = [] then fields_acc [] s else rev w # fields_acc [] s)
      else fields_acc (c # w) s)"

definition str_fields :: "string \<Rightarrow> string list" where
  "str_fields s = fields_acc [] s"

text \<open>\<open>strings.ReplaceAll\<close> for a non-empty \<open>old\<close>, left to right without overlap.\<close>

fun replace_all :: "string \<Rightarrow> string \<Rightarrow> string \<Rightarrow> string" where
  "replace_all [] old new = []"
| "replace_all (c # s) old new =
     (if old \<noteq> [] \<and> has_prefix (c # s) old
      then new @ replace_all (drop (length old - 1) s) old new
      else c # replace_all s old new)"

text \<open>\<open>strings.Replace(s, old, new, 1)\<close>.\<close>

fun replace_first :: "string \<Rightarrow> string \<Rightarrow> string \<Rightarrow> string" where
  "replace_first [] old new = (if old = [] then new else [])"
| "replace_first (c # s) old new =
     (if has_prefix (c # s) old then new @ drop (length old) (c # s) else c # replace_first s old new)"

fun join :: "string \<Rightarrow> string list \<Rightarrow> string" where
  "join sep [] = []"
| "join sep [w] = w"
| "join sep (w # ws) = w @ sep @ join sep ws"

subsection \<open>Package bufio: the line scanner\<close>

text \<open>\<open>strings.Lines\<close>: the lines with their newlines.\<close>

fun str_lines :: "string \<Rightarrow> string list" where
  "str_lines [] = []"
| "str_lines (c # s) =
     (if c = CHR 0x0A then [c] # str_lines s
      else case str_lines s of [] \<Rightarrow> [[c]] | l # ls \<Rightarrow> (c # l) # ls)"

text \<open>
  \<open>bufio.Scanner\<close> with \<open>ScanLines\<close>: the text between newlines, a trailing carriage
  return dropped; the empty rest after a final newline is no line. A line that does not
  fit the 64 KiB buffer ends the scan with \<open>ErrTooLong\<close>: the second component says
  whether \<open>Err()\<close> is nil.
\<close>

definition max_token :: int where "max_token = 65536"

definition raw_lines :: "string \<Rightarrow> string list" where
  "raw_lines s = (let ls = split_on (CHR 0x0A) s in if last ls = [] then butlast ls else ls)"

definition drop_cr :: "string \<Rightarrow> string" where
  "drop_cr l = (if l \<noteq> [] \<and> last l = CHR 0x0D then butlast l else l)"

definition scan_lines :: "string \<Rightarrow> string list \<times> bool" where
  "scan_lines s =
     (let ls = raw_lines s; ok = takeWhile (\<lambda>l. int (length l) < max_token) ls
      in (map drop_cr ok, length ok = length ls))"

subsection \<open>Package strconv\<close>

datatype num_error = ErrSyntax | ErrRange

definition lower :: "char \<Rightarrow> char" where
  "lower c = (if 65 \<le> (of_char c :: nat) \<and> (of_char c :: nat) \<le> 90
              then char_of ((of_char c :: nat) + 32) else c)"

definition is_digit :: "char \<Rightarrow> bool" where
  "is_digit c = (48 \<le> (of_char c :: nat) \<and> (of_char c :: nat) \<le> 57)"

definition digit_val :: "char \<Rightarrow> int" where
  "digit_val c = of_char c - 48"

text \<open>The value of a digit in any base up to 36.\<close>

definition any_digit :: "char \<Rightarrow> int option" where
  "any_digit c =
     (if is_digit c then Some (digit_val c)
      else let l = (of_char (lower c) :: int)
           in if 97 \<le> l \<and> l \<le> 122 then Some (l - 97 + 10) else None)"

definition max_uint64 :: int where "max_uint64 = 18446744073709551615"

text \<open>
  The digit loop of \<open>ParseUint\<close>: underscores are skipped in base-prefix mode, a
  digit outside the base is a syntax error, and the first step that leaves the range
  is a range error.
\<close>

fun parse_digits :: "bool \<Rightarrow> int \<Rightarrow> int \<Rightarrow> string \<Rightarrow> num_error + int" where
  "parse_digits base0 base n [] = Inr n"
| "parse_digits base0 base n (c # s) =
     (if c = CHR ''_'' \<and> base0 then parse_digits base0 base n s
      else case any_digit c of
        None \<Rightarrow> Inl ErrSyntax
      | Some d \<Rightarrow>
          if base \<le> d then Inl ErrSyntax
          else if max_uint64 < n * base + d then Inl ErrRange
          else parse_digits base0 base (n * base + d) s)"

text \<open>The rule for underscores in numbers with a base prefix (\<open>underscoreOK\<close>).\<close>

fun underscore_loop :: "bool \<Rightarrow> char \<Rightarrow> string \<Rightarrow> bool" where
  "underscore_loop hex saw [] = (saw \<noteq> CHR ''_'')"
| "underscore_loop hex saw (c # s) =
     (if is_digit c \<or> (hex \<and> 97 \<le> (of_char (lower c) :: nat) \<and> (of_char (lower c) :: nat) \<le> 102)
      then underscore_loop hex (CHR ''0'') s
      else if c = CHR ''_'' then (if saw \<noteq> CHR ''0'' then False else underscore_loop hex (CHR ''_'') s)
      else if saw = CHR ''_'' then False
      else underscore_loop hex (CHR ''!'') s)"

definition drop_sign :: "string \<Rightarrow> string" where
  "drop_sign s = (case s of c # t \<Rightarrow> if c = CHR ''-'' \<or> c = CHR ''+'' then t else s | [] \<Rightarrow> [])"

definition underscore_ok :: "string \<Rightarrow> bool" where
  "underscore_ok s0 =
     (let s = drop_sign s0 in
      case s of
        z # b # t \<Rightarrow>
          if z = CHR ''0'' \<and> lower b \<in> {CHR ''b'', CHR ''o'', CHR ''x''}
          then underscore_loop (lower b = CHR ''x'') (CHR ''0'') t
          else underscore_loop False (CHR ''^'') s
      | _ \<Rightarrow> underscore_loop False (CHR ''^'') s)"

text \<open>The base of a number and its digits, for the base argument 0.\<close>

definition base_prefix :: "string \<Rightarrow> int \<times> string" where
  "base_prefix s =
     (case s of
        z # t \<Rightarrow>
          if z = CHR ''0'' then
            (if 3 \<le> length s \<and> lower (hd t) = CHR ''b'' then (2, tl t)
             else if 3 \<le> length s \<and> lower (hd t) = CHR ''o'' then (8, tl t)
             else if 3 \<le> length s \<and> lower (hd t) = CHR ''x'' then (16, tl t)
             else (8, t))
          else (10, s)
      | [] \<Rightarrow> (10, []))"

definition parse_uint :: "int \<Rightarrow> string \<Rightarrow> num_error + int" where
  "parse_uint base0 s =
     (if s = [] then Inl ErrSyntax
      else let (base, ds) = (if base0 = 0 then base_prefix s else (base0, s))
           in case parse_digits (base0 = 0) base 0 ds of
                Inl e \<Rightarrow> Inl e
              | Inr n \<Rightarrow>
                  if base0 = 0 \<and> CHR ''_'' \<in> set s \<and> \<not> underscore_ok s then Inl ErrSyntax
                  else Inr n)"

text \<open>
  \<open>ParseInt(s, base, 64)\<close>: the value and the error. A range error comes with the
  nearest representable value, a syntax error with 0.
\<close>

definition int_result :: "bool \<Rightarrow> int \<Rightarrow> goint \<times> num_error option" where
  "int_result neg un =
     (if \<not> neg \<and> 9223372036854775808 \<le> un then (9223372036854775807, Some ErrRange)
      else if neg \<and> 9223372036854775808 < un then (9223372036854775808, Some ErrRange)
      else (word_of_int (if neg then - un else un), None))"

definition parse_int :: "int \<Rightarrow> string \<Rightarrow> goint \<times> num_error option" where
  "parse_int base s =
     (if s = [] then (0, Some ErrSyntax)
      else case parse_uint base (drop_sign s) of
          Inl ErrSyntax \<Rightarrow> (0, Some ErrSyntax)
        | Inl ErrRange \<Rightarrow> int_result (hd s = CHR ''-'') max_uint64
        | Inr un \<Rightarrow> int_result (hd s = CHR ''-'') un)"

definition atoi :: "string \<Rightarrow> goint option" where
  "atoi s = (case parse_int 10 s of (v, None) \<Rightarrow> Some v | (v, Some e) \<Rightarrow> None)"

text \<open>\<open>strconv.Itoa\<close>.\<close>

function int_digits :: "int \<Rightarrow> string" where
  "int_digits n = (if n < 10 then [char_of (48 + n)]
                   else int_digits (n div 10) @ [char_of (48 + n mod 10)])"
  by pat_completeness auto
termination
  by (relation "measure nat") auto

declare int_digits.simps [simp del]

definition itoa :: "goint \<Rightarrow> string" where
  "itoa i = (if sint i < 0 then CHR ''-'' # int_digits (- sint i) else int_digits (sint i))"

subsection \<open>Package regexp: the two shapes the sources use on paths\<close>

text \<open>
  \<open>FindStringSubmatch\<close> for a pattern that is a literal followed by \<open>([[:digit:]]+)\<close>:
  the digits after the leftmost occurrence of the literal that a digit follows.
\<close>

fun digits_after :: "string \<Rightarrow> string \<Rightarrow> string option" where
  "digits_after lit [] = None"
| "digits_after lit (c # s) =
     (if has_prefix (c # s) lit \<and> takeWhile is_digit (drop (length lit) (c # s)) \<noteq> []
      then Some (takeWhile is_digit (drop (length lit) (c # s)))
      else digits_after lit s)"

text \<open>\<open>filepath.Join\<close> of two clean parts, \<open>filepath.Base\<close> of a clean path.\<close>

definition path_join :: "string \<Rightarrow> string \<Rightarrow> string" where
  "path_join a b = a @ ''/'' @ b"

definition path_base :: "string \<Rightarrow> string" where
  "path_base p = last (split_on (CHR ''/'') p)"

definition path_dir :: "string \<Rightarrow> string" where
  "path_dir p = join ''/'' (butlast (split_on (CHR ''/'') p))"

subsection \<open>Lemmas on splitting and joining\<close>

lemma split_on_nonempty [simp]: "split_on sep s \<noteq> []"
  by (induction s) (auto split: list.splits)

lemma split_on_notin: "sep \<notin> set s \<Longrightarrow> split_on sep s = [s]"
  by (induction s) auto

lemma split_on_append: "sep \<notin> set w \<Longrightarrow> split_on sep (w @ sep # s) = w # split_on sep s"
  by (induction w) auto

lemma split_on_join:
  assumes "ws \<noteq> []" and "\<forall>w \<in> set ws. sep \<notin> set w"
  shows "split_on sep (join [sep] ws) = ws"
  using assms
proof (induction ws rule: induct_list012)
  case (3 w v ws)
  then show ?case by (simp add: split_on_append)
qed (auto simp: split_on_notin)

lemma join_split_on: "join [sep] (split_on sep s) = s"
proof (induction s)
  case (Cons c s)
  then obtain w ws where s: "split_on sep s = w # ws" by (cases "split_on sep s") auto
  with Cons show ?case by (cases ws) auto
qed simp

lemma split_on_sep_free: "w \<in> set (split_on sep s) \<Longrightarrow> sep \<notin> set w"
  by (induction s arbitrary: w) (auto split: list.splits if_splits)

lemma set_join: "set (join sep ws) \<subseteq> \<Union> (set ` set ws) \<union> set sep"
  by (induction sep ws rule: join.induct) auto

lemma fields_acc_word:
  assumes "\<forall>c \<in> set v. \<not> is_space c"
  shows "fields_acc w (v @ s) = fields_acc (rev v @ w) s"
  using assms by (induction v arbitrary: w) auto

lemma fields_join:
  assumes "\<forall>w \<in> set ws. w \<noteq> [] \<and> (\<forall>c \<in> set w. \<not> is_space c)"
  shows "str_fields (join '' '' ws) = ws"
  using assms
proof (induction ws rule: induct_list012)
  case (2 w)
  then show ?case using fields_acc_word [of w "[]" "[]"] by (simp add: str_fields_def)
next
  case (3 w v ws)
  then have "fields_acc [] (join '' '' (v # ws)) = v # ws" by (simp add: str_fields_def)
  with 3(3) show ?case
    using fields_acc_word [of w "[]" "CHR '' '' # join '' '' (v # ws)"]
    by (simp add: str_fields_def is_space_def)
qed (simp add: str_fields_def)

lemma fields_words: "w \<in> set (str_fields s) \<Longrightarrow> w \<noteq> []"
proof -
  have "w \<in> set (fields_acc v s) \<Longrightarrow> w \<noteq> []" for v
    by (induction v s rule: fields_acc.induct) (auto split: if_splits)
  then show "w \<in> set (str_fields s) \<Longrightarrow> w \<noteq> []" by (simp add: str_fields_def)
qed

text \<open>A sysfs file is its content and a newline.\<close>

lemma trim_space_line:
  assumes "\<forall>c \<in> set s. \<not> is_space c"
  shows "trim_space (s @ [CHR 0x0A]) = s"
proof -
  have nl: "is_space (CHR 0x0A)" by (simp add: is_space_def)
  have left: "trim_left is_space (s @ [CHR 0x0A]) = (if s = [] then [] else s @ [CHR 0x0A])"
    using assms nl by (cases s) (auto simp: trim_left_def)
  have "dropWhile is_space (rev s) = rev s" if "s \<noteq> []"
    using assms that by (cases s rule: rev_cases) auto
  with left nl show ?thesis by (simp add: trim_space_def trim_def trim_right_def)
qed

subsection \<open>Lemmas on numbers\<close>

lemma of_char_digit:
  assumes "0 \<le> d" and "d < (10 :: int)"
  shows "(of_char (char_of (48 + d) :: char) :: int) = 48 + d"
proof -
  have "(of_char (char_of (48 + d) :: char) :: int) = (48 + d) mod 256" by simp
  with assms show ?thesis by simp
qed

lemma of_char_nat_int: "(of_char c :: nat) = nat (of_char c :: int)"
  by (metis nat_int of_nat_of_char)

lemma any_digit_char [simp]:
  assumes "0 \<le> d" and "d < (10 :: int)"
  shows "any_digit (char_of (48 + d)) = Some d"
proof -
  have nat: "(of_char (char_of (48 + d) :: char) :: nat) = nat (48 + d)"
    using of_char_digit [OF assms] by (simp add: of_char_nat_int del: of_char_of)
  then have "is_digit (char_of (48 + d))"
    using assms by (simp add: is_digit_def le_nat_iff nat_le_iff del: of_char_of)
  moreover have "digit_val (char_of (48 + d)) = d"
    using of_char_digit [OF assms] unfolding digit_val_def by simp
  ultimately show ?thesis by (simp add: any_digit_def)
qed

lemma digit_char_neq:
  assumes "0 \<le> d" and "d < (10 :: int)" and "\<not> is_digit c"
  shows "char_of (48 + d) \<noteq> c"
proof -
  have "(of_char (char_of (48 + d) :: char) :: nat) = nat (48 + d)"
    using of_char_digit [OF assms(1,2)] by (simp add: of_char_nat_int del: of_char_of)
  then have "is_digit (char_of (48 + d))"
    using assms(1,2) by (simp add: is_digit_def le_nat_iff nat_le_iff del: of_char_of)
  with assms(3) show ?thesis by metis
qed

lemma int_digits_chars:
  "0 \<le> n \<Longrightarrow> \<not> is_digit c \<Longrightarrow> c \<notin> set (int_digits n)"
proof (induction n rule: int_digits.induct)
  case (1 n)
  then show ?case
    using digit_char_neq [of n c] digit_char_neq [of "n mod 10" c]
    by (subst int_digits.simps) auto
qed

lemma int_digits_nonempty [simp]: "int_digits n \<noteq> []"
  by (subst int_digits.simps) simp

lemma parse_int_digits:
  assumes "0 \<le> n" and "n \<le> max_uint64"
  shows "parse_digits False 10 0 (int_digits n @ s) = parse_digits False 10 n s"
  using assms
proof (induction n arbitrary: s rule: int_digits.induct)
  case (1 n)
  show ?case
  proof (cases "n < 10")
    case True
    with 1 show ?thesis by (subst int_digits.simps) simp
  next
    case False
    then have "parse_digits False 10 0 (int_digits (n div 10) @ char_of (48 + n mod 10) # s) =
               parse_digits False 10 (n div 10) (char_of (48 + n mod 10) # s)"
      using 1 by simp
    also have "\<dots> = parse_digits False 10 n s"
    proof -
      have "\<not> 10 \<le> n mod 10" by (simp add: not_le)
      with 1 False show ?thesis by (simp add: mult_div_mod_eq [simplified mult.commute])
    qed
    finally show ?thesis using False by (subst int_digits.simps) simp
  qed
qed

lemma int_digits_head: "0 \<le> n \<Longrightarrow> \<not> is_digit c \<Longrightarrow> hd (int_digits n) \<noteq> c"
  by (metis hd_in_set int_digits_chars int_digits_nonempty)

lemma not_digit_sign: "\<not> is_digit CHR ''-''" "\<not> is_digit CHR ''+''" "\<not> is_digit CHR '',''"
    "\<not> is_digit CHR ''_''"
  by (simp_all add: is_digit_def)

lemma not_digit_space: "is_space c \<Longrightarrow> \<not> is_digit c"
  by (auto simp: is_space_def is_digit_def)

lemma drop_sign_digits: "0 \<le> n \<Longrightarrow> drop_sign (int_digits n) = int_digits n"
  using int_digits_head [OF _ not_digit_sign(1), of n] int_digits_head [OF _ not_digit_sign(2), of n]
  by (auto simp: drop_sign_def split: list.splits)

theorem parse_int_itoa: "parse_int 10 (itoa i) = (i, None)"
proof -
  have lo: "- (2 ^ 63) \<le> sint i" and hi: "sint i < 2 ^ 63"
    using sint_ge [of i] sint_lt [of i] by simp_all
  show ?thesis
  proof (cases "sint i < 0")
    case True
    then have it: "itoa i = CHR ''-'' # int_digits (- sint i)" by (simp add: itoa_def)
    have "parse_digits False 10 0 (int_digits (- sint i)) = Inr (- sint i)"
      using parse_int_digits [of "- sint i" "[]"] True lo by (simp add: max_uint64_def)
    with it True lo show ?thesis
      by (simp add: parse_int_def drop_sign_def parse_uint_def int_result_def)
  next
    case False
    then have it: "itoa i = int_digits (sint i)" by (simp add: itoa_def)
    have "parse_digits False 10 0 (int_digits (sint i)) = Inr (sint i)"
      using parse_int_digits [of "sint i" "[]"] False hi by (simp add: max_uint64_def)
    with it False hi show ?thesis
      using drop_sign_digits [of "sint i"] int_digits_head [OF _ not_digit_sign(1), of "sint i"]
      by (simp add: parse_int_def parse_uint_def int_result_def)
  qed
qed

lemma atoi_itoa [simp]: "atoi (itoa i) = Some i"
  by (simp add: atoi_def parse_int_itoa)

lemma itoa_chars: "\<not> is_digit c \<Longrightarrow> c \<noteq> CHR ''-'' \<Longrightarrow> c \<notin> set (itoa i)"
  using int_digits_chars by (auto simp: itoa_def)

lemma itoa_nonempty [simp]: "itoa i \<noteq> []"
  by (simp add: itoa_def)

lemma itoa_no_minus: "0 \<le> sint i \<Longrightarrow> CHR ''-'' \<notin> set (itoa i)"
  using int_digits_chars [of "sint i", OF _ not_digit_sign(1)] by (simp add: itoa_def)

lemma itoa_no_space: "c \<in> set (itoa i) \<Longrightarrow> \<not> is_space c"
  using itoa_chars [of c i] not_digit_space [of c] by (auto simp: is_space_def)

lemma itoa_inject: "itoa i = itoa j \<Longrightarrow> i = j"
  by (metis atoi_itoa option.inject)

end
