(* ===== verification/Topology.thy ===== *)
theory Topology
  imports Go_Strings "HOL-Library.Multiset"
begin

text \<open>
  Package \<open>ccTopology\<close> (\<open>pkg/ccTopology/ccTopology.go\<close>): the CPU topology read once from
  sysfs and the queries on it. The file system is a parameter: what \<open>os.ReadFile\<close>
  returns for a path and what \<open>filepath.Glob\<close> finds for a pattern. The package's
  global \<open>cache\<close> is a record. \<open>fileToList\<close> counts through a range with a machine
  integer and does not return when the range ends at the largest one, so it (and
  \<open>init\<close>) is a partial function: \<open>None\<close> is "does not return".
\<close>

subsection \<open>The file system\<close>

record fsys =
  fs_read :: "string \<Rightarrow> string option"   \<comment> \<open>\<open>os.ReadFile\<close>, \<open>None\<close> on error\<close>
  fs_glob :: "string \<Rightarrow> string list"     \<comment> \<open>\<open>filepath.Glob\<close> for a valid pattern\<close>

definition SYSFS_CPUBASE :: string where
  "SYSFS_CPUBASE = ''/sys/devices/system/cpu''"

subsection \<open>Data\<close>

record HwthreadEntry =
  CpuID :: goint
  SMT :: goint
  CoreCPUsList :: "goint list"
  Core :: goint
  Socket :: goint
  Die :: goint
  NumaDomain :: goint

record topo_cache =
  c_HwthreadList :: "goint list"
  c_SMTList :: "goint list"
  c_CoreList :: "goint list"
  c_SocketList :: "goint list"
  c_DieList :: "goint list"
  c_NumaDomainList :: "goint list"
  c_CpuData :: "HwthreadEntry list"

subsection \<open>Reading sysfs files\<close>

definition fileToInt :: "fsys \<Rightarrow> string \<Rightarrow> goint" where
  "fileToInt fs path =
     (case fs_read fs path of
        None \<Rightarrow> -1
      | Some buffer \<Rightarrow> (case atoi (trim_space buffer) of None \<Rightarrow> -1 | Some i \<Rightarrow> i))"

text \<open>The loop \<open>for value := startValue; value <= endValue; value++\<close>.\<close>

partial_function (option) range_loop :: "goint \<Rightarrow> goint \<Rightarrow> goint list \<Rightarrow> goint list option" where
  "range_loop v e acc = (if sint v \<le> sint e then range_loop (v + 1) e (acc @ [v]) else Some acc)"

text \<open>
  One step of the loop over the comma-separated value ranges. The outer option is
  termination, the inner one is \<open>nil\<close> after a parse error. Anything other than one or two
  parts is skipped, as by the \<open>switch\<close> without default.
\<close>

definition add_range :: "goint list \<Rightarrow> string \<Rightarrow> goint list option option" where
  "add_range lst valueRangeString =
     (case split_on (CHR ''-'') valueRangeString of
        [a] \<Rightarrow> (case atoi a of None \<Rightarrow> Some None | Some v \<Rightarrow> Some (Some (lst @ [v])))
      | [a, b] \<Rightarrow>
          (case atoi a of None \<Rightarrow> Some None
           | Some startValue \<Rightarrow>
               (case atoi b of None \<Rightarrow> Some None
                | Some endValue \<Rightarrow> map_option Some (range_loop startValue endValue lst)))
      | _ \<Rightarrow> Some (Some lst))"

fun add_ranges :: "goint list \<Rightarrow> string list \<Rightarrow> goint list option option" where
  "add_ranges lst [] = Some (Some lst)"
| "add_ranges lst (r # rs) =
     (case add_range lst r of
        None \<Rightarrow> None
      | Some None \<Rightarrow> Some None
      | Some (Some lst') \<Rightarrow> add_ranges lst' rs)"

definition fileToList :: "fsys \<Rightarrow> string \<Rightarrow> goint list option option" where
  "fileToList fs path =
     (case fs_read fs path of
        None \<Rightarrow> Some None
      | Some buffer \<Rightarrow> add_ranges [] (split_on (CHR '','') (trim_space buffer)))"

subsection \<open>init\<close>

text \<open>The loop that extracts the thread IDs; an error makes the whole list \<open>nil\<close>.\<close>

fun extract_ids :: "string \<Rightarrow> string list \<Rightarrow> goint list option" where
  "extract_ids lit [] = Some []"
| "extract_ids lit (file # files) =
     (case digits_after lit file of
        None \<Rightarrow> None
      | Some ds \<Rightarrow> (case atoi ds of None \<Rightarrow> None | Some i \<Rightarrow> map_option (Cons i) (extract_ids lit files)))"

definition getHWThreads :: "fsys \<Rightarrow> goint list" where
  "getHWThreads fs =
     (case extract_ids (path_join SYSFS_CPUBASE ''cpu'')
             (fs_glob fs (path_join SYSFS_CPUBASE ''cpu[0-9]*'')) of
        None \<Rightarrow> []
      | Some hwThreadIDs \<Rightarrow> sort_ints hwThreadIDs)"

definition getNumaDomain :: "fsys \<Rightarrow> string \<Rightarrow> goint" where
  "getNumaDomain fs basePath =
     (case fs_glob fs (path_join basePath ''node*'') of
        [file] \<Rightarrow>
          (case digits_after (path_join basePath ''node'') file of
             None \<Rightarrow> -1
           | Some ds \<Rightarrow> (case atoi ds of None \<Rightarrow> -1 | Some i \<Rightarrow> i))
      | _ \<Rightarrow> -1)"

text \<open>The body of the loop over the hardware threads: one entry of \<open>cache.CpuData\<close>.\<close>

definition read_entry :: "fsys \<Rightarrow> goint \<Rightarrow> HwthreadEntry option" where
  "read_entry fs c =
     (let cpuBase = path_join SYSFS_CPUBASE (''cpu'' @ itoa c);
          topoBase = path_join cpuBase ''topology'';
          core = fileToInt fs (path_join topoBase ''core_id'');
          socket = fileToInt fs (path_join topoBase ''physical_package_id'');
          die0 = fileToInt fs (path_join topoBase ''die_id'');
          die = (if sint die0 < 0 then socket else die0)
      in case fileToList fs (path_join topoBase ''core_cpus_list'') of
           None \<Rightarrow> None
         | Some l \<Rightarrow>
             (let coreCPUsList = (case l of None \<Rightarrow> [] | Some xs \<Rightarrow> xs)
              in Some \<lparr>CpuID = c, SMT = word_of_int (slices_index coreCPUsList c),
                       CoreCPUsList = coreCPUsList, Core = core, Socket = socket, Die = die,
                       NumaDomain = getNumaDomain fs cpuBase\<rparr>))"

fun read_entries :: "fsys \<Rightarrow> goint list \<Rightarrow> HwthreadEntry list option" where
  "read_entries fs [] = Some []"
| "read_entries fs (c # cs) =
     (case read_entry fs c of
        None \<Rightarrow> None
      | Some d \<Rightarrow> map_option (Cons d) (read_entries fs cs))"

text \<open>Every ID list of the cache is sorted and compacted after the loop.\<close>

definition sorted_ids :: "goint list \<Rightarrow> goint list" where
  "sorted_ids xs = compact (sort_ints xs)"

definition topo_init :: "fsys \<Rightarrow> topo_cache option" where
  "topo_init fs =
     (let threads = getHWThreads fs in
      case read_entries fs threads of
        None \<Rightarrow> None
      | Some ds \<Rightarrow>
          Some \<lparr>c_HwthreadList = sorted_ids threads, c_SMTList = sorted_ids (map SMT ds),
                c_CoreList = sorted_ids (map Core ds), c_SocketList = sorted_ids (map Socket ds),
                c_DieList = sorted_ids (map Die ds), c_NumaDomainList = sorted_ids (map NumaDomain ds),
                c_CpuData = ds\<rparr>)"

subsection \<open>Queries\<close>

definition SocketList :: "topo_cache \<Rightarrow> goint list" where "SocketList c = c_SocketList c"
definition HwthreadList :: "topo_cache \<Rightarrow> goint list" where "HwthreadList c = c_HwthreadList c"
definition CoreList :: "topo_cache \<Rightarrow> goint list" where "CoreList c = c_CoreList c"
definition NumaNodeList :: "topo_cache \<Rightarrow> goint list" where "NumaNodeList c = c_NumaDomainList c"

definition DieList :: "topo_cache \<Rightarrow> goint list" where
  "DieList c = (if length (c_DieList c) > 0 then c_DieList c else SocketList c)"

definition GetTypeList :: "topo_cache \<Rightarrow> string \<Rightarrow> goint list" where
  "GetTypeList c topology_type =
     (if topology_type = ''node'' then [0]
      else if topology_type = ''socket'' then SocketList c
      else if topology_type = ''die'' then DieList c
      else if topology_type = ''memoryDomain'' then NumaNodeList c
      else if topology_type = ''core'' then CoreList c
      else if topology_type = ''hwthread'' then HwthreadList c
      else [])"

definition GetTypeId :: "HwthreadEntry \<Rightarrow> string \<Rightarrow> goint \<times> goerror option" where
  "GetTypeId hwt topology_type =
     (if topology_type = ''node'' then (0, None)
      else if topology_type = ''socket'' then (Socket hwt, None)
      else if topology_type = ''die'' then (Die hwt, None)
      else if topology_type = ''memoryDomain'' then (NumaDomain hwt, None)
      else if topology_type = ''core'' then (Core hwt, None)
      else if topology_type = ''hwthread'' then (CpuID hwt, None)
      else (-1, Some (GoError ''unknown topology type'')))"

definition CpuData :: "topo_cache \<Rightarrow> HwthreadEntry list" where "CpuData c = c_CpuData c"

record CpuInformation =
  NumHWthreads :: nat
  SMTWidth :: nat
  NumSockets :: nat
  NumDies :: nat
  NumCores :: nat
  NumNumaDomains :: nat

definition CpuInfo :: "topo_cache \<Rightarrow> CpuInformation" where
  "CpuInfo c =
     \<lparr>NumHWthreads = length (c_HwthreadList c), SMTWidth = length (c_SMTList c),
      NumSockets = length (c_SocketList c), NumDies = length (c_DieList c),
      NumCores = length (c_CoreList c), NumNumaDomains = length (c_NumaDomainList c)\<rparr>"

text \<open>The loop shared by the \<open>GetHwthread...\<close> functions: the first entry with the ID, else \<open>-1\<close>.\<close>

fun lookup_thread :: "(HwthreadEntry \<Rightarrow> goint) \<Rightarrow> HwthreadEntry list \<Rightarrow> goint \<Rightarrow> goint" where
  "lookup_thread f [] cpuID = -1"
| "lookup_thread f (d # ds) cpuID = (if CpuID d = cpuID then f d else lookup_thread f ds cpuID)"

definition GetHwthreadSocket :: "topo_cache \<Rightarrow> goint \<Rightarrow> goint" where
  "GetHwthreadSocket c cpuID = lookup_thread Socket (c_CpuData c) cpuID"
definition GetHwthreadNumaDomain :: "topo_cache \<Rightarrow> goint \<Rightarrow> goint" where
  "GetHwthreadNumaDomain c cpuID = lookup_thread NumaDomain (c_CpuData c) cpuID"
definition GetHwthreadDie :: "topo_cache \<Rightarrow> goint \<Rightarrow> goint" where
  "GetHwthreadDie c cpuID = lookup_thread Die (c_CpuData c) cpuID"
definition GetHwthreadCore :: "topo_cache \<Rightarrow> goint \<Rightarrow> goint" where
  "GetHwthreadCore c cpuID = lookup_thread Core (c_CpuData c) cpuID"

text \<open>The loop shared by the \<open>Get...Hwthreads\<close> functions.\<close>

definition threads_with :: "(HwthreadEntry \<Rightarrow> goint) \<Rightarrow> HwthreadEntry list \<Rightarrow> goint \<Rightarrow> goint list" where
  "threads_with f ds i = map CpuID (filter (\<lambda>d. f d = i) ds)"

definition GetSocketHwthreads :: "topo_cache \<Rightarrow> goint \<Rightarrow> goint list" where
  "GetSocketHwthreads c socket = threads_with Socket (c_CpuData c) socket"
definition GetNumaDomainHwthreads :: "topo_cache \<Rightarrow> goint \<Rightarrow> goint list" where
  "GetNumaDomainHwthreads c numaDomain = threads_with NumaDomain (c_CpuData c) numaDomain"
definition GetDieHwthreads :: "topo_cache \<Rightarrow> goint \<Rightarrow> goint list" where
  "GetDieHwthreads c die = threads_with Die (c_CpuData c) die"
definition GetCoreHwthreads :: "topo_cache \<Rightarrow> goint \<Rightarrow> goint list" where
  "GetCoreHwthreads c core = threads_with Core (c_CpuData c) core"

definition GetTypeHwthreads :: "topo_cache \<Rightarrow> string \<Rightarrow> goint \<Rightarrow> goint list" where
  "GetTypeHwthreads c topology_type i =
     (if topology_type = ''node'' then HwthreadList c
      else if topology_type = ''socket'' then GetSocketHwthreads c i
      else if topology_type = ''die'' then GetDieHwthreads c i
      else if topology_type = ''memoryDomain'' then GetNumaDomainHwthreads c i
      else if topology_type = ''core'' then GetCoreHwthreads c i
      else if topology_type = ''hwthread'' then [i]
      else [])"

subsection \<open>The counting loop\<close>

definition max_goint :: goint where "max_goint = 9223372036854775807"

lemma sint_max_goint [simp]: "sint max_goint = 9223372036854775807"
  by (simp add: max_goint_def)

lemma sint_succ:
  assumes "sint (v :: goint) < sint (e :: goint)"
  shows "sint (v + 1) = sint v + 1"
proof -
  have "sint v + 1 < 9223372036854775808" "- 9223372036854775808 \<le> sint v + 1"
    using assms sint_range [of v] sint_range [of e] by linarith+
  then show ?thesis using sint_add_in_range [of v 1] by simp
qed

lemma range_loop_Some:
  assumes "sint e < sint max_goint"
  shows "range_loop v e acc = Some (acc @ map word_of_int [sint v..sint e])"
proof (induction "nat (sint e + 1 - sint v)" arbitrary: v acc)
  case 0
  then show ?case by (subst range_loop.simps) simp
next
  case (Suc n)
  then have le: "sint v \<le> sint e" by linarith
  have s: "sint (v + 1) = sint v + 1"
    using le assms by (intro sint_succ [of v max_goint]) simp
  with Suc(2) have "n = nat (sint e + 1 - sint (v + 1))" by linarith
  then have "range_loop (v + 1) e (acc @ [v]) =
      Some ((acc @ [v]) @ map word_of_int [sint (v + 1)..sint e])" by (rule Suc(1))
  with le s show ?case by (subst range_loop.simps) (simp add: upto.simps [of "sint v"])
qed

text \<open>A range that ends at the largest integer never ends: the counter wraps around.\<close>

lemma range_loop_None: "range_loop v max_goint acc = None"
proof (rule ccontr)
  assume "range_loop v max_goint acc \<noteq> None"
  then obtain r where ret: "range_loop v max_goint acc = Some r" by blast
  have "max_goint \<noteq> max_goint"
  proof (rule range_loop.raw_induct [where P = "\<lambda>v e acc r. e \<noteq> max_goint", OF _ ret])
    fix f acc r and v e :: goint
    assume IH: "\<And>v e acc r. f v e acc = Some r \<Longrightarrow> e \<noteq> max_goint"
      and eq: "(if sint v \<le> sint e then f (v + 1) e (acc @ [v]) else Some acc) = Some r"
    show "e \<noteq> max_goint"
      using IH eq sint_range(2) [of v] by (cases "sint v \<le> sint e") auto
  qed
  then show False by simp
qed

subsection \<open>The list format\<close>

text \<open>
  The text the kernel writes to \<open>core_cpus_list\<close> and what it stands for: the
  specification that \<open>fileToList\<close> is measured against.
\<close>

datatype cpu_range = One goint | Span goint goint

fun render_range :: "cpu_range \<Rightarrow> string" where
  "render_range (One a) = itoa a"
| "render_range (Span a b) = itoa a @ ''-'' @ itoa b"

fun expand_range :: "cpu_range \<Rightarrow> goint list" where
  "expand_range (One a) = [a]"
| "expand_range (Span a b) = map word_of_int [sint a..sint b]"

fun range_ok :: "cpu_range \<Rightarrow> bool" where
  "range_ok (One a) = (0 \<le> sint a)"
| "range_ok (Span a b) = (0 \<le> sint a \<and> 0 \<le> sint b \<and> sint b < sint max_goint)"

definition render_list :: "cpu_range list \<Rightarrow> string" where
  "render_list rs = join '','' (map render_range rs) @ [CHR 0x0A]"

lemma split_dash_span:
  assumes "0 \<le> sint a" "0 \<le> sint b"
  shows "split_on (CHR ''-'') (itoa a @ ''-'' @ itoa b) = [itoa a, itoa b]"
  using split_on_append [OF itoa_no_minus [OF assms(1)], of "itoa b"]
    split_on_notin [OF itoa_no_minus [OF assms(2)]] by simp

lemma add_range_render:
  "range_ok r \<Longrightarrow> add_range lst (render_range r) = Some (Some (lst @ expand_range r))"
proof (cases r)
  case (One a)
  assume "range_ok r"
  with One split_on_notin [OF itoa_no_minus, of a] show ?thesis by (simp add: add_range_def)
next
  case (Span a b)
  assume "range_ok r"
  with Span split_dash_span [of a b] range_loop_Some [of b a lst] show ?thesis
    by (simp add: add_range_def)
qed

lemma add_ranges_render:
  "\<forall>r \<in> set rs. range_ok r \<Longrightarrow>
   add_ranges lst (map render_range rs) = Some (Some (lst @ concat (map expand_range rs)))"
  by (induction rs arbitrary: lst) (simp_all add: add_range_render)

lemma render_range_chars:
  "c \<in> set (render_range r) \<Longrightarrow> is_digit c \<or> c = CHR ''-''"
  using itoa_chars [of c] by (cases r) auto

lemma render_list_split:
  assumes "rs \<noteq> []"
  shows "split_on (CHR '','') (trim_space (render_list rs)) = map render_range rs"
proof -
  have comma: "CHR '','' \<notin> set (render_range r)" for r
    using render_range_chars [of "CHR '',''" r] by (auto simp: is_digit_def)
  have "set (join '','' (map render_range rs)) \<subseteq> {c. is_digit c \<or> c = CHR ''-''} \<union> {CHR '',''}"
    using set_join [of "'',''" "map render_range rs"] render_range_chars by fastforce
  then have "\<forall>c \<in> set (join '','' (map render_range rs)). \<not> is_space c"
    using not_digit_space by (auto simp: is_space_def)
  then have "trim_space (render_list rs) = join '','' (map render_range rs)"
    by (simp add: render_list_def trim_space_line)
  with assms comma show ?thesis by (simp add: split_on_join)
qed

subsection \<open>Indexes over the hardware threads\<close>

text \<open>
  What every topology level offers its clients: the IDs of the level, the members of
  an ID, and the ID of a thread, all derived from one field of the thread entries.
\<close>

locale thread_index =
  fixes key :: "HwthreadEntry \<Rightarrow> goint"
    and ids :: "HwthreadEntry list \<Rightarrow> goint list"
    and members :: "HwthreadEntry list \<Rightarrow> goint \<Rightarrow> goint list"
    and id_of :: "HwthreadEntry list \<Rightarrow> goint \<Rightarrow> goint"
  assumes ids_sorted: "sorted (map sint (ids ds))"
    and ids_distinct: "distinct (ids ds)"
    and ids_set: "set (ids ds) = key ` set ds"
    and members_eq: "members ds i = map CpuID (filter (\<lambda>d. key d = i) ds)"
    and id_of_found: "distinct (map CpuID ds) \<Longrightarrow> d \<in> set ds \<Longrightarrow> id_of ds (CpuID d) = key d"
    and id_of_missing: "c \<notin> CpuID ` set ds \<Longrightarrow> id_of ds c = -1"
begin

text \<open>The members of the IDs partition the threads.\<close>

lemma mset_concat_filters:
  assumes "distinct is" and "\<forall>d \<in> set ds. key d \<in> set is"
  shows "mset (concat (map (\<lambda>i. filter (\<lambda>d. key d = i) ds) is)) = mset ds"
  using assms
proof (induction "is" arbitrary: ds)
  case Nil
  then show ?case by (cases ds) auto
next
  case (Cons i "is")
  define rest where "rest = filter (\<lambda>d. key d \<noteq> i) ds"
  have "filter (\<lambda>d. key d = j) rest = filter (\<lambda>d. key d = j) ds" if "j \<in> set is" for j
  proof -
    have "j \<noteq> i" using that Cons.prems(1) by auto
    then show ?thesis unfolding rest_def by (induction ds) auto
  qed
  then have eq: "map (\<lambda>j. filter (\<lambda>d. key d = j) ds) is = map (\<lambda>j. filter (\<lambda>d. key d = j) rest) is"
    by simp
  have IH: "mset (concat (map (\<lambda>j. filter (\<lambda>d. key d = j) rest) is)) = mset rest"
    using Cons.prems by (intro Cons.IH) (auto simp: rest_def)
  have "mset (filter (\<lambda>d. key d = i) ds) + mset rest = mset ds"
    unfolding rest_def by (induction ds) auto
  with IH show ?case by (simp add: eq)
qed

lemma members_partition:
  "mset (concat (map (members ds) (ids ds))) = mset (map CpuID ds)"
proof -
  have "map (members ds) (ids ds) = map (map CpuID) (map (\<lambda>i. filter (\<lambda>d. key d = i) ds) (ids ds))"
    by (simp add: members_eq)
  then have "mset (concat (map (members ds) (ids ds))) =
        image_mset CpuID (mset (concat (map (\<lambda>i. filter (\<lambda>d. key d = i) ds) (ids ds))))"
    by (simp only: mset_map flip: map_concat)
  then show ?thesis
    by (subst (asm) mset_concat_filters) (auto simp: ids_distinct ids_set)
qed

lemma member_iff_id:
  assumes "distinct (map CpuID ds)" and "c \<in> CpuID ` set ds"
  shows "c \<in> set (members ds i) \<longleftrightarrow> id_of ds c = i"
  using assms id_of_found [OF assms(1)] by (auto simp: members_eq distinct_map inj_on_def)

lemma id_of_listed: "distinct (map CpuID ds) \<Longrightarrow> c \<in> CpuID ` set ds \<Longrightarrow> id_of ds c \<in> set (ids ds)"
  using id_of_found by (auto simp: ids_set)

lemma length_ids: "length (ids ds) = card (key ` set ds)"
  by (metis distinct_card ids_distinct ids_set)

end

lemma lookup_thread_found:
  "distinct (map CpuID ds) \<Longrightarrow> d \<in> set ds \<Longrightarrow> lookup_thread f ds (CpuID d) = f d"
  by (induction ds) (auto simp: image_iff)

lemma lookup_thread_missing: "c \<notin> CpuID ` set ds \<Longrightarrow> lookup_thread f ds c = -1"
  by (induction ds) auto

lemma thread_index_sorted_ids:
  "thread_index f (\<lambda>ds. sorted_ids (map f ds)) (threads_with f) (lookup_thread f)"
  by unfold_locales
    (auto simp: sorted_ids_def compact_sort_ints threads_with_def lookup_thread_found
       lookup_thread_missing)

interpretation sockets: thread_index Socket "\<lambda>ds. sorted_ids (map Socket ds)" "threads_with Socket"
    "lookup_thread Socket"
  by (rule thread_index_sorted_ids)

interpretation dies: thread_index Die "\<lambda>ds. sorted_ids (map Die ds)" "threads_with Die"
    "lookup_thread Die"
  by (rule thread_index_sorted_ids)

interpretation cores: thread_index Core "\<lambda>ds. sorted_ids (map Core ds)" "threads_with Core"
    "lookup_thread Core"
  by (rule thread_index_sorted_ids)

interpretation numas: thread_index NumaDomain "\<lambda>ds. sorted_ids (map NumaDomain ds)"
    "threads_with NumaDomain" "lookup_thread NumaDomain"
  by (rule thread_index_sorted_ids)

subsection \<open>Properties of the topology\<close>

lemma read_entries_ids: "read_entries fs cs = Some ds \<Longrightarrow> map CpuID ds = cs"
proof (induction cs arbitrary: ds)
  case (Cons c cs)
  then show ?case
    by (auto simp: read_entry_def Let_def split: option.splits)
qed simp

lemma topo_init_shape:
  assumes "topo_init fs = Some c"
  shows "c_HwthreadList c = sorted_ids (map CpuID (c_CpuData c))"
    and "c_SMTList c = sorted_ids (map SMT (c_CpuData c))"
    and "c_CoreList c = sorted_ids (map Core (c_CpuData c))"
    and "c_SocketList c = sorted_ids (map Socket (c_CpuData c))"
    and "c_DieList c = sorted_ids (map Die (c_CpuData c))"
    and "c_NumaDomainList c = sorted_ids (map NumaDomain (c_CpuData c))"
  using assms read_entries_ids by (auto simp: topo_init_def Let_def split: option.splits)

lemma sorted_ids_nil_iff: "sorted_ids xs = [] \<longleftrightarrow> xs = []"
  by (metis set_compact set_empty set_sort_ints sorted_ids_def)

lemma DieList_init: "topo_init fs = Some c \<Longrightarrow> DieList c = sorted_ids (map Die (c_CpuData c))"
  using topo_init_shape(4,5) [of fs c]
  by (cases "c_CpuData c") (auto simp: DieList_def SocketList_def sorted_ids_nil_iff)

definition id_list_of :: "(HwthreadEntry \<Rightarrow> goint) \<Rightarrow> topo_cache \<Rightarrow> goint list \<Rightarrow> bool" where
  "id_list_of f c xs =
     (sorted (map sint xs) \<and> distinct xs \<and> set xs = f ` set (c_CpuData c))"

lemma id_list_of_sorted_ids: "id_list_of f c (sorted_ids (map f (c_CpuData c)))"
  by (simp add: id_list_of_def sorted_ids_def compact_sort_ints)

text \<open>C7: after \<open>init\<close> each of the six ID lists of the topology cache is sorted, has no
  duplicates, and holds exactly the values of its field in the thread entries.\<close>

theorem topo_init_id_lists:
  assumes "topo_init fs = Some c"
  shows "id_list_of CpuID c (HwthreadList c) \<and> id_list_of SMT c (c_SMTList c) \<and>
         id_list_of Core c (CoreList c) \<and> id_list_of Socket c (SocketList c) \<and>
         id_list_of Die c (DieList c) \<and> id_list_of NumaDomain c (NumaNodeList c)"
  using topo_init_shape [OF assms] DieList_init [OF assms]
  by (simp add: HwthreadList_def CoreList_def SocketList_def NumaNodeList_def id_list_of_sorted_ids)

text \<open>For each topology level, going through the IDs of the level and asking for the
  threads of each ID yields every hardware thread exactly once.\<close>

theorem type_threads_partition:
  assumes "topo_init fs = Some c"
    and "t = ''socket'' \<or> t = ''die'' \<or> t = ''memoryDomain'' \<or> t = ''core''"
  shows "mset (concat (map (GetTypeHwthreads c t) (GetTypeList c t))) =
         mset (map CpuID (CpuData c))"
  using assms(2) topo_init_shape [OF assms(1)] DieList_init [OF assms(1)]
    sockets.members_partition [of "c_CpuData c"] dies.members_partition [of "c_CpuData c"]
    cores.members_partition [of "c_CpuData c"] numas.members_partition [of "c_CpuData c"]
  by (auto simp: GetTypeHwthreads_def [abs_def] GetTypeList_def SocketList_def CoreList_def
      NumaNodeList_def CpuData_def GetSocketHwthreads_def [abs_def] GetDieHwthreads_def [abs_def]
      GetCoreHwthreads_def [abs_def] GetNumaDomainHwthreads_def [abs_def])

text \<open>The thread lists and the thread lookups agree: a thread is listed under an ID of
  a level exactly when its lookup returns that ID, and that is the ID \<open>GetTypeId\<close> reports
  for its entry.\<close>

theorem thread_lookup_agrees:
  assumes "distinct (map CpuID (c_CpuData c))" and "d \<in> set (c_CpuData c)"
  shows "(CpuID d \<in> set (GetTypeHwthreads c ''socket'' i) \<longleftrightarrow> GetHwthreadSocket c (CpuID d) = i) \<and>
         (CpuID d \<in> set (GetTypeHwthreads c ''die'' i) \<longleftrightarrow> GetHwthreadDie c (CpuID d) = i) \<and>
         (CpuID d \<in> set (GetTypeHwthreads c ''core'' i) \<longleftrightarrow> GetHwthreadCore c (CpuID d) = i) \<and>
         (CpuID d \<in> set (GetTypeHwthreads c ''memoryDomain'' i) \<longleftrightarrow>
            GetHwthreadNumaDomain c (CpuID d) = i) \<and>
         GetTypeId d ''socket'' = (GetHwthreadSocket c (CpuID d), None) \<and>
         GetTypeId d ''die'' = (GetHwthreadDie c (CpuID d), None) \<and>
         GetTypeId d ''core'' = (GetHwthreadCore c (CpuID d), None) \<and>
         GetTypeId d ''memoryDomain'' = (GetHwthreadNumaDomain c (CpuID d), None)"
proof -
  have d: "CpuID d \<in> CpuID ` set (c_CpuData c)" using assms(2) by simp
  note lookups = GetHwthreadSocket_def GetHwthreadDie_def GetHwthreadCore_def
    GetHwthreadNumaDomain_def lookup_thread_found [OF assms]
  show ?thesis
    using sockets.member_iff_id [OF assms(1) d] dies.member_iff_id [OF assms(1) d]
      cores.member_iff_id [OF assms(1) d] numas.member_iff_id [OF assms(1) d]
    by (simp add: GetTypeHwthreads_def GetTypeId_def GetSocketHwthreads_def GetDieHwthreads_def
        GetCoreHwthreads_def GetNumaDomainHwthreads_def lookups)
qed

text \<open>C19: \<open>fileToList\<close> reads back what the kernel writes: the text of a list of IDs and
  ranges gives exactly the IDs they stand for, in order (none for a descending range).\<close>

theorem fileToList_roundtrip:
  assumes "rs \<noteq> []" and "\<forall>r \<in> set rs. range_ok r" and "fs_read fs path = Some (render_list rs)"
  shows "fileToList fs path = Some (Some (concat (map expand_range rs)))"
  using assms add_ranges_render [of rs "[]"] by (simp add: fileToList_def render_list_split)

lemma add_range_None_iff:
  "add_range lst r = None \<longleftrightarrow>
   (\<exists>a b. split_on (CHR ''-'') r = [a, b] \<and> atoi a \<noteq> None \<and> atoi b = Some max_goint)"
proof -
  have "range_loop v e lst = None \<longleftrightarrow> e = max_goint" for v e
  proof (cases "e = max_goint")
    case False
    then have "sint e \<noteq> sint max_goint" by (simp only: sint_eq_iff simp_thms)
    with sint_range(2) [of e] have "sint e < sint max_goint" by simp
    with False show ?thesis by (simp add: range_loop_Some)
  qed (simp add: range_loop_None)
  then show ?thesis
    by (auto simp: add_range_def split: list.splits option.splits)
qed

lemma add_ranges_None_iff:
  "add_ranges lst rs = None \<longleftrightarrow>
   (\<exists>pre r post lst'. rs = pre @ r # post \<and> add_ranges lst pre = Some (Some lst') \<and>
      add_range lst' r = None)"
proof (induction rs arbitrary: lst)
  case Nil
  then show ?case by simp
next
  case (Cons r rs)
  show ?case
  proof (cases "add_range lst r")
    case None
    then have "r # rs = [] @ r # rs" "add_ranges lst [] = Some (Some lst)" by simp_all
    with None show ?thesis by (metis add_ranges.simps(2) option.simps(4))
  next
    case (Some res)
    show ?thesis
    proof
      assume "add_ranges lst (r # rs) = None"
      with Some obtain l' where res: "res = Some l'" and "add_ranges l' rs = None"
        by (cases res) auto
      then obtain pre s post lst' where "rs = pre @ s # post" "add_ranges l' pre = Some (Some lst')"
          "add_range lst' s = None"
        using Cons.IH by blast
      then have "r # rs = (r # pre) @ s # post" "add_ranges lst (r # pre) = Some (Some lst')"
          "add_range lst' s = None"
        using Some res by simp_all
      then show "\<exists>pre s post lst'. r # rs = pre @ s # post \<and> add_ranges lst pre = Some (Some lst') \<and>
             add_range lst' s = None" by blast
    next
      assume "\<exists>pre s post lst'. r # rs = pre @ s # post \<and> add_ranges lst pre = Some (Some lst') \<and>
             add_range lst' s = None"
      then obtain pre s post lst' where ex: "r # rs = pre @ s # post"
          "add_ranges lst pre = Some (Some lst')" "add_range lst' s = None" by blast
      then obtain ps where "pre = r # ps" using Some by (cases pre) auto
      with ex Some obtain l' where "res = Some l'" "rs = ps @ s # post"
          "add_ranges l' ps = Some (Some lst')"
        by (cases res) auto
      with ex(3) Some Cons.IH show "add_ranges lst (r # rs) = None" by auto
    qed
  qed
qed

text \<open>C40: reading a list returns, unless an entry that is reached before any parse error is
  a range whose end is the largest machine integer; then the loop does not end.\<close>

theorem fileToList_returns_iff:
  "fileToList fs path = None \<longleftrightarrow>
   (\<exists>buffer pre r post a b lst. fs_read fs path = Some buffer \<and>
      split_on (CHR '','') (trim_space buffer) = pre @ r # post \<and>
      add_ranges [] pre = Some (Some lst) \<and> split_on (CHR ''-'') r = [a, b] \<and>
      atoi a \<noteq> None \<and> atoi b = Some max_goint)"
  by (auto simp: fileToList_def add_ranges_None_iff add_range_None_iff split: option.splits)

subsection \<open>Witnesses\<close>

text \<open>A node with two sockets of one core each and two threads per core.\<close>

definition demo_sysfs :: fsys where
  "demo_sysfs =
     \<lparr>fs_read = map_of
        [(''/sys/devices/system/cpu/cpu0/topology/core_id'', ''0\<newline>''),
         (''/sys/devices/system/cpu/cpu0/topology/physical_package_id'', ''0\<newline>''),
         (''/sys/devices/system/cpu/cpu0/topology/core_cpus_list'', ''0,2\<newline>''),
         (''/sys/devices/system/cpu/cpu1/topology/core_id'', ''0\<newline>''),
         (''/sys/devices/system/cpu/cpu1/topology/physical_package_id'', ''1\<newline>''),
         (''/sys/devices/system/cpu/cpu1/topology/core_cpus_list'', ''1,3\<newline>''),
         (''/sys/devices/system/cpu/cpu2/topology/core_id'', ''0\<newline>''),
         (''/sys/devices/system/cpu/cpu2/topology/physical_package_id'', ''0\<newline>''),
         (''/sys/devices/system/cpu/cpu2/topology/core_cpus_list'', ''0,2\<newline>''),
         (''/sys/devices/system/cpu/cpu3/topology/core_id'', ''0\<newline>''),
         (''/sys/devices/system/cpu/cpu3/topology/physical_package_id'', ''1\<newline>''),
         (''/sys/devices/system/cpu/cpu3/topology/core_cpus_list'', ''1,3\<newline>'')],
      fs_glob = (\<lambda>p. case map_of
        [(''/sys/devices/system/cpu/cpu[0-9]*'',
            [''/sys/devices/system/cpu/cpu3'', ''/sys/devices/system/cpu/cpu0'',
             ''/sys/devices/system/cpu/cpu1'', ''/sys/devices/system/cpu/cpu2'']),
         (''/sys/devices/system/cpu/cpu0/node*'', [''/sys/devices/system/cpu/cpu0/node0'']),
         (''/sys/devices/system/cpu/cpu1/node*'', [''/sys/devices/system/cpu/cpu1/node1'']),
         (''/sys/devices/system/cpu/cpu2/node*'', [''/sys/devices/system/cpu/cpu2/node0'']),
         (''/sys/devices/system/cpu/cpu3/node*'', [''/sys/devices/system/cpu/cpu3/node1''])] p of
          None \<Rightarrow> [] | Some l \<Rightarrow> l)\<rparr>"

definition demo_thread :: "goint \<Rightarrow> goint \<Rightarrow> goint list \<Rightarrow> goint \<Rightarrow> HwthreadEntry" where
  "demo_thread i smt cpus s =
     \<lparr>CpuID = i, SMT = smt, CoreCPUsList = cpus, Core = 0, Socket = s, Die = s, NumaDomain = s\<rparr>"

definition demo_topo :: topo_cache where
  "demo_topo =
     \<lparr>c_HwthreadList = [0, 1, 2, 3], c_SMTList = [0, 1], c_CoreList = [0], c_SocketList = [0, 1],
      c_DieList = [0, 1], c_NumaDomainList = [0, 1],
      c_CpuData = [demo_thread 0 0 [0, 2] 0, demo_thread 1 0 [1, 3] 1,
                   demo_thread 2 1 [0, 2] 0, demo_thread 3 1 [1, 3] 1]\<rparr>"

lemma demo_topo_init: "topo_init demo_sysfs = Some demo_topo"
  by code_simp

theorem topo_init_id_lists_witness:
  "topo_init demo_sysfs = Some demo_topo \<and> id_list_of SMT demo_topo [0, 1] \<and>
   id_list_of Core demo_topo [0]"
  using topo_init_id_lists [OF demo_topo_init] demo_topo_init
  by (simp add: CoreList_def demo_topo_def)

theorem type_threads_partition_witness:
  "mset (concat (map (GetTypeHwthreads demo_topo ''socket'') (GetTypeList demo_topo ''socket''))) =
   mset [0, 1, 2, 3]"
  using type_threads_partition [OF demo_topo_init, of "''socket''"]
  by (simp add: CpuData_def demo_topo_def demo_thread_def)

theorem thread_lookup_agrees_witness:
  "GetHwthreadSocket demo_topo 3 = 1 \<and> 3 \<in> set (GetTypeHwthreads demo_topo ''socket'' 1)"
proof -
  have d: "distinct (map CpuID (c_CpuData demo_topo))" by (simp add: demo_topo_def demo_thread_def)
  have m: "demo_thread 3 1 [1, 3] 1 \<in> set (c_CpuData demo_topo)" by (simp add: demo_topo_def)
  have "GetTypeId (demo_thread 3 1 [1, 3] 1) ''socket'' = (1, None)"
    by (simp add: GetTypeId_def demo_thread_def)
  with thread_lookup_agrees [OF d m, of 1] show ?thesis by (simp add: demo_thread_def)
qed

theorem fileToList_roundtrip_witness:
  "fileToList \<lparr>fs_read = (\<lambda>_. Some (render_list [One 7, Span 2 4])), fs_glob = (\<lambda>_. [])\<rparr> ''p'' =
   Some (Some [7, 2, 3, 4])"
  using fileToList_roundtrip [of "[One 7, Span 2 4]"
      "\<lparr>fs_read = (\<lambda>_. Some (render_list [One 7, Span 2 4])), fs_glob = (\<lambda>_. [])\<rparr>" "''p''"]
  by (simp add: upto.simps)

end
