(* ===== verification/Go_Float.thy ===== *)
theory Go_Float
  imports Go_Strings Complex_Main
begin

text \<open>
  Go's \<open>float64\<close> and \<open>float32\<close>: IEEE 754 values with round-to-nearest-even. A finite
  value other than negative zero is the rational it denotes, so an operation is the
  exact rational operation followed by one rounding, which is what IEEE 754
  prescribes. NaN payloads are not distinguished. \<open>parse_float\<close> is
  \<open>strconv.ParseFloat(s, 64)\<close>: the correctly rounded value of a decimal or
  hexadecimal literal, with the infinities, NaN and the range error.
\<close>

subsection \<open>Formats and values\<close>

datatype gofloat = NaN | PosInf | NegInf | NegZero | Num rat

record float_fmt =
  fmt_prec :: int   \<comment> \<open>bits of the significand\<close>
  fmt_emin :: int   \<comment> \<open>exponent of the smallest subnormal\<close>
  fmt_emax :: int   \<comment> \<open>values from \<open>2 ^ emax\<close> on overflow\<close>

definition binary64 :: float_fmt where
  "binary64 = \<lparr>fmt_prec = 53, fmt_emin = -1074, fmt_emax = 1024\<rparr>"

definition binary32 :: float_fmt where
  "binary32 = \<lparr>fmt_prec = 24, fmt_emin = -149, fmt_emax = 128\<rparr>"

text \<open>Powers of two, by squaring; a negative exponent gives 1.\<close>

function ipow2 :: "int \<Rightarrow> int" where
  "ipow2 k = (if k \<le> 0 then 1
              else let h = ipow2 (k div 2) in if even k then h * h else 2 * (h * h))"
  by pat_completeness auto
termination
  by (relation "measure nat") auto

function bit_len :: "int \<Rightarrow> int" where
  "bit_len n = (if n \<le> 0 then 0 else 1 + bit_len (n div 2))"
  by pat_completeness auto
termination
  by (relation "measure nat") auto

declare ipow2.simps [simp del] bit_len.simps [simp del]

definition pow2 :: "int \<Rightarrow> rat" where
  "pow2 k = (if 0 \<le> k then of_int (ipow2 k) else 1 / of_int (ipow2 (- k)))"

text \<open>The exponent of the leading bit of the positive fraction \<open>n / d\<close>.\<close>

definition ilog2 :: "int \<Rightarrow> int \<Rightarrow> int" where
  "ilog2 n d = (let k = bit_len n - bit_len d
                in if d * ipow2 k \<le> n * ipow2 (- k) then k else k - 1)"

text \<open>The integer nearest to \<open>n / d\<close>, the even one of two.\<close>

definition round_div :: "int \<Rightarrow> int \<Rightarrow> int" where
  "round_div n d =
     (let f = n div d; r = n mod d
      in if 2 * r < d then f else if d < 2 * r then f + 1 else if even f then f else f + 1)"

definition fround :: "float_fmt \<Rightarrow> rat \<Rightarrow> gofloat" where
  "fround fmt x =
     (let (n0, d) = quotient_of x; n = \<bar>n0\<bar> in
      if n = 0 then Num 0
      else let q = max (ilog2 n d - (fmt_prec fmt - 1)) (fmt_emin fmt);
               m = round_div (n * ipow2 (- q)) (d * ipow2 q)
           in if fmt_emax fmt < bit_len m + q then (if n0 < 0 then NegInf else PosInf)
              else if m = 0 then (if n0 < 0 then NegZero else Num 0)
              else Num (of_int (if n0 < 0 then - m else m) * pow2 q))"

subsection \<open>Operations\<close>

definition float_neg_sign :: "gofloat \<Rightarrow> bool" where
  "float_neg_sign x = (case x of NegInf \<Rightarrow> True | NegZero \<Rightarrow> True | Num r \<Rightarrow> r < 0 | _ \<Rightarrow> False)"

definition signed_zero :: "bool \<Rightarrow> gofloat" where
  "signed_zero neg = (if neg then NegZero else Num 0)"

definition signed_inf :: "bool \<Rightarrow> gofloat" where
  "signed_inf neg = (if neg then NegInf else PosInf)"

definition fin_val :: "gofloat \<Rightarrow> rat option" where
  "fin_val x = (case x of Num r \<Rightarrow> Some r | NegZero \<Rightarrow> Some 0 | _ \<Rightarrow> None)"

definition fneg :: "gofloat \<Rightarrow> gofloat" where
  "fneg x = (case x of NaN \<Rightarrow> NaN | PosInf \<Rightarrow> NegInf | NegInf \<Rightarrow> PosInf | NegZero \<Rightarrow> Num 0
                     | Num r \<Rightarrow> if r = 0 then NegZero else Num (- r))"

definition fadd :: "float_fmt \<Rightarrow> gofloat \<Rightarrow> gofloat \<Rightarrow> gofloat" where
  "fadd fmt x y =
     (case (fin_val x, fin_val y) of
        (Some a, Some b) \<Rightarrow> if x = NegZero \<and> y = NegZero then NegZero else fround fmt (a + b)
      | (Some a, None) \<Rightarrow> y
      | (None, Some b) \<Rightarrow> x
      | (None, None) \<Rightarrow> if x = y then x else NaN)"

definition fsub :: "float_fmt \<Rightarrow> gofloat \<Rightarrow> gofloat \<Rightarrow> gofloat" where
  "fsub fmt x y = fadd fmt x (fneg y)"

definition fmul :: "float_fmt \<Rightarrow> gofloat \<Rightarrow> gofloat \<Rightarrow> gofloat" where
  "fmul fmt x y =
     (let neg = (float_neg_sign x \<noteq> float_neg_sign y) in
      if x = NaN \<or> y = NaN then NaN
      else case (fin_val x, fin_val y) of
        (Some a, Some b) \<Rightarrow> if a * b = 0 then signed_zero neg else fround fmt (a * b)
      | (Some a, None) \<Rightarrow> if a = 0 then NaN else signed_inf neg
      | (None, Some b) \<Rightarrow> if b = 0 then NaN else signed_inf neg
      | (None, None) \<Rightarrow> signed_inf neg)"

definition fdiv :: "float_fmt \<Rightarrow> gofloat \<Rightarrow> gofloat \<Rightarrow> gofloat" where
  "fdiv fmt x y =
     (let neg = (float_neg_sign x \<noteq> float_neg_sign y) in
      if x = NaN \<or> y = NaN then NaN
      else case (fin_val x, fin_val y) of
        (Some a, Some b) \<Rightarrow>
          if b = 0 then (if a = 0 then NaN else signed_inf neg)
          else if a = 0 then signed_zero neg else fround fmt (a / b)
      | (Some a, None) \<Rightarrow> signed_zero neg
      | (None, Some b) \<Rightarrow> signed_inf neg
      | (None, None) \<Rightarrow> NaN)"

text \<open>The operators \<open><\<close>, \<open>==\<close> and \<open>>\<close> on floats: false when an operand is NaN.\<close>

definition float_lt :: "gofloat \<Rightarrow> gofloat \<Rightarrow> bool" where
  "float_lt x y =
     (if x = NaN \<or> y = NaN then False
      else case (fin_val x, fin_val y) of
        (Some a, Some b) \<Rightarrow> a < b
      | (Some a, None) \<Rightarrow> y = PosInf
      | (None, Some b) \<Rightarrow> x = NegInf
      | (None, None) \<Rightarrow> x = NegInf \<and> y = PosInf)"

text \<open>The type is no order, since NaN is not below or equal to itself and the two zeros are equal.\<close>

instantiation gofloat :: ord
begin

definition less_gofloat :: "gofloat \<Rightarrow> gofloat \<Rightarrow> bool" where
  "less_gofloat = float_lt"

definition less_eq_gofloat :: "gofloat \<Rightarrow> gofloat \<Rightarrow> bool" where
  "less_eq_gofloat x y = (float_lt x y \<or> x \<noteq> NaN \<and> y \<noteq> NaN \<and> \<not> float_lt y x)"

instance ..

end

lemma float_less_irrefl [simp]: "\<not> (x :: gofloat) < x"
  by (cases x) (simp_all add: less_gofloat_def float_lt_def fin_val_def)

lemma float_less_trans: "(x :: gofloat) < y \<Longrightarrow> y < z \<Longrightarrow> x < z"
  by (cases x; cases y; cases z) (auto simp: less_gofloat_def float_lt_def fin_val_def)

text \<open>Whatever is between two ordered values is above the lower or below the upper one.\<close>

lemma float_less_ties: "(x :: gofloat) < z \<Longrightarrow> y \<noteq> NaN \<Longrightarrow> x < y \<or> y < z"
  by (cases x; cases y; cases z) (auto simp: less_gofloat_def float_lt_def fin_val_def)

lemma float_less_NaN [simp]: "\<not> NaN < (x :: gofloat)" "\<not> x < NaN"
  by (simp_all add: less_gofloat_def float_lt_def fin_val_def)

lemma float_less_Num [simp]: "Num a < Num b \<longleftrightarrow> a < b"
  by (simp add: less_gofloat_def float_lt_def fin_val_def)

text \<open>The conversions \<open>float64(i)\<close> and \<open>float64(f)\<close>.\<close>

definition f64_of_int :: "int \<Rightarrow> gofloat" where
  "f64_of_int n = fround binary64 (of_int n)"

definition f64_of_float :: "gofloat \<Rightarrow> gofloat" where
  "f64_of_float x = (case x of Num r \<Rightarrow> fround binary64 r | _ \<Rightarrow> x)"

text \<open>\<open>time.Duration.Seconds()\<close>: whole seconds and the nanosecond rest, added as floats.\<close>

definition duration_seconds :: "int \<Rightarrow> gofloat" where
  "duration_seconds d =
     (let sec = sgn d * (\<bar>d\<bar> div 1000000000); nsec = sgn d * (\<bar>d\<bar> mod 1000000000)
      in fadd binary64 (f64_of_int sec) (fdiv binary64 (f64_of_int nsec) (f64_of_int 1000000000)))"

subsection \<open>strconv.ParseFloat\<close>

definition lower_str :: "string \<Rightarrow> string" where
  "lower_str s = map lower s"

text \<open>The named values, with an optional sign (no sign on NaN).\<close>

definition special_float :: "string \<Rightarrow> gofloat option" where
  "special_float s =
     (let u = lower_str (drop_sign s); signed = (drop_sign s \<noteq> s); neg = (s \<noteq> [] \<and> hd s = CHR ''-'')
      in if u = ''inf'' \<or> u = ''infinity'' then Some (signed_inf neg)
         else if u = ''nan'' \<and> \<not> signed then Some NaN else None)"

text \<open>
  The digits of a literal (\<open>readFloat\<close>): value of all digits read so far, number of
  digits after the point, whether a point and a digit were seen, and the rest.
\<close>

record mant_state =
  mt_val :: int
  mt_frac :: int
  mt_dot :: bool
  mt_digits :: bool

fun read_mant :: "int \<Rightarrow> mant_state \<Rightarrow> string \<Rightarrow> mant_state \<times> string" where
  "read_mant base st [] = (st, [])"
| "read_mant base st (c # s) =
     (if c = CHR ''_'' then read_mant base st s
      else if c = CHR ''.'' then
        (if mt_dot st then (st, c # s) else read_mant base (st\<lparr>mt_dot := True\<rparr>) s)
      else case any_digit c of
        Some d \<Rightarrow>
          if d < base then
            read_mant base (st\<lparr>mt_val := mt_val st * base + d, mt_digits := True,
                               mt_frac := (if mt_dot st then mt_frac st + 1 else mt_frac st)\<rparr>) s
          else (st, c # s)
      | None \<Rightarrow> (st, c # s))"

fun read_exp :: "int \<Rightarrow> string \<Rightarrow> int \<times> string" where
  "read_exp e [] = (e, [])"
| "read_exp e (c # s) =
     (if c = CHR ''_'' then read_exp e s
      else if is_digit c then read_exp (if e < 10000 then e * 10 + digit_val c else e) s
      else (e, c # s))"

text \<open>The optional exponent: the power and the rest, or \<open>None\<close> for a malformed one.\<close>

definition read_exponent :: "int \<Rightarrow> string \<Rightarrow> (int \<times> string) option" where
  "read_exponent base s =
     (case s of
        c # t \<Rightarrow>
          if lower c = (if base = 16 then CHR ''p'' else CHR ''e'') then
            (let neg = (t \<noteq> [] \<and> hd t = CHR ''-''); u = drop_sign t
             in if u = [] \<or> \<not> is_digit (hd u) then None
                else let (e, r) = read_exp 0 u in Some (if neg then - e else e, r))
          else if base = 16 then None else Some (0, s)
      | [] \<Rightarrow> if base = 16 then None else Some (0, []))"

function ipow10 :: "int \<Rightarrow> int" where
  "ipow10 k = (if k \<le> 0 then 1
               else let h = ipow10 (k div 2) in if even k then h * h else 10 * (h * h))"
  by pat_completeness auto
termination
  by (relation "measure nat") auto

declare ipow10.simps [simp del]

definition pow10 :: "int \<Rightarrow> rat" where
  "pow10 k = (if 0 \<le> k then of_int (ipow10 k) else 1 / of_int (ipow10 (- k)))"

text \<open>The exact value of a literal: sign and magnitude.\<close>

definition read_float :: "string \<Rightarrow> (bool \<times> rat) option" where
  "read_float s =
     (let neg = (s \<noteq> [] \<and> hd s = CHR ''-''); u = drop_sign s;
          hex = (3 \<le> length u \<and> hd u = CHR ''0'' \<and> lower (u ! 1) = CHR ''x'');
          base = (if hex then 16 else 10);
          (st, r) = read_mant base \<lparr>mt_val = 0, mt_frac = 0, mt_dot = False, mt_digits = False\<rparr>
                      (if hex then drop 2 u else u)
      in if \<not> mt_digits st then None
         else case read_exponent base r of
           None \<Rightarrow> None
         | Some (e, r') \<Rightarrow>
             if r' \<noteq> [] \<or> (CHR ''_'' \<in> set s \<and> \<not> underscore_ok s) then None
             else Some (neg, of_int (mt_val st) *
                    (if hex then pow2 (e - 4 * mt_frac st) else pow10 (e - mt_frac st))))"

text \<open>\<open>strconv.ParseFloat(s, 64)\<close>, and with bit size 32 the value of the shorter format.\<close>

definition parse_float_fmt :: "float_fmt \<Rightarrow> string \<Rightarrow> gofloat \<times> num_error option" where
  "parse_float_fmt fmt s =
     (case special_float s of
        Some v \<Rightarrow> (v, None)
      | None \<Rightarrow>
          (case read_float s of
             None \<Rightarrow> (Num 0, Some ErrSyntax)
           | Some (neg, r) \<Rightarrow>
               if r = 0 then (signed_zero neg, None)
               else let v = fround fmt (if neg then - r else r)
                    in (v, if v = PosInf \<or> v = NegInf then Some ErrRange else None)))"

abbreviation parse_float :: "string \<Rightarrow> gofloat \<times> num_error option" where
  "parse_float \<equiv> parse_float_fmt binary64"

abbreviation parse_float32 :: "string \<Rightarrow> gofloat \<times> num_error option" where
  "parse_float32 \<equiv> parse_float_fmt binary32"

text \<open>\<open>fmt.Sprintf("%f", x)\<close>: six decimal places, ties to the even digit.\<close>

definition format_f :: "gofloat \<Rightarrow> string" where
  "format_f x =
     (let digits = (\<lambda>r. let (n, d) = quotient_of \<bar>r\<bar>; k = round_div (n * 1000000) d; frac = int_digits (k mod 1000000)
                       in int_digits (k div 1000000) @ ''.'' @ replicate (6 - length frac) CHR ''0'' @ frac)
      in case x of
           NaN \<Rightarrow> ''NaN'' | PosInf \<Rightarrow> ''+Inf'' | NegInf \<Rightarrow> ''-Inf'' | NegZero \<Rightarrow> ''-0.000000''
         | Num r \<Rightarrow> (if r < 0 then ''-'' else '''') @ digits r)"

subsection \<open>Exactness\<close>

text \<open>
  A number with at most \<open>prec\<close> significant bits in the exponent range is a value of the
  format, so rounding leaves it alone. In particular integers below \<open>2 ^ 53\<close> in
  absolute value convert, add and subtract without error in \<open>float64\<close>.
\<close>

lemma ipow2_eq: "ipow2 k = 2 ^ nat k"
proof (induction k rule: ipow2.induct)
  case (1 k)
  show ?case
  proof (cases "k \<le> 0")
    case True
    then show ?thesis by (subst ipow2.simps) simp
  next
    case False
    define j where "j = nat k div 2"
    have j: "nat (k div 2) = j" using False by (simp add: j_def nat_div_distrib)
    have "nat k = (if even k then j + j else Suc (j + j))"
    proof -
      have "even (nat k) = even k" using False by (simp add: even_nat_iff)
      then show ?thesis
        using even_two_times_div_two [of "nat k"] odd_two_times_div_two_succ [of "nat k"]
        by (cases "even k") (simp_all add: j_def mult_2)
    qed
    then show ?thesis
      using False 1 j by (subst ipow2.simps) (simp add: Let_def power_add)
  qed
qed

lemma pow2_powi: "pow2 k = 2 powi k"
  by (simp add: pow2_def ipow2_eq power_int_def inverse_eq_divide power_one_over)

lemma pow2_pos [simp]: "0 < pow2 k"
  by (simp add: pow2_powi)

lemma pow2_nonzero [simp]: "pow2 k \<noteq> 0"
  by (simp add: pow2_powi)

lemma abs_pow2 [simp]: "\<bar>pow2 k\<bar> = pow2 k"
  by (simp add: less_imp_le)

lemma pow2_add: "pow2 (a + b) = pow2 a * pow2 b"
  by (simp add: pow2_powi power_int_add)

lemma pow2_mono: "a < b \<Longrightarrow> pow2 a < pow2 b"
  by (simp add: pow2_powi power_int_strict_increasing)

lemma pow2_less_iff: "pow2 a < pow2 b \<longleftrightarrow> a < b"
  using pow2_mono [of a b] pow2_mono [of b a] by (metis less_asym linorder_neqE)

lemma pow2_Suc: "pow2 (a + 1) = 2 * pow2 a"
  by (simp add: pow2_add) (simp add: pow2_def ipow2_eq)

lemma ipow2_ratio: "of_int (ipow2 q) = pow2 q * of_int (ipow2 (- q))"
  by (cases "0 \<le> q") (simp_all add: pow2_def ipow2_eq)

lemma bit_len_nonneg [simp]: "0 \<le> bit_len n"
  by (induction n rule: bit_len.induct) (subst bit_len.simps, simp)

lemma bit_len_bounds_int:
  "0 < n \<Longrightarrow> ipow2 (bit_len n - 1) \<le> n \<and> n < ipow2 (bit_len n)"
proof (induction n rule: bit_len.induct)
  case (1 n)
  show ?case
  proof (cases "n = 1")
    case True
    then show ?thesis by (simp add: bit_len.simps ipow2_eq)
  next
    case False
    with 1(2) have pos: "0 < n div 2" by auto
    with 1(1) 1(2) have IH: "ipow2 (bit_len (n div 2) - 1) \<le> n div 2" "n div 2 < ipow2 (bit_len (n div 2))"
      by auto
    have b: "bit_len n = bit_len (n div 2) + 1" using 1(2) by (subst bit_len.simps) simp
    have ge: "1 \<le> bit_len (n div 2)" using pos by (subst bit_len.simps) simp
    have p1: "ipow2 (bit_len n) = 2 * ipow2 (bit_len (n div 2))"
      by (simp add: b ipow2_eq nat_add_distrib)
    obtain j where j: "bit_len (n div 2) = int (Suc j)"
      using ge by (metis zero_less_imp_eq_int gr0_implies_Suc int_one_le_iff_zero_less)
    have p2: "ipow2 (bit_len n - 1) = 2 * ipow2 (bit_len (n div 2) - 1)"
      by (simp add: b j ipow2_eq nat_add_distrib)
    from IH p1 p2 show ?thesis by linarith
  qed
qed

lemma bit_len_bounds:
  assumes "0 < n"
  shows "pow2 (bit_len n - 1) \<le> of_int n" and "of_int n < pow2 (bit_len n)"
proof -
  have "1 \<le> bit_len n" using assms by (subst bit_len.simps) simp
  with bit_len_bounds_int [OF assms] show "pow2 (bit_len n - 1) \<le> of_int n"
    and "of_int n < pow2 (bit_len n)"
    by (simp_all add: pow2_def)
qed

lemma bit_len_unique:
  assumes "0 < n" and "pow2 (b - 1) \<le> of_int n" and "of_int n < pow2 b"
  shows "bit_len n = b"
proof -
  have "pow2 (bit_len n - 1) < pow2 b" "pow2 (b - 1) < pow2 (bit_len n)"
    using bit_len_bounds [OF assms(1)] assms(2,3) by linarith+
  then show ?thesis by (simp add: pow2_less_iff)
qed

lemma bit_len_shift:
  assumes "0 < n"
  shows "bit_len (n * ipow2 k) = bit_len n + nat k"
proof (rule bit_len_unique)
  have "(of_int (ipow2 k) :: rat) = pow2 (nat k)" by (simp add: pow2_def ipow2_eq)
  then have e: "(of_int (n * ipow2 k) :: rat) = of_int n * pow2 (nat k)" by simp
  have "pow2 (bit_len n + nat k - 1) = pow2 (bit_len n - 1) * pow2 (nat k)"
    using pow2_add [of "bit_len n - 1" "nat k"] by (simp add: algebra_simps)
  then show "pow2 (bit_len n + nat k - 1) \<le> of_int (n * ipow2 k)"
    unfolding e using bit_len_bounds(1) [OF assms]
    by (simp only: mult_le_cancel_right_pos pow2_pos)
  show "of_int (n * ipow2 k) < pow2 (bit_len n + nat k)"
    unfolding e pow2_add using bit_len_bounds(2) [OF assms]
    by (simp only: mult_less_cancel_right_pos pow2_pos)
qed (simp add: assms ipow2_eq)

text \<open>\<open>ilog2\<close> is the exponent of the leading bit, whatever fraction denotes the number.\<close>

lemma ilog2_upper:
  assumes "0 < n" "0 < d"
  shows "pow2 (ilog2 n d) \<le> of_int n / of_int d"
proof -
  define k where "k = bit_len n - bit_len d"
  have r: "pow2 k = of_int (ipow2 k) / of_int (ipow2 (- k))"
    using ipow2_ratio [of k] by (simp add: ipow2_eq)
  show ?thesis
  proof (cases "d * ipow2 k \<le> n * ipow2 (- k)")
    case True
    then have "(of_int (d * ipow2 k) :: rat) \<le> of_int (n * ipow2 (- k))" by (simp only: of_int_le_iff)
    then have "of_int d * pow2 k \<le> of_int n"
      by (simp add: r ipow2_eq field_simps)
    with True assms show ?thesis by (simp add: ilog2_def k_def [symmetric] Let_def field_simps)
  next
    case False
    have "pow2 (k - 1) * of_int d \<le> pow2 (k - 1) * pow2 (bit_len d)"
      using bit_len_bounds(2) [OF assms(2)] by (simp add: less_imp_le)
    also have "\<dots> = pow2 (bit_len n - 1)"
      using pow2_add [of "k - 1" "bit_len d"] by (simp add: k_def)
    also have "\<dots> \<le> of_int n" by (rule bit_len_bounds(1) [OF assms(1)])
    finally show ?thesis using False assms by (simp add: ilog2_def k_def [symmetric] Let_def field_simps)
  qed
qed

lemma round_div_exact: "0 < d \<Longrightarrow> round_div (m * d) d = m"
  by (simp add: round_div_def)

theorem fround_exact:
  assumes prec: "\<bar>m\<bar> < ipow2 (fmt_prec fmt)" and lo: "fmt_emin fmt \<le> q"
    and hi: "bit_len \<bar>m\<bar> + q \<le> fmt_emax fmt" and prec_pos: "0 \<le> fmt_prec fmt"
  shows "fround fmt (of_int m * pow2 q) = Num (of_int m * pow2 q)"
proof -
  define x :: rat where "x = of_int m * pow2 q"
  obtain n0 d where quo: "quotient_of x = (n0, d)" by force
  then have d: "0 < d" and x: "x = of_int n0 / of_int d"
    using quotient_of_denom_pos quotient_of_div by blast+
  show ?thesis
  proof (cases "m = 0")
    case True
    with quo have "n0 = 0" by (simp add: x_def)
    with True quo show ?thesis by (simp add: fround_def x_def)
  next
    case False
    define n where "n = \<bar>n0\<bar>"
    define Q where "Q = max (ilog2 n d - (fmt_prec fmt - 1)) (fmt_emin fmt)"
    define M where "M = \<bar>m\<bar> * ipow2 (q - Q)"
    have abs: "of_int n / of_int d = (of_int \<bar>m\<bar> :: rat) * pow2 q"
    proof -
      have "\<bar>of_int n0 / of_int d\<bar> = \<bar>of_int m * pow2 q\<bar>" using x by (simp add: x_def)
      then show ?thesis using d by (simp add: n_def abs_mult)
    qed
    then have n: "0 < n" using False d by (auto simp: n_def)
    have "pow2 (ilog2 n d) < pow2 (fmt_prec fmt + q)"
    proof -
      have "pow2 (ilog2 n d) \<le> of_int \<bar>m\<bar> * pow2 q" using ilog2_upper [OF n d] abs by simp
      also have "\<dots> < of_int (ipow2 (fmt_prec fmt)) * pow2 q"
        using prec by (simp only: mult_less_cancel_right_pos pow2_pos of_int_less_iff)
      finally show ?thesis using prec_pos by (simp add: pow2_add) (simp add: pow2_def)
    qed
    then have le: "Q \<le> q" using lo by (simp add: pow2_less_iff Q_def)
    have "(of_int n :: rat) * of_int (ipow2 (- Q)) = of_int M * (of_int d * of_int (ipow2 Q))"
    proof -
      have "pow2 q = pow2 Q * of_int (ipow2 (q - Q))"
        using le pow2_add [of Q "q - Q"] by (simp add: pow2_def [of "q - Q"])
      then have "of_int n = of_int M * pow2 Q * of_int d" using abs d by (simp add: M_def field_simps)
      then show ?thesis by (simp add: ipow2_ratio [of Q])
    qed
    then have "n * ipow2 (- Q) = M * (d * ipow2 Q)"
      by (simp flip: of_int_mult)
    then have rd: "round_div (n * ipow2 (- Q)) (d * ipow2 Q) = M"
      using round_div_exact [of "d * ipow2 Q" M] d by (simp add: ipow2_eq)
    have "bit_len M + Q = bit_len \<bar>m\<bar> + q"
      using bit_len_shift [of "\<bar>m\<bar>" "q - Q"] le False by (simp add: M_def)
    moreover have "M \<noteq> 0" using False by (simp add: M_def ipow2_eq)
    moreover have n0: "n0 \<noteq> 0" using n by (auto simp: n_def)
    ultimately have fr: "fround fmt x = Num (of_int (if n0 < 0 then - M else M) * pow2 Q)"
      using n hi n0 by (simp add: fround_def quo Let_def flip: n_def Q_def) (simp add: rd)
    have "(of_int M :: rat) * pow2 Q = of_int \<bar>m\<bar> * pow2 q"
      using le pow2_add [of Q "q - Q"] by (simp add: M_def pow2_def [of "q - Q"] mult.commute)
    moreover have "(n0 < 0) = (m < 0)"
    proof -
      have "(x < 0) = (n0 < 0)" using x d by (simp add: divide_less_0_iff)
      moreover have "(x < 0) = (m < 0)"
        using pow2_pos [of q] by (auto simp: x_def mult_less_0_iff simp del: pow2_pos)
      ultimately show ?thesis by simp
    qed
    ultimately show ?thesis using fr by (auto simp: x_def)
  qed
qed

corollary fround_int:
  assumes "\<bar>n\<bar> < 2 ^ 53"
  shows "fround binary64 (of_int n) = Num (of_int n)"
proof -
  have "bit_len \<bar>n\<bar> \<le> 53"
  proof (cases "n = 0")
    case True
    then show ?thesis by (simp add: bit_len.simps)
  next
    case False
    then have "pow2 (bit_len \<bar>n\<bar> - 1) \<le> of_int \<bar>n\<bar>" by (intro bit_len_bounds(1)) simp
    also have "\<dots> < pow2 53" using assms by (simp add: pow2_def ipow2_eq)
    finally show ?thesis by (simp add: pow2_less_iff)
  qed
  then show ?thesis
    using fround_exact [of n binary64 0] assms
    by (simp add: binary64_def ipow2_eq) (simp add: pow2_def ipow2_eq)
qed

lemma f64_of_int_exact: "\<bar>n\<bar> < 2 ^ 53 \<Longrightarrow> f64_of_int n = Num (of_int n)"
  by (simp add: f64_of_int_def fround_int)

lemma fadd_int:
  assumes "\<bar>a + b\<bar> < 2 ^ 53"
  shows "fadd binary64 (Num (of_int a)) (Num (of_int b)) = Num (of_int (a + b))"
  using fround_int [OF assms] by (simp add: fadd_def fin_val_def)

lemma fsub_int:
  assumes "\<bar>a - b\<bar> < 2 ^ 53"
  shows "fsub binary64 (Num (of_int a)) (Num (of_int b)) = Num (of_int (a - b))"
proof (cases "b = 0")
  case True
  with fround_int [OF assms] show ?thesis by (simp add: fsub_def fneg_def fadd_def fin_val_def)
next
  case False
  with fadd_int [of a "- b"] assms show ?thesis by (simp add: fsub_def fneg_def)
qed

text \<open>Rounding to nearest is off by at most half a unit in the last place.\<close>

lemma round_div_near: "0 < d \<Longrightarrow> 2 * \<bar>round_div n d * d - n\<bar> \<le> d"
proof -
  assume d: "0 < d"
  have r: "0 \<le> n mod d" "n mod d < d" using d by simp_all
  have "round_div n d = n div d \<and> 2 * (n mod d) \<le> d \<or> round_div n d = n div d + 1 \<and> d \<le> 2 * (n mod d)"
    by (auto simp: round_div_def Let_def)
  then show ?thesis
  proof
    assume "round_div n d = n div d \<and> 2 * (n mod d) \<le> d"
    moreover have "n div d * d - n = - (n mod d)" using minus_div_mult_eq_mod [of n d] by linarith
    ultimately show ?thesis using r by simp
  next
    assume *: "round_div n d = n div d + 1 \<and> d \<le> 2 * (n mod d)"
    have "(n div d + 1) * d - n = d - n mod d" using minus_div_mult_eq_mod [of n d] by (simp add: distrib_right)
    with * r show ?thesis by simp
  qed
qed

lemma fround_error:
  assumes "0 \<le> x" and "x < pow2 k" and "k \<le> 1023" and "- 1000 \<le> k"
  shows "\<exists>v. fround binary64 x = Num v \<and> 0 \<le> v \<and> \<bar>v - x\<bar> \<le> pow2 (k - 54)"
proof (cases "x = 0")
  case True
  then show ?thesis by (simp add: fround_def less_imp_le)
next
  case False
  obtain n d where quo: "quotient_of x = (n, d)" by force
  then have d: "0 < d" and x: "x = of_int n / of_int d"
    using quotient_of_denom_pos quotient_of_div by blast+
  have n: "0 < n" using False assms(1) d x by (auto simp: zero_le_divide_iff)
  define Q where "Q = max (ilog2 n d - 52) (- 1074)"
  define M where "M = round_div (n * ipow2 (- Q)) (d * ipow2 Q)"
  have "pow2 (ilog2 n d) < pow2 k" using ilog2_upper [OF n d] assms(2) x by simp
  then have Q: "Q \<le> k - 53" using assms(4) by (simp add: pow2_less_iff Q_def)
  have D: "0 < d * ipow2 Q" using d by (simp add: ipow2_eq)
  define E y :: rat where "E = of_int d * of_int (ipow2 Q)" and "y = x / pow2 Q"
  have E: "0 < E" using d by (simp add: E_def ipow2_eq)
  have "2 * \<bar>of_int M * E - of_int n * of_int (ipow2 (- Q))\<bar> \<le> E"
    using round_div_near [OF D, of "n * ipow2 (- Q)"] unfolding M_def [symmetric] E_def
    by (simp flip: of_int_mult of_int_diff of_int_abs)
  moreover have "of_int n * of_int (ipow2 (- Q)) = y * E"
    using d by (simp add: x y_def E_def ipow2_ratio [of Q])
  ultimately have "2 * \<bar>(of_int M - y) * E\<bar> \<le> E" by (simp only: left_diff_distrib)
  then have "2 * \<bar>of_int M - y\<bar> * E \<le> 1 * E" using E by (simp add: abs_mult)
  then have near: "2 * \<bar>of_int M - x / pow2 Q\<bar> \<le> 1" using E by (simp only: mult_le_cancel_right_pos y_def)
  have err: "\<bar>of_int M * pow2 Q - x\<bar> \<le> pow2 Q / 2"
  proof -
    have "of_int M * pow2 Q - x = (of_int M - x / pow2 Q) * pow2 Q" by (simp add: left_diff_distrib)
    then have "\<bar>of_int M * pow2 Q - x\<bar> = \<bar>of_int M - x / pow2 Q\<bar> * pow2 Q" by (simp add: abs_mult)
    with near show ?thesis by simp
  qed
  also have half: "pow2 Q / 2 \<le> pow2 (k - 54)"
    using pow2_Suc [of "k - 54"] pow2_mono [of Q "k - 53"] Q by (cases "Q = k - 53") simp_all
  finally have bound: "\<bar>of_int M * pow2 Q - x\<bar> \<le> pow2 (k - 54)" .
  have M: "0 \<le> M"
    using n D by (simp add: M_def round_div_def Let_def ipow2_eq pos_imp_zdiv_nonneg_iff less_imp_le)
  have "bit_len M + Q \<le> 1024"
  proof (cases "M = 0")
    case True
    then show ?thesis using Q assms(3) by (simp add: bit_len.simps)
  next
    case False
    with M have "pow2 (bit_len M - 1) \<le> of_int M" by (intro bit_len_bounds(1)) simp
    then have "pow2 (bit_len M - 1 + Q) \<le> of_int M * pow2 Q" by (simp add: pow2_add)
    also have "\<dots> < pow2 k + pow2 k"
      using bound assms(2) pow2_mono [of "k - 54" k] by (simp add: abs_le_iff)
    also have "\<dots> = pow2 (k + 1)" by (simp add: pow2_Suc)
    finally show ?thesis using assms(3) by (simp add: pow2_less_iff)
  qed
  with n quo have "fround binary64 x = Num (of_int M * pow2 Q)"
    by (simp add: fround_def binary64_def Let_def flip: Q_def) (auto simp flip: M_def)
  moreover have "0 \<le> of_int M * pow2 Q" using M by (simp add: less_imp_le)
  ultimately show ?thesis using bound by blast
qed

lemma fround_nonneg_near:
  assumes "0 \<le> x" and "x < pow2 k" and "k \<le> 1023" and "- 1000 \<le> k"
  obtains v where "fround binary64 x = Num v" "0 \<le> v" "x - pow2 (k - 54) \<le> v" "v \<le> x + pow2 (k - 54)"
  using fround_error [OF assms] by (auto simp: abs_le_iff)

text \<open>A whole number of seconds is exact.\<close>

lemma duration_seconds_whole:
  assumes "\<bar>n\<bar> < 2 ^ 53"
  shows "duration_seconds (n * 1000000000) = Num (of_int n)"
proof -
  have "sgn (n * 1000000000) * (\<bar>n * 1000000000\<bar> div 1000000000) = n"
    by (simp add: abs_mult sgn_mult sgn_mult_abs)
  moreover have "\<bar>n * 1000000000\<bar> mod 1000000000 = 0" by (simp add: abs_mult)
  moreover have "fdiv binary64 (f64_of_int 0) (f64_of_int 1000000000) = Num 0"
    by (simp add: f64_of_int_exact fdiv_def fin_val_def float_neg_sign_def signed_zero_def)
  ultimately show ?thesis
    using assms fadd_int [of n 0] by (simp add: duration_seconds_def Let_def f64_of_int_exact)
qed

subsection \<open>Parsing printed integers\<close>

lemma digit_char_is_digit:
  assumes "0 \<le> d" and "d < (10 :: int)"
  shows "is_digit (char_of (48 + d))"
proof -
  have "(of_char (char_of (48 + d) :: char) :: nat) = nat (48 + d)"
    using of_char_digit [OF assms] by (simp add: of_char_nat_int del: of_char_of)
  then show ?thesis using assms by (simp add: is_digit_def le_nat_iff nat_le_iff del: of_char_of)
qed

lemma int_digits_all_digits: "0 \<le> n \<Longrightarrow> c \<in> set (int_digits n) \<Longrightarrow> is_digit c"
  using int_digits_chars by blast

lemma lower_digit: "is_digit c \<Longrightarrow> lower c = c"
  by (simp add: lower_def is_digit_def)

lemma read_mant_digits:
  assumes "0 \<le> n"
  shows "read_mant 10 \<lparr>mt_val = 0, mt_frac = 0, mt_dot = False, mt_digits = b\<rparr> (int_digits n @ s) =
         read_mant 10 \<lparr>mt_val = n, mt_frac = 0, mt_dot = False, mt_digits = True\<rparr> s"
  using assms
proof (induction n arbitrary: s rule: int_digits.induct)
  case (1 n)
  have neq: "char_of (48 + d) \<noteq> CHR ''_''" "char_of (48 + d) \<noteq> CHR ''.''" if "0 \<le> d" "d < (10 :: int)" for d
    using digit_char_is_digit [OF that] by (metis is_digit_def not_digit_sign(4), auto simp: is_digit_def)
  show ?case
  proof (cases "n < 10")
    case True
    with 1 neq [of n] show ?thesis by (subst int_digits.simps) simp
  next
    case False
    have "read_mant 10 \<lparr>mt_val = 0, mt_frac = 0, mt_dot = False, mt_digits = b\<rparr>
            (int_digits (n div 10) @ char_of (48 + n mod 10) # s) =
          read_mant 10 \<lparr>mt_val = n div 10, mt_frac = 0, mt_dot = False, mt_digits = True\<rparr> (char_of (48 + n mod 10) # s)"
      using 1 False by simp
    also have "\<dots> = read_mant 10 \<lparr>mt_val = n, mt_frac = 0, mt_dot = False, mt_digits = True\<rparr> s"
      using 1 False neq [of "n mod 10"] by (simp add: mult_div_mod_eq [simplified mult.commute])
    finally show ?thesis using False by (subst int_digits.simps) simp
  qed
qed

lemma parse_float_digits:
  assumes "0 \<le> n" and "n < 2 ^ 53"
  shows "parse_float (int_digits n) = (Num (of_int n), None)"
proof -
  let ?s = "int_digits n"
  note digits = int_digits_all_digits [OF assms(1)]
  have hd: "is_digit (hd ?s)" using digits by simp
  have sign: "drop_sign ?s = ?s" by (rule drop_sign_digits [OF assms(1)])
  have low: "lower_str ?s = ?s"
    unfolding lower_str_def by (rule map_idI) (simp add: lower_digit digits)
  have "?s \<noteq> ''inf''" "?s \<noteq> ''infinity''" "?s \<noteq> ''nan''" using hd by (auto simp: is_digit_def)
  then have special: "special_float ?s = None" by (simp add: special_float_def sign low Let_def)
  have minus: "hd ?s \<noteq> CHR ''-''" using hd not_digit_sign(1) by metis
  have x: "lower (?s ! 1) \<noteq> CHR ''x''" if "3 \<le> length ?s"
  proof -
    have "is_digit (?s ! 1)" using that digits nth_mem [of 1 ?s] by simp
    then show ?thesis by (auto simp: lower_digit is_digit_def)
  qed
  have "CHR ''_'' \<notin> set ?s" using digits not_digit_sign(4) by blast
  then have "read_float ?s = Some (False, of_int n)"
    using read_mant_digits [OF assms(1), of False "[]"] sign minus x
    by (auto simp: read_float_def Let_def read_exponent_def pow10_def ipow10.simps)
  with special show ?thesis using fround_int [of n] assms by (auto simp: parse_float_fmt_def signed_zero_def Let_def)
qed

end
