(* ===== verification/Values.thy ===== *)
theory Values
  imports Go_Float
begin

text \<open>
  The dynamically typed values the program passes around (Go's \<open>any\<close>): field values of
  messages, and the variables and results of aggregation expressions. \<open>'m\<close> is the type of
  messages. The record \<open>msg_api\<close> is the interface of cc-lib's \<open>CCMessage\<close>, a library that is
  not part of this repository: it is a parameter of every definition that uses it.
\<close>

datatype 'm govalue =
    VNil
  | VFloat64 gofloat
  | VFloat32 gofloat
  | VInt goint
  | VInt32 "32 word"
  | VInt64 goint
  | VUint64 goint
  | VBool bool
  | VString string
  | VFloat64s "gofloat list"
  | VFloat32s "gofloat list"
  | VInts "goint list"
  | VInt32s "32 word list"
  | VInt64s "goint list"
  | VBools "bool list"
  | VTime gotime
  | VMsg 'm
  | VMsgs "'m list"

type_synonym 'm vars = "(string \<times> 'm govalue) list"

text \<open>
  The operations of a message that the sources call. \<open>new_message\<close> is
  \<open>lp.NewMessage(name, tags, meta, fields, time)\<close>: the message, \<open>None\<close> for nil, and
  whether the error is nil.
\<close>

record 'm msg_api =
  msg_name :: "'m \<Rightarrow> string"
  msg_time :: "'m \<Rightarrow> gotime"
  msg_set_time :: "'m \<Rightarrow> gotime \<Rightarrow> 'm"
  msg_tags :: "'m \<Rightarrow> tagmap"
  msg_meta :: "'m \<Rightarrow> tagmap"
  msg_fields :: "'m \<Rightarrow> (string \<times> 'm govalue) list"
  msg_get_tag :: "'m \<Rightarrow> string \<Rightarrow> string option"
  msg_get_meta :: "'m \<Rightarrow> string \<Rightarrow> string option"
  msg_get_field :: "'m \<Rightarrow> string \<Rightarrow> 'm govalue option"
  msg_add_tag :: "'m \<Rightarrow> string \<Rightarrow> string \<Rightarrow> 'm"
  msg_add_meta :: "'m \<Rightarrow> string \<Rightarrow> string \<Rightarrow> 'm"
  new_message :: "string \<Rightarrow> tagmap \<Rightarrow> tagmap \<Rightarrow> (string \<times> 'm govalue) list \<Rightarrow> gotime \<Rightarrow> 'm option \<times> bool"

subsection \<open>A concrete message type\<close>

text \<open>An implementation of the interface, used by the witnesses only.\<close>

datatype demo_msg =
  DemoMsg (demo_name: string) (demo_tags: tagmap) (demo_meta: tagmap)
    (demo_fields: "(string \<times> demo_msg govalue) list") (demo_time: gotime)

definition demo_api :: "demo_msg msg_api" where
  "demo_api =
     \<lparr>msg_name = demo_name, msg_time = demo_time,
      msg_set_time = (\<lambda>m t. DemoMsg (demo_name m) (demo_tags m) (demo_meta m) (demo_fields m) t),
      msg_tags = demo_tags, msg_meta = demo_meta, msg_fields = demo_fields,
      msg_get_tag = (\<lambda>m. map_of (demo_tags m)), msg_get_meta = (\<lambda>m. map_of (demo_meta m)),
      msg_get_field = (\<lambda>m. map_of (demo_fields m)),
      msg_add_tag = (\<lambda>m k v. DemoMsg (demo_name m) (map_put k v (demo_tags m)) (demo_meta m)
                                (demo_fields m) (demo_time m)),
      msg_add_meta = (\<lambda>m k v. DemoMsg (demo_name m) (demo_tags m) (map_put k v (demo_meta m))
                                (demo_fields m) (demo_time m)),
      new_message = (\<lambda>n tags meta fs t. (Some (DemoMsg n tags meta fs t), True))\<rparr>"

end
