(* ===== verification/Aggregator_Functions.thy ===== *)
theory Aggregator_Functions
  imports Values Topology
begin

text \<open>
  \<open>internal/metricAggregator/metricAggregatorFunctions.go\<close>: the functions that aggregation
  expressions can call. Go's generic functions take the operations of their element type
  from the record \<open>go_num\<close>, one instance per admitted type. A function returns a value
  and an error; \<open>medianfunc\<close>, \<open>matchfunc\<close> and \<open>getCpuListOfType\<close> index slices and may
  panic. The topology cache is the one \<open>ccTopology\<close> filled.
\<close>

subsection \<open>Element types\<close>

record 'a go_num =
  num_zero :: 'a
  num_add :: "'a \<Rightarrow> 'a \<Rightarrow> 'a"
  num_min :: "'a \<Rightarrow> 'a \<Rightarrow> 'a"
  num_max :: "'a \<Rightarrow> 'a \<Rightarrow> 'a"
  num_less :: "'a \<Rightarrow> 'a \<Rightarrow> bool"
  num_half :: "'a \<Rightarrow> 'a"
  num_float64 :: "'a \<Rightarrow> gofloat"

text \<open>The builtins \<open>min\<close> and \<open>max\<close> on floats: NaN wins, and \<open>-0\<close> is below \<open>0\<close>.\<close>

definition fmin :: "gofloat \<Rightarrow> gofloat \<Rightarrow> gofloat" where
  "fmin x y = (if x = NaN \<or> y = NaN then NaN else if x < y then x
               else if y < x then y else if x = NegZero then x else y)"

definition fmax :: "gofloat \<Rightarrow> gofloat \<Rightarrow> gofloat" where
  "fmax x y = (if x = NaN \<or> y = NaN then NaN else if x < y then y
               else if y < x then x else if x = NegZero then y else x)"

definition num_float :: "float_fmt \<Rightarrow> gofloat go_num" where
  "num_float fmt =
     \<lparr>num_zero = Num 0, num_add = fadd fmt, num_min = fmin, num_max = fmax,
      num_less = (\<lambda>x y. (x = NaN \<and> y \<noteq> NaN) \<or> x < y),
      num_half = (\<lambda>x. fdiv fmt x (Num 2)), num_float64 = f64_of_float\<rparr>"

definition num_word :: "'w::len word go_num" where
  "num_word =
     \<lparr>num_zero = 0, num_add = (+),
      num_min = (\<lambda>x y. if sint y < sint x then y else x),
      num_max = (\<lambda>x y. if sint x < sint y then y else x),
      num_less = (\<lambda>x y. sint x < sint y),
      num_half = (\<lambda>x. word_of_int (sgn (sint x) * (\<bar>sint x\<bar> div 2))),
      num_float64 = (\<lambda>x. f64_of_int (sint x))\<rparr>"

text \<open>\<open>slices.Sort\<close> for the order of the element type.\<close>

fun go_insert :: "('a \<Rightarrow> 'a \<Rightarrow> bool) \<Rightarrow> 'a \<Rightarrow> 'a list \<Rightarrow> 'a list" where
  "go_insert lt x [] = [x]"
| "go_insert lt x (y # ys) = (if lt y x then y # go_insert lt x ys else x # y # ys)"

definition go_sort :: "('a \<Rightarrow> 'a \<Rightarrow> bool) \<Rightarrow> 'a list \<Rightarrow> 'a list" where
  "go_sort lt xs = foldr (go_insert lt) xs []"

subsection \<open>Arithmetic on value lists\<close>

fun sum_loop :: "'a go_num \<Rightarrow> 'a \<Rightarrow> 'a list \<Rightarrow> 'a" where
  "sum_loop N s [] = s"
| "sum_loop N s (v # vs) = sum_loop N (num_add N s v) vs"

definition sumAnyType :: "'a go_num \<Rightarrow> 'a list \<Rightarrow> 'a \<times> goerror option" where
  "sumAnyType N xs =
     (if length xs = 0
      then (num_zero N, Some (GoError ''sum function requires at least one argument''))
      else (sum_loop N (num_zero N) xs, None))"

definition sumfunc :: "'m govalue \<Rightarrow> 'm govalue \<times> goerror option" where
  "sumfunc args =
     (case args of
        VFloat64s vs \<Rightarrow> apfst VFloat64 (sumAnyType (num_float binary64) vs)
      | VFloat32s vs \<Rightarrow> apfst VFloat32 (sumAnyType (num_float binary32) vs)
      | VInts vs \<Rightarrow> apfst VInt (sumAnyType num_word vs)
      | VInt64s vs \<Rightarrow> apfst VInt64 (sumAnyType num_word vs)
      | VInt32s vs \<Rightarrow> apfst VInt32 (sumAnyType num_word vs)
      | _ \<Rightarrow> (VFloat64 (Num 0), Some (GoError ''function 'sum' only on list of values'')))"

definition minAnyType :: "'a go_num \<Rightarrow> 'a list \<Rightarrow> 'a \<times> goerror option" where
  "minAnyType N xs =
     (if length xs = 0
      then (num_zero N, Some (GoError ''min function requires at least one argument''))
      else (foldl (num_min N) (hd xs) (tl xs), None))"

definition minfunc :: "'m govalue \<Rightarrow> 'm govalue \<times> goerror option" where
  "minfunc args =
     (case args of
        VFloat64s vs \<Rightarrow> apfst VFloat64 (minAnyType (num_float binary64) vs)
      | VFloat32s vs \<Rightarrow> apfst VFloat32 (minAnyType (num_float binary32) vs)
      | VInts vs \<Rightarrow> apfst VInt (minAnyType num_word vs)
      | VInt64s vs \<Rightarrow> apfst VInt64 (minAnyType num_word vs)
      | VInt32s vs \<Rightarrow> apfst VInt32 (minAnyType num_word vs)
      | _ \<Rightarrow> (VFloat64 (Num 0), Some (GoError ''function 'min' only on list of values'')))"

definition avgAnyType :: "'a go_num \<Rightarrow> 'a list \<Rightarrow> gofloat \<times> goerror option" where
  "avgAnyType N xs =
     (if length xs = 0
      then (Num 0, Some (GoError ''average function requires at least one argument''))
      else (case sumAnyType N xs of (s, err) \<Rightarrow>
              (fdiv binary64 (num_float64 N s) (f64_of_int (int (length xs))), err)))"

definition avgfunc :: "'m govalue \<Rightarrow> 'm govalue \<times> goerror option" where
  "avgfunc args =
     (case args of
        VFloat64s vs \<Rightarrow> apfst VFloat64 (avgAnyType (num_float binary64) vs)
      | VFloat32s vs \<Rightarrow> apfst VFloat64 (avgAnyType (num_float binary32) vs)
      | VInts vs \<Rightarrow> apfst VFloat64 (avgAnyType num_word vs)
      | VInt64s vs \<Rightarrow> apfst VFloat64 (avgAnyType num_word vs)
      | VInt32s vs \<Rightarrow> apfst VFloat64 (avgAnyType num_word vs)
      | _ \<Rightarrow> (VFloat64 (Num 0), Some (GoError ''function 'average' only on list of values'')))"

definition maxAnyType :: "'a go_num \<Rightarrow> 'a list \<Rightarrow> 'a \<times> goerror option" where
  "maxAnyType N xs =
     (if length xs = 0
      then (num_zero N, Some (GoError ''max function requires at least one argument''))
      else (foldl (num_max N) (hd xs) (tl xs), None))"

definition maxfunc :: "'m govalue \<Rightarrow> 'm govalue \<times> goerror option" where
  "maxfunc args =
     (case args of
        VFloat64s vs \<Rightarrow> apfst VFloat64 (maxAnyType (num_float binary64) vs)
      | VFloat32s vs \<Rightarrow> apfst VFloat32 (maxAnyType (num_float binary32) vs)
      | VInts vs \<Rightarrow> apfst VInt (maxAnyType num_word vs)
      | VInt64s vs \<Rightarrow> apfst VInt64 (maxAnyType num_word vs)
      | VInt32s vs \<Rightarrow> apfst VInt32 (maxAnyType num_word vs)
      | _ \<Rightarrow> (VFloat64 (Num 0), Some (GoError ''function 'max' only on list of values'')))"

text \<open>\<open>midPoint\<close> is the remainder of the length by 2, as in the source.\<close>

definition medianAnyType :: "'a go_num \<Rightarrow> 'a list \<Rightarrow> ('a \<times> goerror option) run" where
  "medianAnyType N xs =
     (if length xs = 0
      then Inr (num_zero N, Some (GoError ''median function requires at least one argument''))
      else let values = go_sort (num_less N) xs; midPoint = int (length values) mod 2
           in if midPoint = 0
              then run_bind (at_index values (midPoint - 1)) (\<lambda>a.
                   run_bind (at_index values midPoint) (\<lambda>b. Inr (num_half N (num_add N a b), None)))
              else run_bind (at_index values midPoint) (\<lambda>m. Inr (m, None)))"

definition medianfunc :: "'m govalue \<Rightarrow> ('m govalue \<times> goerror option) run" where
  "medianfunc args =
     (case args of
        VFloat64s vs \<Rightarrow> map_sum id (apfst VFloat64) (medianAnyType (num_float binary64) vs)
      | VFloat32s vs \<Rightarrow> map_sum id (apfst VFloat32) (medianAnyType (num_float binary32) vs)
      | VInts vs \<Rightarrow> map_sum id (apfst VInt) (medianAnyType num_word vs)
      | VInt64s vs \<Rightarrow> map_sum id (apfst VInt64) (medianAnyType num_word vs)
      | VInt32s vs \<Rightarrow> map_sum id (apfst VInt32) (medianAnyType num_word vs)
      | _ \<Rightarrow> Inr (VFloat64 (Num 0), Some (GoError ''function 'median' only on list of values'')))"

definition lenfunc :: "'m govalue \<Rightarrow> 'm govalue \<times> goerror option" where
  "lenfunc args =
     (let err = Some (GoError ''function 'len' can only be applied on arrays and strings'') in
      case args of
        VFloat64s vs \<Rightarrow> (VInt (word_of_nat (length vs)), None)
      | VFloat32s vs \<Rightarrow> (VInt (word_of_nat (length vs)), None)
      | VInts vs \<Rightarrow> (VInt (word_of_nat (length vs)), None)
      | VInt64s vs \<Rightarrow> (VInt (word_of_nat (length vs)), None)
      | VInt32s vs \<Rightarrow> (VInt (word_of_nat (length vs)), None)
      | VFloat64 _ \<Rightarrow> (VInt 0, err) | VFloat32 _ \<Rightarrow> (VInt 0, err)
      | VInt _ \<Rightarrow> (VInt 0, err) | VInt64 _ \<Rightarrow> (VInt 0, err)
      | VString s \<Rightarrow> (VInt (word_of_nat (length s)), None)
      | _ \<Rightarrow> (VInt 0, None))"

subsection \<open>Membership and matching\<close>

definition infunc :: "'m govalue \<Rightarrow> 'm govalue \<Rightarrow> 'm govalue \<times> goerror option" where
  "infunc a b =
     (case a of
        VString match \<Rightarrow> (case b of VString tot \<Rightarrow> (VBool (contains tot match), None)
                          | _ \<Rightarrow> (VBool False, None))
      | VInt match \<Rightarrow> (case b of VInts tot \<Rightarrow> (VBool (match \<in> set tot), None)
                       | VString tot \<Rightarrow> (VBool (contains tot (itoa match)), None)
                       | _ \<Rightarrow> (VBool False, None))
      | _ \<Rightarrow> (VBool False, None))"

text \<open>
  \<open>regex p s\<close> stands for compiling the user's pattern \<open>p\<close> and searching \<open>s\<close> with it:
  \<open>None\<close> when \<open>regexp.Compile\<close> fails, else whether \<open>Find\<close> found a match.
\<close>

definition matchfunc ::
  "(string \<Rightarrow> string \<Rightarrow> bool option) \<Rightarrow> 'm govalue list \<Rightarrow> ('m govalue \<times> goerror option) run" where
  "matchfunc regex args =
     run_bind (at_index args 0) (\<lambda>a0.
       case a0 of
         VString match \<Rightarrow>
           run_bind (at_index args 1) (\<lambda>a1.
             case a1 of
               VString tot \<Rightarrow>
                 (case regex (replace_all match ''%'' [CHR 0x5C]) tot of
                    None \<Rightarrow> Inr (VBool False, Some (GoError ''error parsing regexp''))
                  | Some found \<Rightarrow> Inr (VBool found, None))
             | _ \<Rightarrow> Inr (VBool False, None))
       | _ \<Rightarrow> Inr (VBool False, None))"

subsection \<open>Topology getters\<close>

definition getCpuCoreFunc :: "topo_cache \<Rightarrow> 'm govalue \<Rightarrow> 'm govalue \<times> goerror option" where
  "getCpuCoreFunc tc args =
     (case args of VInt cpuid \<Rightarrow> (VInt (GetHwthreadCore tc cpuid), None)
      | _ \<Rightarrow> (VInt (-1), Some (GoError ''function 'getCpuCore' accepts only an 'int' cpuid'')))"

definition getCpuSocketFunc :: "topo_cache \<Rightarrow> 'm govalue \<Rightarrow> 'm govalue \<times> goerror option" where
  "getCpuSocketFunc tc args =
     (case args of VInt cpuid \<Rightarrow> (VInt (GetHwthreadSocket tc cpuid), None)
      | _ \<Rightarrow> (VInt (-1), Some (GoError ''function 'getCpuCore' accepts only an 'int' cpuid'')))"

definition getCpuNumaDomainFunc :: "topo_cache \<Rightarrow> 'm govalue \<Rightarrow> 'm govalue \<times> goerror option" where
  "getCpuNumaDomainFunc tc args =
     (case args of VInt cpuid \<Rightarrow> (VInt (GetHwthreadNumaDomain tc cpuid), None)
      | _ \<Rightarrow> (VInt (-1), Some (GoError ''function 'getCpuNuma' accepts only an 'int' cpuid'')))"

definition getCpuDieFunc :: "topo_cache \<Rightarrow> 'm govalue \<Rightarrow> 'm govalue \<times> goerror option" where
  "getCpuDieFunc tc args =
     (case args of VInt cpuid \<Rightarrow> (VInt (GetHwthreadDie tc cpuid), None)
      | _ \<Rightarrow> (VInt (-1), Some (GoError ''function 'getCpuDie' accepts only an 'int' cpuid'')))"

text \<open>The loop shared by the four list getters.\<close>

fun cpulist_loop :: "(HwthreadEntry \<Rightarrow> goint) \<Rightarrow> goint \<Rightarrow> goint list \<Rightarrow> HwthreadEntry list \<Rightarrow> goint list" where
  "cpulist_loop f i cpulist [] = cpulist"
| "cpulist_loop f i cpulist (c # cs) =
     cpulist_loop f i (if f c = i then cpulist @ [CpuID c] else cpulist) cs"

definition getCpuListOfCoreFunc :: "topo_cache \<Rightarrow> 'm govalue \<Rightarrow> 'm govalue \<times> goerror option" where
  "getCpuListOfCoreFunc tc args =
     (case args of VInt i \<Rightarrow> (VInts (cpulist_loop Core i [] (CpuData tc)), None) | _ \<Rightarrow> (VInts [], None))"

definition getCpuListOfSocketFunc :: "topo_cache \<Rightarrow> 'm govalue \<Rightarrow> 'm govalue \<times> goerror option" where
  "getCpuListOfSocketFunc tc args =
     (case args of VInt i \<Rightarrow> (VInts (cpulist_loop Socket i [] (CpuData tc)), None) | _ \<Rightarrow> (VInts [], None))"

definition getCpuListOfNumaDomainFunc :: "topo_cache \<Rightarrow> 'm govalue \<Rightarrow> 'm govalue \<times> goerror option" where
  "getCpuListOfNumaDomainFunc tc args =
     (case args of VInt i \<Rightarrow> (VInts (cpulist_loop NumaDomain i [] (CpuData tc)), None)
      | _ \<Rightarrow> (VInts [], None))"

definition getCpuListOfDieFunc :: "topo_cache \<Rightarrow> 'm govalue \<Rightarrow> 'm govalue \<times> goerror option" where
  "getCpuListOfDieFunc tc args =
     (case args of VInt i \<Rightarrow> (VInts (cpulist_loop Die i [] (CpuData tc)), None) | _ \<Rightarrow> (VInts [], None))"

definition getCpuListOfNode :: "topo_cache \<Rightarrow> 'm govalue \<times> goerror option" where
  "getCpuListOfNode tc = (VInts (HwthreadList tc), None)"

text \<open>
  \<open>fmt.Scanf(id, "%d", &cpu)\<close> uses the ID as the format and the string \<open>"%d"\<close> as the first
  operand. \<open>Scanf\<close> stores through pointers only and rejects spare operands, so it always
  reports an error and the string branch never adds an ID.
\<close>

definition getCpuListOfType :: "topo_cache \<Rightarrow> 'm govalue list \<Rightarrow> ('m govalue \<times> goerror option) run" where
  "getCpuListOfType tc args =
     (let no_valid = Some (GoError ''no valid args type and type-id'') in
      run_bind (at_index args 0) (\<lambda>a0.
        case a0 of
          VString typ \<Rightarrow>
            if typ = ''node'' then Inr (VInts (HwthreadList tc), None)
            else if typ = ''socket'' then
              run_bind (at_index args 1) (\<lambda>a1. Inr (getCpuListOfSocketFunc tc a1))
            else if typ = ''numadomain'' then
              run_bind (at_index args 1) (\<lambda>a1. Inr (getCpuListOfNumaDomainFunc tc a1))
            else if typ = ''core'' then
              run_bind (at_index args 1) (\<lambda>a1. Inr (getCpuListOfCoreFunc tc a1))
            else if typ = ''hwthread'' then
              run_bind (at_index args 1) (\<lambda>a1.
                case a1 of
                  VInt i \<Rightarrow> Inr (VInts [i], no_valid)
                | VInt64 i \<Rightarrow> Inr (VInts [i], no_valid)
                | _ \<Rightarrow> Inr (VInts [], no_valid))
            else Inr (VInts [], no_valid)
        | _ \<Rightarrow> Inr (VInts [], no_valid)))"

subsection \<open>Lemmas\<close>

lemma sum_loop_word: "sum_loop num_word s vs = s + sum_list vs"
  by (induction vs arbitrary: s) (simp_all add: num_word_def add.assoc)

lemma sum_list_word: "sum_list (vs :: 'w::len word list) = word_of_int (\<Sum>v\<leftarrow>vs. sint v)"
  by (induction vs) simp_all

lemma mset_go_insert: "mset (go_insert lt x ys) = add_mset x (mset ys)"
  by (induction ys) auto

lemma mset_go_sort: "mset (go_sort lt xs) = mset xs"
  by (induction xs) (simp_all add: go_sort_def mset_go_insert)

lemma length_go_sort [simp]: "length (go_sort lt xs) = length xs"
  by (metis mset_go_sort size_mset)

text \<open>
  The contract of \<open>slices.Sort\<close>: the result is a permutation in ascending order, whatever the
  algorithm. For an order with ties only, such as \<open>-0\<close> and \<open>0\<close>, two results may differ, and
  only in the tied elements; so insertion stands for the algorithm of the library.
\<close>

locale sort_order =
  fixes lt :: "'a \<Rightarrow> 'a \<Rightarrow> bool"
  assumes irrefl: "\<not> lt x x"
    and trans: "lt x y \<Longrightarrow> lt y z \<Longrightarrow> lt x z"
    and dense_ties: "lt x z \<Longrightarrow> lt x y \<or> lt y z"
begin

abbreviation ascending :: "'a list \<Rightarrow> bool" where
  "ascending \<equiv> sorted_wrt (\<lambda>x y. \<not> lt y x)"

lemma asym: "lt x y \<Longrightarrow> \<not> lt y x"
  using trans irrefl by blast

lemma set_insert: "set (go_insert lt x ys) = insert x (set ys)"
  using mset_go_insert [of lt x ys] by (metis set_mset_add_mset_insert set_mset_mset)

lemma ascending_insert: "ascending ys \<Longrightarrow> ascending (go_insert lt x ys)"
  by (induction ys) (auto simp: set_insert dest: asym dense_ties)

lemma ascending_sort: "ascending (go_sort lt xs)"
  by (induction xs) (simp_all add: go_sort_def ascending_insert)

lemma ascending_less:
  assumes "ascending xs" and "ascending ys" and "mset xs = mset ys" and "i < length xs"
  shows "\<not> lt (xs ! i) (ys ! i)"
proof
  assume less: "lt (xs ! i) (ys ! i)"
  have len: "length ys = length xs" using mset_eq_length [OF assms(3)] by simp
  let ?P = "\<lambda>z. lt z (ys ! i)"
  have "?P z" if z: "z \<in> set (take (Suc i) xs)" for z
  proof -
    from z obtain j where j: "z = xs ! j" "j \<le> i" by (auto simp: in_set_conv_nth)
    with sorted_wrt_nth_less [OF assms(1), of j i] assms(4) irrefl have "\<not> lt (xs ! i) (xs ! j)"
      by (cases "j = i") auto
    with less j dense_ties show ?thesis by blast
  qed
  then have "filter ?P (take (Suc i) xs) = take (Suc i) xs" by (rule filter_True [OF ballI])
  then have "length (filter ?P (take (Suc i) xs)) = Suc i" using assms(4) by simp
  moreover have "length (filter ?P xs) = length (filter ?P (take (Suc i) xs)) + length (filter ?P (drop (Suc i) xs))"
    by (metis append_take_drop_id filter_append length_append)
  moreover have "\<not> ?P z" if z: "z \<in> set (drop i ys)" for z
  proof -
    from z obtain j where "z = ys ! j" "i \<le> j" "j < length ys" by (auto simp: in_set_conv_nth)
    with sorted_wrt_nth_less [OF assms(2), of i j] irrefl show ?thesis by (cases "j = i") auto
  qed
  then have "filter ?P (drop i ys) = []" by (simp add: filter_empty_conv)
  then have "length (filter ?P ys) = length (filter ?P (take i ys))"
    by (metis append_Nil2 append_take_drop_id filter_append)
  moreover have "length (filter ?P (take i ys)) \<le> i" by (metis length_filter_le length_take min.bounded_iff)
  moreover have "length (filter ?P xs) = length (filter ?P ys)" by (metis assms(3) mset_filter size_mset)
  ultimately show False by simp
qed

lemma sort_unique:
  assumes "ascending ys" and "mset ys = mset xs"
  shows "list_all2 (\<lambda>x y. \<not> lt x y \<and> \<not> lt y x) (go_sort lt xs) ys"
proof -
  have m: "mset (go_sort lt xs) = mset ys" using assms(2) by (simp add: mset_go_sort)
  then have "length (go_sort lt xs) = length ys" by (rule mset_eq_length)
  then show ?thesis
    using ascending_less [OF ascending_sort assms(1) m] ascending_less [OF assms(1) ascending_sort m [symmetric]]
    by (simp add: list_all2_conv_all_nth)
qed

end

interpretation word_sort: sort_order "\<lambda>x y :: 'w::len word. sint x < sint y"
  by unfold_locales auto

interpretation float_sort: sort_order "num_less (num_float fmt)"
proof
  fix x y z
  show "\<not> num_less (num_float fmt) x x" by (simp add: num_float_def)
  show "num_less (num_float fmt) x y \<Longrightarrow> num_less (num_float fmt) y z \<Longrightarrow> num_less (num_float fmt) x z"
    by (auto simp: num_float_def dest: float_less_trans)
  show "num_less (num_float fmt) x z \<Longrightarrow> num_less (num_float fmt) x y \<or> num_less (num_float fmt) y z"
    by (auto simp: num_float_def dest: float_less_ties [where y = y])
qed

lemma sorted_go_sort: "sorted (map sint (go_sort (\<lambda>x y. sint x < sint y) xs))"
  using word_sort.ascending_sort [of xs] by (simp add: sorted_wrt_map not_less)

lemma word_sort_any:
  assumes "sorted (map sint ys)" and "mset ys = mset xs"
  shows "go_sort (\<lambda>x y. sint x < sint y) xs = ys"
proof -
  have "word_sort.ascending ys" using assms(1) by (simp add: sorted_wrt_map not_less)
  from word_sort.sort_unique [OF this assms(2)] show ?thesis
    by (simp add: list_all2_conv_all_nth list_eq_iff_nth_eq) (metis linorder_neqE signed_word_eqI)
qed

lemma foldl_min_word:
  "foldl (num_min num_word) x vs \<in> set (x # vs) \<and>
   (\<forall>v \<in> set (x # vs). sint (foldl (num_min num_word) x vs) \<le> sint v)"
proof (induction vs arbitrary: x)
  case (Cons v vs)
  show ?case
    using Cons [of "if sint v < sint x then v else x"] by (auto simp: num_word_def)
qed simp

lemma foldl_max_word:
  "foldl (num_max num_word) x vs \<in> set (x # vs) \<and>
   (\<forall>v \<in> set (x # vs). sint v \<le> sint (foldl (num_max num_word) x vs))"
proof (induction vs arbitrary: x)
  case (Cons v vs)
  show ?case
    using Cons [of "if sint x < sint v then v else x"] by (auto simp: num_word_def)
qed simp

lemma cpulist_loop_eq: "cpulist_loop f i acc ds = acc @ threads_with f ds i"
  by (induction ds arbitrary: acc) (simp_all add: threads_with_def)

lemma medianAnyType_cases:
  "medianAnyType N xs =
     (if xs = [] then Inr (num_zero N, Some (GoError ''median function requires at least one argument''))
      else if even (length xs) \<or> length xs = 1 then Inl IndexOutOfRange
      else Inr (go_sort (num_less N) xs ! 1, None))"
proof (cases "even (length xs)")
  case True
  then have "int (length (go_sort (num_less N) xs)) mod 2 = 0" by (simp flip: even_iff_mod_2_eq_zero)
  with True show ?thesis by (simp add: medianAnyType_def Let_def at_index_def)
next
  case False
  then have "int (length (go_sort (num_less N) xs)) mod 2 = 1" by (simp flip: odd_iff_mod_2_eq_one)
  with False show ?thesis by (auto simp: medianAnyType_def Let_def at_index_def)
qed

subsection \<open>Properties\<close>

text \<open>On integers \<open>sum\<close> is the exact sum modulo the machine word, for both widths; on
  the empty list it reports an error.\<close>

theorem sumfunc_words:
  "sumfunc (VInts vs) = (VInt (word_of_int (\<Sum>v\<leftarrow>vs. sint v)),
     if vs = [] then Some (GoError ''sum function requires at least one argument'') else None) \<and>
   sumfunc (VInt32s ws) = (VInt32 (word_of_int (\<Sum>v\<leftarrow>ws. sint v)),
     if ws = [] then Some (GoError ''sum function requires at least one argument'') else None)"
  by (simp add: sumfunc_def sumAnyType_def sum_loop_word sum_list_word) (simp add: num_word_def)

text \<open>On integers \<open>min\<close> and \<open>max\<close> return elements of the list that bound it.\<close>

theorem minmax_words:
  assumes "vs \<noteq> []"
  shows "\<exists>a b. minfunc (VInts vs) = (VInt a, None) \<and> maxfunc (VInts vs) = (VInt b, None) \<and>
     a \<in> set vs \<and> b \<in> set vs \<and> (\<forall>v \<in> set vs. sint a \<le> sint v \<and> sint v \<le> sint b)"
proof -
  obtain x xs where "vs = x # xs" using assms by (cases vs) auto
  with foldl_min_word [of x xs] foldl_max_word [of x xs] show ?thesis
    by (auto simp: minfunc_def maxfunc_def minAnyType_def maxAnyType_def)
qed

text \<open>The average of integers is the correctly rounded quotient of their sum and their
  number, as long as the sum and the number are below \<open>2 ^ 53\<close>.\<close>

theorem avgfunc_correctly_rounded:
  assumes "vs \<noteq> []" and "\<bar>\<Sum>v\<leftarrow>vs. sint v\<bar> < 2 ^ 53" and "int (length vs) < 2 ^ 53"
  shows "avgfunc (VInts vs) =
         (VFloat64 (fround binary64 (of_int (\<Sum>v\<leftarrow>vs. sint v) / of_nat (length vs))), None)"
proof -
  define S where "S = (\<Sum>v\<leftarrow>vs. sint v)"
  have S: "sint (word_of_int S :: goint) = S"
    using assms(2) by (simp add: S_def [symmetric] signed_take_bit_int_eq_self sint_sbintrunc')
  have "avgfunc (VInts vs) = (VFloat64 (fdiv binary64 (f64_of_int (sint (word_of_int S :: goint)))
          (f64_of_int (int (length vs)))), None)"
    using assms(1) by (simp add: avgfunc_def avgAnyType_def sumAnyType_def sum_loop_word sum_list_word S_def)
      (simp add: num_word_def)
  also have "\<dots> = (VFloat64 (fdiv binary64 (Num (of_int S)) (Num (of_nat (length vs)))), None)"
    using assms(2,3) by (simp add: S f64_of_int_exact S_def [symmetric])
  also have "fdiv binary64 (Num (of_int S)) (Num (of_nat (length vs))) =
             fround binary64 (of_int S / of_nat (length vs))"
    using assms(1) by (simp add: fdiv_def fin_val_def float_neg_sign_def signed_zero_def fround_def)
  finally show ?thesis by (simp add: S_def)
qed

text \<open>\<open>median\<close> indexes its sorted values by the remainder of the length modulo 2: a
  single value and any even number of values make it panic, and for an odd number from
  three on it returns the second smallest value (which is the median of three values).\<close>

theorem medianfunc_cases:
  "medianfunc (VInts vs) =
     (if vs = []
      then Inr (VInt 0, Some (GoError ''median function requires at least one argument''))
      else if even (length vs) \<or> length vs = 1 then Inl IndexOutOfRange
      else Inr (VInt (go_sort (\<lambda>x y. sint x < sint y) vs ! 1), None))"
  by (simp add: medianfunc_def medianAnyType_cases) (simp add: num_word_def)

text \<open>The CPU list getters of the aggregator return the same threads as the queries of
  the topology package for the socket, NUMA domain, core and die levels.\<close>

theorem cpu_list_getters:
  "getCpuListOfSocketFunc tc (VInt i) = (VInts (GetTypeHwthreads tc ''socket'' i), None) \<and>
   getCpuListOfNumaDomainFunc tc (VInt i) = (VInts (GetTypeHwthreads tc ''memoryDomain'' i), None) \<and>
   getCpuListOfCoreFunc tc (VInt i) = (VInts (GetTypeHwthreads tc ''core'' i), None) \<and>
   getCpuListOfDieFunc tc (VInt i) = (VInts (GetTypeHwthreads tc ''die'' i), None)"
  by (simp add: getCpuListOfSocketFunc_def getCpuListOfNumaDomainFunc_def getCpuListOfCoreFunc_def
      getCpuListOfDieFunc_def cpulist_loop_eq CpuData_def GetTypeHwthreads_def GetSocketHwthreads_def
      GetNumaDomainHwthreads_def GetCoreHwthreads_def GetDieHwthreads_def)

text \<open>\<open>getCpuListOfType('hwthread', id)\<close> never succeeds: it reports an error for every
  ID, and for an ID given as a string (the type of a tag value) the list is empty too.\<close>

theorem hwthread_list_always_fails:
  "getCpuListOfType tc (VString ''hwthread'' # a # args) =
     Inr (VInts (case a of VInt i \<Rightarrow> [i] | VInt64 i \<Rightarrow> [i] | _ \<Rightarrow> []),
          Some (GoError ''no valid args type and type-id''))"
  by (cases a) (simp_all add: getCpuListOfType_def at_index_def Let_def)

subsection \<open>Witnesses\<close>

theorem minmax_words_witness:
  "\<exists>a b. minfunc (VInts [3, -2, 7]) = (VInt a, None) \<and> maxfunc (VInts [3, -2, 7]) = (VInt b, None) \<and>
     a \<in> set [3, -2, 7] \<and> b \<in> set [3, -2, 7] \<and>
     (\<forall>v \<in> set [3, -2, 7 :: goint]. sint a \<le> sint v \<and> sint v \<le> sint b)"
  by (rule minmax_words) simp

theorem avgfunc_correctly_rounded_witness:
  "avgfunc (VInts [1, 2, 4]) = (VFloat64 (fround binary64 (7 / 3)), None)"
  using avgfunc_correctly_rounded [of "[1, 2, 4]"] by simp

end
