(* ===== verification/Aggregator.thy ===== *)
theory Aggregator
  imports Aggregator_Functions
begin

text \<open>
  \<open>internal/metricAggregator/metricAggregator.go\<close>: the list of aggregation functions and
  \<open>Eval\<close>, which derives one metric per function from the metrics of an interval. The
  expression engine gval is a library outside this repository: compiling a condition,
  evaluating it and evaluating a function are parameters (\<open>gval_lib\<close>). \<open>Eval\<close> returns the
  messages it tries to send, in order; \<open>nonblocking_send\<close> is the \<open>select\<close> with a default
  branch, which drops a message when the receiver is not ready.
\<close>

subsection \<open>State\<close>

record ('m, 'e, 'l) gval_lib =
  gv_language :: 'l  \<comment> \<open>\<open>gval.NewLanguage(gval.Full(), metricCacheLanguage)\<close>\<close>
  gv_add_function :: "'l \<Rightarrow> string \<Rightarrow> ('m govalue list \<Rightarrow> 'm govalue \<times> goerror option) \<Rightarrow> 'l"
  gv_new_evaluable :: "string \<Rightarrow> goerror + 'e"
  gv_eval_bool :: "'e \<Rightarrow> 'm vars \<Rightarrow> goerror + bool"
  gv_evaluate :: "'l \<Rightarrow> string \<Rightarrow> 'm vars \<Rightarrow> goerror + 'm govalue"

record 'e MetricAggregatorIntervalConfig =
  ac_Name :: string
  ac_Function :: string
  ac_Condition :: string
  ac_Tags :: tagmap
  ac_Meta :: tagmap
  ac_gvalCond :: 'e
  ac_gvalFunc :: 'e

record ('m, 'e, 'l) metricAggregator =
  ag_functions :: "'e MetricAggregatorIntervalConfig list"
  ag_constants :: "'m vars"
  ag_language :: 'l

text \<open>\<open>hostname\<close> is the result of \<open>os.Hostname()\<close>, \<open>None\<close> for an error.\<close>

definition agg_Init ::
  "('m, 'e, 'l) gval_lib \<Rightarrow> topo_cache \<Rightarrow> string option \<Rightarrow> goerror + ('m, 'e, 'l) metricAggregator" where
  "agg_Init lib tc hostname =
     (case hostname of
        None \<Rightarrow> Inl (GoError ''metricAggregator: failed to get hostname'')
      | Some h \<Rightarrow>
          (let cinfo = CpuInfo tc; int_const = (\<lambda>n. VInt (word_of_nat n))
           in Inr \<lparr>ag_functions = [],
                   ag_constants =
                     [(''hostname'', VString (before_sep (CHR ''.'') h)),
                      (''numHWThreads'', int_const (NumHWthreads cinfo)),
                      (''numSockets'', int_const (NumSockets cinfo)),
                      (''numNumaDomains'', int_const (NumNumaDomains cinfo)),
                      (''numDies'', int_const (NumDies cinfo)),
                      (''smtWidth'', int_const (SMTWidth cinfo))],
                   ag_language = gv_language lib\<rparr>))"

subsection \<open>Managing the functions\<close>

text \<open>The loop of \<open>AddAggregation\<close>: overwrite the first entry with the name, else append.\<close>

fun put_config ::
  "'e MetricAggregatorIntervalConfig \<Rightarrow> 'e MetricAggregatorIntervalConfig list \<Rightarrow>
   'e MetricAggregatorIntervalConfig list" where
  "put_config cfg [] = [cfg]"
| "put_config cfg (f # fs) = (if ac_Name f = ac_Name cfg then cfg # fs else f # put_config cfg fs)"

definition AddAggregation ::
  "('m, 'e, 'l) gval_lib \<Rightarrow> string \<Rightarrow> string \<Rightarrow> string \<Rightarrow> tagmap \<Rightarrow> tagmap \<Rightarrow>
   ('m, 'e, 'l) metricAggregator \<Rightarrow> ('m, 'e, 'l) metricAggregator \<times> goerror option" where
  "AddAggregation lib name function condition tags meta c =
     (let newfunc = replace_all function [CHR 0x27] [CHR 0x22];
          newcond = replace_all condition [CHR 0x27] [CHR 0x22]
      in case gv_new_evaluable lib newcond of
           Inl err \<Rightarrow> (c, Some err)
         | Inr gvalCond \<Rightarrow>
             (case gv_new_evaluable lib newfunc of
                Inl err \<Rightarrow> (c, Some err)
              | Inr gvalFunc \<Rightarrow>
                  (c\<lparr>ag_functions := put_config
                      \<lparr>ac_Name = name, ac_Function = newfunc, ac_Condition = newcond, ac_Tags = tags,
                       ac_Meta = meta, ac_gvalCond = gvalCond, ac_gvalFunc = gvalFunc\<rparr>
                      (ag_functions c)\<rparr>, None)))"

text \<open>\<open>slices.IndexFunc\<close> and the shift-down deletion.\<close>

fun index_name :: "string \<Rightarrow> 'e MetricAggregatorIntervalConfig list \<Rightarrow> int" where
  "index_name name [] = -1"
| "index_name name (f # fs) =
     (if ac_Name f = name then 0 else (let i = index_name name fs in if i = -1 then -1 else i + 1))"

definition DeleteAggregation ::
  "string \<Rightarrow> ('m, 'e, 'l) metricAggregator \<Rightarrow> ('m, 'e, 'l) metricAggregator \<times> goerror option" where
  "DeleteAggregation name c =
     (let i = index_name name (ag_functions c) in
      if i = -1 then (c, Some (GoError ''no aggregation for metric name''))
      else (c\<lparr>ag_functions := take (nat i) (ag_functions c) @ drop (nat i + 1) (ag_functions c)\<rparr>, None))"

definition AddConstant ::
  "string \<Rightarrow> 'm govalue \<Rightarrow> ('m, 'e, 'l) metricAggregator \<Rightarrow> ('m, 'e, 'l) metricAggregator" where
  "AddConstant name v c = c\<lparr>ag_constants := map_put name v (ag_constants c)\<rparr>"

definition DelConstant :: "string \<Rightarrow> ('m, 'e, 'l) metricAggregator \<Rightarrow> ('m, 'e, 'l) metricAggregator" where
  "DelConstant name c = c\<lparr>ag_constants := map_del name (ag_constants c)\<rparr>"

definition AddFunction ::
  "('m, 'e, 'l) gval_lib \<Rightarrow> string \<Rightarrow> ('m govalue list \<Rightarrow> 'm govalue \<times> goerror option) \<Rightarrow>
   ('m, 'e, 'l) metricAggregator \<Rightarrow> ('m, 'e, 'l) metricAggregator" where
  "AddFunction lib name function c = c\<lparr>ag_language := gv_add_function lib (ag_language c) name function\<rparr>"

subsection \<open>Eval\<close>

text \<open>The value slices of one function and its matching messages.\<close>

record 'm collected =
  cv_Float64 :: "gofloat list"
  cv_Float32 :: "gofloat list"
  cv_Int :: "goint list"
  cv_Int32 :: "32 word list"
  cv_Int64 :: "goint list"
  cv_Bool :: "bool list"
  cv_matches :: "'m list"

definition no_values :: "'m collected" where
  "no_values = \<lparr>cv_Float64 = [], cv_Float32 = [], cv_Int = [], cv_Int32 = [], cv_Int64 = [],
                cv_Bool = [], cv_matches = []\<rparr>"

definition add_value :: "'m govalue option \<Rightarrow> 'm collected \<Rightarrow> 'm collected" where
  "add_value v cv =
     (case v of
        Some (VFloat64 x) \<Rightarrow> cv\<lparr>cv_Float64 := cv_Float64 cv @ [x]\<rparr>
      | Some (VFloat32 x) \<Rightarrow> cv\<lparr>cv_Float32 := cv_Float32 cv @ [x]\<rparr>
      | Some (VInt x) \<Rightarrow> cv\<lparr>cv_Int := cv_Int cv @ [x]\<rparr>
      | Some (VInt32 x) \<Rightarrow> cv\<lparr>cv_Int32 := cv_Int32 cv @ [x]\<rparr>
      | Some (VInt64 x) \<Rightarrow> cv\<lparr>cv_Int64 := cv_Int64 cv @ [x]\<rparr>
      | Some (VBool x) \<Rightarrow> cv\<lparr>cv_Bool := cv_Bool cv @ [x]\<rparr>
      | _ \<Rightarrow> cv)"

text \<open>The loop over the metrics: a condition that fails to evaluate skips the metric.\<close>

fun collect ::
  "('m, 'e, 'l) gval_lib \<Rightarrow> 'm msg_api \<Rightarrow> 'e \<Rightarrow> 'm vars \<Rightarrow> 'm collected \<Rightarrow> 'm list \<Rightarrow>
   'm vars \<times> 'm collected" where
  "collect lib api cond vars cv [] = (vars, cv)"
| "collect lib api cond vars cv (m # ms) =
     (let vars' = map_put ''metric'' (VMsg m) vars in
      case gv_eval_bool lib cond vars' of
        Inl err \<Rightarrow> collect lib api cond vars' cv ms
      | Inr value \<Rightarrow>
          collect lib api cond vars'
            (if value then (let cv' = add_value (msg_get_field api m ''value'') cv
                            in cv'\<lparr>cv_matches := cv_matches cv' @ [m]\<rparr>)
             else cv) ms)"

text \<open>The \<open>switch\<close> that picks the first non-empty slice, and its length.\<close>

definition pick_values :: "'m collected \<Rightarrow> ('m govalue \<times> nat) option" where
  "pick_values cv =
     (if length (cv_Float64 cv) > 0 then Some (VFloat64s (cv_Float64 cv), length (cv_Float64 cv))
      else if length (cv_Float32 cv) > 0 then Some (VFloat32s (cv_Float32 cv), length (cv_Float32 cv))
      else if length (cv_Int cv) > 0 then Some (VInts (cv_Int cv), length (cv_Int cv))
      else if length (cv_Int32 cv) > 0 then Some (VInt32s (cv_Int32 cv), length (cv_Int32 cv))
      else if length (cv_Int64 cv) > 0 then Some (VInt64s (cv_Int64 cv), length (cv_Int64 cv))
      else if length (cv_Bool cv) > 0 then Some (VBools (cv_Bool cv), length (cv_Bool cv))
      else None)"

text \<open>
  \<open>copy_tags\<close> and \<open>copy_meta\<close>: the value \<open><copy>\<close> is replaced by what the matching messages
  carry under the key, each match overwriting the one before.
\<close>

fun copy_loop :: "('m \<Rightarrow> string \<Rightarrow> string option) \<Rightarrow> string \<Rightarrow> 'm list \<Rightarrow> tagmap \<Rightarrow> tagmap" where
  "copy_loop get key [] out = out"
| "copy_loop get key (m # ms) out =
     copy_loop get key ms (case get m key of Some v \<Rightarrow> map_put key v out | None \<Rightarrow> out)"

fun copy_entries :: "('m \<Rightarrow> string \<Rightarrow> string option) \<Rightarrow> 'm list \<Rightarrow> tagmap \<Rightarrow> tagmap \<Rightarrow> tagmap" where
  "copy_entries get ms [] out = out"
| "copy_entries get ms ((key, v) # rest) out =
     copy_entries get ms rest
       (if v = ''<copy>'' then copy_loop get key ms out else map_put key v out)"

definition copy_tags :: "'m msg_api \<Rightarrow> tagmap \<Rightarrow> 'm list \<Rightarrow> tagmap" where
  "copy_tags api tags ms = copy_entries (msg_get_tag api) ms tags []"

definition copy_meta :: "'m msg_api \<Rightarrow> tagmap \<Rightarrow> 'm list \<Rightarrow> tagmap" where
  "copy_meta api meta ms = copy_entries (msg_get_meta api) ms meta []"

text \<open>
  Building the message. A result of another type leaves the message nil, and
  \<open>m.ToLineProtocol\<close> in the debug call that follows then dereferences nil.
\<close>

definition build_message ::
  "'m msg_api \<Rightarrow> string \<Rightarrow> tagmap \<Rightarrow> tagmap \<Rightarrow> gotime \<Rightarrow> 'm govalue \<Rightarrow> 'm run" where
  "build_message api name tags meta starttime v =
     (let new = (case new_message api name tags meta [(''value'', v)] starttime of
                   (Some m, _) \<Rightarrow> Inr m | (None, _) \<Rightarrow> Inl NilDereference)
      in case v of
           VFloat64 _ \<Rightarrow> new | VFloat32 _ \<Rightarrow> new | VInt _ \<Rightarrow> new | VInt64 _ \<Rightarrow> new | VString _ \<Rightarrow> new
         | _ \<Rightarrow> Inl NilDereference)"

text \<open>
  The loop over the functions. An evaluation error executes \<open>break\<close>, which leaves this
  loop.
\<close>

fun eval_loop ::
  "('m, 'e, 'l) gval_lib \<Rightarrow> 'm msg_api \<Rightarrow> 'l \<Rightarrow> gotime \<Rightarrow> 'm list \<Rightarrow> 'm vars \<Rightarrow> 'm list \<Rightarrow>
   'e MetricAggregatorIntervalConfig list \<Rightarrow> 'm list run" where
  "eval_loop lib api lang starttime metrics vars sent [] = Inr sent"
| "eval_loop lib api lang starttime metrics vars sent (f # fs) =
     (let (vars1, cv) = collect lib api (ac_gvalCond f) vars no_values metrics;
          vars2 = map_del ''metric'' vars1;
          picked = pick_values cv;
          vars3 = (case picked of Some (vs, _) \<Rightarrow> map_put ''values'' vs vars2 | None \<Rightarrow> vars2);
          vars4 = map_put ''metrics'' (VMsgs (cv_matches cv)) vars3
      in case picked of
           None \<Rightarrow> eval_loop lib api lang starttime metrics vars4 sent fs
         | Some _ \<Rightarrow>
             (case gv_evaluate lib lang (ac_Function f) vars4 of
                Inl err \<Rightarrow> Inr sent
              | Inr v \<Rightarrow>
                  (case build_message api (ac_Name f) (copy_tags api (ac_Tags f) (cv_matches cv))
                          (copy_meta api (ac_Meta f) (cv_matches cv)) starttime v of
                     Inl p \<Rightarrow> Inl p
                   | Inr m \<Rightarrow> eval_loop lib api lang starttime metrics vars4 (sent @ [m]) fs)))"

definition agg_Eval ::
  "('m, 'e, 'l) gval_lib \<Rightarrow> 'm msg_api \<Rightarrow> ('m, 'e, 'l) metricAggregator \<Rightarrow> gotime \<Rightarrow> gotime \<Rightarrow>
   'm list \<Rightarrow> 'm list run" where
  "agg_Eval lib api c starttime endtime metrics =
     eval_loop lib api (ag_language c) starttime metrics
       (map_put ''endtime'' (VTime endtime) (map_put ''starttime'' (VTime starttime) (ag_constants c)))
       [] (ag_functions c)"

text \<open>\<open>ready k\<close>: whether the receiver waits on the channel at the \<open>k\<close>-th send.\<close>

definition nonblocking_send :: "(nat \<Rightarrow> bool) \<Rightarrow> 'm list \<Rightarrow> 'm list" where
  "nonblocking_send ready ms = map snd (filter (\<lambda>(k, _). ready k) (enumerate 0 ms))"

subsection \<open>Conditions of the router\<close>

text \<open>
  \<open>EvalBoolCondition\<close> with its cache of compiled conditions: the new cache and the result.
  The same holds for \<open>EvalFloat64Condition\<close>, up to the evaluation function.
\<close>

definition cached_evaluable ::
  "('m, 'e, 'l) gval_lib \<Rightarrow> (string \<times> 'e) list \<Rightarrow> string \<Rightarrow> (string \<times> 'e) list \<times> (goerror + 'e)" where
  "cached_evaluable lib mapping condition =
     (case map_of mapping condition of
        Some evaluable \<Rightarrow> (mapping, Inr evaluable)
      | None \<Rightarrow>
          (let newcond = replace_all (replace_all condition [CHR 0x27] [CHR 0x22]) ''%'' [CHR 0x5C]
           in case gv_new_evaluable lib newcond of
                Inl err \<Rightarrow> (mapping, Inl err)
              | Inr evaluable \<Rightarrow> (map_put condition evaluable mapping, Inr evaluable)))"

definition EvalBoolCondition ::
  "('m, 'e, 'l) gval_lib \<Rightarrow> (string \<times> 'e) list \<Rightarrow> string \<Rightarrow> 'm vars \<Rightarrow>
   (string \<times> 'e) list \<times> (goerror + bool)" where
  "EvalBoolCondition lib mapping condition params =
     (case cached_evaluable lib mapping condition of
        (mapping', Inl err) \<Rightarrow> (mapping', Inl err)
      | (mapping', Inr evaluable) \<Rightarrow> (mapping', gv_eval_bool lib evaluable params))"

definition EvalFloat64Condition ::
  "('m, 'e, 'l) gval_lib \<Rightarrow> ('e \<Rightarrow> (string \<times> gofloat) list \<Rightarrow> gofloat \<times> goerror option) \<Rightarrow>
   (string \<times> 'e) list \<Rightarrow> string \<Rightarrow> (string \<times> gofloat) list \<Rightarrow>
   (string \<times> 'e) list \<times> gofloat \<times> goerror option" where
  "EvalFloat64Condition lib eval_float64 mapping condition params =
     (case cached_evaluable lib mapping condition of
        (mapping', Inl err) \<Rightarrow> (mapping', NaN, Some err)
      | (mapping', Inr evaluable) \<Rightarrow> (mapping', eval_float64 evaluable params))"

subsection \<open>The functions as a store keyed by name\<close>

text \<open>
  The contract between the aggregator and its clients (the cache and, through it, the
  router's \<open>Init\<close>): configurations are looked up by name, a later one replaces an
  earlier one of the same name, and deletion removes exactly one name.
\<close>

locale named_store =
  fixes name_of :: "'c \<Rightarrow> string"
    and put :: "'c \<Rightarrow> 's \<Rightarrow> 's"
    and del :: "string \<Rightarrow> 's \<Rightarrow> 's option"
    and get :: "'s \<Rightarrow> string \<Rightarrow> 'c option"
    and ok :: "'s \<Rightarrow> bool"
  assumes ok_put: "ok s \<Longrightarrow> ok (put c s)"
    and get_put: "ok s \<Longrightarrow> get (put c s) n = (if n = name_of c then Some c else get s n)"
    and del_None: "ok s \<Longrightarrow> del n s = None \<longleftrightarrow> get s n = None"
    and ok_del: "ok s \<Longrightarrow> del n s = Some s' \<Longrightarrow> ok s'"
    and get_del: "ok s \<Longrightarrow> del n s = Some s' \<Longrightarrow> get s' k = (if k = n then None else get s k)"
begin

lemma ok_fold_put: "ok s \<Longrightarrow> ok (fold put cs s)"
  by (induction cs arbitrary: s) (simp_all add: ok_put)

text \<open>After storing a list of configurations the last one of each name is found.\<close>

lemma get_fold_put:
  assumes "ok s"
  shows "get (fold put cs s) n =
         (case map_of (rev (map (\<lambda>c. (name_of c, c)) cs)) n of Some c \<Rightarrow> Some c | None \<Rightarrow> get s n)"
  using assms
proof (induction cs arbitrary: s)
  case (Cons c cs)
  have "ok (put c s)" using Cons.prems by (rule ok_put)
  from Cons.IH [OF this] show ?case
    by (simp add: get_put [OF Cons.prems] map_add_def split: option.splits)
qed simp

lemma del_put:
  assumes "ok s" and "get s (name_of c) = None"
  shows "\<exists>s'. del (name_of c) (put c s) = Some s' \<and> (\<forall>k. get s' k = get s k)"
proof -
  have "del (name_of c) (put c s) \<noteq> None"
    using del_None [OF ok_put [OF assms(1)]] get_put [OF assms(1)] by simp
  then obtain s' where s': "del (name_of c) (put c s) = Some s'" by blast
  with get_del [OF ok_put [OF assms(1)] s'] get_put [OF assms(1)] assms(2) show ?thesis by auto
qed

end

definition find_config :: "'e MetricAggregatorIntervalConfig list \<Rightarrow> string \<Rightarrow> 'e MetricAggregatorIntervalConfig option" where
  "find_config fs n = find (\<lambda>f. ac_Name f = n) fs"

definition distinct_names :: "'e MetricAggregatorIntervalConfig list \<Rightarrow> bool" where
  "distinct_names fs = distinct (map ac_Name fs)"

definition del_config ::
  "string \<Rightarrow> 'e MetricAggregatorIntervalConfig list \<Rightarrow> 'e MetricAggregatorIntervalConfig list option" where
  "del_config n fs = (let i = index_name n fs in
     if i = -1 then None else Some (take (nat i) fs @ drop (nat i + 1) fs))"

lemma put_config_names: "ac_Name ` set (put_config c fs) = insert (ac_Name c) (ac_Name ` set fs)"
  by (induction fs) auto

lemma distinct_put_config: "distinct_names fs \<Longrightarrow> distinct_names (put_config c fs)"
proof (induction fs)
  case (Cons f fs)
  then show ?case
    using put_config_names [of c fs] by (auto simp: distinct_names_def)
qed (simp add: distinct_names_def)

lemma find_put_config:
  "find_config (put_config c fs) n = (if n = ac_Name c then Some c else find_config fs n)"
  by (induction fs) (auto simp: find_config_def)

lemma index_name_ge: "-1 \<le> index_name n fs"
  by (induction fs) (auto simp: Let_def)

lemma index_name_missing: "index_name n fs = -1 \<longleftrightarrow> find_config fs n = None"
proof (induction fs)
  case (Cons f fs)
  then show ?case using index_name_ge [of n fs] by (auto simp: Let_def find_config_def)
qed (simp add: find_config_def)

lemma del_config_Cons:
  "del_config n (f # fs) =
     (if ac_Name f = n then Some fs else map_option (Cons f) (del_config n fs))"
  using index_name_ge [of n fs] by (auto simp: del_config_def Let_def nat_add_distrib)

lemma del_config_sound:
  assumes "distinct_names fs" and "del_config n fs = Some fs'"
  shows "distinct_names fs' \<and> set fs' \<subseteq> set fs \<and>
         find_config fs' k = (if k = n then None else find_config fs k)"
  using assms
proof (induction fs arbitrary: fs')
  case Nil
  then show ?case by (simp add: del_config_def)
next
  case (Cons f fs)
  show ?case
  proof (cases "ac_Name f = n")
    case True
    with Cons.prems have "fs' = fs" by (simp add: del_config_Cons)
    with True Cons.prems show ?thesis
      by (auto simp: distinct_names_def find_config_def find_None_iff) (metis imageI)
  next
    case False
    with Cons.prems obtain gs where gs: "del_config n fs = Some gs" "fs' = f # gs"
      by (auto simp: del_config_Cons)
    with Cons show ?thesis using False by (auto simp: distinct_names_def find_config_def)
  qed
qed

interpretation configs: named_store ac_Name put_config del_config find_config distinct_names
proof
  fix fs :: "'e MetricAggregatorIntervalConfig list" and n
  show "del_config n fs = None \<longleftrightarrow> find_config fs n = None"
    by (auto simp: del_config_def Let_def simp flip: index_name_missing)
next
  fix fs fs' :: "'e MetricAggregatorIntervalConfig list" and n k
  assume "distinct_names fs" and "del_config n fs = Some fs'"
  then show "distinct_names fs'" and "find_config fs' k = (if k = n then None else find_config fs k)"
    using del_config_sound [of fs n fs' k] by simp_all
qed (simp_all add: distinct_put_config find_put_config)

lemma DeleteAggregation_eq:
  "DeleteAggregation name c =
     (case del_config name (ag_functions c) of
        None \<Rightarrow> (c, Some (GoError ''no aggregation for metric name''))
      | Some fs \<Rightarrow> (c\<lparr>ag_functions := fs\<rparr>, None))"
  by (simp add: DeleteAggregation_def del_config_def Let_def)


subsection \<open>Tags copied from the matching messages\<close>

lemma copy_loop_lookup:
  "map_of (copy_loop get key ms out) k =
     (if k = key then (let vs = List.map_filter (\<lambda>m. get m key) ms
                       in if vs = [] then map_of out key else Some (last vs))
      else map_of out k)"
  by (induction ms arbitrary: out) (auto simp: Let_def split: option.splits)

lemma copy_entries_lookup:
  assumes "distinct (map fst tags)" and "\<forall>k \<in> fst ` set tags. map_of out k = None"
  shows "map_of (copy_entries get ms tags out) k =
     (case map_of tags k of
        None \<Rightarrow> map_of out k
      | Some v \<Rightarrow>
          if v = ''<copy>'' then (let vs = List.map_filter (\<lambda>m. get m k) ms
                                in if vs = [] then None else Some (last vs))
          else Some v)"
  using assms
proof (induction get ms tags out rule: copy_entries.induct)
  case (2 get ms key v rest out)
  let ?out' = "if v = ''<copy>'' then copy_loop get key ms out else map_put key v out"
  have "\<forall>k \<in> fst ` set rest. map_of ?out' k = None"
    using "2.prems" by (auto simp: copy_loop_lookup)
  then have IH: "map_of (copy_entries get ms rest ?out') k =
     (case map_of rest k of
        None \<Rightarrow> map_of ?out' k
      | Some v \<Rightarrow>
          if v = ''<copy>'' then (let vs = List.map_filter (\<lambda>m. get m k) ms
                                in if vs = [] then None else Some (last vs))
          else Some v)"
    using "2.prems"(1) by (intro "2.IH") simp_all
  show ?case
  proof (cases "k = key")
    case True
    have "map_of rest key = None" using "2.prems"(1) by (simp add: map_of_eq_None_iff)
    moreover have "map_of out key = None" using "2.prems"(2) by simp
    ultimately show ?thesis using IH True by (simp add: copy_loop_lookup Let_def)
  next
    case False
    with IH show ?thesis by (cases "map_of rest k") (simp_all add: copy_loop_lookup)
  qed
qed simp

text \<open>The tags of a derived metric are the configured ones; the value \<open><copy>\<close> becomes
  the value that the last matching metric carrying the tag has, and the tag is left out
  when none carries it.\<close>

theorem copy_tags_last_match:
  assumes "distinct (map fst tags)"
  shows "map_of (copy_tags api tags ms) k =
     (case map_of tags k of
        None \<Rightarrow> None
      | Some v \<Rightarrow>
          if v = ''<copy>'' then (let vs = List.map_filter (\<lambda>m. msg_get_tag api m k) ms
                                in if vs = [] then None else Some (last vs))
          else Some v)"
  unfolding copy_tags_def by (subst copy_entries_lookup [OF assms]) (auto split: option.splits)

subsection \<open>Evaluation\<close>

text \<open>
  What the expression engine promises on one function: its condition looks at the
  current metric only, its body at the collected values only.
\<close>

definition cond_reads_metric :: "('m, 'e, 'l) gval_lib \<Rightarrow> 'e \<Rightarrow> ('m \<Rightarrow> bool) \<Rightarrow> bool" where
  "cond_reads_metric lib cond P \<longleftrightarrow>
     (\<forall>vars m. map_of vars ''metric'' = Some (VMsg m) \<longrightarrow> gv_eval_bool lib cond vars = Inr (P m))"

definition body_reads_values ::
  "('m, 'e, 'l) gval_lib \<Rightarrow> 'l \<Rightarrow> string \<Rightarrow> (gofloat list \<Rightarrow> gofloat) \<Rightarrow> bool" where
  "body_reads_values lib lang body F \<longleftrightarrow>
     (\<forall>vars vs. map_of vars ''values'' = Some (VFloat64s vs) \<longrightarrow>
        gv_evaluate lib lang body vars = Inr (VFloat64 (F vs)))"

lemma collect_floats:
  assumes "cond_reads_metric lib cond P"
    and "\<forall>m \<in> set ms. msg_get_field api m ''value'' = Some (VFloat64 (val m))"
  shows "snd (collect lib api cond vars cv ms) =
         cv\<lparr>cv_Float64 := cv_Float64 cv @ map val (filter P ms),
            cv_matches := cv_matches cv @ filter P ms\<rparr>"
  using assms(2)
proof (induction ms arbitrary: vars cv)
  case (Cons m ms)
  have "gv_eval_bool lib cond (map_put ''metric'' (VMsg m) vars) = Inr (P m)"
    using assms(1) by (simp add: cond_reads_metric_def)
  with Cons show ?case by (simp add: Let_def add_value_def)
qed simp

lemma eval_loop_floats:
  assumes cond: "\<forall>f \<in> set fs. cond_reads_metric lib (ac_gvalCond f) (P f)"
    and body: "\<forall>f \<in> set fs. body_reads_values lib lang (ac_Function f) (F f)"
    and vals: "\<forall>m \<in> set ms. msg_get_field api m ''value'' = Some (VFloat64 (val m))"
    and new: "\<forall>n tags meta v. new_message api n tags meta [(''value'', VFloat64 v)] start =
                (Some (mk n tags meta v), True)"
  shows "eval_loop lib api lang start ms vars sent fs =
     Inr (sent @ map (\<lambda>f. mk (ac_Name f) (copy_tags api (ac_Tags f) (filter (P f) ms))
                            (copy_meta api (ac_Meta f) (filter (P f) ms))
                            (F f (map val (filter (P f) ms))))
                 (filter (\<lambda>f. \<exists>m \<in> set ms. P f m) fs))"
  using cond body
proof (induction fs arbitrary: vars sent)
  case (Cons f fs)
  obtain vars1 cv where col: "collect lib api (ac_gvalCond f) vars no_values ms = (vars1, cv)"
    by fastforce
  then have cv: "cv = no_values\<lparr>cv_Float64 := map val (filter (P f) ms), cv_matches := filter (P f) ms\<rparr>"
    using collect_floats [OF _ vals, of lib "ac_gvalCond f" "P f" vars no_values] Cons.prems(1)
    by (simp add: no_values_def)
  show ?case
  proof (cases "\<exists>m \<in> set ms. P f m")
    case True
    then have "filter (P f) ms \<noteq> []" by (simp add: filter_empty_conv)
    then have "pick_values cv = Some (VFloat64s (map val (filter (P f) ms)), length (filter (P f) ms))"
      by (simp add: pick_values_def cv)
    moreover have "gv_evaluate lib lang (ac_Function f) vs = Inr (VFloat64 (F f (map val (filter (P f) ms))))"
      if "map_of vs ''values'' = Some (VFloat64s (map val (filter (P f) ms)))" for vs
      using Cons.prems(2) that by (simp add: body_reads_values_def)
    ultimately show ?thesis
      using True Cons new by (simp add: col Let_def build_message_def cv)
  next
    case False
    then have "filter (P f) ms = []" by (simp add: filter_empty_conv)
    then have "pick_values cv = None" by (simp add: pick_values_def cv no_values_def)
    with False Cons show ?thesis by (auto simp: col Let_def)
  qed
qed simp

text \<open>C9: on metrics with float values, with conditions that read the current metric and
  bodies that read the collected values, \<open>Eval\<close> derives one metric for every function that
  matches something, in the order of the functions: it carries the function's value on
  exactly the matching metrics' values, in order, and the start of the interval.\<close>

theorem agg_Eval_floats:
  assumes "\<forall>f \<in> set (ag_functions c). cond_reads_metric lib (ac_gvalCond f) (P f)"
    and "\<forall>f \<in> set (ag_functions c). body_reads_values lib (ag_language c) (ac_Function f) (F f)"
    and "\<forall>m \<in> set ms. msg_get_field api m ''value'' = Some (VFloat64 (val m))"
    and "\<forall>n tags meta v. new_message api n tags meta [(''value'', VFloat64 v)] start =
           (Some (mk n tags meta v), True)"
  shows "agg_Eval lib api c start stop ms =
     Inr (map (\<lambda>f. mk (ac_Name f) (copy_tags api (ac_Tags f) (filter (P f) ms))
                     (copy_meta api (ac_Meta f) (filter (P f) ms))
                     (F f (map val (filter (P f) ms))))
           (filter (\<lambda>f. \<exists>m \<in> set ms. P f m) (ag_functions c)))"
  unfolding agg_Eval_def by (subst eval_loop_floats [OF assms]) simp

lemma first_function_picks:
  assumes "cond_reads_metric lib cond P" and "m \<in> set ms" and "P m"
    and "\<forall>m \<in> set ms. msg_get_field api m ''value'' = Some (VFloat64 (val m))"
  shows "pick_values (snd (collect lib api cond vars no_values ms)) =
         Some (VFloat64s (map val (filter P ms)), length (filter P ms))"
proof -
  have "filter P ms \<noteq> []" using assms(2,3) by (auto simp: filter_empty_conv)
  then show ?thesis
    by (simp add: collect_floats [OF assms(1,4)] pick_values_def no_values_def)
qed

text \<open>One function whose evaluation fails ends the whole evaluation: the functions
  after it derive nothing, although their own conditions and bodies are fine.\<close>

theorem agg_Eval_error_stops:
  assumes "ag_functions c = f # fs" and "m \<in> set ms" and "P m"
    and "cond_reads_metric lib (ac_gvalCond f) P"
    and "\<forall>m \<in> set ms. msg_get_field api m ''value'' = Some (VFloat64 (val m))"
    and "\<forall>vars. gv_evaluate lib (ag_language c) (ac_Function f) vars = Inl err"
  shows "agg_Eval lib api c start stop ms = Inr []"
  using first_function_picks [OF assms(4,2,3,5)] assms(1,6)
  by (simp add: agg_Eval_def Let_def case_prod_beta)

text \<open>A function whose result is none of the five handled types (for example the
  \<open>int32\<close> that \<open>sum\<close> returns for \<open>int32\<close> values, or a boolean) makes \<open>Eval\<close> dereference
  the nil message, whatever the message library does.\<close>

theorem agg_Eval_unhandled_type_panics:
  assumes "ag_functions c = f # fs" and "m \<in> set ms" and "P m"
    and "cond_reads_metric lib (ac_gvalCond f) P"
    and "\<forall>m \<in> set ms. msg_get_field api m ''value'' = Some (VFloat64 (val m))"
    and "\<forall>vars. gv_evaluate lib (ag_language c) (ac_Function f) vars = Inr v"
    and "\<forall>x i s. v \<noteq> VFloat64 x \<and> v \<noteq> VFloat32 x \<and> v \<noteq> VInt i \<and> v \<noteq> VInt64 i \<and> v \<noteq> VString s"
  shows "agg_Eval lib api c start stop ms = Inl NilDereference"
proof -
  have "build_message api n tags meta start v = Inl NilDereference" for n tags meta
    using assms(7) by (cases v) (auto simp: build_message_def Let_def)
  with first_function_picks [OF assms(4,2,3,5)] assms(1,6) show ?thesis
    by (simp add: agg_Eval_def Let_def case_prod_beta)
qed

subsection \<open>Witnesses\<close>

text \<open>An expression engine whose conditions are metric names and whose bodies are three words.\<close>

definition demo_gval :: "(demo_msg, string, unit) gval_lib" where
  "demo_gval =
     \<lparr>gv_language = (), gv_add_function = (\<lambda>l _ _. l), gv_new_evaluable = (\<lambda>s. Inr s),
      gv_eval_bool = (\<lambda>e vars. case map_of vars ''metric'' of
         Some (VMsg m) \<Rightarrow> Inr (demo_name m = e) | _ \<Rightarrow> Inl (GoError ''no metric'')),
      gv_evaluate = (\<lambda>l body vars.
         if body = ''fail'' then Inl (GoError ''fail'')
         else if body = ''int32'' then Inr (VInt32 1)
         else case map_of vars ''values'' of
             Some (VFloat64s vs) \<Rightarrow> Inr (VFloat64 (sum_loop (num_float binary64) (Num 0) vs))
           | _ \<Rightarrow> Inl (GoError ''no values''))\<rparr>"

definition demo_metric :: "string \<Rightarrow> string \<Rightarrow> rat \<Rightarrow> demo_msg" where
  "demo_metric n host v = DemoMsg n [(''host'', host)] [] [(''value'', VFloat64 (Num v))] 5"

definition demo_config :: "string \<Rightarrow> string \<Rightarrow> string \<Rightarrow> string MetricAggregatorIntervalConfig" where
  "demo_config n body cond =
     \<lparr>ac_Name = n, ac_Function = body, ac_Condition = cond,
      ac_Tags = [(''type'', ''node''), (''host'', ''<copy>'')], ac_Meta = [],
      ac_gvalCond = cond, ac_gvalFunc = body\<rparr>"

definition demo_agg :: "string MetricAggregatorIntervalConfig list \<Rightarrow> (demo_msg, string, unit) metricAggregator" where
  "demo_agg fs = \<lparr>ag_functions = fs, ag_constants = [], ag_language = ()\<rparr>"

definition demo_metrics :: "demo_msg list" where
  "demo_metrics = [demo_metric ''temp'' ''a'' 1, demo_metric ''load'' ''a'' 7, demo_metric ''temp'' ''b'' 2]"

definition demo_val :: "demo_msg \<Rightarrow> gofloat" where
  "demo_val m = (case map_of (demo_fields m) ''value'' of Some (VFloat64 x) \<Rightarrow> x | _ \<Rightarrow> NaN)"

lemma demo_cond: "cond_reads_metric demo_gval e (\<lambda>m. demo_name m = e)"
  by (simp add: cond_reads_metric_def demo_gval_def)

lemma demo_body:
  "body \<noteq> ''fail'' \<Longrightarrow> body \<noteq> ''int32'' \<Longrightarrow>
   body_reads_values demo_gval () body (sum_loop (num_float binary64) (Num 0))"
  by (simp add: body_reads_values_def demo_gval_def)

lemma demo_values: "\<forall>m \<in> set demo_metrics. msg_get_field demo_api m ''value'' = Some (VFloat64 (demo_val m))"
  by (simp add: demo_metrics_def demo_metric_def demo_api_def demo_val_def)


theorem copy_tags_last_match_witness:
  "map_of (copy_tags demo_api [(''type'', ''node''), (''host'', ''<copy>'')] demo_metrics) ''host'' = Some ''b''"
  using copy_tags_last_match [of "[(''type'', ''node''), (''host'', ''<copy>'')]" demo_api demo_metrics "''host''"]
  by (simp add: demo_metrics_def demo_metric_def demo_api_def)

theorem agg_Eval_floats_witness:
  "\<exists>ts1 ts2. agg_Eval demo_gval demo_api (demo_agg [demo_config ''s'' ''sum'' ''temp'',
       demo_config ''n'' ''sum'' ''none'', demo_config ''l'' ''sum'' ''load'']) 5 9 demo_metrics =
     Inr [DemoMsg ''s'' ts1 [] [(''value'', VFloat64 (fadd binary64 (fadd binary64 (Num 0) (Num 1)) (Num 2)))] 5,
          DemoMsg ''l'' ts2 [] [(''value'', VFloat64 (fadd binary64 (Num 0) (Num 7)))] 5]"
proof -
  let ?c = "demo_agg [demo_config ''s'' ''sum'' ''temp'', demo_config ''n'' ''sum'' ''none'',
       demo_config ''l'' ''sum'' ''load'']"
  have 1: "\<forall>f \<in> set (ag_functions ?c). cond_reads_metric demo_gval (ac_gvalCond f) (\<lambda>m. demo_name m = ac_gvalCond f)"
    by (simp add: demo_agg_def demo_cond)
  have 2: "\<forall>f \<in> set (ag_functions ?c). body_reads_values demo_gval (ag_language ?c) (ac_Function f)
      (sum_loop (num_float binary64) (Num 0))"
    by (simp add: demo_agg_def demo_config_def demo_body)
  have 3: "\<forall>n tags meta v. new_message demo_api n tags meta [(''value'', VFloat64 v)] 5 =
      (Some (DemoMsg n tags meta [(''value'', VFloat64 v)] 5), True)"
    by (simp add: demo_api_def)
  show ?thesis
    using agg_Eval_floats [where P = "\<lambda>f m. demo_name m = ac_gvalCond f"
        and F = "\<lambda>f. sum_loop (num_float binary64) (Num 0)"
        and mk = "\<lambda>n tags meta v. DemoMsg n tags meta [(''value'', VFloat64 v)] 5",
        OF 1 2 demo_values 3, of 9]
    by (simp add: demo_agg_def demo_config_def demo_metrics_def demo_metric_def demo_val_def
        copy_meta_def num_float_def)
qed

theorem agg_Eval_error_stops_witness:
  "agg_Eval demo_gval demo_api (demo_agg [demo_config ''x'' ''fail'' ''temp'',
     demo_config ''l'' ''sum'' ''load'']) 5 9 demo_metrics = Inr []"
proof -
  let ?f = "demo_config ''x'' ''fail'' ''temp''"
  have m: "demo_metric ''temp'' ''a'' 1 \<in> set demo_metrics" by (simp add: demo_metrics_def)
  have c: "cond_reads_metric demo_gval (ac_gvalCond ?f) (\<lambda>m. demo_name m = ''temp'')"
    using demo_cond [of "''temp''"] by (simp add: demo_config_def)
  show ?thesis
    by (rule agg_Eval_error_stops [OF _ m _ c demo_values, where err = "GoError ''fail''"])
      (simp_all add: demo_agg_def demo_metric_def demo_gval_def demo_config_def)
qed

theorem agg_Eval_unhandled_type_panics_witness:
  "agg_Eval demo_gval demo_api (demo_agg [demo_config ''x'' ''int32'' ''temp'']) 5 9 demo_metrics =
   Inl NilDereference"
proof -
  let ?f = "demo_config ''x'' ''int32'' ''temp''"
  have m: "demo_metric ''temp'' ''a'' 1 \<in> set demo_metrics" by (simp add: demo_metrics_def)
  have c: "cond_reads_metric demo_gval (ac_gvalCond ?f) (\<lambda>m. demo_name m = ''temp'')"
    using demo_cond [of "''temp''"] by (simp add: demo_config_def)
  show ?thesis
    by (rule agg_Eval_unhandled_type_panics [OF _ m _ c demo_values, where v = "VInt32 1"])
      (simp_all add: demo_agg_def demo_metric_def demo_gval_def demo_config_def)
qed

end
