(* ===== verification/Metric_Cache.thy ===== *)
theory Metric_Cache
  imports Aggregator
begin

text \<open>
  \<open>internal/metricRouter/metricCache.go\<close>: the round-robin buffer of the metrics of an
  interval. \<open>Add\<close> runs in the router's goroutine, the tick handler of \<open>Start\<close> in the cache's
  own; both hold the lock while they touch the periods, so each is one operation on the
  state here. The handler returns the messages the aggregator tries to send.
\<close>

subsection \<open>State\<close>

record 'm metricCachePeriod =
  cp_startstamp :: gotime
  cp_stopstamp :: gotime
  cp_numMetrics :: int
  cp_sizeMetrics :: int
  cp_metrics :: "'m list"

record ('m, 'e, 'l) metricCache =
  mc_numPeriods :: int
  mc_curPeriod :: int
  mc_intervals :: "'m metricCachePeriod list"
  mc_aggEngine :: "('m, 'e, 'l) metricAggregator"

definition new_period :: "'m metricCachePeriod" where
  "new_period = \<lparr>cp_startstamp = 0, cp_stopstamp = 0, cp_numMetrics = 0, cp_sizeMetrics = 0, cp_metrics = []\<rparr>"

definition cache_Init ::
  "('m, 'e, 'l) gval_lib \<Rightarrow> topo_cache \<Rightarrow> string option \<Rightarrow> int \<Rightarrow> goerror + ('m, 'e, 'l) metricCache" where
  "cache_Init lib tc hostname numPeriods =
     (case agg_Init lib tc hostname of
        Inl err \<Rightarrow> Inl err
      | Inr engine \<Rightarrow>
          Inr \<lparr>mc_numPeriods = numPeriods, mc_curPeriod = 0,
               mc_intervals = replicate (nat (numPeriods + 1)) new_period, mc_aggEngine = engine\<rparr>)"

subsection \<open>Operations\<close>

definition upd_period ::
  "int \<Rightarrow> ('m metricCachePeriod \<Rightarrow> 'm metricCachePeriod) \<Rightarrow> ('m, 'e, 'l) metricCache \<Rightarrow>
   ('m, 'e, 'l) metricCache run" where
  "upd_period i f c =
     run_bind (at_index (mc_intervals c) i)
       (\<lambda>p. Inr (c\<lparr>mc_intervals := (mc_intervals c)[nat i := f p]\<rparr>))"

text \<open>\<open>Add\<close>: overwrite a slot of an earlier interval, or append. A nil metric panics in \<open>Time()\<close>.\<close>

definition cache_Add ::
  "'m msg_api \<Rightarrow> 'm option \<Rightarrow> ('m, 'e, 'l) metricCache \<Rightarrow> ('m, 'e, 'l) metricCache run" where
  "cache_Add api metric c =
     (if 0 \<le> mc_curPeriod c \<and> mc_curPeriod c < mc_numPeriods c then
        run_bind (at_index (mc_intervals c) (mc_curPeriod c)) (\<lambda>p.
          case metric of
            None \<Rightarrow> Inl NilDereference
          | Some m \<Rightarrow>
              if cp_numMetrics p < cp_sizeMetrics p then
                run_bind (at_index (cp_metrics p) (cp_numMetrics p)) (\<lambda>_.
                  upd_period (mc_curPeriod c)
                    (\<lambda>p. p\<lparr>cp_metrics := (cp_metrics p)[nat (cp_numMetrics p) := m],
                          cp_numMetrics := cp_numMetrics p + 1, cp_stopstamp := msg_time api m\<rparr>) c)
              else
                upd_period (mc_curPeriod c)
                  (\<lambda>p. p\<lparr>cp_metrics := cp_metrics p @ [m], cp_numMetrics := cp_numMetrics p + 1,
                        cp_sizeMetrics := cp_sizeMetrics p + 1, cp_stopstamp := msg_time api m\<rparr>) c)
      else Inr c)"

definition cache_AddAggregation ::
  "('m, 'e, 'l) gval_lib \<Rightarrow> string \<Rightarrow> string \<Rightarrow> string \<Rightarrow> tagmap \<Rightarrow> tagmap \<Rightarrow>
   ('m, 'e, 'l) metricCache \<Rightarrow> ('m, 'e, 'l) metricCache \<times> goerror option" where
  "cache_AddAggregation lib name function condition tags meta c =
     (case AddAggregation lib name function condition tags meta (mc_aggEngine c) of
        (engine, err) \<Rightarrow> (c\<lparr>mc_aggEngine := engine\<rparr>, err))"

definition cache_DeleteAggregation ::
  "string \<Rightarrow> ('m, 'e, 'l) metricCache \<Rightarrow> ('m, 'e, 'l) metricCache \<times> goerror option" where
  "cache_DeleteAggregation name c =
     (case DeleteAggregation name (mc_aggEngine c) of
        (engine, err) \<Rightarrow> (c\<lparr>mc_aggEngine := engine\<rparr>, err))"

text \<open>\<open>rotate\<close>: the new state and the old period. The four stores happen in this order.\<close>

definition rotate_periods ::
  "gotime \<Rightarrow> ('m, 'e, 'l) metricCache \<Rightarrow> (('m, 'e, 'l) metricCache \<times> int) run" where
  "rotate_periods timestamp c =
     (let oldPeriod = mc_curPeriod c;
          cur = (if oldPeriod + 1 \<ge> mc_numPeriods c then 0 else oldPeriod + 1);
          c1 = c\<lparr>mc_curPeriod := cur\<rparr>
      in run_bind (upd_period oldPeriod (\<lambda>p. p\<lparr>cp_numMetrics := 0, cp_stopstamp := timestamp\<rparr>) c1) (\<lambda>c2.
         run_bind (upd_period cur (\<lambda>p. p\<lparr>cp_startstamp := timestamp, cp_stopstamp := timestamp\<rparr>) c2) (\<lambda>c3.
         Inr (c3, oldPeriod))))"

text \<open>\<open>now\<close> is what \<open>time.Now()\<close> returns: the stamps of a wrong index.\<close>

definition GetPeriod ::
  "gotime \<Rightarrow> int \<Rightarrow> ('m, 'e, 'l) metricCache \<Rightarrow> (gotime \<times> gotime \<times> 'm list) run" where
  "GetPeriod now index c =
     (if 0 \<le> index \<and> index < mc_numPeriods c then
        (let d = mc_curPeriod c - index; pindex = (if d < 0 then mc_numPeriods c - d else d) in
         if 0 \<le> pindex \<and> pindex < mc_numPeriods c then
           run_bind (at_index (mc_intervals c) pindex)
             (\<lambda>p. Inr (cp_startstamp p, cp_stopstamp p, cp_metrics p))
         else Inr (now, now, []))
      else Inr (now, now, []))"

text \<open>The tick case of the cache's goroutine.\<close>

definition cache_tick ::
  "('m, 'e, 'l) gval_lib \<Rightarrow> 'm msg_api \<Rightarrow> gotime \<Rightarrow> gotime \<Rightarrow> ('m, 'e, 'l) metricCache \<Rightarrow>
   (('m, 'e, 'l) metricCache \<times> 'm list) run" where
  "cache_tick lib api now tick c =
     run_bind (rotate_periods tick c) (\<lambda>(c', old).
     run_bind (GetPeriod now old c') (\<lambda>(starttime, endtime, metrics).
       if length metrics > 0 then
         run_bind (agg_Eval lib api (mc_aggEngine c') starttime endtime metrics) (\<lambda>sent. Inr (c', sent))
       else Inr (c', [])))"

subsection \<open>Invariant\<close>

definition period_ok :: "'m metricCachePeriod \<Rightarrow> bool" where
  "period_ok p = (0 \<le> cp_numMetrics p \<and> cp_numMetrics p \<le> cp_sizeMetrics p \<and>
                  cp_sizeMetrics p = int (length (cp_metrics p)))"

definition cache_ok :: "('m, 'e, 'l) metricCache \<Rightarrow> bool" where
  "cache_ok c = (0 \<le> mc_curPeriod c \<and> mc_curPeriod c < mc_numPeriods c \<and>
                 int (length (mc_intervals c)) = mc_numPeriods c + 1 \<and>
                 (\<forall>p \<in> set (mc_intervals c). period_ok p))"

lemma cache_okD:
  assumes "cache_ok c" and "0 \<le> i" and "i < mc_numPeriods c"
  shows "i < int (length (mc_intervals c))" and "nat i < length (mc_intervals c)"
    and "period_ok (mc_intervals c ! nat i)"
proof -
  show "i < int (length (mc_intervals c))" using assms by (simp add: cache_ok_def)
  then show n: "nat i < length (mc_intervals c)" using assms(2) by linarith
  show "period_ok (mc_intervals c ! nat i)"
    using assms(1) nth_mem [OF n] by (simp add: cache_ok_def)
qed

lemma cache_ok_Init:
  "0 < n \<Longrightarrow> cache_Init lib tc hostname n = Inr c \<Longrightarrow> cache_ok c"
  by (auto simp: cache_Init_def cache_ok_def new_period_def period_ok_def split: sum.splits)

lemma upd_period_eq:
  assumes "cache_ok c" and "0 \<le> i" and "i < mc_numPeriods c"
  shows "upd_period i f c =
         Inr (c\<lparr>mc_intervals := (mc_intervals c)[nat i := f (mc_intervals c ! nat i)]\<rparr>)"
  using cache_okD [OF assms] assms(2) by (simp add: upd_period_def at_index_def)

lemma cache_ok_upd:
  assumes "cache_ok c" and "0 \<le> i" and "i < mc_numPeriods c" and "period_ok p"
  shows "cache_ok (c\<lparr>mc_intervals := (mc_intervals c)[nat i := p]\<rparr>)"
  using assms by (auto simp: cache_ok_def dest: set_update_subset_insert [THEN subsetD])

text \<open>\<open>Add\<close> in one equation: what happens to the current period.\<close>

definition store_metric :: "'m msg_api \<Rightarrow> 'm \<Rightarrow> 'm metricCachePeriod \<Rightarrow> 'm metricCachePeriod" where
  "store_metric api m p =
     (let n = nat (cp_numMetrics p) in
      p\<lparr>cp_metrics := take n (cp_metrics p) @ m # drop (n + 1) (cp_metrics p),
        cp_numMetrics := cp_numMetrics p + 1,
        cp_sizeMetrics := max (cp_sizeMetrics p) (cp_numMetrics p + 1),
        cp_stopstamp := msg_time api m\<rparr>)"

lemma period_ok_store: "period_ok p \<Longrightarrow> period_ok (store_metric api m p)"
  by (auto simp: period_ok_def store_metric_def Let_def)

lemma store_overwrite:
  assumes "period_ok p" and "cp_numMetrics p < cp_sizeMetrics p"
  shows "p\<lparr>cp_metrics := (cp_metrics p)[nat (cp_numMetrics p) := m],
           cp_numMetrics := cp_numMetrics p + 1, cp_stopstamp := msg_time api m\<rparr> = store_metric api m p"
  using assms by (cases p) (auto simp: store_metric_def period_ok_def Let_def upd_conv_take_nth_drop)

lemma store_append:
  assumes "period_ok p" and "\<not> cp_numMetrics p < cp_sizeMetrics p"
  shows "p\<lparr>cp_metrics := cp_metrics p @ [m], cp_numMetrics := cp_numMetrics p + 1,
           cp_sizeMetrics := cp_sizeMetrics p + 1, cp_stopstamp := msg_time api m\<rparr> = store_metric api m p"
  using assms by (cases p) (auto simp: store_metric_def period_ok_def Let_def)

lemma cache_Add_eq:
  assumes "cache_ok c"
  shows "cache_Add api (Some m) c =
         Inr (c\<lparr>mc_intervals := (mc_intervals c)[nat (mc_curPeriod c) :=
                store_metric api m (mc_intervals c ! nat (mc_curPeriod c))]\<rparr>)"
proof -
  have cur: "0 \<le> mc_curPeriod c" "mc_curPeriod c < mc_numPeriods c" using assms by (simp_all add: cache_ok_def)
  note p = cache_okD [OF assms cur]
  note upd = upd_period_eq [OF assms cur]
  show ?thesis
  proof (cases "cp_numMetrics (mc_intervals c ! nat (mc_curPeriod c)) <
                cp_sizeMetrics (mc_intervals c ! nat (mc_curPeriod c))")
    case True
    moreover from True p(3) have "0 \<le> cp_numMetrics (mc_intervals c ! nat (mc_curPeriod c))"
        "cp_numMetrics (mc_intervals c ! nat (mc_curPeriod c)) <
         int (length (cp_metrics (mc_intervals c ! nat (mc_curPeriod c))))"
      by (simp_all add: period_ok_def)
    ultimately show ?thesis
      using p cur store_overwrite [OF p(3) True] by (simp add: cache_Add_def at_index_def upd)
  next
    case False
    then show ?thesis
      using p cur store_append [OF p(3) False] by (simp add: cache_Add_def at_index_def upd)
  qed
qed

lemma cache_ok_Add:
  assumes "cache_ok c" and "cache_Add api (Some m) c = Inr c'"
  shows "cache_ok c'"
proof -
  have cur: "0 \<le> mc_curPeriod c" "mc_curPeriod c < mc_numPeriods c" using assms(1) by (simp_all add: cache_ok_def)
  from assms(2) have "c' = c\<lparr>mc_intervals := (mc_intervals c)[nat (mc_curPeriod c) :=
                store_metric api m (mc_intervals c ! nat (mc_curPeriod c))]\<rparr>"
    by (simp add: cache_Add_eq [OF assms(1)])
  then show ?thesis
    using cache_ok_upd [OF assms(1) cur period_ok_store [OF cache_okD(3) [OF assms(1) cur]]] by simp
qed

definition next_period :: "('m, 'e, 'l) metricCache \<Rightarrow> int" where
  "next_period c = (if mc_curPeriod c + 1 \<ge> mc_numPeriods c then 0 else mc_curPeriod c + 1)"

lemma next_period_bounds:
  "cache_ok c \<Longrightarrow> 0 \<le> next_period c \<and> next_period c < mc_numPeriods c"
  by (auto simp: next_period_def cache_ok_def)

lemma rotate_periods_eq:
  assumes "cache_ok c"
  shows "\<exists>c'. rotate_periods timestamp c = Inr (c', mc_curPeriod c) \<and> cache_ok c' \<and>
     mc_curPeriod c' = next_period c \<and> mc_numPeriods c' = mc_numPeriods c \<and>
     mc_aggEngine c' = mc_aggEngine c \<and>
     (\<forall>i. 0 \<le> i \<and> i < mc_numPeriods c \<longrightarrow>
        cp_metrics (mc_intervals c' ! nat i) = cp_metrics (mc_intervals c ! nat i)) \<and>
     cp_startstamp (mc_intervals c' ! nat (next_period c)) = timestamp \<and>
     cp_stopstamp (mc_intervals c' ! nat (next_period c)) = timestamp \<and>
     cp_numMetrics (mc_intervals c' ! nat (mc_curPeriod c)) = 0"
proof -
  let ?old = "mc_curPeriod c" and ?cur = "next_period c"
  have old: "0 \<le> ?old" "?old < mc_numPeriods c" using assms by (simp_all add: cache_ok_def)
  have cur: "0 \<le> ?cur" "?cur < mc_numPeriods c" using next_period_bounds [OF assms] by simp_all
  define c1 where "c1 = c\<lparr>mc_curPeriod := ?cur\<rparr>"
  have ok1: "cache_ok c1" and n1: "mc_numPeriods c1 = mc_numPeriods c"
    using assms cur by (simp_all add: c1_def cache_ok_def)
  define p1 where "p1 = (mc_intervals c ! nat ?old)\<lparr>cp_numMetrics := 0, cp_stopstamp := timestamp\<rparr>"
  have p1: "period_ok p1" using cache_okD(3) [OF assms old] by (simp add: p1_def period_ok_def)
  define c2 where "c2 = c1\<lparr>mc_intervals := (mc_intervals c1)[nat ?old := p1]\<rparr>"
  have u1: "upd_period ?old (\<lambda>p. p\<lparr>cp_numMetrics := 0, cp_stopstamp := timestamp\<rparr>) c1 = Inr c2"
    using upd_period_eq [OF ok1, of ?old] old n1 by (simp add: c2_def p1_def c1_def)
  have ok2: "cache_ok c2" and n2: "mc_numPeriods c2 = mc_numPeriods c"
    using cache_ok_upd [OF ok1 _ _ p1, of ?old] old n1 by (simp_all add: c2_def)
  define p2 where "p2 = (mc_intervals c2 ! nat ?cur)\<lparr>cp_startstamp := timestamp, cp_stopstamp := timestamp\<rparr>"
  have p2: "period_ok p2" using cache_okD(3) [OF ok2, of ?cur] cur n2 by (simp add: p2_def period_ok_def)
  define c3 where "c3 = c2\<lparr>mc_intervals := (mc_intervals c2)[nat ?cur := p2]\<rparr>"
  have u2: "upd_period ?cur (\<lambda>p. p\<lparr>cp_startstamp := timestamp, cp_stopstamp := timestamp\<rparr>) c2 = Inr c3"
    using upd_period_eq [OF ok2, of ?cur] cur n2 by (simp add: c3_def p2_def)
  have ok3: "cache_ok c3"
    using cache_ok_upd [OF ok2 _ _ p2, of ?cur] cur n2 by (simp add: c3_def)
  have rot: "rotate_periods timestamp c = Inr (c3, ?old)"
    unfolding rotate_periods_def next_period_def [symmetric] Let_def using u1 u2 by (simp add: c1_def)
  have len: "nat ?old < length (mc_intervals c)" "nat ?cur < length (mc_intervals c)"
    using cache_okD(2) [OF assms old] cache_okD(2) [OF assms cur] by simp_all
  have "mc_intervals c3 = (mc_intervals c)[nat ?old := p1, nat ?cur := p2]"
    by (simp add: c3_def c2_def c1_def)
  with len ok3 rot show ?thesis
    by (auto simp: nth_list_update p1_def p2_def c3_def c2_def c1_def)
qed

lemma GetPeriod_eq:
  assumes "cache_ok c"
  shows "GetPeriod now index c =
     Inr (if 0 \<le> index \<and> index \<le> mc_curPeriod c
          then (let p = mc_intervals c ! nat (mc_curPeriod c - index)
                in (cp_startstamp p, cp_stopstamp p, cp_metrics p))
          else (now, now, []))"
proof -
  have cur: "0 \<le> mc_curPeriod c" "mc_curPeriod c < mc_numPeriods c" "int (length (mc_intervals c)) = mc_numPeriods c + 1"
    using assms by (simp_all add: cache_ok_def)
  then show ?thesis by (auto simp: GetPeriod_def Let_def at_index_def)
qed

text \<open>The tick handler, with the index arithmetic of \<open>GetPeriod(old)\<close> carried out.\<close>

lemma cache_tick_eq:
  assumes "cache_ok c"
  shows "\<exists>c'. rotate_periods tick c = Inr (c', mc_curPeriod c) \<and> cache_ok c' \<and>
     cache_tick lib api now tick c =
       (if mc_curPeriod c \<le> next_period c \<and>
           cp_metrics (mc_intervals c ! nat (next_period c - mc_curPeriod c)) \<noteq> []
        then (let p = mc_intervals c' ! nat (next_period c - mc_curPeriod c)
              in map_sum id (Pair c')
                   (agg_Eval lib api (mc_aggEngine c) (cp_startstamp p) (cp_stopstamp p) (cp_metrics p)))
        else Inr (c', []))"
proof -
  obtain c' where c': "rotate_periods tick c = Inr (c', mc_curPeriod c)" "cache_ok c'"
      "mc_curPeriod c' = next_period c" "mc_aggEngine c' = mc_aggEngine c"
      "\<And>i. 0 \<le> i \<Longrightarrow> i < mc_numPeriods c \<Longrightarrow>
         cp_metrics (mc_intervals c' ! nat i) = cp_metrics (mc_intervals c ! nat i)"
    using rotate_periods_eq [OF assms, of tick] by auto
  have cur: "0 \<le> mc_curPeriod c" using assms by (simp add: cache_ok_def)
  have "cp_metrics (mc_intervals c' ! nat (next_period c - mc_curPeriod c)) =
        cp_metrics (mc_intervals c ! nat (next_period c - mc_curPeriod c))"
    if "mc_curPeriod c \<le> next_period c"
    using that cur next_period_bounds [OF assms] by (intro c'(5)) auto
  moreover have "run_bind r (\<lambda>sent. Inr (c', sent)) = map_sum id (Pair c') r" for r :: "'a list run"
    by (cases r) simp_all
  ultimately show ?thesis
    using c'(1-4) cur by (auto simp: cache_tick_def GetPeriod_eq [OF c'(2)] Let_def)
qed

subsection \<open>The interface the router relies on\<close>

text \<open>
  The router stores the messages of its collectors with \<open>Add\<close> while the cache's goroutine
  handles ticks. What it relies on: a stored message never panics and keeps the state
  well formed, storing nil panics, and a tick keeps the state well formed.
\<close>

locale message_cache =
  fixes add :: "'m option \<Rightarrow> 's \<Rightarrow> 's run"
    and tick :: "gotime \<Rightarrow> gotime \<Rightarrow> 's \<Rightarrow> ('s \<times> 'm list) run"
    and inv :: "'s \<Rightarrow> bool"
  assumes add_message: "inv s \<Longrightarrow> \<exists>s'. add (Some m) s = Inr s' \<and> inv s'"
    and add_nil: "inv s \<Longrightarrow> add None s = Inl NilDereference"
    and tick_inv: "inv s \<Longrightarrow> tick now t s = Inr (s', out) \<Longrightarrow> inv s'"
begin

lemma add_messages: "inv s \<Longrightarrow> \<exists>s'. run_fold (\<lambda>s m. add (Some m) s) s ms = Inr s' \<and> inv s'"
  by (rule run_fold_total) (auto intro: add_message)

lemma add_list_panics_iff:
  assumes "inv s"
  shows "(\<exists>p. run_fold (\<lambda>s m. add m s) s ms = Inl p) \<longleftrightarrow> None \<in> set ms"
  using assms
proof (induction ms arbitrary: s)
  case (Cons m ms)
  show ?case
  proof (cases m)
    case None
    with Cons.prems show ?thesis by (simp add: add_nil)
  next
    case (Some x)
    obtain s' where "add (Some x) s = Inr s'" "inv s'" using add_message [OF Cons.prems] by blast
    with Some Cons.IH show ?thesis by simp
  qed
qed simp

end

lemma cache_ok_tick: "cache_ok c \<Longrightarrow> cache_tick lib api now t c = Inr (c', out) \<Longrightarrow> cache_ok c'"
  using cache_tick_eq [of c t lib api now] by (auto simp: Let_def map_sum_def split: if_splits sum.splits)

lemma cache_Add_nil: "cache_ok c \<Longrightarrow> cache_Add api None c = Inl NilDereference"
  using cache_okD(1) [of c "mc_curPeriod c"] by (simp add: cache_Add_def at_index_def cache_ok_def)

lemma cache_Add_total: "cache_ok c \<Longrightarrow> \<exists>c'. cache_Add api (Some m) c = Inr c' \<and> cache_ok c'"
  using cache_Add_eq [of c api m] cache_ok_Add [of c api m] by blast

interpretation caches: message_cache "cache_Add api" "cache_tick lib api" cache_ok for api lib
  by unfold_locales (rule cache_Add_total cache_Add_nil cache_ok_tick; assumption)+

subsection \<open>What an interval leaves in its period\<close>

lemma fold_store:
  assumes "period_ok p"
  shows "period_ok (fold (store_metric api) ms p) \<and>
         cp_metrics (fold (store_metric api) ms p) =
           take (nat (cp_numMetrics p)) (cp_metrics p) @ ms @
           drop (nat (cp_numMetrics p) + length ms) (cp_metrics p)"
  using assms
proof (induction ms arbitrary: p)
  case (Cons m ms)
  have n: "nat (cp_numMetrics p) \<le> length (cp_metrics p)" "0 \<le> cp_numMetrics p"
    using Cons.prems by (auto simp: period_ok_def)
  then show ?case
    using Cons.IH [OF period_ok_store [OF Cons.prems, of api m]]
    by (simp add: store_metric_def Let_def nat_add_distrib min_def add.commute)
qed simp

lemma add_messages_eq:
  assumes "cache_ok c"
  shows "run_fold (\<lambda>c m. cache_Add api (Some m) c) c ms =
         Inr (c\<lparr>mc_intervals := (mc_intervals c)[nat (mc_curPeriod c) :=
                fold (store_metric api) ms (mc_intervals c ! nat (mc_curPeriod c))]\<rparr>)"
  using assms
proof (induction ms arbitrary: c)
  case (Cons m ms)
  have "nat (mc_curPeriod c) < length (mc_intervals c)"
    using Cons.prems cache_okD(2) [OF Cons.prems, of "mc_curPeriod c"] by (simp add: cache_ok_def)
  with Cons.IH [OF cache_ok_Add [OF Cons.prems cache_Add_eq [OF Cons.prems, of api m]]]
  show ?case by (simp add: cache_Add_eq [OF Cons.prems])
qed simp

subsection \<open>Properties\<close>

text \<open>C10: the periods of the cache stay well formed: the fill counter of every period lies
  within its slice, the current period is one of the configured ones, and neither storing
  a message nor a tick can index out of range.\<close>

theorem cache_invariant:
  "(0 < n \<longrightarrow> cache_Init lib tc hostname n = Inr c0 \<longrightarrow> cache_ok c0) \<and>
   (cache_ok c \<longrightarrow> (\<exists>c'. cache_Add api (Some m) c = Inr c' \<and> cache_ok c')) \<and>
   (cache_ok c \<longrightarrow> (\<exists>c' old. rotate_periods tick c = Inr (c', old) \<and> cache_ok c')) \<and>
   (cache_ok c \<longrightarrow> (\<exists>r. GetPeriod now i c = Inr r))"
  using cache_ok_Init [of n lib tc hostname c0] cache_Add_total [of c api m]
    rotate_periods_eq [of c tick] GetPeriod_eq [of c now i]
  by blast

text \<open>\<open>GetPeriod(index)\<close> never looks behind the start of the buffer: for an index up to
  the current position it returns that many periods back, for every larger index (which
  should wrap around to the end of the buffer) it returns nothing.\<close>

theorem GetPeriod_no_wrap:
  assumes "cache_ok c"
  shows "GetPeriod now index c =
     Inr (if 0 \<le> index \<and> index \<le> mc_curPeriod c
          then (let p = mc_intervals c ! nat (mc_curPeriod c - index)
                in (cp_startstamp p, cp_stopstamp p, cp_metrics p))
          else (now, now, []))"
  using assms by (rule GetPeriod_eq)

text \<open>With one cached interval, the messages \<open>ms\<close> stored since the last tick are
  evaluated at the next tick together with the messages of earlier intervals that \<open>ms\<close> did
  not overwrite; start and end time of the evaluation are both the tick itself.\<close>

theorem one_period_tick:
  assumes "cache_ok c" and "mc_numPeriods c = 1" and "cp_numMetrics (mc_intervals c ! 0) = 0"
    and "old = cp_metrics (mc_intervals c ! 0)"
    and "run_fold (\<lambda>c m. cache_Add api (Some m) c) c ms = Inr c1"
    and "seen = ms @ drop (length ms) old" and "seen \<noteq> []"
  shows "\<exists>c2. cache_tick lib api now tick c1 =
           map_sum id (Pair c2) (agg_Eval lib api (mc_aggEngine c) tick tick seen) \<and>
         cache_ok c2 \<and> cp_metrics (mc_intervals c2 ! 0) = seen \<and>
         cp_numMetrics (mc_intervals c2 ! 0) = 0"
proof -
  have cur: "mc_curPeriod c = 0" using assms(1,2) by (simp add: cache_ok_def)
  have len: "0 < length (mc_intervals c)" using cache_okD(2) [OF assms(1), of 0] assms(2) by simp
  have p: "period_ok (mc_intervals c ! 0)" using cache_okD(3) [OF assms(1), of 0] assms(2) by simp
  have c1: "c1 = c\<lparr>mc_intervals := (mc_intervals c)[0 := fold (store_metric api) ms (mc_intervals c ! 0)]\<rparr>"
    using assms(5) add_messages_eq [OF assms(1), of api ms] cur by simp
  have ok1: "cache_ok c1"
    using caches.add_messages [OF assms(1), of api ms] assms(5) by simp
  have seen: "cp_metrics (mc_intervals c1 ! 0) = seen"
    using fold_store [OF p, of api ms] len assms(3,4,6) by (simp add: c1)
  have n1: "next_period c1 = 0" "mc_curPeriod c1 = 0" "mc_numPeriods c1 = 1" "mc_aggEngine c1 = mc_aggEngine c"
    using assms(2) cur by (simp_all add: c1 next_period_def)
  obtain c2 where c2: "rotate_periods tick c1 = Inr (c2, 0)" "cache_ok c2"
      "cache_tick lib api now tick c1 = map_sum id (Pair c2) (agg_Eval lib api (mc_aggEngine c)
         (cp_startstamp (mc_intervals c2 ! 0)) (cp_stopstamp (mc_intervals c2 ! 0)) (cp_metrics (mc_intervals c2 ! 0)))"
    using cache_tick_eq [OF ok1, of tick lib api now] n1 seen assms(7) by (auto simp: Let_def)
  with rotate_periods_eq [OF ok1, of tick] n1 seen show ?thesis by (intro exI [of _ c2]) auto
qed

text \<open>With two or more cached intervals, a tick evaluates period 1 of the buffer, whichever
  period has just ended, and evaluates nothing when the buffer wraps around.\<close>

theorem many_periods_tick:
  assumes "cache_ok c" and "2 \<le> mc_numPeriods c"
  shows "\<exists>c'. cache_ok c' \<and> cache_tick lib api now tick c =
       (if mc_curPeriod c + 1 < mc_numPeriods c \<and> cp_metrics (mc_intervals c ! 1) \<noteq> []
        then map_sum id (Pair c') (agg_Eval lib api (mc_aggEngine c)
               (cp_startstamp (mc_intervals c' ! 1)) (cp_stopstamp (mc_intervals c' ! 1))
               (cp_metrics (mc_intervals c ! 1)))
        else Inr (c', []))"
proof -
  have cur: "0 \<le> mc_curPeriod c" "mc_curPeriod c < mc_numPeriods c" using assms(1) by (simp_all add: cache_ok_def)
  obtain c' where c': "cache_ok c'" "rotate_periods tick c = Inr (c', mc_curPeriod c)"
    "cache_tick lib api now tick c =
       (if mc_curPeriod c \<le> next_period c \<and>
           cp_metrics (mc_intervals c ! nat (next_period c - mc_curPeriod c)) \<noteq> []
        then (let p = mc_intervals c' ! nat (next_period c - mc_curPeriod c)
              in map_sum id (Pair c')
                   (agg_Eval lib api (mc_aggEngine c) (cp_startstamp p) (cp_stopstamp p) (cp_metrics p)))
        else Inr (c', []))"
    using cache_tick_eq [OF assms(1), of tick lib api now] by blast
  have "cp_metrics (mc_intervals c' ! 1) = cp_metrics (mc_intervals c ! 1)"
    using rotate_periods_eq [OF assms(1), of tick] c'(2) assms(2) by (auto dest: spec [of _ 1])
  moreover have "mc_curPeriod c \<le> next_period c \<longleftrightarrow> mc_curPeriod c + 1 < mc_numPeriods c"
    and "mc_curPeriod c + 1 < mc_numPeriods c \<Longrightarrow> next_period c - mc_curPeriod c = 1"
    using cur assms(2) by (auto simp: next_period_def)
  ultimately show ?thesis using c'(1,3) by (intro exI [of _ c']) (auto simp: Let_def)
qed

subsection \<open>Witnesses\<close>

definition demo_period :: "demo_msg list \<Rightarrow> demo_msg metricCachePeriod" where
  "demo_period ms = \<lparr>cp_startstamp = 0, cp_stopstamp = 0, cp_numMetrics = 0,
     cp_sizeMetrics = int (length ms), cp_metrics = ms\<rparr>"

definition demo_cache :: "int \<Rightarrow> demo_msg metricCachePeriod list \<Rightarrow> (demo_msg, string, unit) metricCache" where
  "demo_cache n ps = \<lparr>mc_numPeriods = n, mc_curPeriod = 0, mc_intervals = ps,
     mc_aggEngine = demo_agg [demo_config ''s'' ''sum'' ''temp'']\<rparr>"

lemma demo_cache_ok: "int (length ms) = n \<Longrightarrow> 0 < n \<Longrightarrow> cache_ok (demo_cache n (map demo_period (ms @ [[]])))"
  by (auto simp: cache_ok_def demo_cache_def demo_period_def period_ok_def)

lemma cache_invariant_witness:
  "\<exists>c'. cache_Add demo_api (Some (demo_metric ''temp'' ''a'' 1)) (demo_cache 1 [demo_period [], demo_period []]) = Inr c' \<and>
        cache_ok c'"
proof -
  have "cache_ok (demo_cache 1 [demo_period [], demo_period []])" using demo_cache_ok [of "[[]]" 1] by simp
  then show ?thesis
    using cache_invariant [where c = "demo_cache 1 [demo_period [], demo_period []]" and api = demo_api
      and m = "demo_metric ''temp'' ''a'' 1"] by blast
qed

lemma GetPeriod_no_wrap_witness:
  "GetPeriod 77 1 (demo_cache 2 (map demo_period [[], demo_metrics, []])) = Inr (77, 77, [])"
proof -
  have "cache_ok (demo_cache 2 (map demo_period [[], demo_metrics, []]))"
    using demo_cache_ok [of "[[], demo_metrics]" 2] by simp
  from GetPeriod_no_wrap [OF this, of 77 1] show ?thesis by (simp add: demo_cache_def)
qed

lemma one_period_tick_witness:
  "let m = demo_metric ''temp'' ''c'' 9;
       c = demo_cache 1 [demo_period demo_metrics, demo_period []];
       seen = m # tl demo_metrics in
   \<exists>c1 c2. run_fold (\<lambda>c m. cache_Add demo_api (Some m) c) c [m] = Inr c1 \<and>
     cache_tick demo_gval demo_api 0 30 c1 =
       map_sum id (Pair c2) (agg_Eval demo_gval demo_api (mc_aggEngine c) 30 30 seen)"
proof -
  define m where "m = demo_metric ''temp'' ''c'' 9"
  define c where "c = demo_cache 1 [demo_period demo_metrics, demo_period []]"
  have ok: "cache_ok c" using demo_cache_ok [of "[demo_metrics]" 1] by (simp add: c_def)
  have n: "mc_numPeriods c = 1" "cp_numMetrics (mc_intervals c ! 0) = 0"
      "demo_metrics = cp_metrics (mc_intervals c ! 0)"
    by (simp_all add: c_def demo_cache_def demo_period_def)
  obtain c1 where c1: "run_fold (\<lambda>c m. cache_Add demo_api (Some m) c) c [m] = Inr c1"
    using caches.add_messages [OF ok, of demo_api "[m]"] by auto
  have seen: "m # tl demo_metrics = [m] @ drop (length [m]) demo_metrics" "m # tl demo_metrics \<noteq> []"
    by (simp_all add: demo_metrics_def)
  from one_period_tick [OF ok n c1 seen, of demo_gval 0 30] c1
  show ?thesis unfolding Let_def m_def [symmetric] c_def [symmetric] by blast
qed

lemma many_periods_tick_witness:
  "\<exists>c'. cache_tick demo_gval demo_api 0 30 (demo_cache 2 (map demo_period [demo_metrics, [], []])) = Inr (c', [])"
proof -
  have "cache_ok (demo_cache 2 (map demo_period [demo_metrics, [], []]))"
    using demo_cache_ok [of "[demo_metrics, []]" 2] by simp
  from many_periods_tick [OF this, of demo_gval demo_api 0 30] obtain c' where
    "cache_tick demo_gval demo_api 0 30 (demo_cache 2 (map demo_period [demo_metrics, [], []])) = Inr (c', [])"
    by (auto simp: demo_cache_def demo_period_def)
  then show ?thesis by blast
qed

end
