(* ===== verification/Router_Core.thy ===== *)
theory Router_Core
  imports Metric_Cache
begin

text \<open>
  \<open>internal/metricRouter/metricRouter.go\<close>: configuration, \<open>Init\<close> and the three forwarding
  functions of the router. The message processor belongs to cc-lib, which is not part of
  this repository: its operations are the parameter \<open>mp_lib\<close>. Decoding the JSON
  configuration is left out; \<open>Init\<close> takes the decoded value.
\<close>

subsection \<open>Configuration\<close>

record metricRouterTagConfig =
  tag_Key :: string
  tag_Value :: string
  tag_Condition :: string

record metricRouterConfig =
  rc_HostnameTagName :: string
  rc_AddTags :: "metricRouterTagConfig list"
  rc_DelTags :: "metricRouterTagConfig list"
  rc_IntervalAgg :: "unit MetricAggregatorIntervalConfig list"
  rc_DropMetrics :: "string list"
  rc_DropMetricsIf :: "string list"
  rc_RenameMetrics :: "(string \<times> string) list"
  rc_IntervalStamp :: bool
  rc_NumCacheIntervals :: int
  rc_MaxForward :: int
  rc_NormalizeUnits :: bool
  rc_ChangeUnitPrefix :: "(string \<times> string) list"
  rc_MessageProcessor :: string

text \<open>What \<open>Init\<close> stores before it decodes the configuration file.\<close>

definition default_config :: metricRouterConfig where
  "default_config =
     \<lparr>rc_HostnameTagName = ''hostname'', rc_AddTags = [], rc_DelTags = [], rc_IntervalAgg = [],
      rc_DropMetrics = [], rc_DropMetricsIf = [], rc_RenameMetrics = [], rc_IntervalStamp = False,
      rc_NumCacheIntervals = 0, rc_MaxForward = 50, rc_NormalizeUnits = False,
      rc_ChangeUnitPrefix = [], rc_MessageProcessor = []\<rparr>"

text \<open>
  The message processor. \<open>ProcessMessage\<close> returns the message to forward (\<open>None\<close> for nil:
  the message is dropped) and whether the error is nil.
\<close>

record ('m, 'p) mp_lib =
  NewMessageProcessor :: "goerror + 'p"
  FromConfigJSON :: "string \<Rightarrow> 'p \<Rightarrow> goerror + 'p"
  AddDropMessagesByName :: "string \<Rightarrow> 'p \<Rightarrow> goerror + 'p"
  AddDropMessagesByCondition :: "string \<Rightarrow> 'p \<Rightarrow> goerror + 'p"
  AddAddTagsByCondition :: "string \<Rightarrow> string \<Rightarrow> string \<Rightarrow> 'p \<Rightarrow> goerror + 'p"
  AddDeleteTagsByCondition :: "string \<Rightarrow> string \<Rightarrow> string \<Rightarrow> 'p \<Rightarrow> goerror + 'p"
  AddRenameMetricByName :: "string \<Rightarrow> string \<Rightarrow> 'p \<Rightarrow> goerror + 'p"
  AddChangeUnitPrefix :: "string \<Rightarrow> string \<Rightarrow> 'p \<Rightarrow> goerror + 'p"
  SetNormalizeUnits :: "bool \<Rightarrow> 'p \<Rightarrow> 'p"
  ProcessMessage :: "'p \<Rightarrow> 'm \<Rightarrow> 'm option \<times> bool"

subsection \<open>State and Init\<close>

record ('m, 'e, 'l, 'p) metricRouter =
  mr_hostname :: string
  mr_outputs :: "'m list list" \<comment> \<open>per output channel: everything sent to it\<close>
  mr_timestamp :: gotime
  mr_config :: metricRouterConfig
  mr_cache :: "('m, 'e, 'l) metricCache option"
  mr_maxForward :: int
  mr_mp :: 'p

text \<open>A loop of \<open>Init\<close> over configuration entries, left at the first error.\<close>

fun err_fold :: "('a \<Rightarrow> 's \<Rightarrow> goerror + 's) \<Rightarrow> 'a list \<Rightarrow> 's \<Rightarrow> goerror + 's" where
  "err_fold f [] s = Inr s"
| "err_fold f (x # xs) s = (case f x s of Inl err \<Rightarrow> Inl err | Inr s' \<Rightarrow> err_fold f xs s')"

definition err_bind :: "goerror + 'a \<Rightarrow> ('a \<Rightarrow> goerror + 'b) \<Rightarrow> goerror + 'b" where
  "err_bind r f = (case r of Inl err \<Rightarrow> Inl err | Inr x \<Rightarrow> f x)"

definition star_true :: "string \<Rightarrow> string" where
  "star_true cond = (if cond = ''*'' then ''true'' else cond)"

text \<open>The cache part of \<open>Init\<close>.\<close>

definition init_cache ::
  "('m, 'e, 'l) gval_lib \<Rightarrow> topo_cache \<Rightarrow> string option \<Rightarrow> metricRouterConfig \<Rightarrow>
   goerror + ('m, 'e, 'l) metricCache option" where
  "init_cache lib tc hostname cfg =
     (if rc_NumCacheIntervals cfg > 0 then
        err_bind (cache_Init lib tc hostname (rc_NumCacheIntervals cfg)) (\<lambda>c.
        err_bind (err_fold (\<lambda>a c. case cache_AddAggregation lib (ac_Name a) (ac_Function a) (ac_Condition a)
                                         (ac_Tags a) (ac_Meta a) c of
                                    (c', None) \<Rightarrow> Inr c' | (_, Some err) \<Rightarrow> Inl err)
                    (rc_IntervalAgg cfg) c) (\<lambda>c. Inr (Some c)))
      else Inr None)"

text \<open>The message processor part of \<open>Init\<close>, rule by rule in the order of the source.\<close>

definition init_processor :: "('m, 'p) mp_lib \<Rightarrow> metricRouterConfig \<Rightarrow> string \<Rightarrow> goerror + 'p" where
  "init_processor mp cfg host =
     err_bind (NewMessageProcessor mp) (\<lambda>p.
     err_bind (if rc_MessageProcessor cfg \<noteq> [] then FromConfigJSON mp (rc_MessageProcessor cfg) p else Inr p) (\<lambda>p.
     err_bind (err_fold (AddDropMessagesByName mp) (rc_DropMetrics cfg) p) (\<lambda>p.
     err_bind (err_fold (AddDropMessagesByCondition mp) (rc_DropMetricsIf cfg) p) (\<lambda>p.
     err_bind (err_fold (\<lambda>d. AddAddTagsByCondition mp (star_true (tag_Condition d)) (tag_Key d) (tag_Value d))
                 (rc_AddTags cfg) p) (\<lambda>p.
     err_bind (err_fold (\<lambda>d. AddDeleteTagsByCondition mp (star_true (tag_Condition d)) (tag_Key d) (tag_Value d))
                 (rc_DelTags cfg) p) (\<lambda>p.
     err_bind (err_fold (\<lambda>(old, new). AddRenameMetricByName mp old new) (rc_RenameMetrics cfg) p) (\<lambda>p.
     err_bind (err_fold (\<lambda>(name, prefix). AddChangeUnitPrefix mp (''name == '' @ [CHR 0x27] @ name @ [CHR 0x27]) prefix)
                 (rc_ChangeUnitPrefix cfg) p) (\<lambda>p.
     AddAddTagsByCondition mp (''!msg.HasTag('' @ [CHR 0x27] @ rc_HostnameTagName cfg @ [CHR 0x27] @ '')'')
       (rc_HostnameTagName cfg) host (SetNormalizeUnits mp (rc_NormalizeUnits cfg) p)))))))))"

definition router_Init ::
  "('m, 'e, 'l) gval_lib \<Rightarrow> ('m, 'p) mp_lib \<Rightarrow> topo_cache \<Rightarrow> string option \<Rightarrow> metricRouterConfig \<Rightarrow>
   goerror + ('m, 'e, 'l, 'p) metricRouter" where
  "router_Init lib mp tc hostname cfg =
     (case hostname of
        None \<Rightarrow> Inl (GoError ''hostname'')
      | Some h \<Rightarrow>
          (let host = before_sep (CHR ''.'') h in
           err_bind (init_cache lib tc hostname cfg) (\<lambda>cache.
           err_bind (init_processor mp cfg host) (\<lambda>p.
           Inr \<lparr>mr_hostname = host, mr_outputs = [], mr_timestamp = 0, mr_config = cfg,
                mr_cache = cache, mr_maxForward = max 1 (rc_MaxForward cfg), mr_mp = p\<rparr>))))"

definition AddOutput :: "('m, 'e, 'l, 'p) metricRouter \<Rightarrow> ('m, 'e, 'l, 'p) metricRouter" where
  "AddOutput r = r\<lparr>mr_outputs := mr_outputs r @ [[]]\<rparr>"

subsection \<open>Tags on conditions\<close>

definition getParamMap :: "'m msg_api \<Rightarrow> 'm \<Rightarrow> 'm vars" where
  "getParamMap api point =
     (let params = [(''metric'', VMsg point)];
          params = map_put ''name'' (VString (msg_name api point)) params;
          params = fold (\<lambda>(k, v). map_put k (VString v)) (msg_tags api point) params;
          params = fold (\<lambda>(k, v). map_put k (VString v)) (msg_meta api point) params;
          params = fold (\<lambda>(k, v). map_put k v) (msg_fields api point) params
      in map_put ''timestamp'' (VTime (msg_time api point)) params)"

text \<open>The state of the loop: the shared cache of compiled conditions and the message.\<close>

definition DoAddTags ::
  "('m, 'e, 'l) gval_lib \<Rightarrow> 'm msg_api \<Rightarrow> metricRouterConfig \<Rightarrow> (string \<times> 'e) list \<Rightarrow> 'm \<Rightarrow>
   (string \<times> 'e) list \<times> 'm" where
  "DoAddTags lib api cfg mapping point =
     fold (\<lambda>t (mapping, point).
             case (if tag_Condition t = ''*'' then (mapping, Inr True)
                   else EvalBoolCondition lib mapping (tag_Condition t) (getParamMap api point)) of
               (mapping', Inr True) \<Rightarrow> (mapping', msg_add_tag api point (tag_Key t) (tag_Value t))
             | (mapping', _) \<Rightarrow> (mapping', point))
       (rc_AddTags cfg) (mapping, point)"

subsection \<open>Forwarding\<close>

definition stamp :: "'m msg_api \<Rightarrow> ('m, 'e, 'l, 'p) metricRouter \<Rightarrow> 'm \<Rightarrow> 'm" where
  "stamp api r p = (if rc_IntervalStamp (mr_config r) then msg_set_time api p (mr_timestamp r) else p)"

definition send_all :: "'m option \<times> bool \<Rightarrow> ('m, 'e, 'l, 'p) metricRouter \<Rightarrow> ('m, 'e, 'l, 'p) metricRouter" where
  "send_all result r =
     (case result of
        (Some m, True) \<Rightarrow> r\<lparr>mr_outputs := map (\<lambda>o'. o' @ [m]) (mr_outputs r)\<rparr>
      | _ \<Rightarrow> r)"

definition coll_forward ::
  "'m msg_api \<Rightarrow> ('m, 'p) mp_lib \<Rightarrow> 'm \<Rightarrow> ('m, 'e, 'l, 'p) metricRouter \<Rightarrow> ('m, 'e, 'l, 'p) metricRouter run" where
  "coll_forward api mp p r =
     (let result = ProcessMessage mp (mr_mp r) (stamp api r p);
          r' = send_all result r
      in if rc_NumCacheIntervals (mr_config r) > 0 then
           (case mr_cache r' of
              None \<Rightarrow> Inl NilDereference
            | Some c \<Rightarrow> run_bind (cache_Add api (fst result) c) (\<lambda>c'. Inr (r'\<lparr>mr_cache := Some c'\<rparr>)))
         else Inr r')"

definition recv_forward ::
  "'m msg_api \<Rightarrow> ('m, 'p) mp_lib \<Rightarrow> 'm \<Rightarrow> ('m, 'e, 'l, 'p) metricRouter \<Rightarrow> ('m, 'e, 'l, 'p) metricRouter" where
  "recv_forward api mp p r = send_all (ProcessMessage mp (mr_mp r) (stamp api r p)) r"

definition cache_forward ::
  "('m, 'p) mp_lib \<Rightarrow> 'm \<Rightarrow> ('m, 'e, 'l, 'p) metricRouter \<Rightarrow> ('m, 'e, 'l, 'p) metricRouter" where
  "cache_forward mp p r = send_all (ProcessMessage mp (mr_mp r) p) r"

end
