(* ===== verification/Metric_Router.thy ===== *)
theory Metric_Router
  imports Router_Core
begin

text \<open>
  \<open>Start\<close> and \<open>Close\<close> of \<open>internal/metricRouter/metricRouter.go\<close>: the router's goroutine,
  the senders on its input channels, its ticker channel and the goroutine of the metric cache
  run concurrently. Every atomic action is a labelled step; a run carries its labels.
\<close>

subsection \<open>State\<close>

datatype source = FromCollectors | FromReceivers | FromCache

text \<open>
  Where the router's goroutine is: in its \<open>select\<close>, in the inner loop after a receive (with
  the loop counter \<open>i\<close>), finished, or the program has panicked.
\<close>

datatype router_mode = Selecting | Draining source int | Stopped | Panicked gopanic

text \<open>
  The two input channels are buffered. \<open>rs_cache_sends\<close> are the messages of the last cache
  tick which the cache's goroutine still has to offer on the unbuffered \<open>cache_input\<close>.
\<close>

record ('m, 'e, 'l, 'p) router_sys =
  rs_router :: "('m, 'e, 'l, 'p) metricRouter"
  rs_coll_input :: "'m list"
  rs_recv_input :: "'m list"
  rs_cache_sends :: "'m list"
  rs_mode :: router_mode

definition channel_cap :: int where "channel_cap = 200"

definition chan_queue :: "source \<Rightarrow> ('m, 'e, 'l, 'p) router_sys \<Rightarrow> 'm list" where
  "chan_queue src s = (case src of FromCollectors \<Rightarrow> rs_coll_input s | FromReceivers \<Rightarrow> rs_recv_input s
                                 | FromCache \<Rightarrow> rs_cache_sends s)"

definition set_queue :: "source \<Rightarrow> 'm list \<Rightarrow> ('m, 'e, 'l, 'p) router_sys \<Rightarrow> ('m, 'e, 'l, 'p) router_sys" where
  "set_queue src q s = (case src of FromCollectors \<Rightarrow> s\<lparr>rs_coll_input := q\<rparr>
                                  | FromReceivers \<Rightarrow> s\<lparr>rs_recv_input := q\<rparr>
                                  | FromCache \<Rightarrow> s\<lparr>rs_cache_sends := q\<rparr>)"

text \<open>Go's \<open>len(ch)\<close>: the number of buffered elements, always 0 for an unbuffered channel.\<close>

definition chan_len :: "source \<Rightarrow> ('m, 'e, 'l, 'p) router_sys \<Rightarrow> int" where
  "chan_len src s = (if src = FromCache then 0 else int (length (chan_queue src s)))"

definition forward ::
  "'m msg_api \<Rightarrow> ('m, 'p) mp_lib \<Rightarrow> source \<Rightarrow> 'm \<Rightarrow> ('m, 'e, 'l, 'p) metricRouter \<Rightarrow> ('m, 'e, 'l, 'p) metricRouter run" where
  "forward api mp src p r =
     (case src of FromCollectors \<Rightarrow> coll_forward api mp p r
                | FromReceivers \<Rightarrow> Inr (recv_forward api mp p r)
                | FromCache \<Rightarrow> Inr (cache_forward mp p r))"

text \<open>The guard of the inner loop.\<close>

definition keep_draining :: "('m, 'e, 'l, 'p) router_sys \<Rightarrow> source \<Rightarrow> int \<Rightarrow> bool" where
  "keep_draining s src i = (chan_len src s > 0 \<and> i < mr_maxForward (rs_router s) - 1)"

text \<open>A receive in the current mode and the mode after it; \<open>None\<close> when no receive can happen.\<close>

definition next_mode :: "('m, 'e, 'l, 'p) router_sys \<Rightarrow> source \<Rightarrow> router_mode option" where
  "next_mode s src =
     (case rs_mode s of
        Selecting \<Rightarrow> Some (Draining src 0)
      | Draining src' i \<Rightarrow> (if src' = src \<and> keep_draining s src i then Some (Draining src (i + 1)) else None)
      | _ \<Rightarrow> None)"

definition alive :: "('m, 'e, 'l, 'p) router_sys \<Rightarrow> bool" where
  "alive s = (case rs_mode s of Panicked _ \<Rightarrow> False | _ \<Rightarrow> True)"

subsection \<open>Steps\<close>

datatype 'm event =
    Push source 'm | Take source 'm | Stamp_Tick gotime | Cache_Tick gotime | Offer_Dropped 'm | Back_To_Select
  | Stop

inductive router_step ::
  "('m, 'e, 'l) gval_lib \<Rightarrow> 'm msg_api \<Rightarrow> ('m, 'p) mp_lib \<Rightarrow>
   ('m, 'e, 'l, 'p) router_sys \<Rightarrow> 'm event \<Rightarrow> ('m, 'e, 'l, 'p) router_sys \<Rightarrow> bool"
  for lib api mp where
  push: "alive s \<Longrightarrow> src \<noteq> FromCache \<Longrightarrow> chan_len src s < channel_cap \<Longrightarrow>
    router_step lib api mp s (Push src m) (set_queue src (chan_queue src s @ [m]) s)"
| take_msg: "chan_queue src s = p # q \<Longrightarrow> next_mode s src = Some md \<Longrightarrow>
    forward api mp src p (rs_router s) = Inr r \<Longrightarrow>
    router_step lib api mp s (Take src p) ((set_queue src q s)\<lparr>rs_router := r, rs_mode := md\<rparr>)"
| take_panic: "chan_queue src s = p # q \<Longrightarrow> next_mode s src = Some md \<Longrightarrow>
    forward api mp src p (rs_router s) = Inl x \<Longrightarrow>
    router_step lib api mp s (Take src p) ((set_queue src q s)\<lparr>rs_mode := Panicked x\<rparr>)"
| loop_end: "rs_mode s = Draining src i \<Longrightarrow> \<not> keep_draining s src i \<Longrightarrow>
    router_step lib api mp s Back_To_Select (s\<lparr>rs_mode := Selecting\<rparr>)"
| stamp_tick: "rs_mode s = Selecting \<Longrightarrow> rc_IntervalStamp (mr_config (rs_router s)) \<Longrightarrow>
    router_step lib api mp s (Stamp_Tick t) (s\<lparr>rs_router := (rs_router s)\<lparr>mr_timestamp := t\<rparr>\<rparr>)"
| cache_ticks: "alive s \<Longrightarrow> rs_cache_sends s = [] \<Longrightarrow> mr_cache (rs_router s) = Some c \<Longrightarrow>
    cache_tick lib api now t c = Inr (c', out) \<Longrightarrow>
    router_step lib api mp s (Cache_Tick t)
      (s\<lparr>rs_router := (rs_router s)\<lparr>mr_cache := Some c'\<rparr>, rs_cache_sends := out\<rparr>)"
| cache_panic: "alive s \<Longrightarrow> rs_cache_sends s = [] \<Longrightarrow> mr_cache (rs_router s) = Some c \<Longrightarrow>
    cache_tick lib api now t c = Inl x \<Longrightarrow>
    router_step lib api mp s (Cache_Tick t) (s\<lparr>rs_mode := Panicked x\<rparr>)"
| offer_dropped: "alive s \<Longrightarrow> rs_cache_sends s = m # ms \<Longrightarrow>
    router_step lib api mp s (Offer_Dropped m) (s\<lparr>rs_cache_sends := ms\<rparr>)"
| stop: "rs_mode s = Selecting \<Longrightarrow> router_step lib api mp s Stop (s\<lparr>rs_mode := Stopped\<rparr>)"

inductive_cases router_stepE: "router_step lib api mp s ev s'"

abbreviation router_run ::
  "('m, 'e, 'l) gval_lib \<Rightarrow> 'm msg_api \<Rightarrow> ('m, 'p) mp_lib \<Rightarrow>
   ('m, 'e, 'l, 'p) router_sys \<Rightarrow> 'm event list \<Rightarrow> ('m, 'e, 'l, 'p) router_sys \<Rightarrow> bool" where
  "router_run lib api mp \<equiv> lrun (router_step lib api mp)"

text \<open>The state in which \<open>Start\<close> leaves the router, with \<open>time.Now()\<close> as the first timestamp.\<close>

definition router_Start :: "gotime \<Rightarrow> ('m, 'e, 'l, 'p) metricRouter \<Rightarrow> ('m, 'e, 'l, 'p) router_sys" where
  "router_Start now r =
     \<lparr>rs_router = r\<lparr>mr_timestamp := now\<rparr>, rs_coll_input = [], rs_recv_input = [], rs_cache_sends = [],
      rs_mode = Selecting\<rparr>"

subsection \<open>Lemmas on single steps\<close>

lemma queue_simps [simp]:
  "chan_queue src (set_queue src q s) = q"
  "src \<noteq> src' \<Longrightarrow> chan_queue src (set_queue src' q s) = chan_queue src s"
  "rs_router (set_queue src q s) = rs_router s"
  "rs_mode (set_queue src q s) = rs_mode s"
  "chan_queue src (s\<lparr>rs_router := r\<rparr>) = chan_queue src s"
  "chan_queue src (s\<lparr>rs_mode := m\<rparr>) = chan_queue src s"
  by (auto simp: chan_queue_def set_queue_def split: source.splits)

lemma queue_cache_simps [simp]:
  "src \<noteq> FromCache \<Longrightarrow> chan_queue src (s\<lparr>rs_cache_sends := q\<rparr>) = chan_queue src s"
  by (cases src) (simp_all add: chan_queue_def)

lemma send_all_fields [simp]:
  "mr_config (send_all res r) = mr_config r" "mr_mp (send_all res r) = mr_mp r"
  "mr_maxForward (send_all res r) = mr_maxForward r" "mr_timestamp (send_all res r) = mr_timestamp r"
  "mr_cache (send_all res r) = mr_cache r" "length (mr_outputs (send_all res r)) = length (mr_outputs r)"
  by (cases res; cases "fst res"; cases "snd res"; simp add: send_all_def)+

text \<open>What one message contributes to every output.\<close>

definition sent_for ::
  "'m msg_api \<Rightarrow> ('m, 'p) mp_lib \<Rightarrow> 'p \<Rightarrow> bool \<Rightarrow> gotime \<Rightarrow> source \<Rightarrow> 'm \<Rightarrow> 'm list" where
  "sent_for api mp p stamped ts src m =
     (case ProcessMessage mp p (if stamped \<and> src \<noteq> FromCache then msg_set_time api m ts else m) of
        (Some m', True) \<Rightarrow> [m'] | _ \<Rightarrow> [])"

lemma send_all_outputs:
  "mr_outputs (send_all (ProcessMessage mp (mr_mp r) x) r) =
   map (\<lambda>o'. o' @ (case ProcessMessage mp (mr_mp r) x of (Some m', True) \<Rightarrow> [m'] | _ \<Rightarrow> [])) (mr_outputs r)"
  by (simp add: send_all_def split: prod.splits option.splits bool.splits)

lemma forward_effect:
  assumes "forward api mp src m r = Inr r'"
  shows "mr_outputs r' = map (\<lambda>o'. o' @ sent_for api mp (mr_mp r) (rc_IntervalStamp (mr_config r))
                                        (mr_timestamp r) src m) (mr_outputs r)"
    and "mr_config r' = mr_config r \<and> mr_mp r' = mr_mp r \<and> mr_maxForward r' = mr_maxForward r \<and>
         mr_timestamp r' = mr_timestamp r"
proof -
  have out: "mr_outputs r' = mr_outputs (send_all (ProcessMessage mp (mr_mp r)
               (if src = FromCache then m else stamp api r m)) r) \<and>
        mr_config r' = mr_config r \<and> mr_mp r' = mr_mp r \<and> mr_maxForward r' = mr_maxForward r \<and>
        mr_timestamp r' = mr_timestamp r"
    using assms
    by (cases src) (auto simp: forward_def coll_forward_def recv_forward_def cache_forward_def Let_def
        run_bind_Inr_iff split: option.splits if_splits)
  then show "mr_config r' = mr_config r \<and> mr_mp r' = mr_mp r \<and> mr_maxForward r' = mr_maxForward r \<and>
         mr_timestamp r' = mr_timestamp r" by simp
  from out show "mr_outputs r' = map (\<lambda>o'. o' @ sent_for api mp (mr_mp r) (rc_IntervalStamp (mr_config r))
                                        (mr_timestamp r) src m) (mr_outputs r)"
    by (cases src) (simp_all add: send_all_outputs sent_for_def stamp_def cong: option.case_cong)
qed

subsection \<open>What a run shows\<close>

fun pushed :: "source \<Rightarrow> 'm event list \<Rightarrow> 'm list" where
  "pushed src [] = []"
| "pushed src (ev # tr) = (case ev of Push s m \<Rightarrow> if s = src then [m] else [] | _ \<Rightarrow> []) @ pushed src tr"

fun taken :: "source \<Rightarrow> 'm event list \<Rightarrow> 'm list" where
  "taken src [] = []"
| "taken src (ev # tr) = (case ev of Take s m \<Rightarrow> if s = src then [m] else [] | _ \<Rightarrow> []) @ taken src tr"

fun last_stamp :: "gotime \<Rightarrow> 'm event list \<Rightarrow> gotime" where
  "last_stamp ts [] = ts"
| "last_stamp ts (ev # tr) = last_stamp (case ev of Stamp_Tick t \<Rightarrow> t | _ \<Rightarrow> ts) tr"

text \<open>
  The specification of the router: the messages in the order of their reception, each
  stamped with the last tick before it (if configured, and not for the cache's
  messages) and processed; what the message processor drops is left out.
\<close>

fun forwarded ::
  "'m msg_api \<Rightarrow> ('m, 'p) mp_lib \<Rightarrow> 'p \<Rightarrow> bool \<Rightarrow> gotime \<Rightarrow> 'm event list \<Rightarrow> 'm list" where
  "forwarded api mp p stamped ts [] = []"
| "forwarded api mp p stamped ts (ev # tr) =
     (case ev of Take src m \<Rightarrow> sent_for api mp p stamped ts src m | _ \<Rightarrow> []) @
     forwarded api mp p stamped (case ev of Stamp_Tick t \<Rightarrow> t | _ \<Rightarrow> ts) tr"

lemma trace_append [simp]:
  "pushed src (tr @ tr') = pushed src tr @ pushed src tr'"
  "taken src (tr @ tr') = taken src tr @ taken src tr'"
  "last_stamp ts (tr @ tr') = last_stamp (last_stamp ts tr) tr'"
  by (induction tr arbitrary: ts) (auto split: event.splits)

lemma forwarded_append:
  "forwarded api mp p stamped ts (tr @ tr') =
   forwarded api mp p stamped ts tr @ forwarded api mp p stamped (last_stamp ts tr) tr'"
  by (induction tr arbitrary: ts) (auto split: event.splits)

text \<open>The parts of the router that no step changes.\<close>

definition same_setup :: "('m, 'e, 'l, 'p) metricRouter \<Rightarrow> ('m, 'e, 'l, 'p) metricRouter \<Rightarrow> bool" where
  "same_setup r r' = (mr_config r' = mr_config r \<and> mr_mp r' = mr_mp r \<and> mr_maxForward r' = mr_maxForward r)"

lemma same_setup_step:
  assumes "router_step lib api mp s ev s'"
  shows "same_setup (rs_router s) (rs_router s')"
  using assms by cases (auto simp: same_setup_def dest: forward_effect(2))

interpretation router_setup: step_order "router_step lib api mp" "\<lambda>s s'. same_setup (rs_router s) (rs_router s')"
  by unfold_locales (simp_all add: same_setup_def same_setup_step [unfolded same_setup_def])

lemmas same_setup_run = router_setup.rel_run

lemma alive_before:
  "router_step lib api mp s ev s' \<Longrightarrow> alive s' \<Longrightarrow> alive s"
  by (cases rule: router_step.cases)
    (auto simp: alive_def next_mode_def split: router_mode.splits if_splits)

lemma outputs_step:
  assumes "router_step lib api mp s ev s'" and "alive s'"
  shows "mr_outputs (rs_router s') = map (\<lambda>o'. o' @ forwarded api mp (mr_mp (rs_router s))
           (rc_IntervalStamp (mr_config (rs_router s))) (mr_timestamp (rs_router s)) [ev]) (mr_outputs (rs_router s))
       \<and> mr_timestamp (rs_router s') = last_stamp (mr_timestamp (rs_router s)) [ev]"
  using assms
proof cases
  case (take_msg src p q md r)
  then show ?thesis using forward_effect [OF take_msg(5)] by simp
qed (auto simp: alive_def)

lemma outputs_run:
  assumes "router_run lib api mp s tr s'" and "alive s'"
  shows "mr_outputs (rs_router s') = map (\<lambda>o'. o' @ forwarded api mp (mr_mp (rs_router s))
           (rc_IntervalStamp (mr_config (rs_router s))) (mr_timestamp (rs_router s)) tr) (mr_outputs (rs_router s))
       \<and> mr_timestamp (rs_router s') = last_stamp (mr_timestamp (rs_router s)) tr"
  using assms
proof (induction rule: lrun.induct)
  case run_nil
  then show ?case by simp
next
  case (run_step tr t ev u)
  then have IH: "mr_outputs (rs_router t) = map (\<lambda>o'. o' @ forwarded api mp (mr_mp (rs_router s))
           (rc_IntervalStamp (mr_config (rs_router s))) (mr_timestamp (rs_router s)) tr) (mr_outputs (rs_router s))"
      "mr_timestamp (rs_router t) = last_stamp (mr_timestamp (rs_router s)) tr"
    using alive_before [OF run_step.hyps(2)] by blast+
  from same_setup_run [OF run_step.hyps(1)]
  have "mr_mp (rs_router t) = mr_mp (rs_router s)" "mr_config (rs_router t) = mr_config (rs_router s)"
    by (simp_all add: same_setup_def)
  with outputs_step [OF run_step.hyps(2) run_step.prems] IH show ?case
    by (simp add: forwarded_append del: forwarded.simps)
qed

text \<open>First in, first out, and nothing is lost on the way in.\<close>

lemma fifo_step:
  assumes "router_step lib api mp s ev s'" and "src \<noteq> FromCache"
  shows "chan_queue src s @ pushed src [ev] = taken src [ev] @ chan_queue src s'"
  using assms(1)
proof cases
  case (push src' m)
  then show ?thesis by (cases "src' = src") auto
next
  case (take_msg src' p q md r)
  then show ?thesis by (cases "src' = src") auto
next
  case (take_panic src' p q md x)
  then show ?thesis by (cases "src' = src") auto
qed (use assms(2) in auto)

lemma fifo_run:
  assumes "router_run lib api mp s tr s'" and "src \<noteq> FromCache"
  shows "chan_queue src s @ pushed src tr = taken src tr @ chan_queue src s'"
  using assms(1)
proof (induction rule: lrun.induct)
  case run_nil
  then show ?case by simp
next
  case (run_step tr t ev u)
  with fifo_step [OF run_step.hyps(2) assms(2)] show ?case
    by simp (metis append.assoc)
qed

subsection \<open>The invariant of the router\<close>

definition router_ok :: "('m, 'e, 'l, 'p) metricRouter \<Rightarrow> bool" where
  "router_ok r = (1 \<le> mr_maxForward r \<and> (rc_NumCacheIntervals (mr_config r) > 0 \<longrightarrow> mr_cache r \<noteq> None) \<and>
                  (\<forall>c. mr_cache r = Some c \<longrightarrow> cache_ok c))"

lemma cache_ok_AddAggregation:
  "cache_AddAggregation lib n f cond tags meta c = (c', err) \<Longrightarrow> cache_ok c \<Longrightarrow> cache_ok c'"
  by (auto simp: cache_AddAggregation_def cache_ok_def split: prod.splits)

lemma err_fold_invariant:
  assumes "err_fold f xs s = Inr t" and "I s" and "\<And>x u v. f x u = Inr v \<Longrightarrow> I u \<Longrightarrow> I v"
  shows "I t"
  using assms(1,2) by (induction xs arbitrary: s) (auto split: sum.splits intro: assms(3))

lemma init_cache_ok:
  assumes "init_cache lib tc hostname cfg = Inr cache"
  shows "(rc_NumCacheIntervals cfg > 0 \<longrightarrow> cache \<noteq> None) \<and> (\<forall>c. cache = Some c \<longrightarrow> cache_ok c)"
proof (cases "rc_NumCacheIntervals cfg > 0")
  case True
  let ?add = "\<lambda>a c. case cache_AddAggregation lib (ac_Name a) (ac_Function a) (ac_Condition a) (ac_Tags a) (ac_Meta a) c of
                      (c', None) \<Rightarrow> Inr c' | (_, Some err) \<Rightarrow> Inl err"
  from True assms obtain c0 c where c: "cache_Init lib tc hostname (rc_NumCacheIntervals cfg) = Inr c0"
      "err_fold ?add (rc_IntervalAgg cfg) c0 = Inr c" "cache = Some c"
    by (auto simp: init_cache_def err_bind_def split: sum.splits)
  have "cache_ok c"
    by (rule err_fold_invariant [where I = cache_ok, OF c(2) cache_ok_Init [OF True c(1)]])
      (auto split: prod.splits option.splits dest: cache_ok_AddAggregation)
  with c(3) show ?thesis by simp
next
  case False
  with assms show ?thesis by (simp add: init_cache_def)
qed

lemma router_ok_Init: "router_Init lib mp tc hostname cfg = Inr r \<Longrightarrow> router_ok r"
  by (auto simp: router_Init_def router_ok_def err_bind_def Let_def split: option.splits sum.splits
      dest: init_cache_ok)

lemma router_ok_forward:
  assumes "forward api mp src m r = Inr r'" and "router_ok r"
  shows "router_ok r'"
proof (cases src)
  case FromCollectors
  with assms have "coll_forward api mp m r = Inr r'" by (simp add: forward_def)
  moreover have "cache_ok c'" if "cache_ok c" "cache_Add api x c = Inr c'" for x c c'
    using that caches.add_nil [of c api] cache_ok_Add [of c api _ c'] by (cases x) auto
  ultimately show ?thesis
    using assms(2) by (auto simp: coll_forward_def router_ok_def Let_def run_bind_Inr_iff split: if_splits option.splits)
qed (use assms in \<open>auto simp: forward_def recv_forward_def cache_forward_def router_ok_def\<close>)

lemma router_ok_step:
  assumes "router_step lib api mp s ev s'" and "router_ok (rs_router s)"
  shows "router_ok (rs_router s')"
  using assms(1)
proof cases
  case (take_msg src p q md r)
  then show ?thesis using router_ok_forward [OF take_msg(5) assms(2)] by simp
next
  case (cache_ticks c now t c' out)
  then have "cache_ok c'" using assms(2) by (auto simp: router_ok_def intro: caches.tick_inv)
  with cache_ticks assms(2) show ?thesis by (simp add: router_ok_def)
qed (use assms(2) in \<open>simp_all add: router_ok_def\<close>)

interpretation router_ok: step_invariant "router_step lib api mp" "\<lambda>s. router_ok (rs_router s)"
  by unfold_locales (rule router_ok_step)

lemmas router_ok_run = router_ok.inv_run

text \<open>
  Storing in the cache is the only thing that can go wrong while forwarding, and by the
  cache's contract it does exactly for a dropped message.
\<close>

lemma coll_forward_panics_iff:
  assumes "router_ok r"
  shows "(\<exists>x. coll_forward api mp p r = Inl x) \<longleftrightarrow>
         rc_NumCacheIntervals (mr_config r) > 0 \<and> fst (ProcessMessage mp (mr_mp r) (stamp api r p)) = None"
proof (cases "rc_NumCacheIntervals (mr_config r) > 0")
  case True
  with assms obtain c where c: "mr_cache r = Some c" "cache_ok c" by (auto simp: router_ok_def)
  let ?m = "fst (ProcessMessage mp (mr_mp r) (stamp api r p))"
  have "(\<exists>x. coll_forward api mp p r = Inl x) \<longleftrightarrow> (\<exists>x. cache_Add api ?m c = Inl x)"
    using True c by (cases "cache_Add api ?m c") (auto simp: coll_forward_def Let_def)
  also have "\<dots> \<longleftrightarrow> ?m = None"
  proof (cases ?m)
    case (Some a)
    obtain c' where "cache_Add api (Some a) c = Inr c'" using caches.add_message [OF c(2)] by blast
    with Some show ?thesis by simp
  qed (simp add: caches.add_nil [OF c(2)])
  finally show ?thesis using True by simp
qed (simp add: coll_forward_def Let_def)

subsection \<open>Batches\<close>

text \<open>
  \<open>in_batch tr src n\<close>: the last \<open>n\<close> messages received in the run \<open>tr\<close> all came from \<open>src\<close>,
  with no update of the timestamp and no stop in between.
\<close>

definition in_batch :: "'m event list \<Rightarrow> source \<Rightarrow> int \<Rightarrow> bool" where
  "in_batch tr src n =
     (\<exists>tr1 tr2. tr = tr1 @ tr2 \<and> int (length (taken src tr2)) = n \<and>
        (\<forall>ev \<in> set tr2. case ev of Take src' _ \<Rightarrow> src' = src | Stamp_Tick _ \<Rightarrow> False | Stop \<Rightarrow> False | _ \<Rightarrow> True))"

lemma in_batch_start: "in_batch (tr @ [Take src m]) src 1"
  unfolding in_batch_def by (rule exI [of _ tr], rule exI [of _ "[Take src m]"]) simp

lemma in_batch_more:
  assumes "in_batch tr src n"
    and "case ev of Take src' _ \<Rightarrow> src' = src | Stamp_Tick _ \<Rightarrow> False | Stop \<Rightarrow> False | _ \<Rightarrow> True"
  shows "in_batch (tr @ [ev]) src (n + int (length (taken src [ev])))"
proof -
  from assms(1) obtain tr1 tr2 where t: "tr = tr1 @ tr2" "int (length (taken src tr2)) = n"
      "\<forall>ev \<in> set tr2. case ev of Take src' _ \<Rightarrow> src' = src | Stamp_Tick _ \<Rightarrow> False | Stop \<Rightarrow> False | _ \<Rightarrow> True"
    by (auto simp: in_batch_def)
  show ?thesis unfolding in_batch_def
    by (rule exI [of _ tr1], rule exI [of _ "tr2 @ [ev]"]) (use t assms(2) in simp)
qed

lemma batch_run:
  assumes "router_run lib api mp s tr s'" and "rs_mode s = Selecting" and "router_ok (rs_router s)"
    and "rs_mode s' = Draining src i"
  shows "0 \<le> i \<and> i < mr_maxForward (rs_router s') \<and> in_batch tr src (i + 1)"
  using assms
proof (induction arbitrary: src i rule: lrun.induct)
  case run_nil
  then show ?case by simp
next
  case (run_step tr t ev u)
  have ok: "1 \<le> mr_maxForward (rs_router t)"
    using router_ok_run [OF run_step.hyps(1) run_step.prems(2)] by (simp add: router_ok_def)
  have same: "mr_maxForward (rs_router u) = mr_maxForward (rs_router t)"
    using same_setup_step [OF run_step.hyps(2)] by (simp add: same_setup_def)
  note IH = run_step.IH [OF run_step.prems(1,2)]
  from run_step.hyps(2) show ?case
  proof cases
    case (take_msg src' p q md r)
    show ?thesis
    proof (cases "rs_mode t = Selecting")
      case True
      then show ?thesis using take_msg run_step.prems(3) ok same in_batch_start by (simp add: next_mode_def)
    next
      case False
      then obtain j where j: "rs_mode t = Draining src' j" "keep_draining t src' j" "md = Draining src' (j + 1)"
        using take_msg(4) by (auto simp: next_mode_def split: router_mode.splits if_splits)
      then have "src' = src" "i = j + 1" using take_msg(2) run_step.prems(3) by simp_all
      with j IH [of src j] take_msg(1) same in_batch_more [of tr src "j + 1" ev] show ?thesis
        by (simp add: keep_draining_def)
    qed
  qed (use IH [of src i] run_step.prems(3) same in_batch_more [of tr src "i + 1" ev] in simp_all)
qed

lemma router_single: "router_step lib api mp s ev t \<Longrightarrow> router_run lib api mp s [ev] t"
  by (rule lrun_single)

text \<open>The inner loop comes back to the \<open>select\<close> within the batch size, unless it panics.\<close>

lemma drain_ends:
  assumes "rs_mode s = Draining src i" and "n = nat (mr_maxForward (rs_router s) - 1 - i)"
  shows "\<exists>tr s'. router_run lib api mp s tr s' \<and> length tr \<le> n + 1 \<and>
           (rs_mode s' = Selecting \<or> (\<exists>x. rs_mode s' = Panicked x))"
  using assms
proof (induction n arbitrary: s i)
  case 0
  then have "router_step lib api mp s Back_To_Select (s\<lparr>rs_mode := Selecting\<rparr>)"
    by (intro router_step.loop_end) (auto simp: keep_draining_def)
  from router_single [OF this] show ?case by force
next
  case (Suc n)
  show ?case
  proof (cases "keep_draining s src i")
    case False
    with Suc.prems have "router_step lib api mp s Back_To_Select (s\<lparr>rs_mode := Selecting\<rparr>)"
      by (intro router_step.loop_end) auto
    from router_single [OF this] show ?thesis by force
  next
    case True
    then obtain p q where q: "chan_queue src s = p # q"
      by (cases "chan_queue src s") (auto simp: keep_draining_def chan_len_def split: if_splits)
    have md: "next_mode s src = Some (Draining src (i + 1))" using Suc.prems(1) True by (simp add: next_mode_def)
    show ?thesis
    proof (cases "forward api mp src p (rs_router s)")
      case (Inl x)
      from router_single [OF router_step.take_panic [OF q md Inl, of lib]] show ?thesis by force
    next
      case (Inr r)
      let ?t = "(set_queue src q s)\<lparr>rs_router := r, rs_mode := Draining src (i + 1)\<rparr>"
      have step: "router_step lib api mp s (Take src p) ?t" by (rule router_step.take_msg [OF q md Inr])
      have "mr_maxForward r = mr_maxForward (rs_router s)" using forward_effect(2) [OF Inr] by simp
      then have "n = nat (mr_maxForward (rs_router ?t) - 1 - (i + 1))" using Suc.prems(2) by simp
      from Suc.IH [OF _ this] obtain tr s' where tr: "router_run lib api mp ?t tr s'" "length tr \<le> n + 1"
          "rs_mode s' = Selecting \<or> (\<exists>x. rs_mode s' = Panicked x)" by auto
      from lrun_append [OF tr(1) router_single [OF step]] have "router_run lib api mp s (Take src p # tr) s'" by simp
      moreover have "length (Take src p # tr) \<le> Suc n + 1" using tr(2) by simp
      ultimately show ?thesis using tr(3) by blast
    qed
  qed
qed

lemma stopped_step:
  assumes "router_step lib api mp s ev s'" and "rs_mode s = Stopped \<or> (\<exists>x. rs_mode s = Panicked x)"
  shows "mr_outputs (rs_router s') = mr_outputs (rs_router s) \<and> (\<forall>src. taken src [ev] = []) \<and>
         (rs_mode s' = Stopped \<or> (\<exists>x. rs_mode s' = Panicked x))"
  using assms by cases (auto simp: next_mode_def)

lemma AddOutput_fields:
  "mr_config (AddOutput r) = mr_config r" "mr_mp (AddOutput r) = mr_mp r"
  "mr_maxForward (AddOutput r) = mr_maxForward r" "mr_cache (AddOutput r) = mr_cache r"
  by (simp_all add: AddOutput_def)

lemma outputs_fields [simp]:
  "mr_config ((AddOutput ^^ n) r) = mr_config r" "mr_mp ((AddOutput ^^ n) r) = mr_mp r"
  "mr_maxForward ((AddOutput ^^ n) r) = mr_maxForward r" "mr_cache ((AddOutput ^^ n) r) = mr_cache r"
  by (induction n) (simp_all add: AddOutput_fields)

lemma router_ok_outputs: "router_ok r \<Longrightarrow> router_ok ((AddOutput ^^ n) r)"
  unfolding router_ok_def outputs_fields .

lemma router_Start_fields [simp]:
  "rs_mode (router_Start now r) = Selecting" "chan_queue src (router_Start now r) = []"
  "mr_outputs (rs_router (router_Start now r)) = mr_outputs r" "mr_config (rs_router (router_Start now r)) = mr_config r"
  "mr_mp (rs_router (router_Start now r)) = mr_mp r" "mr_timestamp (rs_router (router_Start now r)) = now"
  "mr_maxForward (rs_router (router_Start now r)) = mr_maxForward r"
  "router_ok (rs_router (router_Start now r)) = router_ok r"
  by (cases src; simp add: router_Start_def chan_queue_def router_ok_def)+

lemma router_Init_config: "router_Init lib mp tc hostname cfg = Inr r \<Longrightarrow> mr_config r = cfg"
  by (auto simp: router_Init_def err_bind_def Let_def split: option.splits sum.splits)

subsection \<open>Properties\<close>

text \<open>C1: every output channel is sent the same sequence: the messages of all sources in the
  order in which the router received them, stamped with the last tick (if configured, and
  not those of the cache), as the message processor returns them, without the dropped ones.\<close>

theorem router_outputs:
  assumes "router_run lib api mp (router_Start now r) tr s" and "alive s"
  shows "mr_outputs (rs_router s) =
         map (\<lambda>o'. o' @ forwarded api mp (mr_mp r) (rc_IntervalStamp (mr_config r)) now tr) (mr_outputs r)"
  using outputs_run [OF assms] by simp


text \<open>C33: a batch is bounded: when the inner loop has received from a source, it has received at
  most \<open>maxForward\<close> messages from it since it left the \<open>select\<close>, none of another source and
  no tick; and it gets back to the \<open>select\<close> (or panics) within the steps that are left.\<close>

theorem router_batches:
  assumes "router_Init lib mp tc hostname cfg = Inr r"
    and "router_run lib api mp (router_Start now ((AddOutput ^^ n) r)) tr s" and "rs_mode s = Draining src i"
  shows "0 \<le> i \<and> i < max 1 (rc_MaxForward cfg) \<and> in_batch tr src (i + 1) \<and>
         (\<exists>tr' s'. router_run lib api mp s tr' s' \<and> int (length tr') \<le> max 1 (rc_MaxForward cfg) - i \<and>
                   (rs_mode s' = Selecting \<or> (\<exists>x. rs_mode s' = Panicked x)))"
proof -
  have ok: "router_ok ((AddOutput ^^ n) r)" by (rule router_ok_outputs [OF router_ok_Init [OF assms(1)]])
  have "mr_maxForward r = max 1 (rc_MaxForward cfg)"
    using assms(1) by (auto simp: router_Init_def err_bind_def Let_def split: option.splits sum.splits)
  then have max: "mr_maxForward (rs_router s) = max 1 (rc_MaxForward cfg)"
    using same_setup_run [OF assms(2)] by (simp add: same_setup_def)
  have b: "0 \<le> i \<and> i < mr_maxForward (rs_router s) \<and> in_batch tr src (i + 1)"
    using batch_run [OF assms(2) _ _ assms(3)] ok by simp
  obtain tr' s' where d: "router_run lib api mp s tr' s'" "length tr' \<le> nat (mr_maxForward (rs_router s) - 1 - i) + 1"
      "rs_mode s' = Selecting \<or> (\<exists>x. rs_mode s' = Panicked x)"
    using drain_ends [OF assms(3) refl, of lib api mp] by blast
  from d(2) b max have "int (length tr') \<le> max 1 (rc_MaxForward cfg) - i" by linarith
  with b d max show ?thesis by auto
qed

text \<open>After \<open>Close\<close> has been received, the router takes no message from any source and sends
  nothing to any output.\<close>

theorem router_stopped:
  assumes "router_run lib api mp s tr s'" and "rs_mode s = Stopped"
  shows "mr_outputs (rs_router s') = mr_outputs (rs_router s) \<and> taken src tr = []"
proof -
  have "mr_outputs (rs_router s') = mr_outputs (rs_router s) \<and> taken src tr = [] \<and>
        (rs_mode s' = Stopped \<or> (\<exists>x. rs_mode s' = Panicked x))"
    using assms
  proof (induction rule: lrun.induct)
    case (run_step tr t ev u)
    then show ?case using stopped_step [OF run_step.hyps(2)] by simp
  qed simp
  then show ?thesis by simp
qed

text \<open>C15: in every reachable state, forwarding a collector's message panics exactly when the
  cache is on and the message processor drops the message: the cache is handed the nil
  message instead of the dropped one.\<close>

theorem dropped_message_panics:
  assumes "router_Init lib mp tc hostname cfg = Inr r"
    and "router_run lib api mp (router_Start now ((AddOutput ^^ n) r)) tr s"
  shows "(\<exists>x. coll_forward api mp p (rs_router s) = Inl x) \<longleftrightarrow>
         rc_NumCacheIntervals cfg > 0 \<and> fst (ProcessMessage mp (mr_mp r) (stamp api (rs_router s) p)) = None"
proof -
  have "router_ok (rs_router s)"
    using router_ok_run [OF assms(2)] router_ok_outputs [OF router_ok_Init [OF assms(1)]] by simp
  moreover have "mr_mp (rs_router s) = mr_mp r" "mr_config (rs_router s) = cfg"
    using same_setup_run [OF assms(2)] router_Init_config [OF assms(1)] by (simp_all add: same_setup_def)
  ultimately show ?thesis using coll_forward_panics_iff by metis
qed

subsection \<open>Witnesses\<close>

definition demo_mp :: "(demo_msg, unit) mp_lib" where
  "demo_mp =
     \<lparr>NewMessageProcessor = Inr (), FromConfigJSON = (\<lambda>_ p. Inr p), AddDropMessagesByName = (\<lambda>_ p. Inr p),
      AddDropMessagesByCondition = (\<lambda>_ p. Inr p), AddAddTagsByCondition = (\<lambda>_ _ _ p. Inr p),
      AddDeleteTagsByCondition = (\<lambda>_ _ _ p. Inr p), AddRenameMetricByName = (\<lambda>_ _ p. Inr p),
      AddChangeUnitPrefix = (\<lambda>_ _ p. Inr p), SetNormalizeUnits = (\<lambda>_ p. p),
      ProcessMessage = (\<lambda>_ m. (if demo_name m = ''drop'' then None else Some m, True))\<rparr>"

definition demo_router :: "(demo_msg, string, unit, unit) metricRouter" where
  "demo_router =
     \<lparr>mr_hostname = ''n1'', mr_outputs = [], mr_timestamp = 0,
      mr_config = default_config\<lparr>rc_IntervalStamp := True\<rparr>, mr_cache = None, mr_maxForward = 50, mr_mp = ()\<rparr>"

lemma demo_router_Init:
  "router_Init demo_gval demo_mp demo_topo (Some ''n1.cluster'') (default_config\<lparr>rc_IntervalStamp := True\<rparr>) =
   Inr demo_router"
  by (simp add: router_Init_def demo_mp_def demo_router_def default_config_def init_cache_def init_processor_def
      err_bind_def before_sep_def)

abbreviation demo_state :: "(demo_msg, string, unit, unit) router_sys" where
  "demo_state \<equiv> router_Start 9 ((AddOutput ^^ 1) demo_router)"

definition demo_after :: "(demo_msg, string, unit, unit) router_sys" where
  "demo_after =
     (set_queue FromCollectors [] (set_queue FromCollectors [demo_metric ''load'' ''a'' 7] demo_state))
       \<lparr>rs_router := (rs_router demo_state)\<lparr>mr_outputs :=
          [[DemoMsg ''load'' [(''host'', ''a'')] [] [(''value'', VFloat64 (Num 7))] 9]]\<rparr>,
        rs_mode := Draining FromCollectors 0\<rparr>"

lemma demo_run:
  "router_run demo_gval demo_api demo_mp demo_state
     [Push FromCollectors (demo_metric ''load'' ''a'' 7), Take FromCollectors (demo_metric ''load'' ''a'' 7)] demo_after"
proof -
  let ?m = "demo_metric ''load'' ''a'' 7"
  let ?s1 = "set_queue FromCollectors [?m] demo_state"
  have "router_step demo_gval demo_api demo_mp demo_state (Push FromCollectors ?m)
          (set_queue FromCollectors (chan_queue FromCollectors demo_state @ [?m]) demo_state)"
    by (rule router_step.push) (simp_all add: alive_def chan_len_def channel_cap_def)
  then have 1: "router_step demo_gval demo_api demo_mp demo_state (Push FromCollectors ?m) ?s1" by simp
  have 2: "router_step demo_gval demo_api demo_mp ?s1 (Take FromCollectors ?m) demo_after"
    unfolding demo_after_def
    by (rule router_step.take_msg [of _ _ ?m])
      (simp_all add: next_mode_def forward_def coll_forward_def stamp_def send_all_def Let_def demo_mp_def
        demo_metric_def demo_api_def AddOutput_def demo_router_def default_config_def router_Start_def)
  from lrun_append [OF router_single [OF 2] router_single [OF 1]] show ?thesis by simp
qed

lemma demo_after_fields: "alive demo_after" "rs_mode demo_after = Draining FromCollectors 0"
  by (simp_all add: demo_after_def alive_def)

lemma router_outputs_witness:
  "mr_outputs (rs_router demo_after) = [[DemoMsg ''load'' [(''host'', ''a'')] [] [(''value'', VFloat64 (Num 7))] 9]]"
  using router_outputs [OF demo_run demo_after_fields(1)]
  by (simp add: sent_for_def demo_router_def default_config_def demo_mp_def demo_metric_def demo_api_def AddOutput_def)


lemma router_batches_witness:
  "\<exists>tr' s'. router_run demo_gval demo_api demo_mp demo_after tr' s' \<and> length tr' \<le> 50 \<and>
     (rs_mode s' = Selecting \<or> (\<exists>x. rs_mode s' = Panicked x))"
  using router_batches [OF demo_router_Init demo_run demo_after_fields(2)]
  by (simp add: default_config_def)

lemma router_stopped_witness:
  "mr_outputs (rs_router (demo_state\<lparr>rs_mode := Stopped\<rparr>)) = [[]] \<and>
   taken FromReceivers ([] :: demo_msg event list) = []"
  using router_stopped [OF lrun.run_nil, of "demo_state\<lparr>rs_mode := Stopped\<rparr>" FromReceivers]
  by (simp add: router_Start_def AddOutput_def demo_router_def)

lemma dropped_message_panics_witness:
  "\<exists>r x. router_Init demo_gval demo_mp demo_topo (Some ''n1'') (default_config\<lparr>rc_NumCacheIntervals := 1\<rparr>) = Inr r \<and>
     coll_forward demo_api demo_mp (demo_metric ''drop'' ''a'' 7) (rs_router (router_Start 9 ((AddOutput ^^ 1) r))) = Inl x"
proof -
  obtain r where r: "router_Init demo_gval demo_mp demo_topo (Some ''n1'') (default_config\<lparr>rc_NumCacheIntervals := 1\<rparr>) = Inr r"
    by (simp add: router_Init_def demo_mp_def default_config_def init_cache_def init_processor_def
        err_bind_def before_sep_def cache_Init_def agg_Init_def Let_def)
  let ?m = "demo_metric ''drop'' ''a'' 7" and ?s = "router_Start 9 ((AddOutput ^^ 1) r)"
  have "\<not> rc_IntervalStamp (mr_config (rs_router ?s))"
    using router_Init_config [OF r] by (simp only: router_Start_fields outputs_fields) (simp add: default_config_def)
  then have "fst (ProcessMessage demo_mp (mr_mp r) (stamp demo_api (rs_router ?s) ?m)) = None"
    by (simp add: stamp_def demo_mp_def demo_metric_def)
  then have "\<exists>x. coll_forward demo_api demo_mp ?m (rs_router ?s) = Inl x"
    using dropped_message_panics [OF r lrun.run_nil, of demo_api ?m 9 1] by (simp only:) simp
  with r show ?thesis by blast
qed

end
