(* ===== verification/Interval_Pipeline.thy ===== *)
theory Interval_Pipeline
  imports Metric_Router
begin

text \<open>
  Router, cache and aggregator together: what happens to the messages of one interval, from the
  input channel of the router to the messages of the aggregations, for every interleaving of the
  goroutines (\<open>metricRouter.go\<close>, \<open>metricCache.go\<close>, \<open>metricAggregator.go\<close>).
\<close>

text \<open>
  The messages a run stores in the cache: those of the collectors, stamped with the last tick
  before them (if configured), as the message processor returns them.
\<close>

fun stored ::
  "'m msg_api \<Rightarrow> ('m, 'p) mp_lib \<Rightarrow> 'p \<Rightarrow> bool \<Rightarrow> gotime \<Rightarrow> 'm event list \<Rightarrow> 'm list" where
  "stored api mp p stamped ts [] = []"
| "stored api mp p stamped ts (ev # tr) =
     (case ev of
        Take FromCollectors m \<Rightarrow>
          (case fst (ProcessMessage mp p (if stamped then msg_set_time api m ts else m)) of None \<Rightarrow> [] | Some m' \<Rightarrow> [m'])
      | _ \<Rightarrow> []) @
     stored api mp p stamped (case ev of Stamp_Tick t \<Rightarrow> t | _ \<Rightarrow> ts) tr"

fun cache_ticked :: "'m event list \<Rightarrow> bool" where
  "cache_ticked [] = False"
| "cache_ticked (ev # tr) = ((case ev of Cache_Tick _ \<Rightarrow> True | _ \<Rightarrow> False) \<or> cache_ticked tr)"

lemma stored_append [simp]:
  "stored api mp p stamped ts (tr @ tr') =
   stored api mp p stamped ts tr @ stored api mp p stamped (last_stamp ts tr) tr'"
  "cache_ticked (tr @ tr') = (cache_ticked tr \<or> cache_ticked tr')"
  by (induction tr arbitrary: ts) (auto split: event.splits source.splits)

text \<open>A step stores what \<open>stored\<close> says, one \<open>Add\<close> per message.\<close>

lemma stored_step:
  assumes "router_step lib api mp s ev s'" and "alive s'" and "\<not> cache_ticked [ev]" and "mr_cache (rs_router s) = Some c"
    and "cache_ok c" and "0 < rc_NumCacheIntervals (mr_config (rs_router s))"
  shows "\<exists>c'. run_fold (\<lambda>c m. cache_Add api (Some m) c) c
           (stored api mp (mr_mp (rs_router s)) (rc_IntervalStamp (mr_config (rs_router s))) (mr_timestamp (rs_router s)) [ev]) =
         Inr c' \<and> mr_cache (rs_router s') = Some c'"
  using assms(1)
proof cases
  case (take_msg src p q md r)
  show ?thesis
  proof (cases src)
    case FromCollectors
    let ?x = "fst (ProcessMessage mp (mr_mp (rs_router s)) (stamp api (rs_router s) p))"
    from FromCollectors take_msg(5) assms(4,6) obtain c' where c': "cache_Add api ?x c = Inr c'" "mr_cache r = Some c'"
      by (auto simp: forward_def coll_forward_def Let_def run_simps)
    then obtain m' where "?x = Some m'" using caches.add_nil [OF assms(5), of api] by (cases ?x) auto
    with c' FromCollectors take_msg(1,2) show ?thesis by (simp add: stamp_def)
  next
    case FromReceivers
    with take_msg assms(4) show ?thesis by (auto simp: forward_def recv_forward_def)
  next
    case FromCache
    with take_msg assms(4) show ?thesis by (auto simp: forward_def cache_forward_def)
  qed
qed (use assms in \<open>auto simp: alive_def\<close>)

lemma stored_run:
  assumes "router_run lib api mp s tr s'" and "alive s'" and "\<not> cache_ticked tr" and "mr_cache (rs_router s) = Some c"
    and "router_ok (rs_router s)" and "0 < rc_NumCacheIntervals (mr_config (rs_router s))"
  shows "\<exists>c'. run_fold (\<lambda>c m. cache_Add api (Some m) c) c
           (stored api mp (mr_mp (rs_router s)) (rc_IntervalStamp (mr_config (rs_router s))) (mr_timestamp (rs_router s)) tr) =
         Inr c' \<and> mr_cache (rs_router s') = Some c'"
  using assms
proof (induction rule: lrun.induct)
  case run_nil
  then show ?case by simp
next
  case (run_step tr t ev u)
  have alive: "alive t" using alive_before [OF run_step.hyps(2) run_step.prems(1)] .
  from run_step.IH [OF alive _ run_step.prems(3,4,5)] run_step.prems(2)
  obtain c1 where c1: "run_fold (\<lambda>c m. cache_Add api (Some m) c) c
      (stored api mp (mr_mp (rs_router s)) (rc_IntervalStamp (mr_config (rs_router s))) (mr_timestamp (rs_router s)) tr) =
      Inr c1" "mr_cache (rs_router t) = Some c1" by auto
  have same: "mr_mp (rs_router t) = mr_mp (rs_router s)" "mr_config (rs_router t) = mr_config (rs_router s)"
    using same_setup_run [OF run_step.hyps(1)] by (simp_all add: same_setup_def)
  have stamp: "mr_timestamp (rs_router t) = last_stamp (mr_timestamp (rs_router s)) tr"
    using outputs_run [OF run_step.hyps(1) alive] by simp
  have "cache_ok c1" using router_ok_run [OF run_step.hyps(1) run_step.prems(4)] c1(2) by (simp add: router_ok_def)
  from stored_step [OF run_step.hyps(2) run_step.prems(1) _ c1(2) this] run_step.prems(2,5) same stamp c1(1)
  show ?case by (simp add: run_fold_append)
qed


definition demo_interval :: "(demo_msg, string, unit, unit) router_sys" where
  "demo_interval =
     router_Start 9 (demo_router\<lparr>mr_config := default_config\<lparr>rc_NumCacheIntervals := 1\<rparr>,
                       mr_cache := Some (demo_cache 1 [demo_period [], demo_period []])\<rparr>)"


end
