(* ===== verification/Ticker.thy ===== *)
theory Ticker
  imports Go_Prelude
begin

text \<open>
  \<open>pkg/multiChanTicker/multiChanTicker.go\<close>: one goroutine that takes the ticks of a
  \<open>time.Ticker\<close> and sends each of them to all registered channels, one after the other.
  The goroutine, the runtime that fires the ticker, the receivers and the callers of
  \<open>AddChannel\<close> and \<open>Close\<close> run concurrently: each atomic action of one of them is a step.
\<close>

subsection \<open>State\<close>

text \<open>
  Where the goroutine is: in the outer \<open>select\<close>, in the inner one for a tick (with the
  index of the channel and the length of the slice when the \<open>range\<close> loop began), or gone.
  Channels are unbuffered; a channel is the list of what its receiver got. \<open>tc_added\<close> and
  \<open>tk_ticks\<close> are history: the ticks taken before the channel was added, and all ticks taken.
\<close>

datatype ticker_mode = Waiting | Sending gotime nat nat | Finished

record tick_channel =
  tc_added :: nat
  tc_received :: "gotime list"

record multiChanTicker =
  tk_duration :: int
  tk_C :: "gotime option" \<comment> \<open>the ticker's channel, which buffers one tick\<close>
  tk_channels :: "tick_channel list"
  tk_mode :: ticker_mode
  tk_ticks :: "gotime list"

text \<open>\<open>time.NewTicker\<close> panics when the duration is not positive.\<close>

definition NewTicker :: "int \<Rightarrow> multiChanTicker run" where
  "NewTicker d =
     (if d \<le> 0 then Inl NonPositiveTicker
      else Inr \<lparr>tk_duration = d, tk_C = None, tk_channels = [], tk_mode = Waiting, tk_ticks = []\<rparr>)"

definition AddChannel :: "multiChanTicker \<Rightarrow> multiChanTicker" where
  "AddChannel t = t\<lparr>tk_channels := tk_channels t @ [\<lparr>tc_added = length (tk_ticks t), tc_received = []\<rparr>]\<rparr>"

definition send_tick :: "gotime \<Rightarrow> nat \<Rightarrow> nat \<Rightarrow> multiChanTicker \<Rightarrow> multiChanTicker" where
  "send_tick ts i n t =
     (let c = tk_channels t ! i in
      t\<lparr>tk_channels := (tk_channels t)[i := c\<lparr>tc_received := tc_received c @ [ts]\<rparr>],
        tk_mode := Sending ts (Suc i) n\<rparr>)"

subsection \<open>Steps\<close>

inductive ticker_step :: "multiChanTicker \<Rightarrow> multiChanTicker \<Rightarrow> bool" where
  fire: "tk_C t = None \<Longrightarrow> ticker_step t (t\<lparr>tk_C := Some ts\<rparr>)"
| add_channel: "ticker_step t (AddChannel t)"
| take_tick: "tk_mode t = Waiting \<Longrightarrow> tk_C t = Some ts \<Longrightarrow>
    ticker_step t (t\<lparr>tk_C := None, tk_ticks := tk_ticks t @ [ts],
                     tk_mode := Sending ts 0 (length (tk_channels t))\<rparr>)"
| send: "tk_mode t = Sending ts i n \<Longrightarrow> i < n \<Longrightarrow> ticker_step t (send_tick ts i n t)"
| range_end: "tk_mode t = Sending ts n n \<Longrightarrow> ticker_step t (t\<lparr>tk_mode := Waiting\<rparr>)"
| close_waiting: "tk_mode t = Waiting \<Longrightarrow> ticker_step t (t\<lparr>tk_mode := Finished\<rparr>)"
| close_sending: "tk_mode t = Sending ts i n \<Longrightarrow> i < n \<Longrightarrow> ticker_step t (t\<lparr>tk_mode := Finished\<rparr>)"

inductive_cases ticker_stepE: "ticker_step t t'"

inductive ticker_reachable :: "multiChanTicker \<Rightarrow> bool" where
  start: "NewTicker d = Inr t \<Longrightarrow> ticker_reachable t"
| step: "ticker_reachable t \<Longrightarrow> ticker_step t t' \<Longrightarrow> ticker_reachable t'"

subsection \<open>Invariant\<close>

text \<open>
  \<open>sent_below t i n\<close>: the last tick has been sent to the channels below \<open>i\<close>, and the
  channels from \<open>n\<close> on were added after it was taken.
\<close>

definition up_to_date :: "gotime list \<Rightarrow> tick_channel \<Rightarrow> bool" where
  "up_to_date ticks c = (tc_added c \<le> length ticks \<and> tc_received c = drop (tc_added c) ticks)"

definition sent_below :: "multiChanTicker \<Rightarrow> nat \<Rightarrow> nat \<Rightarrow> bool" where
  "sent_below t i n =
     (i \<le> n \<and> n \<le> length (tk_channels t) \<and>
      (\<forall>k < length (tk_channels t). i \<le> k \<longrightarrow> k < n \<longrightarrow> up_to_date (butlast (tk_ticks t)) (tk_channels t ! k)) \<and>
      (\<forall>k < length (tk_channels t). k < i \<or> n \<le> k \<longrightarrow> up_to_date (tk_ticks t) (tk_channels t ! k)))"

definition ticker_ok :: "multiChanTicker \<Rightarrow> bool" where
  "ticker_ok t =
     (case tk_mode t of
        Waiting \<Rightarrow> sent_below t (length (tk_channels t)) (length (tk_channels t))
      | Sending ts i n \<Rightarrow> sent_below t i n \<and> tk_ticks t \<noteq> [] \<and> last (tk_ticks t) = ts
      | Finished \<Rightarrow> \<exists>i n. sent_below t i n)"

lemma up_to_date_new: "up_to_date ticks \<lparr>tc_added = length ticks, tc_received = []\<rparr>"
  by (simp add: up_to_date_def)

lemma up_to_date_send:
  assumes "up_to_date (butlast ticks) c" and "ticks \<noteq> []"
  shows "up_to_date ticks (c\<lparr>tc_received := tc_received c @ [last ticks]\<rparr>)"
proof -
  have le: "tc_added c \<le> length (butlast ticks)" using assms(1) by (simp add: up_to_date_def)
  have "drop (tc_added c) (butlast ticks @ [last ticks]) = drop (tc_added c) (butlast ticks) @ [last ticks]"
    using le by (simp add: drop_Cons')
  then have "drop (tc_added c) ticks = drop (tc_added c) (butlast ticks) @ [last ticks]"
    using append_butlast_last_id [OF assms(2)] by simp
  with assms(1) le show ?thesis by (auto simp: up_to_date_def)
qed

lemma sent_below_add: "sent_below t i n \<Longrightarrow> sent_below (AddChannel t) i n"
  by (auto simp: sent_below_def AddChannel_def nth_append up_to_date_new less_Suc_eq)

lemma sent_below_mode [simp]:
  "sent_below (t\<lparr>tk_mode := m\<rparr>) = sent_below t"
  "sent_below (t\<lparr>tk_C := b\<rparr>) = sent_below t"
  by (simp_all add: sent_below_def fun_eq_iff)

lemma sent_below_all: "sent_below t n n \<Longrightarrow> sent_below t (length (tk_channels t)) (length (tk_channels t))"
  by (auto simp: sent_below_def)

lemma sent_below_send:
  assumes "sent_below t i n" and "i < n" and "tk_ticks t \<noteq> []" and "last (tk_ticks t) = ts"
  shows "sent_below (send_tick ts i n t) (Suc i) n"
proof -
  have i: "i < length (tk_channels t)" using assms(1,2) by (simp add: sent_below_def)
  have "up_to_date (butlast (tk_ticks t)) (tk_channels t ! i)"
    using assms(1,2) i by (auto simp: sent_below_def)
  from up_to_date_send [OF this assms(3)] assms(4) have
    "up_to_date (tk_ticks t) ((tk_channels t ! i)\<lparr>tc_received := tc_received (tk_channels t ! i) @ [ts]\<rparr>)"
    by simp
  with assms(1,2) i show ?thesis
    by (auto simp: sent_below_def send_tick_def Let_def nth_list_update)
qed

lemma sent_below_take:
  assumes "sent_below t (length (tk_channels t)) (length (tk_channels t))"
  shows "sent_below (t\<lparr>tk_C := None, tk_ticks := tk_ticks t @ [ts], tk_mode := m\<rparr>) 0 (length (tk_channels t))"
  using assms by (auto simp: sent_below_def)

lemma ticker_ok_add:
  assumes "ticker_ok t"
  shows "ticker_ok (AddChannel t)"
proof (cases "tk_mode t")
  case Waiting
  then have "sent_below (AddChannel t) (length (tk_channels t)) (length (tk_channels t))"
    using assms by (auto simp: ticker_ok_def intro: sent_below_add)
  from sent_below_all [OF this] Waiting show ?thesis by (simp add: ticker_ok_def AddChannel_def)
next
  case (Sending ts i n)
  then show ?thesis
    using assms sent_below_add [of t i n] by (simp add: ticker_ok_def AddChannel_def)
next
  case Finished
  then obtain i n where "sent_below t i n" using assms by (auto simp: ticker_ok_def)
  from sent_below_add [OF this] Finished show ?thesis by (auto simp: ticker_ok_def AddChannel_def)
qed

lemma ticker_ok_step:
  assumes "ticker_ok t" and "ticker_step t t'"
  shows "ticker_ok t'"
  using assms(2,1)
proof cases
  case fire
  then show ?thesis using assms(1) by (simp add: ticker_ok_def split: ticker_mode.splits)
next
  case add_channel
  then show ?thesis using ticker_ok_add [OF assms(1)] by simp
next
  case (take_tick ts)
  then show ?thesis
    using assms(1) sent_below_take [of t _ ts] by (simp add: ticker_ok_def)
next
  case (send ts i n)
  then show ?thesis
    using assms(1) sent_below_send [of t i n ts] by (simp add: ticker_ok_def send_tick_def Let_def)
next
  case (range_end ts n)
  then show ?thesis
    using assms(1) sent_below_all [of t n] by (simp add: ticker_ok_def)
next
  case close_waiting
  then show ?thesis using assms(1) by (auto simp: ticker_ok_def)
next
  case (close_sending ts i n)
  then show ?thesis using assms(1) by (auto simp: ticker_ok_def)
qed

lemma ticker_ok_reachable: "ticker_reachable t \<Longrightarrow> ticker_ok t"
proof (induction rule: ticker_reachable.induct)
  case (start d t)
  then show ?case by (auto simp: NewTicker_def ticker_ok_def sent_below_def split: if_splits)
next
  case (step t t')
  then show ?case by (blast intro: ticker_ok_step)
qed

lemma finished_step:
  assumes "ticker_step t t'" and "tk_mode t = Finished"
  shows "tk_mode t' = Finished \<and>
    (\<forall>k < length (tk_channels t). k < length (tk_channels t') \<and>
       tc_received (tk_channels t' ! k) = tc_received (tk_channels t ! k))"
  using assms by cases (simp_all add: AddChannel_def nth_append)

lemma finished_steps:
  assumes "ticker_step\<^sup>*\<^sup>* t t'" and "tk_mode t = Finished"
  shows "tk_mode t' = Finished \<and>
    (\<forall>k < length (tk_channels t). k < length (tk_channels t') \<and>
       tc_received (tk_channels t' ! k) = tc_received (tk_channels t ! k))"
  using assms(1)
proof (induction rule: rtranclp_induct)
  case base
  then show ?case using assms(2) by simp
next
  case (step u v)
  then show ?case using finished_step [of u v] by simp
qed

subsection \<open>Properties\<close>

text \<open>C8: every registered channel receives exactly the ticks taken since it was added, in
  order and without gaps; at most the newest one is still outstanding, and none is while
  the goroutine waits for the next tick.\<close>

theorem ticker_delivers:
  assumes "ticker_reachable t" and "k < length (tk_channels t)"
  shows "\<exists>missing. tc_received (tk_channels t ! k) @ missing = drop (tc_added (tk_channels t ! k)) (tk_ticks t) \<and>
     length missing \<le> 1 \<and> (tk_mode t = Waiting \<longrightarrow> missing = [])"
proof -
  let ?c = "tk_channels t ! k"
  have "up_to_date (tk_ticks t) ?c \<or> tk_mode t \<noteq> Waiting \<and> up_to_date (butlast (tk_ticks t)) ?c"
    using ticker_ok_reachable [OF assms(1)] assms(2)
    by (simp add: ticker_ok_def sent_below_def split: ticker_mode.splits) (meson not_le)+
  then show ?thesis
  proof
    assume "up_to_date (tk_ticks t) ?c"
    then show ?thesis by (simp add: up_to_date_def)
  next
    assume *: "tk_mode t \<noteq> Waiting \<and> up_to_date (butlast (tk_ticks t)) ?c"
    have "\<exists>missing. butlast xs @ missing = xs \<and> length missing \<le> 1" for xs :: "gotime list"
      by (rule exI [of _ "if xs = [] then [] else [last xs]"]) simp
    with * show ?thesis by (metis butlast_drop up_to_date_def)
  qed
qed

text \<open>\<open>Close\<close> gets through in every state of the goroutine, without any receiver taking
  another tick, also while it is blocked sending one; afterwards no channel ever
  receives a tick again.\<close>

theorem ticker_close:
  "(ticker_reachable t \<longrightarrow>
      (\<exists>t'. ticker_step\<^sup>*\<^sup>* t t' \<and> tk_mode t' = Finished \<and> tk_channels t' = tk_channels t)) \<and>
   (tk_mode u = Finished \<longrightarrow> ticker_step\<^sup>*\<^sup>* u u' \<longrightarrow> k < length (tk_channels u) \<longrightarrow>
      tk_mode u' = Finished \<and> tc_received (tk_channels u' ! k) = tc_received (tk_channels u ! k))"
proof (intro conjI impI)
  assume r: "ticker_reachable t"
  have wait: "ticker_step\<^sup>*\<^sup>* s (s\<lparr>tk_mode := Finished\<rparr>)" if "tk_mode s = Waiting" for s
    using ticker_step.close_waiting [OF that] by blast
  show "\<exists>t'. ticker_step\<^sup>*\<^sup>* t t' \<and> tk_mode t' = Finished \<and> tk_channels t' = tk_channels t"
  proof (cases "tk_mode t")
    case Waiting
    from wait [OF this] show ?thesis by (intro exI [of _ "t\<lparr>tk_mode := Finished\<rparr>"]) simp
  next
    case Finished
    then show ?thesis by blast
  next
    case (Sending ts i n)
    have "i \<le> n" using ticker_ok_reachable [OF r] Sending by (simp add: ticker_ok_def sent_below_def)
    then consider "i < n" | "i = n" by linarith
    then show ?thesis
    proof cases
      case 1
      with Sending have "ticker_step t (t\<lparr>tk_mode := Finished\<rparr>)" by (rule ticker_step.close_sending)
      then show ?thesis by (intro exI [of _ "t\<lparr>tk_mode := Finished\<rparr>"]) auto
    next
      case 2
      with Sending have "ticker_step t (t\<lparr>tk_mode := Waiting\<rparr>)" by (simp add: ticker_step.range_end)
      with wait [of "t\<lparr>tk_mode := Waiting\<rparr>"] show ?thesis
        by (intro exI [of _ "t\<lparr>tk_mode := Finished\<rparr>"]) (auto intro: converse_rtranclp_into_rtranclp)
    qed
  qed
next
  assume "tk_mode u = Finished" "ticker_step\<^sup>*\<^sup>* u u'" "k < length (tk_channels u)"
  with finished_steps [of u u'] show "tk_mode u' = Finished"
    and "tc_received (tk_channels u' ! k) = tc_received (tk_channels u ! k)" by blast+
qed

subsection \<open>Witnesses\<close>

definition demo_ticker :: multiChanTicker where
  "demo_ticker = \<lparr>tk_duration = 10, tk_C = None,
     tk_channels = [\<lparr>tc_added = 0, tc_received = [7]\<rparr>, \<lparr>tc_added = 0, tc_received = []\<rparr>],
     tk_mode = Sending 7 1 2, tk_ticks = [7]\<rparr>"

lemma demo_ticker_reachable: "ticker_reachable demo_ticker"
proof -
  let ?t0 = "\<lparr>tk_duration = 10, tk_C = None, tk_channels = [], tk_mode = Waiting, tk_ticks = []\<rparr>"
  let ?t2 = "AddChannel (AddChannel ?t0)"
  let ?t3 = "?t2\<lparr>tk_C := Some 7\<rparr>"
  let ?t4 = "?t3\<lparr>tk_C := None, tk_ticks := tk_ticks ?t3 @ [7], tk_mode := Sending 7 0 (length (tk_channels ?t3))\<rparr>"
  have "ticker_reachable ?t0" by (rule ticker_reachable.start [of 10]) (simp add: NewTicker_def)
  then have "ticker_reachable ?t2" by (meson ticker_reachable.step ticker_step.add_channel)
  then have "ticker_reachable ?t3"
    by (rule ticker_reachable.step) (rule ticker_step.fire, simp add: AddChannel_def)
  then have "ticker_reachable ?t4"
    by (rule ticker_reachable.step) (rule ticker_step.take_tick, simp_all add: AddChannel_def)
  then have "ticker_reachable (send_tick 7 0 2 ?t4)"
    by (rule ticker_reachable.step) (rule ticker_step.send, simp_all add: AddChannel_def)
  then show ?thesis by (simp add: demo_ticker_def send_tick_def AddChannel_def Let_def)
qed

lemma ticker_delivers_witness:
  "\<exists>missing. tc_received (tk_channels demo_ticker ! 1) @ missing = [7] \<and> length missing \<le> 1"
  using ticker_delivers [OF demo_ticker_reachable, of 1] by (auto simp: demo_ticker_def)

lemma ticker_close_witness:
  "\<exists>t'. ticker_step\<^sup>*\<^sup>* demo_ticker t' \<and> tk_mode t' = Finished \<and> tk_channels t' = tk_channels demo_ticker"
  using ticker_close [of demo_ticker] demo_ticker_reachable by blast

end
