(* ===== verification/Collector_Manager.thy ===== *)
theory Collector_Manager
  imports Go_Prelude "HOL-Library.Multiset"
begin

text \<open>
  \<open>collectors/collectorManager.go\<close> and \<open>collectors/metricCollector.go\<close>: initialisation of
  the configured collectors and the goroutine that reads them on every tick, the parallel
  ones in goroutines of their own, then the serial ones one after the other. The manager,
  the reading goroutines and the caller of \<open>Close\<close> interleave as labelled steps. A collector
  is identified by its name in the configuration.
\<close>

subsection \<open>The collector interface\<close>

text \<open>The names in the order of the table \<open>AvailableCollectors\<close>.\<close>

definition AvailableCollectors :: "string list" where
  "AvailableCollectors =
     [''likwid'', ''loadavg'', ''memstat'', ''netstat'', ''ibstat'', ''lustrestat'', ''cpustat'', ''topprocs'',
      ''nvidia'', ''customcmd'', ''iostat'', ''diskstat'', ''tempstat'', ''ipmistat'', ''gpfs'', ''cpufreq'',
      ''cpufreq_cpuinfo'', ''nfs3stat'', ''nfs4stat'', ''numastats'', ''beegfs_meta'', ''beegfs_storage'',
      ''rapl'', ''rocm_smi'', ''self'', ''schedstat'', ''nfsiostat'', ''slurm_cgroup'', ''smartmon'']"

record metricCollector =
  mcol_name :: string
  mcol_init :: bool
  mcol_parallel :: bool
  mcol_meta :: tagmap

definition Name :: "metricCollector \<Rightarrow> string" where "Name c = mcol_name c"
definition Parallel :: "metricCollector \<Rightarrow> bool" where "Parallel c = mcol_parallel c"
definition Initialized :: "metricCollector \<Rightarrow> bool" where "Initialized c = mcol_init c"
definition collector_setup :: "metricCollector \<Rightarrow> goerror option" where "collector_setup c = None"

fun RemoveFromStringList :: "string list \<Rightarrow> string \<Rightarrow> string list \<times> goerror option" where
  "RemoveFromStringList [] r = ([], Some (GoError ''no such string in list''))"
| "RemoveFromStringList (x # xs) r =
     (if r = x then (xs, None)
      else (case RemoveFromStringList xs r of (ys, err) \<Rightarrow> (x # ys, err)))"

subsection \<open>State and Init\<close>

text \<open>
  \<open>Launching\<close>, \<open>Serial\<close>: the collectors the loop has not visited yet. \<open>Serial_Read\<close>: inside
  the \<open>Read\<close> of a serial collector. \<open>Closing_Wait\<close>: \<open>done()\<close> waits for the goroutines.
\<close>

datatype cm_mode =
    Idle
  | Launching "string list"
  | Barrier
  | Serial "string list"
  | Serial_Read string "string list"
  | Closing_Wait
  | Closing "string list"
  | Closed

record collectorManager =
  cm_collectors :: "string list"
  cm_serial :: "string list"
  cm_parallel_run :: bool
  cm_reading :: "string multiset" \<comment> \<open>the collectors in the wait group \<open>collector_wg\<close>\<close>
  cm_mode :: cm_mode

text \<open>
  \<open>Init\<close> with the decoded configuration in the order of its iteration. \<open>collector_Init\<close> is
  the dynamic call: the initialised collector, or its error.
\<close>

definition cm_Init ::
  "(string \<Rightarrow> 'j \<Rightarrow> goerror + metricCollector) \<Rightarrow> (string \<times> 'j) list \<Rightarrow> collectorManager" where
  "cm_Init collector_Init config =
     fold (\<lambda>(collectorName, collectorCfg) cm.
             if collectorName \<notin> set AvailableCollectors then cm
             else case collector_Init collectorName collectorCfg of
                    Inl err \<Rightarrow> cm
                  | Inr collector \<Rightarrow>
                      (if Parallel collector then cm\<lparr>cm_collectors := cm_collectors cm @ [collectorName]\<rparr>
                       else cm\<lparr>cm_serial := cm_serial cm @ [collectorName]\<rparr>))
       config
       \<lparr>cm_collectors = [], cm_serial = [], cm_parallel_run = False, cm_reading = {#}, cm_mode = Idle\<rparr>"

subsection \<open>Start and Close\<close>

datatype cm_event = Tick | Read_Start string | Read_End string | Close_Collector string | Close_Done | Silent

text \<open>\<open>done()\<close> up to its first blocking operation.\<close>

definition enter_done :: "collectorManager \<Rightarrow> collectorManager" where
  "enter_done cm = cm\<lparr>cm_mode := (if cm_parallel_run cm then Closing_Wait else Closing (cm_collectors cm))\<rparr>"

inductive cm_step :: "collectorManager \<Rightarrow> cm_event \<Rightarrow> collectorManager \<Rightarrow> bool" where
  tick: "cm_mode cm = Idle \<Longrightarrow>
    cm_step cm Tick (cm\<lparr>cm_parallel_run := True, cm_mode := Launching (cm_collectors cm)\<rparr>)"
| launch: "cm_mode cm = Launching (c # cs) \<Longrightarrow>
    cm_step cm (Read_Start c) (cm\<lparr>cm_reading := add_mset c (cm_reading cm), cm_mode := Launching cs\<rparr>)"
| launched: "cm_mode cm = Launching [] \<Longrightarrow> cm_step cm Silent (cm\<lparr>cm_mode := Barrier\<rparr>)"
| read_end: "c \<in># cm_reading cm \<Longrightarrow>
    cm_step cm (Read_End c) (cm\<lparr>cm_reading := cm_reading cm - {#c#}\<rparr>)"
| waited: "cm_mode cm = Barrier \<Longrightarrow> cm_reading cm = {#} \<Longrightarrow>
    cm_step cm Silent (cm\<lparr>cm_parallel_run := False, cm_mode := Serial (cm_serial cm)\<rparr>)"
| serial_start: "cm_mode cm = Serial (c # cs) \<Longrightarrow>
    cm_step cm (Read_Start c) (cm\<lparr>cm_mode := Serial_Read c cs\<rparr>)"
| serial_end: "cm_mode cm = Serial_Read c cs \<Longrightarrow> cm_step cm (Read_End c) (cm\<lparr>cm_mode := Serial cs\<rparr>)"
| serial_done: "cm_mode cm = Serial [] \<Longrightarrow> cm_step cm Silent (cm\<lparr>cm_mode := Idle\<rparr>)"
| close_idle: "cm_mode cm = Idle \<Longrightarrow> cm_step cm Silent (enter_done cm)"
| close_launching: "cm_mode cm = Launching (c # cs) \<Longrightarrow> cm_step cm Silent (enter_done cm)"
| close_serial: "cm_mode cm = Serial (c # cs) \<Longrightarrow> cm_step cm Silent (enter_done cm)"
| closing_waited: "cm_mode cm = Closing_Wait \<Longrightarrow> cm_reading cm = {#} \<Longrightarrow>
    cm_step cm Silent (cm\<lparr>cm_parallel_run := False, cm_mode := Closing (cm_collectors cm)\<rparr>)"
| close_collector: "cm_mode cm = Closing (c # cs) \<Longrightarrow>
    cm_step cm (Close_Collector c) (cm\<lparr>cm_mode := Closing cs\<rparr>)"
| close_done: "cm_mode cm = Closing [] \<Longrightarrow> cm_step cm Close_Done (cm\<lparr>cm_mode := Closed\<rparr>)"

inductive_cases cm_stepE: "cm_step cm ev cm'"

subsection \<open>What a run shows\<close>

fun reads_started :: "cm_event list \<Rightarrow> string list" where
  "reads_started [] = []"
| "reads_started (ev # tr) = (case ev of Read_Start c \<Rightarrow> [c] | _ \<Rightarrow> []) @ reads_started tr"

fun reads_ended :: "cm_event list \<Rightarrow> string list" where
  "reads_ended [] = []"
| "reads_ended (ev # tr) = (case ev of Read_End c \<Rightarrow> [c] | _ \<Rightarrow> []) @ reads_ended tr"

fun closed_collectors :: "cm_event list \<Rightarrow> string list" where
  "closed_collectors [] = []"
| "closed_collectors (ev # tr) = (case ev of Close_Collector c \<Rightarrow> [c] | _ \<Rightarrow> []) @ closed_collectors tr"

fun ticks :: "cm_event list \<Rightarrow> nat" where
  "ticks [] = 0"
| "ticks (ev # tr) = (case ev of Tick \<Rightarrow> 1 | _ \<Rightarrow> 0) + ticks tr"

lemma cm_trace_append [simp]:
  "reads_started (tr @ tr') = reads_started tr @ reads_started tr'"
  "reads_ended (tr @ tr') = reads_ended tr @ reads_ended tr'"
  "closed_collectors (tr @ tr') = closed_collectors tr @ closed_collectors tr'"
  "ticks (tr @ tr') = ticks tr + ticks tr'"
  by (induction tr) auto

definition started :: "collectorManager \<Rightarrow> bool" where
  "started cm = (cm_mode cm = Idle \<and> cm_reading cm = {#} \<and> \<not> cm_parallel_run cm)"

text \<open>The collectors whose \<open>Read\<close> is running.\<close>

definition in_flight :: "collectorManager \<Rightarrow> string multiset" where
  "in_flight cm = cm_reading cm + (case cm_mode cm of Serial_Read c _ \<Rightarrow> {#c#} | _ \<Rightarrow> {#})"

definition closing :: "collectorManager \<Rightarrow> bool" where
  "closing cm = (case cm_mode cm of Closing_Wait \<Rightarrow> True | Closing _ \<Rightarrow> True | Closed \<Rightarrow> True | _ \<Rightarrow> False)"

text \<open>The wait group is empty wherever the flag is clear.\<close>

definition cm_ok :: "collectorManager \<Rightarrow> bool" where
  "cm_ok cm =
     (case cm_mode cm of
        Launching _ \<Rightarrow> cm_parallel_run cm
      | Barrier \<Rightarrow> cm_parallel_run cm
      | Closing_Wait \<Rightarrow> True
      | _ \<Rightarrow> cm_reading cm = {#} \<and> \<not> cm_parallel_run cm)"

lemma cm_ok_step:
  assumes "cm_step cm ev cm'" and "cm_ok cm"
  shows "cm_ok cm'"
  using assms by cases (auto simp: cm_ok_def enter_done_def split: cm_mode.splits)

lemma same_collectors_step:
  "cm_step cm ev cm' \<Longrightarrow> cm_collectors cm' = cm_collectors cm \<and> cm_serial cm' = cm_serial cm"
  by (cases rule: cm_step.cases) (auto simp: enter_done_def)

interpretation cm_ok: step_invariant cm_step cm_ok
  by unfold_locales (rule cm_ok_step)

interpretation same_collectors:
  step_order cm_step "\<lambda>cm cm'. cm_collectors cm' = cm_collectors cm \<and> cm_serial cm' = cm_serial cm"
  by unfold_locales (auto dest: same_collectors_step)

lemmas cm_ok_run = cm_ok.inv_run
lemmas same_collectors_run = same_collectors.rel_run

lemma started_ok: "started cm \<Longrightarrow> cm_ok cm"
  by (simp add: started_def cm_ok_def)

text \<open>Reads that have started and not ended are in flight.\<close>

lemma in_flight_step:
  assumes "cm_step cm ev cm'" and "cm_ok cm"
  shows "in_flight cm + mset (reads_started [ev]) = in_flight cm' + mset (reads_ended [ev])"
  using assms by cases (auto simp: in_flight_def enter_done_def cm_ok_def split: cm_mode.splits)

lemma in_flight_run:
  assumes "lrun cm_step cm tr cm'" and "cm_ok cm"
  shows "in_flight cm + mset (reads_started tr) = in_flight cm' + mset (reads_ended tr)"
  using assms
proof (induction rule: lrun.induct)
  case (run_step tr t ev u)
  note one = in_flight_step [OF run_step.hyps(2) cm_ok_run [OF run_step.hyps(1) run_step.prems]]
  have "in_flight cm + mset (reads_started (tr @ [ev])) =
        (in_flight cm + mset (reads_started tr)) + mset (reads_started [ev])"
    by (simp only: cm_trace_append mset_append add.assoc)
  also have "\<dots> = (in_flight t + mset (reads_started [ev])) + mset (reads_ended tr)"
    by (simp only: run_step.IH [OF run_step.prems] ac_simps)
  also have "\<dots> = in_flight u + mset (reads_ended (tr @ [ev]))"
    by (simp only: one cm_trace_append mset_append ac_simps)
  finally show ?case .
qed simp

text \<open>What the current round still has to read.\<close>

definition to_read :: "collectorManager \<Rightarrow> string list" where
  "to_read cm =
     (case cm_mode cm of
        Launching cs \<Rightarrow> cs @ cm_serial cm
      | Barrier \<Rightarrow> cm_serial cm
      | Serial cs \<Rightarrow> cs
      | Serial_Read _ cs \<Rightarrow> cs
      | _ \<Rightarrow> [])"

lemma closing_enter_done [simp]: "closing (enter_done cm)"
  by (simp add: closing_def enter_done_def)

lemma reading_irrelevant [simp]:
  "closing (cm\<lparr>cm_reading := r\<rparr>) = closing cm" "to_read (cm\<lparr>cm_reading := r\<rparr>) = to_read cm"
  by (cases "cm_mode cm"; simp add: closing_def to_read_def)+

lemma rounds_run:
  assumes "lrun cm_step cm tr cm'" and "started cm" and "\<not> closing cm'"
  shows "reads_started tr @ to_read cm' = concat (replicate (ticks tr) (cm_collectors cm @ cm_serial cm))"
  using assms
proof (induction rule: lrun.induct)
  case run_nil
  then show ?case by (simp add: started_def to_read_def)
next
  case (run_step tr t ev u)
  have nc: "\<not> closing t"
    using run_step.hyps(2) run_step.prems(2) by cases (auto simp: closing_def)
  note IH = run_step.IH [OF run_step.prems(1) nc]
  note same = same_collectors_run [OF run_step.hyps(1)]
  have snoc: "concat (replicate n xs) @ xs = concat (replicate (Suc n) xs)" for n and xs :: "string list"
    by (induction n) simp_all
  from run_step.hyps(2) show ?case
  proof cases
    case tick
    then have "reads_started tr = concat (replicate (ticks tr) (cm_collectors cm @ cm_serial cm))"
      using IH by (simp add: to_read_def)
    with tick same snoc [of "ticks tr" "cm_collectors cm @ cm_serial cm"] show ?thesis by (simp add: to_read_def)
  next
    case (read_end c)
    with IH show ?thesis by simp
  next
    case (close_collector c cs)
    with nc show ?thesis by (simp add: closing_def)
  next
    case close_done
    with nc show ?thesis by (simp add: closing_def)
  next
    case close_idle
    with run_step.prems(2) show ?thesis by simp
  next
    case (close_launching c cs)
    with run_step.prems(2) show ?thesis by simp
  next
    case (close_serial c cs)
    with run_step.prems(2) show ?thesis by simp
  qed (use IH nc run_step.prems(2) in \<open>simp_all add: to_read_def closing_def\<close>)
qed

text \<open>Once the manager is closing, no new read starts.\<close>

lemma closing_step:
  assumes "cm_step cm ev cm'" and "closing cm"
  shows "closing cm' \<and> reads_started [ev] = []"
  using assms by cases (auto simp: closing_def split: cm_mode.splits)

lemma closing_run:
  assumes "lrun cm_step cm tr cm'" and "closing cm"
  shows "closing cm' \<and> reads_started tr = []"
  using assms
proof (induction rule: lrun.induct)
  case (run_step tr t ev u)
  then show ?case using closing_step [OF run_step.hyps(2)] by simp
qed simp

text \<open>The collectors closed so far.\<close>

lemma closed_run:
  assumes "lrun cm_step cm tr cm'" and "started cm"
  shows "case cm_mode cm' of
           Closing cs \<Rightarrow> closed_collectors tr @ cs = cm_collectors cm
         | Closed \<Rightarrow> closed_collectors tr = cm_collectors cm
         | _ \<Rightarrow> closed_collectors tr = []"
  using assms
proof (induction rule: lrun.induct)
  case run_nil
  then show ?case by (simp add: started_def)
next
  case (run_step tr t ev u)
  note IH = run_step.IH [OF run_step.prems]
  note same = same_collectors_run [OF run_step.hyps(1)]
  from run_step.hyps(2) show ?case
    by cases (use IH same in \<open>auto simp: enter_done_def split: cm_mode.splits\<close>)
qed

text \<open>The goroutines that are launched belong to the parallel collectors.\<close>

lemma launching_run:
  assumes "lrun cm_step cm tr cm'" and "started cm" and "cm_mode cm' = Launching cs"
  shows "set cs \<subseteq> set (cm_collectors cm)"
  using assms
proof (induction arbitrary: cs rule: lrun.induct)
  case run_nil
  then show ?case by (simp add: started_def)
next
  case (run_step tr t ev u)
  note IH = run_step.IH [OF run_step.prems(1)]
  note same = same_collectors_run [OF run_step.hyps(1)]
  from run_step.hyps(2) show ?case
  proof cases
    case (launch c cs')
    with IH [of "c # cs'"] run_step.prems(2) show ?thesis by simp
  qed (use IH same run_step.prems(2) in \<open>auto simp: enter_done_def split: if_splits\<close>)
qed

lemma nothing_in_flight_when_closing:
  "cm_ok cm \<Longrightarrow> cm_mode cm = Closing cs \<or> cm_mode cm = Serial cs \<Longrightarrow> in_flight cm = {#}"
  by (auto simp: cm_ok_def in_flight_def)

lemma balanced:
  assumes "lrun cm_step cm tr cm'" and "started cm" and "in_flight cm' = {#}"
  shows "mset (reads_started tr) = mset (reads_ended tr)"
  using in_flight_run [OF assms(1) started_ok [OF assms(2)]] assms(2,3)
  by (simp add: in_flight_def started_def)

subsection \<open>Init\<close>

definition init_result :: "(string \<Rightarrow> 'j \<Rightarrow> goerror + metricCollector) \<Rightarrow> bool \<Rightarrow> string \<times> 'j \<Rightarrow> bool" where
  "init_result collector_Init par entry =
     (fst entry \<in> set AvailableCollectors \<and>
      (case collector_Init (fst entry) (snd entry) of Inl _ \<Rightarrow> False | Inr c \<Rightarrow> Parallel c = par))"

lemma cm_Init_fold:
  "fold (\<lambda>(collectorName, collectorCfg) cm.
             if collectorName \<notin> set AvailableCollectors then cm
             else case collector_Init collectorName collectorCfg of
                    Inl err \<Rightarrow> cm
                  | Inr collector \<Rightarrow>
                      (if Parallel collector then cm\<lparr>cm_collectors := cm_collectors cm @ [collectorName]\<rparr>
                       else cm\<lparr>cm_serial := cm_serial cm @ [collectorName]\<rparr>)) config cm =
   cm\<lparr>cm_collectors := cm_collectors cm @ map fst (filter (init_result collector_Init True) config),
      cm_serial := cm_serial cm @ map fst (filter (init_result collector_Init False) config)\<rparr>"
  by (induction config arbitrary: cm) (auto simp: init_result_def split: sum.splits)

lemma cm_Init_eq:
  "cm_collectors (cm_Init I config) = map fst (filter (init_result I True) config)"
  "cm_serial (cm_Init I config) = map fst (filter (init_result I False) config)"
  "started (cm_Init I config)"
  unfolding cm_Init_def cm_Init_fold by (simp_all add: started_def)

lemma serial_not_parallel:
  assumes "distinct (map fst config)" and "c \<in> set (cm_serial (cm_Init I config))"
  shows "c \<notin> set (cm_collectors (cm_Init I config))"
proof
  assume "c \<in> set (cm_collectors (cm_Init I config))"
  with assms(2) obtain j j' where "(c, j) \<in> set config" "init_result I True (c, j)"
      "(c, j') \<in> set config" "init_result I False (c, j')"
    by (auto simp: cm_Init_eq)
  moreover from this assms(1) have "j = j'" by (metis eq_key_imp_eq_value)
  ultimately show False by (auto simp: init_result_def split: sum.splits)
qed

subsection \<open>Closing gets through\<close>

lemma finish_reads:
  "\<exists>tr. lrun cm_step cm tr (cm\<lparr>cm_reading := {#}\<rparr>) \<and> ticks tr = 0"
proof (induction "cm_reading cm" arbitrary: cm)
  case empty
  then have "cm\<lparr>cm_reading := {#}\<rparr> = cm" by simp
  then show ?case by (intro exI [of _ "[]"]) simp
next
  case (add c M)
  let ?cm = "cm\<lparr>cm_reading := cm_reading cm - {#c#}\<rparr>"
  from add.hyps(2) have "c \<in># cm_reading cm" "M = cm_reading ?cm" by (metis union_single_eq_member) (simp flip: add.hyps(2))
  from add.hyps(1) [OF this(2)] obtain tr where tr: "lrun cm_step ?cm tr (cm\<lparr>cm_reading := {#}\<rparr>)" "ticks tr = 0" by auto
  have "cm_step cm (Read_End c) ?cm" by (rule cm_step.read_end) fact
  from lrun_cons [of cm_step cm "Read_End c" ?cm, OF this tr(1)] tr(2) show ?case by (intro exI [of _ "Read_End c # tr"]) simp
qed

definition can_close :: "collectorManager \<Rightarrow> bool" where
  "can_close cm = (\<exists>tr cm'. lrun cm_step cm tr cm' \<and> ticks tr = 0 \<and> cm_mode cm' = Closed)"

lemma can_close_step:
  assumes "cm_step cm ev t" and "ev \<noteq> Tick" and "can_close t"
  shows "can_close cm"
proof -
  from assms(3) obtain tr cm' where "lrun cm_step t tr cm'" "ticks tr = 0" "cm_mode cm' = Closed"
    by (auto simp: can_close_def)
  with lrun_cons [of cm_step cm ev t tr cm', OF assms(1)] assms(2) show ?thesis unfolding can_close_def
    by (intro exI [of _ "ev # tr"] exI [of _ cm']) (auto split: cm_event.splits)
qed

lemma can_close_reads: "can_close (cm\<lparr>cm_reading := {#}\<rparr>) \<Longrightarrow> can_close cm"
  unfolding can_close_def using finish_reads [of cm] lrun_append by (metis add.right_neutral cm_trace_append(4))

lemma can_close_Closing: "cm_mode cm = Closing cs \<Longrightarrow> can_close cm"
proof (induction cs arbitrary: cm)
  case Nil
  then have "cm_step cm Close_Done (cm\<lparr>cm_mode := Closed\<rparr>)" by (rule cm_step.close_done)
  moreover have "can_close (cm\<lparr>cm_mode := Closed\<rparr>)"
    unfolding can_close_def by (intro exI [of _ "[]"] exI [of _ "cm\<lparr>cm_mode := Closed\<rparr>"]) simp
  ultimately show ?case using can_close_step by blast
next
  case (Cons c cs)
  have "cm_step cm (Close_Collector c) (cm\<lparr>cm_mode := Closing cs\<rparr>)" using Cons.prems by (rule cm_step.close_collector)
  then show ?case by (rule can_close_step) (simp_all add: Cons.IH)
qed

lemma can_close_enter_done: "can_close (enter_done cm)"
proof (cases "cm_parallel_run cm")
  case True
  let ?w = "(enter_done cm)\<lparr>cm_reading := {#}\<rparr>"
  have "cm_step ?w Silent (?w\<lparr>cm_parallel_run := False, cm_mode := Closing (cm_collectors ?w)\<rparr>)"
    by (rule cm_step.closing_waited) (simp_all add: enter_done_def True)
  then have "can_close ?w" by (rule can_close_step) (auto intro: can_close_Closing)
  then show ?thesis by (rule can_close_reads)
next
  case False
  then show ?thesis by (auto simp: enter_done_def intro: can_close_Closing)
qed

lemma can_close_Idle: "cm_mode cm = Idle \<Longrightarrow> can_close cm"
  by (rule can_close_step [OF cm_step.close_idle]) (auto intro: can_close_enter_done)

lemma can_close_Serial: "cm_mode cm = Serial cs \<Longrightarrow> can_close cm"
proof (cases cs)
  case Nil
  assume "cm_mode cm = Serial cs"
  with Nil have "cm_step cm Silent (cm\<lparr>cm_mode := Idle\<rparr>)" by (simp add: cm_step.serial_done)
  then show ?thesis by (rule can_close_step) (auto intro: can_close_Idle)
next
  case (Cons c cs')
  assume "cm_mode cm = Serial cs"
  with Cons have "cm_step cm Silent (enter_done cm)" by (simp add: cm_step.close_serial)
  then show ?thesis by (rule can_close_step) (auto intro: can_close_enter_done)
qed

lemma can_close_Barrier: "cm_mode cm = Barrier \<Longrightarrow> can_close cm"
proof -
  assume b: "cm_mode cm = Barrier"
  let ?w = "cm\<lparr>cm_reading := {#}\<rparr>"
  from b have "cm_step ?w Silent (?w\<lparr>cm_parallel_run := False, cm_mode := Serial (cm_serial ?w)\<rparr>)"
    by (intro cm_step.waited) simp_all
  then have "can_close ?w" by (rule can_close_step) (auto intro: can_close_Serial)
  then show ?thesis by (rule can_close_reads)
qed

lemma can_close_always: "can_close cm"
proof (cases "cm_mode cm")
  case (Launching cs)
  then show ?thesis
  proof (cases cs)
    case Nil
    with Launching have "cm_step cm Silent (cm\<lparr>cm_mode := Barrier\<rparr>)" by (simp add: cm_step.launched)
    then show ?thesis by (rule can_close_step) (auto intro: can_close_Barrier)
  next
    case (Cons c cs')
    with Launching have "cm_step cm Silent (enter_done cm)" by (simp add: cm_step.close_launching)
    then show ?thesis by (rule can_close_step) (auto intro: can_close_enter_done)
  qed
next
  case (Serial_Read c cs)
  then have "cm_step cm (Read_End c) (cm\<lparr>cm_mode := Serial cs\<rparr>)" by (rule cm_step.serial_end)
  then show ?thesis by (rule can_close_step) (auto intro: can_close_Serial)
next
  case Closing_Wait
  let ?w = "cm\<lparr>cm_reading := {#}\<rparr>"
  from Closing_Wait have "cm_step ?w Silent (?w\<lparr>cm_parallel_run := False, cm_mode := Closing (cm_collectors ?w)\<rparr>)"
    by (intro cm_step.closing_waited) simp_all
  then have "can_close ?w" by (rule can_close_step) (auto intro: can_close_Closing)
  then show ?thesis by (rule can_close_reads)
next
  case Closed
  then show ?thesis unfolding can_close_def
    by (intro exI [of _ "[]"] exI [of _ cm]) simp
qed (auto intro: can_close_Idle can_close_Barrier can_close_Serial can_close_Closing)

subsection \<open>Properties\<close>

text \<open>C3: the manager works in rounds: whenever it waits for a tick, every tick so far has
  started the \<open>Read\<close> of each initialised parallel collector once and then of each serial one
  once, in the configured order, and all of these reads have ended.\<close>

theorem collector_rounds:
  assumes "lrun cm_step (cm_Init I config) tr cm" and "cm_mode cm = Idle"
  shows "reads_started tr = concat (replicate (ticks tr)
           (map fst (filter (init_result I True) config) @ map fst (filter (init_result I False) config))) \<and>
         mset (reads_ended tr) = mset (reads_started tr)"
proof -
  have ok: "cm_ok cm" using cm_ok_run [OF assms(1) started_ok [OF cm_Init_eq(3)]] .
  then have "in_flight cm = {#}" using assms(2) by (simp add: cm_ok_def in_flight_def)
  with balanced [OF assms(1) cm_Init_eq(3)] rounds_run [OF assms(1) cm_Init_eq(3)] assms(2)
  show ?thesis by (simp add: closing_def to_read_def cm_Init_eq)
qed

text \<open>C34: a serial collector is read alone: when its \<open>Read\<close> starts, every \<open>Read\<close> started before
  it, parallel or serial, has ended.\<close>

theorem serial_reads_exclusive:
  assumes "lrun cm_step (cm_Init I config) (tr1 @ Read_Start c # tr2) cm" and "distinct (map fst config)"
    and "c \<in> set (cm_serial (cm_Init I config))"
  shows "mset (reads_started tr1) = mset (reads_ended tr1)"
proof -
  obtain t t' where t: "lrun cm_step (cm_Init I config) tr1 t" "cm_step t (Read_Start c) t'"
    using lrun_split [OF assms(1) refl] by blast
  have ok: "cm_ok t" using cm_ok_run [OF t(1) started_ok [OF cm_Init_eq(3)]] .
  from t(2) have "in_flight t = {#}"
  proof cases
    case (launch cs)
    with launching_run [OF t(1) cm_Init_eq(3) launch(2)] serial_not_parallel [OF assms(2,3)]
    show ?thesis by simp
  next
    case (serial_start cs)
    with ok show ?thesis by (auto intro: nothing_in_flight_when_closing)
  qed
  then show ?thesis by (rule balanced [OF t(1) cm_Init_eq(3)])
qed

text \<open>C4: no collector is closed while a \<open>Read\<close> is running, and none is read after the first
  \<open>Close\<close>.\<close>

theorem close_excludes_reads:
  assumes "lrun cm_step (cm_Init I config) (tr1 @ Close_Collector c # tr2) cm"
  shows "mset (reads_started tr1) = mset (reads_ended tr1) \<and> reads_started tr2 = [] \<and> reads_ended tr2 = []"
proof -
  obtain t t' where t: "lrun cm_step (cm_Init I config) tr1 t" "cm_step t (Close_Collector c) t'"
      "lrun cm_step t' tr2 cm"
    using lrun_split [OF assms refl] by blast
  have ok: "cm_ok t" using cm_ok_run [OF t(1) started_ok [OF cm_Init_eq(3)]] .
  from t(2) obtain cs where cs: "cm_mode t = Closing (c # cs)" "t' = t\<lparr>cm_mode := Closing cs\<rparr>" by cases auto
  have t0: "in_flight t = {#}" using ok cs(1) by (auto intro: nothing_in_flight_when_closing)
  have t': "closing t'" "cm_ok t'" "in_flight t' = {#}"
    using t0 cs ok by (simp_all add: closing_def in_flight_def cm_ok_def)
  have "reads_started tr2 = []" using closing_run [OF t(3) t'(1)] by simp
  with in_flight_run [OF t(3) t'(2)] t'(3) have "reads_ended tr2 = []" by simp
  with \<open>reads_started tr2 = []\<close> balanced [OF t(1) cm_Init_eq(3) t0] show ?thesis by simp
qed

text \<open>C39: \<open>Close\<close> always gets through without another tick, provided the running reads end; and
  when the manager has finished, it has closed each parallel collector once and no serial
  collector at all.\<close>

theorem manager_close:
  "(\<exists>tr cm'. lrun cm_step cm tr cm' \<and> ticks tr = 0 \<and> cm_mode cm' = Closed) \<and>
   (lrun cm_step (cm_Init I config) tr' cm'' \<longrightarrow> cm_mode cm'' = Closed \<longrightarrow>
      closed_collectors tr' = map fst (filter (init_result I True) config))"
  using can_close_always [of cm] closed_run [OF _ cm_Init_eq(3), of I config tr' cm'']
  by (auto simp: can_close_def cm_Init_eq(1))

subsection \<open>Witnesses\<close>

definition demo_collector_Init :: "string \<Rightarrow> unit \<Rightarrow> goerror + metricCollector" where
  "demo_collector_Init name cfg =
     Inr \<lparr>mcol_name = name, mcol_init = True, mcol_parallel = (name = ''memstat''), mcol_meta = []\<rparr>"

definition demo_collectors :: "(string \<times> unit) list" where
  "demo_collectors = [(''memstat'', ()), (''nosuch'', ()), (''likwid'', ())]"

lemma demo_collectors_eq:
  "cm_Init demo_collector_Init demo_collectors =
   \<lparr>cm_collectors = [''memstat''], cm_serial = [''likwid''], cm_parallel_run = False, cm_reading = {#}, cm_mode = Idle\<rparr>"
  by (simp add: cm_Init_def demo_collectors_def demo_collector_Init_def AvailableCollectors_def Parallel_def)

definition demo_round :: "cm_event list" where
  "demo_round = [Tick, Read_Start ''memstat'', Silent, Read_End ''memstat'', Silent,
                 Read_Start ''likwid'', Read_End ''likwid'', Silent]"

definition demo_cm :: "cm_mode \<Rightarrow> collectorManager" where
  "demo_cm m = (cm_Init demo_collector_Init demo_collectors)\<lparr>cm_mode := m\<rparr>"

lemma demo_round_run:
  "lrun cm_step (cm_Init demo_collector_Init demo_collectors) demo_round (demo_cm Idle)"
proof -
  let ?c = "\<lambda>p r m. \<lparr>cm_collectors = [''memstat''], cm_serial = [''likwid''], cm_parallel_run = p, cm_reading = r, cm_mode = m\<rparr>"
  note c = lrun_cons [where R = cm_step]
  have 1: "cm_step (?c False {#} Idle) Tick (?c True {#} (Launching [''memstat'']))"
    using cm_step.tick [of "?c False {#} Idle"] by simp
  have 2: "cm_step (?c True {#} (Launching [''memstat''])) (Read_Start ''memstat'') (?c True {#''memstat''#} (Launching []))"
    using cm_step.launch [of "?c True {#} (Launching [''memstat''])"] by simp
  have 3: "cm_step (?c True {#''memstat''#} (Launching [])) Silent (?c True {#''memstat''#} Barrier)"
    using cm_step.launched [of "?c True {#''memstat''#} (Launching [])"] by simp
  have 4: "cm_step (?c True {#''memstat''#} Barrier) (Read_End ''memstat'') (?c True {#} Barrier)"
    using cm_step.read_end [of "''memstat''" "?c True {#''memstat''#} Barrier"] by simp
  have 5: "cm_step (?c True {#} Barrier) Silent (?c False {#} (Serial [''likwid'']))"
    using cm_step.waited [of "?c True {#} Barrier"] by simp
  have 6: "cm_step (?c False {#} (Serial [''likwid''])) (Read_Start ''likwid'') (?c False {#} (Serial_Read ''likwid'' []))"
    using cm_step.serial_start [of "?c False {#} (Serial [''likwid''])"] by simp
  have 7: "cm_step (?c False {#} (Serial_Read ''likwid'' [])) (Read_End ''likwid'') (?c False {#} (Serial []))"
    using cm_step.serial_end [of "?c False {#} (Serial_Read ''likwid'' [])"] by simp
  have 8: "cm_step (?c False {#} (Serial [])) Silent (?c False {#} Idle)"
    using cm_step.serial_done [of "?c False {#} (Serial [])"] by simp
  show ?thesis unfolding demo_round_def demo_cm_def demo_collectors_eq
    by (simp, rule c [OF 1 c [OF 2 c [OF 3 c [OF 4 c [OF 5 c [OF 6 c [OF 7 lrun_single [where R = cm_step, OF 8]]]]]]]])
qed

lemma collector_rounds_witness: "mset (reads_ended demo_round) = mset (reads_started demo_round)"
  using collector_rounds [OF demo_round_run] by (simp add: demo_cm_def)

lemma serial_reads_exclusive_witness:
  "mset (reads_started [Tick, Read_Start ''memstat'', Silent, Read_End ''memstat'', Silent]) = {#''memstat''#}"
proof -
  have "lrun cm_step (cm_Init demo_collector_Init demo_collectors)
     ([Tick, Read_Start ''memstat'', Silent, Read_End ''memstat'', Silent] @ Read_Start ''likwid'' # [Read_End ''likwid'', Silent])
     (demo_cm Idle)"
    using demo_round_run by (simp add: demo_round_def)
  from serial_reads_exclusive [OF this]
  have "mset (reads_started [Tick, Read_Start ''memstat'', Silent, Read_End ''memstat'', Silent]) =
        mset (reads_ended [Tick, Read_Start ''memstat'', Silent, Read_End ''memstat'', Silent])"
    by (simp add: demo_collectors_eq demo_collectors_def)
  then show ?thesis by simp
qed

lemma close_excludes_reads_witness:
  "mset (reads_started demo_round) = mset (reads_ended demo_round)"
proof -
  have "cm_step (demo_cm Idle) Silent (demo_cm (Closing [''memstat'']))"
    using cm_step.close_idle [of "demo_cm Idle"] by (simp add: demo_cm_def enter_done_def demo_collectors_eq)
  moreover have "cm_step (demo_cm (Closing [''memstat''])) (Close_Collector ''memstat'') (demo_cm (Closing []))"
    using cm_step.close_collector [of "demo_cm (Closing [''memstat''])"] by (simp add: demo_cm_def)
  ultimately have "lrun cm_step (demo_cm Idle) [Silent, Close_Collector ''memstat''] (demo_cm (Closing []))"
    by (meson lrun_cons lrun_single)
  from lrun_append [OF this demo_round_run] have
    "lrun cm_step (cm_Init demo_collector_Init demo_collectors)
       ((demo_round @ [Silent]) @ Close_Collector ''memstat'' # []) (demo_cm (Closing []))" by simp
  from close_excludes_reads [OF this] show ?thesis by simp
qed

lemma manager_close_witness:
  "\<exists>tr cm'. lrun cm_step (demo_cm Barrier) tr cm' \<and> ticks tr = 0 \<and> cm_mode cm' = Closed"
  using manager_close [of "demo_cm Barrier"] by blast

end
