(* ===== verification/Go_Duration.thy ===== *)
theory Go_Duration
  imports Go_Float
begin

text \<open>
  \<open>time.ParseDuration\<close> of Go's standard library, which reads the interval and duration of the
  main configuration and several collector options. Durations are nanoseconds.
\<close>

subsection \<open>The parser\<close>

definition two63 :: int where "two63 = 9223372036854775808"

text \<open>\<open>leadingInt\<close>: \<open>None\<close> is an overflow. Otherwise the value and the rest of the string.\<close>

fun leading_int :: "int \<Rightarrow> string \<Rightarrow> (int \<times> string) option" where
  "leading_int x [] = Some (x, [])"
| "leading_int x (c # s) =
     (if \<not> is_digit c then Some (x, c # s)
      else if x > two63 div 10 then None
      else let x' = x * 10 + digit_val c in if x' > two63 then None else leading_int x' s)"

text \<open>\<open>leadingFraction\<close>: digits after an overflow are dropped.\<close>

fun leading_fraction :: "int \<Rightarrow> gofloat \<Rightarrow> bool \<Rightarrow> string \<Rightarrow> int \<times> gofloat \<times> string" where
  "leading_fraction x scale ovf [] = (x, scale, [])"
| "leading_fraction x scale ovf (c # s) =
     (if \<not> is_digit c then (x, scale, c # s)
      else if ovf then leading_fraction x scale True s
      else if x > (two63 - 1) div 10 then leading_fraction x scale True s
      else let y = x * 10 + digit_val c in
           if y > two63 then leading_fraction x scale True s
           else leading_fraction y (fmul binary64 scale (Num 10)) False s)"

definition unit_map :: "(string \<times> int) list" where
  "unit_map =
     [(''ns'', 1), (''us'', 1000), ([CHR 0xC2, CHR 0xB5, CHR ''s''], 1000),
      ([CHR 0xCE, CHR 0xBC, CHR ''s''], 1000), (''ms'', 1000000), (''s'', 1000000000),
      (''m'', 60000000000), (''h'', 3600000000000)]"

definition is_unit_char :: "char \<Rightarrow> bool" where
  "is_unit_char c = (c \<noteq> CHR ''.'' \<and> \<not> is_digit c)"

text \<open>\<open>uint64(x)\<close> of a non-negative float.\<close>

definition uint64_of_float :: "gofloat \<Rightarrow> int" where
  "uint64_of_float x = (case x of Num r \<Rightarrow> floor r | _ \<Rightarrow> 0)"

text \<open>One number with its unit: its value and the rest, \<open>None\<close> for every error.\<close>

definition duration_part :: "string \<Rightarrow> (int \<times> string) option" where
  "duration_part s =
     (if s = [] \<or> \<not> (hd s = CHR ''.'' \<or> is_digit (hd s)) then None
      else case leading_int 0 s of
        None \<Rightarrow> None
      | Some (v, s1) \<Rightarrow>
          (let pre = length s1 \<noteq> length s;
               (f, scale, s2, post) =
                 (if s1 \<noteq> [] \<and> hd s1 = CHR ''.''
                  then (case leading_fraction 0 (Num 1) False (tl s1) of
                          (f, scale, r) \<Rightarrow> (f, scale, r, length r \<noteq> length (tl s1)))
                  else (0, Num 1, s1, False));
               u = takeWhile is_unit_char s2; s3 = dropWhile is_unit_char s2
           in if \<not> pre \<and> \<not> post then None
              else if u = [] then None
              else case map_of unit_map u of
                None \<Rightarrow> None
              | Some unit_ns \<Rightarrow>
                  if v > two63 div unit_ns then None
                  else let v1 = v * unit_ns;
                           v2 = (if f > 0 then v1 + uint64_of_float
                                   (fmul binary64 (f64_of_int f) (fdiv binary64 (f64_of_int unit_ns) scale))
                                 else v1)
                       in if f > 0 \<and> v2 > two63 then None else Some (v2, s3)))"

lemma leading_int_shorter: "leading_int x s = Some (v, r) \<Longrightarrow> length r \<le> length s"
  by (induction x s rule: leading_int.induct) (auto simp: Let_def split: if_splits)

lemma leading_fraction_shorter: "leading_fraction x sc ovf s = (f, sc', r) \<Longrightarrow> length r \<le> length s"
  by (induction x sc ovf s rule: leading_fraction.induct) (auto simp: Let_def split: if_splits)

lemma duration_part_shorter:
  assumes "duration_part s = Some (v, r)"
  shows "length r < length s"
proof -
  have drop: "length (dropWhile is_unit_char x) < length x" if "takeWhile is_unit_char x \<noteq> []" for x
    using that by (cases x) (auto simp: le_imp_less_Suc length_dropWhile_le split: if_splits)
  from assms obtain v1 s1 where s1: "leading_int 0 s = Some (v1, s1)"
    by (auto simp: duration_part_def split: if_splits option.splits)
  show ?thesis
  proof (cases "s1 \<noteq> [] \<and> hd s1 = CHR ''.''")
    case True
    obtain f sc s2 where f: "leading_fraction 0 (Num 1) False (tl s1) = (f, sc, s2)" by (metis prod_cases3)
    have r: "r = dropWhile is_unit_char s2" "takeWhile is_unit_char s2 \<noteq> []"
      using assms s1 True f by (auto simp: duration_part_def Let_def split: if_splits option.splits)
    with drop [OF r(2)] leading_int_shorter [OF s1] leading_fraction_shorter [OF f] show ?thesis by simp
  next
    case False
    have r: "r = dropWhile is_unit_char s1" "takeWhile is_unit_char s1 \<noteq> []"
      using assms s1 False by (auto simp: duration_part_def Let_def split: if_splits option.splits)
    with drop [OF r(2)] leading_int_shorter [OF s1] show ?thesis by simp
  qed
qed

text \<open>The loop; \<open>d\<close> is a \<open>uint64\<close>.\<close>

function duration_loop :: "int \<Rightarrow> string \<Rightarrow> int option" where
  "duration_loop d s =
     (if s = [] then Some d
      else case duration_part s of
        None \<Rightarrow> None
      | Some (v, r) \<Rightarrow>
          (let d' = (d + v) mod 18446744073709551616 in
           if d' > two63 then None else duration_loop d' r))"
  by pat_completeness auto
termination
  by (relation "measure (\<lambda>(d, s). length s)") (auto dest: duration_part_shorter)

declare duration_loop.simps [simp del]

text \<open>The duration, \<open>None\<close> for an error (the value returned with an error is 0).\<close>

definition ParseDuration :: "string \<Rightarrow> int option" where
  "ParseDuration s0 =
     (let neg = (s0 \<noteq> [] \<and> hd s0 = CHR ''-''); s = drop_sign s0 in
      if s = ''0'' then Some 0
      else if s = [] then None
      else case duration_loop 0 s of
             None \<Rightarrow> None
           | Some d \<Rightarrow> if neg then Some (- d) else if d > two63 - 1 then None else Some d)"

subsection \<open>Reading what was written\<close>

lemma leading_int_stop: "s = [] \<or> \<not> is_digit (hd s) \<Longrightarrow> leading_int x s = Some (x, s)"
  by (cases s) auto

lemma digit_char_val:
  assumes "0 \<le> d" and "d < (10 :: int)"
  shows "is_digit (char_of (48 + d))" and "digit_val (char_of (48 + d)) = d"
proof -
  have "(of_char (char_of (48 + d) :: char) :: nat) = nat (48 + d)"
    using of_char_digit [OF assms] by (simp add: of_char_nat_int del: of_char_of)
  then show "is_digit (char_of (48 + d))"
    using assms by (simp add: is_digit_def le_nat_iff nat_le_iff del: of_char_of)
  show "digit_val (char_of (48 + d)) = d"
    using of_char_digit [OF assms] unfolding digit_val_def by simp
qed

lemma leading_int_digits:
  assumes "0 \<le> n" and "n \<le> two63"
  shows "leading_int 0 (int_digits n @ s) = leading_int n s"
  using assms
proof (induction n arbitrary: s rule: int_digits.induct)
  case (1 n)
  show ?case
  proof (cases "n < 10")
    case True
    with 1 digit_char_val [of n] show ?thesis by (subst int_digits.simps) (simp add: two63_def)
  next
    case False
    note d = digit_char_val [of "n mod 10"]
    have "leading_int 0 (int_digits (n div 10) @ char_of (48 + n mod 10) # s) =
          leading_int (n div 10) (char_of (48 + n mod 10) # s)"
      using 1 False by (simp add: two63_def)
    also have "\<dots> = leading_int n s"
    proof -
      have "n div 10 \<le> two63 div 10" using 1(3) by (simp add: zdiv_mono1)
      with 1 False d show ?thesis by (simp add: mult_div_mod_eq [simplified mult.commute] not_less)
    qed
    finally show ?thesis using False by (subst int_digits.simps) simp
  qed
qed

lemma int_digits_hd_digit: "0 \<le> n \<Longrightarrow> is_digit (hd (int_digits n @ s))"
  using int_digits_head [of n "hd (int_digits n)"] by (auto simp: hd_append)

text \<open>One whole number with a unit, followed by the next number or the end.\<close>

lemma duration_part_whole:
  assumes "0 \<le> n" and "n \<le> two63 div u" and "1 \<le> u" and "map_of unit_map unit_name = Some u"
    and "unit_name \<noteq> []" and "\<forall>c \<in> set unit_name. is_unit_char c" and "r = [] \<or> is_digit (hd r)"
  shows "duration_part (int_digits n @ unit_name @ r) = Some (n * u, r)"
proof -
  have hd_u: "\<not> is_digit (hd (unit_name @ r))" "hd (unit_name @ r) \<noteq> CHR ''.''" "unit_name @ r \<noteq> []"
    using assms(5,6) by (cases unit_name; simp add: is_unit_char_def)+
  have r0: "r = [] \<or> \<not> is_unit_char (hd r)" using assms(7) by (auto simp: is_unit_char_def)
  have take_u: "takeWhile is_unit_char (unit_name @ r) = unit_name" "dropWhile is_unit_char (unit_name @ r) = r"
    using assms(6) r0 by (cases r; simp add: takeWhile_append2 dropWhile_append2)+
  have "two63 div u \<le> two63 div 1" using assms(3) by (intro zdiv_mono2) (simp_all add: two63_def)
  then have n: "n \<le> two63" using assms(2) by simp
  have "leading_int 0 (int_digits n @ unit_name @ r) = Some (n, unit_name @ r)"
    using leading_int_digits [OF assms(1) n] leading_int_stop [of "unit_name @ r"] hd_u by simp
  with assms hd_u take_u int_digits_hd_digit [OF assms(1), of "unit_name @ r"] show ?thesis
    by (simp add: duration_part_def Let_def)
qed

subsection \<open>Whole seconds\<close>

text \<open>Below twelve days, the whole seconds of a duration are right: the rounding does not reach the next one.\<close>

lemma whole_seconds:
  assumes "0 \<le> d" and "d < 2 ^ 20 * 1000000000"
  shows "uint64_of_float (duration_seconds d) = d div 1000000000"
proof -
  define s r where "s = d div 1000000000" and "r = d mod 1000000000"
  have d: "d = s * 1000000000 + r" by (simp add: s_def r_def)
  have r: "0 \<le> r" "r < 1000000000" by (simp_all add: r_def)
  with d assms have s: "0 \<le> s" "s < 2 ^ 20" by linarith+
  show ?thesis
  proof (cases "r = 0")
    case True
    with d s have "duration_seconds d = Num (of_int s)" using duration_seconds_whole [of s] by simp
    then show ?thesis by (simp add: uint64_of_float_def s_def)
  next
    case False
    define x :: rat where "x = of_int r / 1000000000"
    have x: "1 / 1000000000 \<le> x" "x \<le> 1 - 1 / 1000000000" using r False by (simp_all add: x_def)
    have small: "pow2 (- 54) = 1 / 18014398509481984" "pow2 (- 33) = 1 / 8589934592" "pow2 0 = 1" "pow2 21 = 2097152"
      by (simp_all add: pow2_def ipow2_eq)
    obtain v where v: "fround binary64 x = Num v" "x - pow2 (- 54) \<le> v" "v \<le> x + pow2 (- 54)"
      using fround_nonneg_near [of x 0] x small by auto
    obtain w where w: "fround binary64 (of_int s + v) = Num w" "of_int s + v - pow2 (- 33) \<le> w" "w \<le> of_int s + v + pow2 (- 33)"
      using fround_nonneg_near [of "of_int s + v" 21] x v s small by (auto simp: of_int_less_iff)
    have "fdiv binary64 (f64_of_int r) (f64_of_int 1000000000) = Num v"
      using v(1) r False by (simp add: f64_of_int_exact fdiv_def fin_val_def x_def)
    moreover have "fadd binary64 (f64_of_int s) (Num v) = Num w"
      using w(1) s by (simp add: f64_of_int_exact fadd_def fin_val_def)
    moreover have "duration_seconds d = fadd binary64 (f64_of_int s) (fdiv binary64 (f64_of_int r) (f64_of_int 1000000000))"
    proof -
      have "sgn d = 1" "\<bar>d\<bar> = d" using d s r False by simp_all
      then show ?thesis by (simp add: duration_seconds_def Let_def s_def r_def)
    qed
    moreover have "of_int s \<le> w" "w < of_int (s + 1)" using v w x small by simp_all
    then have "floor w = s" by (simp add: floor_eq_iff)
    ultimately show ?thesis by (simp add: uint64_of_float_def s_def)
  qed
qed

end
