(* ===== verification/Main_Program.thy ===== *)
theory Main_Program
  imports Go_Duration Ticker
begin

text \<open>
  \<open>cc-metric-collector.go\<close>: reading and checking the main configuration, creating and
  connecting the managers, starting them, and the shutdown handler. Both functions are
  modelled by the sequence of actions they perform on the managers. The decoded
  configuration, the sections of the configuration file, and whether the constructors of
  the managers succeed are inputs.
\<close>

subsection \<open>Inputs\<close>

record CentralConfigFile =
  cf_Interval :: string
  cf_Duration :: string

record cli_flags =
  cli_config :: string
  cli_log :: string
  cli_once :: bool
  cli_loglevel :: string

definition ReadCli :: "cli_flags \<Rightarrow> (string \<times> string) list" where
  "ReadCli f =
     (let m = [(''configfile'', cli_config f), (''logfile'', cli_log f), (''once'', ''false''),
               (''loglevel'', cli_loglevel f)]
      in if cli_once f then map_put ''once'' ''true'' m else m)"

record main_env =
  me_cli :: cli_flags
  me_main :: "CentralConfigFile option" \<comment> \<open>\<open>None\<close>: the section does not decode\<close>
  me_router :: string
  me_sinks :: string
  me_collectors :: string
  me_receivers :: string
  me_router_ok :: bool
  me_sinks_ok :: bool
  me_collectors_ok :: bool
  me_receivers_ok :: bool

datatype main_action =
    Create_Ticker int | Create_Router | Create_Sinks | Connect_Router_Sinks
  | Create_Collectors int | Connect_Collectors_Router | Create_Receivers | Connect_Receivers_Router
  | Install_Shutdown | Start_Router | Start_Sinks | Start_Collectors | Start_Receivers
  | Sleep_Seconds int | Send_Interrupt | Wait_All
  | Close_Ticker | Close_Collectors | Close_Receivers | Close_Router | Close_Sinks

subsection \<open>The interval and the duration\<close>

text \<open>
  An absent setting is 0. A setting that does not parse is logged and is 0, too; a setting
  of 0 ends the program (\<open>None\<close>).
\<close>

definition read_setting :: "string \<Rightarrow> int option" where
  "read_setting s =
     (if s = [] then Some 0
      else let t = (case ParseDuration s of None \<Rightarrow> 0 | Some t \<Rightarrow> t) in if t = 0 then None else Some t)"

definition read_durations :: "CentralConfigFile \<Rightarrow> (int \<times> int) option" where
  "read_durations cf =
     (case read_setting (cf_Interval cf) of
        None \<Rightarrow> None
      | Some interval \<Rightarrow>
          (case read_setting (cf_Duration cf) of
             None \<Rightarrow> None
           | Some duration \<Rightarrow> if duration > interval then None else Some (interval, duration)))"

text \<open>\<open>time.Duration(int(1.2 * float64(rcfg.Interval.Seconds())))\<close> for a positive interval.\<close>

definition once_sleep :: "int \<Rightarrow> int" where
  "once_sleep interval =
     (case fmul binary64 (fround binary64 (12 / 10)) (duration_seconds interval) of Num r \<Rightarrow> floor r | _ \<Rightarrow> 0)"

subsection \<open>The main function\<close>

definition start_actions :: "main_env \<Rightarrow> int \<Rightarrow> bool \<Rightarrow> main_action list" where
  "start_actions env interval use_recv =
     [Install_Shutdown, Start_Router, Start_Sinks, Start_Collectors] @
     (if use_recv then [Start_Receivers] else []) @
     (if map_of (ReadCli (me_cli env)) ''once'' = Some ''true''
      then [Sleep_Seconds (once_sleep interval), Send_Interrupt] else []) @
     [Wait_All]"

text \<open>The actions and the exit code, or the panic.\<close>

definition mainFunc :: "main_env \<Rightarrow> main_action list \<times> int run" where
  "mainFunc env =
     (case me_main env of
        None \<Rightarrow> ([], Inr 1)
      | Some cf \<Rightarrow>
     (case read_durations cf of
        None \<Rightarrow> ([], Inr 1)
      | Some (interval, duration) \<Rightarrow>
     if me_router env = [] \<or> me_sinks env = [] \<or> me_collectors env = [] then ([], Inr 1)
     else case NewTicker interval of
        Inl p \<Rightarrow> ([], Inl p)
      | Inr ticker \<Rightarrow>
     (let a1 = [Create_Ticker interval, Create_Router] in
     if \<not> me_router_ok env then (a1, Inr 1)
     else let a2 = a1 @ [Create_Sinks] in
     if \<not> me_sinks_ok env then (a2, Inr 1)
     else let a3 = a2 @ [Connect_Router_Sinks, Create_Collectors duration] in
     if \<not> me_collectors_ok env then (a3, Inr 1)
     else let a4 = a3 @ [Connect_Collectors_Router] in
     if me_receivers env \<noteq> [] then
       (let a5 = a4 @ [Create_Receivers] in
        if \<not> me_receivers_ok env then (a5, Inr 1)
        else (a5 @ [Connect_Receivers_Router] @ start_actions env interval True, Inr 0))
     else (a4 @ start_actions env interval False, Inr 0))))"

text \<open>The shutdown handler; a manager that was not created is skipped.\<close>

definition shutdownHandler :: "bool \<Rightarrow> bool \<Rightarrow> bool \<Rightarrow> bool \<Rightarrow> main_action list" where
  "shutdownHandler collectManager receiveManager router sinkManager =
     [Close_Ticker] @
     (if collectManager then [Close_Collectors] else []) @
     (if receiveManager then [Close_Receivers] else []) @
     (if router then [Close_Router] else []) @
     (if sinkManager then [Close_Sinks] else [])"

subsection \<open>Lemmas\<close>

lemma read_durations_le: "read_durations cf = Some (i, d) \<Longrightarrow> d \<le> i"
  by (auto simp: read_durations_def split: option.splits if_splits)

lemma duration_loop_part:
  assumes "duration_part s = Some (v, r)" and "0 \<le> d" and "0 \<le> v" and "d + v \<le> two63"
  shows "duration_loop d s = duration_loop (d + v) r"
proof -
  have "s \<noteq> []" using assms(1) by (auto simp: duration_part_def)
  moreover have "(d + v) mod 18446744073709551616 = d + v" using assms by (simp add: two63_def)
  ultimately show ?thesis using assms by (subst duration_loop.simps) simp
qed

lemma duration_loop_end: "duration_loop d [] = Some d"
  by (subst duration_loop.simps) simp

definition hms :: "int \<Rightarrow> int \<Rightarrow> int \<Rightarrow> string" where
  "hms h m s = int_digits h @ ''h'' @ int_digits m @ ''m'' @ int_digits s @ ''s''"

lemma ParseDuration_hms:
  assumes "0 \<le> h" and "0 \<le> m" and "0 \<le> s"
    and "h * 3600000000000 + m * 60000000000 + s * 1000000000 < two63"
  shows "ParseDuration (hms h m s) = Some (h * 3600000000000 + m * 60000000000 + s * 1000000000)"
proof -
  let ?s = "int_digits s @ ''s''" let ?m = "int_digits m @ ''m'' @ ?s"
  have unit: "\<not> is_digit CHR ''h''" "\<not> is_digit CHR ''m''" "\<not> is_digit CHR ''s''" by (simp_all add: is_digit_def)
  have ps: "duration_part ?s = Some (s * 1000000000, [])"
    using duration_part_whole [of s 1000000000 "''s''" "[]"] assms unit
    by (simp add: unit_map_def two63_def is_unit_char_def)
  have pm: "duration_part ?m = Some (m * 60000000000, ?s)"
    using duration_part_whole [of m 60000000000 "''m''" ?s] assms unit int_digits_hd_digit [OF assms(3), of "''s''"]
    by (simp add: unit_map_def two63_def is_unit_char_def)
  have ph: "duration_part (hms h m s) = Some (h * 3600000000000, ?m)"
    using duration_part_whole [of h 3600000000000 "''h''" ?m] assms unit
      int_digits_hd_digit [OF assms(2), of "''m'' @ ?s"]
    by (simp add: unit_map_def two63_def is_unit_char_def hms_def)
  have "duration_loop 0 (hms h m s) = Some (h * 3600000000000 + m * 60000000000 + s * 1000000000)"
    using assms duration_loop_part [OF ph, of 0] duration_loop_part [OF pm, of "h * 3600000000000"]
      duration_loop_part [OF ps, of "h * 3600000000000 + m * 60000000000"]
    by (simp add: duration_loop_end)
  moreover have "hd (hms h m s) \<noteq> CHR ''-''" "hd (hms h m s) \<noteq> CHR ''+''" "hms h m s \<noteq> []" "hms h m s \<noteq> ''0''"
    using int_digits_head [OF assms(1) not_digit_sign(1)] int_digits_head [OF assms(1) not_digit_sign(2)]
    by (auto simp: hms_def hd_append append_eq_Cons_conv)
  moreover from this have "drop_sign (hms h m s) = hms h m s"
    by (cases "hms h m s") (simp_all add: drop_sign_def)
  ultimately show ?thesis using assms(4) by (simp add: ParseDuration_def Let_def)
qed

subsection \<open>Properties\<close>

text \<open>C18: when the managers are started, the configured interval is positive and not below the
  duration, all three mandatory sections are present, the ticker runs with the interval, and
  everything has been created and connected before the first manager starts; the shutdown
  handler is in place by then.\<close>

theorem main_starts_configured:
  assumes "mainFunc env = (acts, out)" and "Start_Router \<in> set acts"
  shows "\<exists>cf interval duration pre post.
     me_main env = Some cf \<and> read_durations cf = Some (interval, duration) \<and> 0 < interval \<and> duration \<le> interval \<and>
     me_router env \<noteq> [] \<and> me_sinks env \<noteq> [] \<and> me_collectors env \<noteq> [] \<and> out = Inr 0 \<and>
     acts = pre @ [Install_Shutdown, Start_Router, Start_Sinks, Start_Collectors] @ post \<and>
     {Create_Ticker interval, Connect_Router_Sinks, Create_Collectors duration, Connect_Collectors_Router} \<subseteq> set pre \<and>
     (Start_Receivers \<in> set post \<longrightarrow> Connect_Receivers_Router \<in> set pre)"
proof -
  obtain cf i d where cf: "me_main env = Some cf" "read_durations cf = Some (i, d)"
    using assms by (auto simp: mainFunc_def split: option.splits)
  have sec: "me_router env \<noteq> []" "me_sinks env \<noteq> []" "me_collectors env \<noteq> []"
    using assms cf by (auto simp: mainFunc_def split: if_splits)
  have i: "0 < i" using assms cf sec by (auto simp: mainFunc_def NewTicker_def not_le split: if_splits)
  have ok: "me_router_ok env" "me_sinks_ok env" "me_collectors_ok env"
    using assms cf sec i by (auto simp: mainFunc_def NewTicker_def Let_def split: if_splits)
  let ?pre = "[Create_Ticker i, Create_Router, Create_Sinks, Connect_Router_Sinks, Create_Collectors d, Connect_Collectors_Router]"
  let ?post = "\<lambda>recv. (if recv then [Start_Receivers] else []) @
     (if map_of (ReadCli (me_cli env)) ''once'' = Some ''true'' then [Sleep_Seconds (once_sleep i), Send_Interrupt] else []) @ [Wait_All]"
  show ?thesis
  proof (cases "me_receivers env = []")
    case True
    then have "acts = ?pre @ [Install_Shutdown, Start_Router, Start_Sinks, Start_Collectors] @ ?post False" "out = Inr 0"
      using assms(1) cf sec i ok by (simp_all add: mainFunc_def NewTicker_def start_actions_def split: if_splits)
    with cf sec i read_durations_le [OF cf(2)] show ?thesis
      by (intro exI [of _ cf] exI [of _ i] exI [of _ d] exI [of _ ?pre] exI [of _ "?post False"]) simp
  next
    case False
    then have "me_receivers_ok env"
      using assms cf sec i ok by (auto simp: mainFunc_def NewTicker_def Let_def split: if_splits)
    with False have "acts = (?pre @ [Create_Receivers, Connect_Receivers_Router]) @
        [Install_Shutdown, Start_Router, Start_Sinks, Start_Collectors] @ ?post True" "out = Inr 0"
      using assms(1) cf sec i ok by (simp_all add: mainFunc_def NewTicker_def start_actions_def split: if_splits)
    with cf sec i read_durations_le [OF cf(2)] show ?thesis
      by (intro exI [of _ cf] exI [of _ i] exI [of _ d] exI [of _ "?pre @ [Create_Receivers, Connect_Receivers_Router]"]
          exI [of _ "?post True"]) simp
  qed
qed

text \<open>The program panics in the ticker exactly when all sections are there and the interval
  that passed the checks is not positive: no interval (with no or a negative duration), or a
  negative one that is not below the duration.\<close>

theorem main_panics_iff:
  "snd (mainFunc env) = Inl p \<longleftrightarrow>
   p = NonPositiveTicker \<and> me_router env \<noteq> [] \<and> me_sinks env \<noteq> [] \<and> me_collectors env \<noteq> [] \<and>
   (\<exists>cf interval duration. me_main env = Some cf \<and> read_setting (cf_Interval cf) = Some interval \<and>
      read_setting (cf_Duration cf) = Some duration \<and> duration \<le> interval \<and> interval \<le> 0)"
  by (auto simp: mainFunc_def NewTicker_def read_durations_def Let_def split: option.splits if_splits)

text \<open>An interval written with hours, minutes and seconds is accepted as exactly that many
  nanoseconds, for every combination that fits a Go duration and is not zero.\<close>

theorem interval_spelling:
  assumes "0 \<le> h" and "0 \<le> m" and "0 \<le> s" and "0 < h + m + s"
    and "h * 3600000000000 + m * 60000000000 + s * 1000000000 < two63"
  shows "read_setting (hms h m s) = Some (h * 3600000000000 + m * 60000000000 + s * 1000000000)"
proof -
  have "hms h m s \<noteq> []" by (simp add: hms_def)
  moreover have "h * 3600000000000 + m * 60000000000 + s * 1000000000 \<noteq> 0" using assms by linarith
  ultimately show ?thesis using ParseDuration_hms [OF assms(1-3,5)] by (simp add: read_setting_def)
qed

text \<open>The \<open>once\<close> mode of the program waits no longer than the interval when that is short.\<close>

lemma once_sleep_short:
  "once_sleep 500000000 = 0" "once_sleep 1000000000 = 1" "once_sleep 4000000000 = 4" "once_sleep 10000000000 = 12"
  by code_simp+

subsection \<open>Witnesses\<close>

definition demo_env :: "string \<Rightarrow> string \<Rightarrow> main_env" where
  "demo_env interval duration =
     \<lparr>me_cli = \<lparr>cli_config = ''./config.json'', cli_log = ''stderr'', cli_once = False, cli_loglevel = ''info''\<rparr>,
      me_main = Some \<lparr>cf_Interval = interval, cf_Duration = duration\<rparr>, me_router = ''{}'', me_sinks = ''{}'',
      me_collectors = ''{}'', me_receivers = [], me_router_ok = True, me_sinks_ok = True,
      me_collectors_ok = True, me_receivers_ok = True\<rparr>"

lemma demo_main:
  "mainFunc (demo_env ''10s'' ''1s'') =
   ([Create_Ticker 10000000000, Create_Router, Create_Sinks, Connect_Router_Sinks, Create_Collectors 1000000000,
     Connect_Collectors_Router, Install_Shutdown, Start_Router, Start_Sinks, Start_Collectors, Wait_All], Inr 0)"
  by code_simp

lemma main_starts_configured_witness:
  "\<exists>cf interval duration. me_main (demo_env ''10s'' ''1s'') = Some cf \<and>
     read_durations cf = Some (interval, duration) \<and> 0 < interval \<and> duration \<le> interval"
  using main_starts_configured [OF demo_main] by auto

lemma interval_spelling_witness: "read_setting (hms 1 2 3) = Some 3723000000000"
  using interval_spelling [of 1 2 3] by (simp add: two63_def)

end
