(* ===== verification/Collector_Base.thy ===== *)
theory Collector_Base
  imports Go_Duration Values
begin

text \<open>
  What the collectors share: the requests they hand to cc-lib's message constructor, time
  differences, and the counters behind difference metrics. A collector's \<open>Read\<close> returns its
  requests in the order of the sends; a request for which the constructor (outside this
  repository) reports an error is not sent (\<open>sent\<close>). Loops over Go maps follow the order
  of the association list, which stands for the unspecified iteration order.
\<close>

record request =
  rq_name :: string
  rq_tags :: tagmap
  rq_meta :: tagmap
  rq_value :: "unit govalue"
  rq_time :: "gotime option" \<comment> \<open>\<open>None\<close>: \<open>time.Now()\<close> at the call\<close>

definition add_meta :: "string \<Rightarrow> string \<Rightarrow> request \<Rightarrow> request" where
  "add_meta k v r = r\<lparr>rq_meta := map_put k v (rq_meta r)\<rparr>"

definition add_tag :: "string \<Rightarrow> string \<Rightarrow> request \<Rightarrow> request" where
  "add_tag k v r = r\<lparr>rq_tags := map_put k v (rq_tags r)\<rparr>"

definition sent :: "(request \<Rightarrow> bool) \<Rightarrow> request list \<Rightarrow> request list" where
  "sent constructor_ok rs = filter constructor_ok rs"

text \<open>\<open>now.Sub(last)\<close>: a duration, saturated at the ends of its range.\<close>

definition time_sub :: "gotime \<Rightarrow> gotime \<Rightarrow> int" where
  "time_sub a b = min (two63 - 1) (max (- two63) (a - b))"

text \<open>A map entry read with a default (Go's zero value).\<close>

definition map_get :: "'v \<Rightarrow> ('k \<times> 'v) list \<Rightarrow> 'k \<Rightarrow> 'v" where
  "map_get d m k = (case map_of m k of None \<Rightarrow> d | Some v \<Rightarrow> v)"

text \<open>The lines of a file, as the scanner returns them before it stops.\<close>

definition file_lines :: "string \<Rightarrow> string list" where
  "file_lines content = fst (scan_lines content)"

text \<open>A loop over the lines of a file that changes the collector and sends requests.\<close>

fun fold_steps :: "('s \<Rightarrow> 'i \<Rightarrow> 's \<times> 'r list) \<Rightarrow> 's \<Rightarrow> 'i list \<Rightarrow> 's \<times> 'r list" where
  "fold_steps f s [] = (s, [])"
| "fold_steps f s (i # is) = (case f s i of (s1, r1) \<Rightarrow> (case fold_steps f s1 is of (s2, r2) \<Rightarrow> (s2, r1 @ r2)))"

text \<open>The same for a loop whose body may panic.\<close>

fun run_steps :: "('s \<Rightarrow> 'i \<Rightarrow> ('s \<times> 'r list) run) \<Rightarrow> 's \<Rightarrow> 'i list \<Rightarrow> ('s \<times> 'r list) run" where
  "run_steps f s [] = Inr (s, [])"
| "run_steps f s (i # is) =
     run_bind (f s i) (\<lambda>(s1, r1). run_bind (run_steps f s1 is) (\<lambda>(s2, r2). Inr (s2, r1 @ r2)))"

text \<open>A loop without state whose body sends requests and may panic.\<close>

fun run_concat :: "('a \<Rightarrow> 'b list run) \<Rightarrow> 'a list \<Rightarrow> 'b list run" where
  "run_concat f [] = Inr []"
| "run_concat f (x # xs) = run_bind (f x) (\<lambda>r1. run_bind (run_concat f xs) (\<lambda>r2. Inr (r1 @ r2)))"

lemma run_concat_pure: "(\<And>x. x \<in> set xs \<Longrightarrow> f x = Inr (g x)) \<Longrightarrow> run_concat f xs = Inr (concat (map g xs))"
  by (induction xs) simp_all

lemma run_concat_panics_iff: "(\<exists>p. run_concat f xs = Inl p) \<longleftrightarrow> (\<exists>x \<in> set xs. \<exists>p. f x = Inl p)"
proof (induction xs)
  case (Cons x xs)
  show ?case
  proof (cases "f x")
    case (Inr r)
    with Cons show ?thesis by (cases "run_concat f xs") auto
  qed simp
qed simp

text \<open>
  A loop panics exactly when one of its inputs is bad, if the invariant decides which
  inputs the body panics on.
\<close>

lemma run_steps_panics_iff:
  assumes "ok s"
    and "\<And>s i. i \<in> set is \<Longrightarrow> ok s \<Longrightarrow> (\<exists>p. f s i = Inl p) \<longleftrightarrow> bad i"
    and "\<And>s i s' r. ok s \<Longrightarrow> f s i = Inr (s', r) \<Longrightarrow> ok s'"
  shows "(\<exists>p. run_steps f s is = Inl p) \<longleftrightarrow> (\<exists>i \<in> set is. bad i)"
  using assms(1,2)
proof (induction "is" arbitrary: s)
  case (Cons i "is")
  show ?case
  proof (cases "f s i")
    case (Inl p)
    with Cons.prems(2) [OF _ Cons.prems(1), of i] show ?thesis by auto
  next
    case (Inr sr)
    obtain s1 r1 where sr: "sr = (s1, r1)" by (cases sr)
    have "ok s1" using assms(3) [OF Cons.prems(1)] Inr sr by blast
    from Cons.IH [OF this] Cons.prems(2) have IH: "(\<exists>p. run_steps f s1 is = Inl p) \<longleftrightarrow> (\<exists>i \<in> set is. bad i)" by simp
    have "(\<exists>p. run_steps f s (i # is) = Inl p) \<longleftrightarrow> (\<exists>p. run_steps f s1 is = Inl p)"
      using Inr sr by (cases "run_steps f s1 is") auto
    moreover have "\<not> bad i" using Cons.prems(2) [OF _ Cons.prems(1), of i] Inr by simp
    ultimately show ?thesis using IH by simp
  qed
qed simp

text \<open>What every step keeps and every request of a step satisfies holds for the whole loop.\<close>

lemma run_steps_all:
  assumes "ok s" and "run_steps f s is = Inr (s', rs)"
    and "\<And>s i s' rs. ok s \<Longrightarrow> i \<in> set is \<Longrightarrow> f s i = Inr (s', rs) \<Longrightarrow> ok s' \<and> list_all P rs"
  shows "ok s' \<and> list_all P rs"
  using assms
proof (induction "is" arbitrary: s rs)
  case (Cons i "is")
  from Cons.prems(2) obtain s1 r1 r2 where step: "f s i = Inr (s1, r1)" "run_steps f s1 is = Inr (s', r2)"
    and rs: "rs = r1 @ r2" by (auto simp: run_simps)
  have one: "ok s1 \<and> list_all P r1" using Cons.prems(3) [OF Cons.prems(1) _ step(1)] by simp
  have "ok s' \<and> list_all P r2"
  proof (rule Cons.IH [OF _ step(2)])
    show "ok s1" using one by simp
    show "ok t' \<and> list_all P rs'" if "ok t" "j \<in> set is" "f t j = Inr (t', rs')" for t j t' rs'
      using Cons.prems(3) [OF that(1) _ that(3)] that(2) by simp
  qed
  with one rs show ?case by simp
qed simp

subsection \<open>Counters\<close>

text \<open>
  The contract of a collector that sends differences of counters: whatever it reads, what it
  sends for a counter is exactly how far its stored value of that counter moved.
\<close>

locale difference_source =
  fixes step :: "'s \<Rightarrow> 'i \<Rightarrow> 's \<times> 'r list"
    and counter :: "'s \<Rightarrow> 'k \<Rightarrow> goint"
    and amount :: "'k \<Rightarrow> 'r \<Rightarrow> goint"
    and inv :: "'s \<Rightarrow> bool"
  assumes step_inv: "inv s \<Longrightarrow> inv (fst (step s i))"
    and step_amount: "inv s \<Longrightarrow>
      sum_list (map (amount k) (snd (step s i))) = counter (fst (step s i)) k - counter s k"
begin

lemma fold_inv: "inv s \<Longrightarrow> inv (fst (fold_steps step s is))"
  by (induction "is" arbitrary: s) (simp_all add: case_prod_beta step_inv)

lemma fold_amount:
  "inv s \<Longrightarrow> sum_list (map (amount k) (snd (fold_steps step s is))) = counter (fst (fold_steps step s is)) k - counter s k"
  by (induction "is" arbitrary: s) (simp_all add: case_prod_beta step_inv step_amount)

end

subsection \<open>Excluded metrics\<close>

text \<open>
  The contract of a collector that measures a device with a fixed table of metrics and leaves
  out the excluded names: a read of the device is the table without them.
\<close>

definition without :: "string set \<Rightarrow> request list \<Rightarrow> request list" where
  "without X rs = filter (\<lambda>r. rq_name r \<notin> X) rs"

lemma without_simps [simp]:
  "without X [] = []"
  "without X (r # rs) = (if rq_name r \<in> X then without X rs else r # without X rs)"
  "without X (rs @ rs') = without X rs @ without X rs'"
  by (simp_all add: without_def)

lemma without_concat: "without X (concat rss) = concat (map (without X) rss)"
  by (induction rss) simp_all

locale metric_table =
  fixes table :: "'d \<Rightarrow> request list"
    and read :: "string set \<Rightarrow> 'd \<Rightarrow> request list"
  assumes read_table: "read X d = without X (table d)"
begin

lemma read_eq: "read X = (\<lambda>d. without X (table d))"
  by (simp add: read_table fun_eq_iff)

lemma excluded_never: "r \<in> set (concat (map (read X) ds)) \<Longrightarrow> rq_name r \<notin> X"
  by (auto simp: read_table without_def)

lemma wanted_sent: "r \<in> set (table d) \<Longrightarrow> rq_name r \<notin> X \<Longrightarrow> d \<in> set ds \<Longrightarrow> r \<in> set (concat (map (read X) ds))"
  by (auto simp: read_table without_def)

lemma nothing_excluded: "concat (map (read {}) ds) = concat (map table ds)"
  by (simp add: read_eq without_def)

lemma exclude_more: "concat (map (read (X \<union> Y)) ds) = without Y (concat (map (read X) ds))"
  by (simp add: read_eq without_def filter_concat comp_def conj_commute)

end

text \<open>A table that has each name once: every name that is wanted comes once per device.\<close>

locale distinct_table = metric_table +
  fixes names :: "string list"
  assumes table_names: "map rq_name (table d) = names"
    and names_distinct: "distinct names"
begin

lemma read_names: "map rq_name (read X d) = filter (\<lambda>n. n \<notin> X) names"
  unfolding read_table without_def table_names [of d, symmetric] by (simp add: filter_map comp_def)

lemma one_each: "n \<in> set names \<Longrightarrow> n \<notin> X \<Longrightarrow> \<exists>!r. r \<in> set (read X d) \<and> rq_name r = n"
proof -
  assume n: "n \<in> set names" "n \<notin> X"
  then have "n \<in> rq_name ` set (read X d)" by (simp flip: list.set_map add: read_names)
  then obtain r where "r \<in> set (read X d)" "rq_name r = n" by blast
  moreover have "inj_on rq_name (set (read X d))"
    using read_names [of X d] names_distinct by (metis distinct_filter distinct_map)
  ultimately show ?thesis by (auto dest: inj_onD)
qed

end

subsection \<open>Clamped counters\<close>

text \<open>
  The contract of a collector that sends differences and replaces negative ones by 0. \<open>ok\<close>
  says which inputs are meant. What is sent for a counter is never less than its growth, and
  it is exactly its growth if the counter never decreases.
\<close>

fun rises :: "('s \<Rightarrow> 'i \<Rightarrow> ('s \<times> 'r list) run) \<Rightarrow> ('s \<Rightarrow> int) \<Rightarrow> 's \<Rightarrow> 'i list \<Rightarrow> bool" where
  "rises f c s [] = True"
| "rises f c s (i # is) = (case f s i of Inl _ \<Rightarrow> True | Inr (s1, _) \<Rightarrow> c s \<le> c s1 \<and> rises f c s1 is)"

locale clamped_source =
  fixes step :: "'s \<Rightarrow> 'i \<Rightarrow> ('s \<times> 'r list) run"
    and counter :: "'s \<Rightarrow> 'k \<Rightarrow> int"
    and amount :: "'k \<Rightarrow> 'r \<Rightarrow> int"
    and inv :: "'s \<Rightarrow> bool"
    and ok :: "'i \<Rightarrow> bool"
  assumes step_inv: "inv s \<Longrightarrow> ok i \<Longrightarrow> step s i = Inr (s', rs) \<Longrightarrow> inv s'"
    and step_clamped: "inv s \<Longrightarrow> ok i \<Longrightarrow> step s i = Inr (s', rs) \<Longrightarrow>
      sum_list (map (amount k) rs) = max 0 (counter s' k - counter s k)"
begin

lemma run_clamped:
  assumes "inv s" and "\<forall>i \<in> set is. ok i" and "run_steps step s is = Inr (s', rs)"
  shows "inv s' \<and> 0 \<le> sum_list (map (amount k) rs) \<and> counter s' k - counter s k \<le> sum_list (map (amount k) rs) \<and>
         (rises step (\<lambda>s. counter s k) s is \<longrightarrow> sum_list (map (amount k) rs) = counter s' k - counter s k)"
  using assms
proof (induction "is" arbitrary: s rs)
  case (Cons i "is")
  from Cons.prems(3) obtain s1 r1 r2 where step: "step s i = Inr (s1, r1)" "run_steps step s1 is = Inr (s', r2)"
    and rs: "rs = r1 @ r2"
    by (auto simp: run_simps)
  have ok: "ok i" "\<forall>i \<in> set is. ok i" using Cons.prems(2) by simp_all
  have inv: "inv s1" using step_inv [OF Cons.prems(1) ok(1) step(1)] .
  have "sum_list (map (amount k) r1) = max 0 (counter s1 k - counter s k)"
    using step_clamped [OF Cons.prems(1) ok(1) step(1)] .
  with Cons.IH [OF inv ok(2) step(2)] step(1) rs show ?case by auto
qed simp

end

end
