(* ===== verification/Disk_Collectors.thy ===== *)
theory Disk_Collectors
  imports Collector_Base
begin

text \<open>
  \<open>collectors/iostatMetric.go\<close> (differences of the counters in \<open>/proc/diskstats\<close>) and
  \<open>collectors/diskstatMetric.go\<close> (sizes of the mounted file systems). The contents of the
  files and the results of \<open>statfs\<close> are inputs.
\<close>

subsection \<open>IOstatCollector\<close>

record IOstatCollectorEntry =
  io_currentValues :: "(string \<times> goint) list"
  io_lastValues :: "(string \<times> goint) list"
  io_tags :: tagmap

record IOstatCollector =
  io_init :: bool
  io_meta :: tagmap
  io_matches :: "(string \<times> int) list"
  io_ExcludeDevices :: "string list"
  io_devices :: "(string \<times> IOstatCollectorEntry) list"

definition iostat_matches :: "(string \<times> int) list" where
  "iostat_matches =
     [(''io_reads'', 3), (''io_reads_merged'', 4), (''io_read_sectors'', 5), (''io_read_ms'', 6),
      (''io_writes'', 7), (''io_writes_merged'', 8), (''io_writes_sectors'', 9), (''io_writes_ms'', 10),
      (''io_ioops'', 11), (''io_ioops_ms'', 12), (''io_ioops_weighted_ms'', 13), (''io_discards'', 14),
      (''io_discards_merged'', 15), (''io_discards_sectors'', 16), (''io_discards_ms'', 17),
      (''io_flushes'', 18), (''io_flushes_ms'', 19)]"

definition iostat_skip :: "string list \<Rightarrow> string list \<Rightarrow> bool" where
  "iostat_skip excluded linefields =
     (length linefields < 3 \<or> contains (linefields ! 2) ''loop'' \<or> linefields ! 2 \<in> set excluded)"

text \<open>The first values of a device: 0 where the line has no number.\<close>

definition iostat_first :: "(string \<times> int) list \<Rightarrow> string list \<Rightarrow> (string \<times> goint) list" where
  "iostat_first matches linefields =
     map (\<lambda>(name, idx).
            (name, if idx < int (length linefields)
                   then (case parse_int 0 (linefields ! nat idx) of (value, None) \<Rightarrow> value | _ \<Rightarrow> 0) else 0))
       matches"

definition iostat_device ::
  "string list \<Rightarrow> (string \<times> int) list \<Rightarrow> string \<Rightarrow> (string \<times> IOstatCollectorEntry) list \<Rightarrow>
   (string \<times> IOstatCollectorEntry) list" where
  "iostat_device ExcludeDevices matches line devs =
     (let linefields = str_fields line in
      if iostat_skip ExcludeDevices linefields then devs
      else let values = iostat_first matches linefields; device = linefields ! 2
           in map_put device
                \<lparr>io_currentValues = values, io_lastValues = values,
                 io_tags = [(''device'', device), (''type'', ''node'')]\<rparr> devs)"

definition iostat_Init :: "string list \<Rightarrow> string list \<Rightarrow> string option \<Rightarrow> goerror + IOstatCollector" where
  "iostat_Init ExcludeMetrics ExcludeDevices file =
     (let matches = filter (\<lambda>(k, v). k \<notin> set ExcludeMetrics) iostat_matches in
      if matches = [] then Inl (GoError ''no metrics to collect'')
      else case file of
        None \<Rightarrow> Inl (GoError ''Failed to open file'')
      | Some content \<Rightarrow>
          (case scan_lines content of (lines, ok) \<Rightarrow>
             let devices = fold (iostat_device ExcludeDevices matches) lines [] in if \<not> ok then Inl (GoError ''Failed to scan content of file'')
                else Inr \<lparr>io_init = True, io_meta = [(''source'', ''IOstatCollector''), (''group'', ''Disk'')],
                          io_matches = matches, io_ExcludeDevices = ExcludeDevices, io_devices = devices\<rparr>))"

text \<open>The inner loop of \<open>Read\<close> over the metrics of a line.\<close>

definition iostat_metric ::
  "tagmap \<Rightarrow> string list \<Rightarrow> IOstatCollectorEntry \<Rightarrow> string \<times> int \<Rightarrow> IOstatCollectorEntry \<times> request list" where
  "iostat_metric meta linefields entry match =
     (case match of (name, idx) \<Rightarrow>
       if idx < int (length linefields) then
         (case parse_int 0 (linefields ! nat idx) of
            (x, None) \<Rightarrow>
              (entry\<lparr>io_lastValues := map_put name (map_get 0 (io_currentValues entry) name) (io_lastValues entry),
                     io_currentValues := map_put name x (io_currentValues entry)\<rparr>,
               [\<lparr>rq_name = name, rq_tags = io_tags entry, rq_meta = meta,
                 rq_value = VInt (x - map_get 0 (io_currentValues entry) name), rq_time = None\<rparr>])
          | _ \<Rightarrow> (entry, []))
       else (entry, []))"

definition iostat_line :: "IOstatCollector \<Rightarrow> string \<Rightarrow> IOstatCollector \<times> request list" where
  "iostat_line m line =
     (let linefields = str_fields line in
      if line = [] \<or> iostat_skip (io_ExcludeDevices m) linefields then (m, [])
      else case map_of (io_devices m) (linefields ! 2) of
             None \<Rightarrow> (m, [])
           | Some entry \<Rightarrow>
               (case fold_steps (iostat_metric (io_meta m) linefields) entry (io_matches m) of
                  (entry', rs) \<Rightarrow> (m\<lparr>io_devices := map_put (linefields ! 2) entry' (io_devices m)\<rparr>, rs)))"

definition iostat_Read :: "string option \<Rightarrow> IOstatCollector \<Rightarrow> IOstatCollector \<times> request list" where
  "iostat_Read file m =
     (if \<not> io_init m then (m, [])
      else case file of None \<Rightarrow> (m, []) | Some content \<Rightarrow> fold_steps iostat_line m (file_lines content))"

definition iostat_Close :: "IOstatCollector \<Rightarrow> IOstatCollector" where
  "iostat_Close m = m\<lparr>io_init := False\<rparr>"

subsection \<open>Differences telescope\<close>

definition entry_counter :: "IOstatCollectorEntry \<Rightarrow> string \<times> string \<Rightarrow> goint" where
  "entry_counter e k = (if map_of (io_tags e) ''device'' = Some (fst k)
                        then map_get 0 (io_currentValues e) (snd k) else 0)"

definition iostat_counter :: "IOstatCollector \<Rightarrow> string \<times> string \<Rightarrow> goint" where
  "iostat_counter m k =
     (case map_of (io_devices m) (fst k) of None \<Rightarrow> 0 | Some e \<Rightarrow> map_get 0 (io_currentValues e) (snd k))"

definition iostat_amount :: "string \<times> string \<Rightarrow> request \<Rightarrow> goint" where
  "iostat_amount k r =
     (if map_of (rq_tags r) ''device'' = Some (fst k) \<and> rq_name r = snd k
      then (case rq_value r of VInt d \<Rightarrow> d | _ \<Rightarrow> 0) else 0)"

definition tagged_devices :: "(string \<times> IOstatCollectorEntry) list \<Rightarrow> bool" where
  "tagged_devices devs = (\<forall>d e. map_of devs d = Some e \<longrightarrow> map_of (io_tags e) ''device'' = Some d)"

definition devices_ok :: "IOstatCollector \<Rightarrow> bool" where
  "devices_ok m = tagged_devices (io_devices m)"

lemma iostat_metric_tags: "io_tags (fst (iostat_metric meta lf e match)) = io_tags e"
  by (simp add: iostat_metric_def split: prod.splits option.splits)

interpretation iostat_entry: difference_source "iostat_metric meta lf" entry_counter iostat_amount "\<lambda>_. True" for meta lf
proof (unfold_locales, simp)
  fix e k i
  show "sum_list (map (iostat_amount k) (snd (iostat_metric meta lf e i))) =
        entry_counter (fst (iostat_metric meta lf e i)) k - entry_counter e k"
    by (auto simp: iostat_metric_def entry_counter_def iostat_amount_def map_get_def split: prod.splits option.splits)
qed

lemma fold_metric_tags: "io_tags (fst (fold_steps (iostat_metric meta lf) e ms)) = io_tags e"
  by (induction ms arbitrary: e) (simp_all add: case_prod_beta iostat_metric_tags)

lemma iostat_line_ok:
  assumes "devices_ok m"
  shows "devices_ok (fst (iostat_line m line))"
  using assms
  by (auto simp: iostat_line_def devices_ok_def tagged_devices_def Let_def fold_metric_tags case_prod_beta split: option.splits)

lemma iostat_line_amount:
  assumes "devices_ok m"
  shows "sum_list (map (iostat_amount k) (snd (iostat_line m line))) =
         iostat_counter (fst (iostat_line m line)) k - iostat_counter m k"
proof (cases "line = [] \<or> iostat_skip (io_ExcludeDevices m) (str_fields line) \<or> map_of (io_devices m) (str_fields line ! 2) = None")
  case True
  then have "iostat_line m line = (m, [])" by (auto simp: iostat_line_def Let_def)
  then show ?thesis by simp
next
  case False
  let ?d = "str_fields line ! 2"
  from False obtain e where e: "map_of (io_devices m) ?d = Some e" by auto
  then have tag: "map_of (io_tags e) ''device'' = Some ?d" using assms by (simp add: devices_ok_def tagged_devices_def)
  define e' rs where "e' = fst (fold_steps (iostat_metric (io_meta m) (str_fields line)) e (io_matches m))"
    and "rs = snd (fold_steps (iostat_metric (io_meta m) (str_fields line)) e (io_matches m))"
  have line: "iostat_line m line = (m\<lparr>io_devices := map_put ?d e' (io_devices m)\<rparr>, rs)"
    using False e by (simp add: iostat_line_def Let_def case_prod_beta e'_def rs_def)
  have sums: "sum_list (map (iostat_amount k) rs) = entry_counter e' k - entry_counter e k"
    unfolding e'_def rs_def by (rule iostat_entry.fold_amount) simp
  have tag': "map_of (io_tags e') ''device'' = Some ?d" using tag by (simp add: e'_def fold_metric_tags)
  have new: "iostat_counter (fst (iostat_line m line)) k =
      (if fst k = ?d then map_get 0 (io_currentValues e') (snd k) else iostat_counter m k)"
    unfolding line by (simp add: iostat_counter_def)
  have old: "fst k = ?d \<Longrightarrow> iostat_counter m k = map_get 0 (io_currentValues e) (snd k)"
    using e by (simp add: iostat_counter_def)
  have "entry_counter e' k = (if fst k = ?d then map_get 0 (io_currentValues e') (snd k) else 0)"
    unfolding entry_counter_def tag' by auto
  moreover have "entry_counter e k = (if fst k = ?d then map_get 0 (io_currentValues e) (snd k) else 0)"
    unfolding entry_counter_def tag by auto
  ultimately show ?thesis unfolding new unfolding line snd_conv sums by (simp add: old)
qed

interpretation iostat: difference_source iostat_line iostat_counter iostat_amount devices_ok
  by unfold_locales (rule iostat_line_ok iostat_line_amount; assumption)+

lemma tagged_devices_put:
  "tagged_devices devs \<Longrightarrow> map_of (io_tags e) ''device'' = Some d \<Longrightarrow> tagged_devices (map_put d e devs)"
  by (simp add: tagged_devices_def)

lemma tagged_devices_step: "tagged_devices devs \<Longrightarrow> tagged_devices (iostat_device ed matches line devs)"
  by (simp add: iostat_device_def Let_def tagged_devices_put)

lemma tagged_devices_fold:
  "tagged_devices devs \<Longrightarrow> tagged_devices (fold (iostat_device ed matches) lines devs)"
  by (induction lines arbitrary: devs) (simp_all add: tagged_devices_step)

lemma iostat_Init_ok:
  assumes "iostat_Init em ed content = Inr m"
  shows "devices_ok m"
proof -
  have "tagged_devices []" by (simp add: tagged_devices_def)
  with assms show ?thesis
    by (auto simp: iostat_Init_def Let_def devices_ok_def intro: tagged_devices_fold split: if_splits option.splits prod.splits)
qed

text \<open>A series of reads, each with the file as it is then.\<close>

definition iostat_Reads :: "string option list \<Rightarrow> IOstatCollector \<Rightarrow> IOstatCollector \<times> request list" where
  "iostat_Reads files m = fold_steps (\<lambda>m file. iostat_Read file m) m files"

lemma iostat_Read_difference:
  assumes "devices_ok m"
  shows "devices_ok (fst (iostat_Read content m)) \<and>
         sum_list (map (iostat_amount k) (snd (iostat_Read content m))) =
           iostat_counter (fst (iostat_Read content m)) k - iostat_counter m k"
  using iostat.fold_inv [OF assms] iostat.fold_amount [OF assms]
  by (cases content) (simp_all add: iostat_Read_def assms)

interpretation iostat_reads:
  difference_source "\<lambda>m file. iostat_Read file m" iostat_counter iostat_amount devices_ok
  by unfold_locales (simp_all add: iostat_Read_difference)

subsection \<open>DiskstatCollector\<close>

record DiskstatCollector =
  ds_init :: bool
  ds_meta :: tagmap
  ds_ExcludeMounts :: "string list"
  ds_allowedMetrics :: "(string \<times> bool) list"

text \<open>\<open>Init\<close> with the decoded configuration; \<open>mounts_ok\<close>: the mount file can be opened and closed.\<close>

definition diskstat_Init :: "string list \<Rightarrow> string list \<Rightarrow> bool \<Rightarrow> goerror + DiskstatCollector" where
  "diskstat_Init ExcludeMetrics ExcludeMounts mounts_ok =
     (let allowed = [(''disk_total'', True), (''disk_free'', True), (''part_max_used'', True)];
          allowed' = fold (\<lambda>excl a. if map_of a excl \<noteq> None then map_put excl False a else a) ExcludeMetrics allowed
      in if \<not> mounts_ok then Inl (GoError ''file open failed'')
         else Inr \<lparr>ds_init = True, ds_meta = [(''source'', ''DiskstatCollector''), (''group'', ''Disk'')],
                   ds_ExcludeMounts = ExcludeMounts, ds_allowedMetrics = allowed'\<rparr>)"

text \<open>The fields of \<open>syscall.Statfs_t\<close> that are read, all 64 bits wide.\<close>

record Statfs_t =
  Blocks :: goint
  Bsize :: goint
  Bfree :: goint

definition allowed :: "DiskstatCollector \<Rightarrow> string \<Rightarrow> bool" where
  "allowed m name = map_get False (ds_allowedMetrics m) name"

definition disk_request :: "DiskstatCollector \<Rightarrow> string \<Rightarrow> tagmap \<Rightarrow> unit govalue \<Rightarrow> string \<Rightarrow> request list" where
  "disk_request m name tags v u =
     (if allowed m name
      then [add_meta ''unit'' u \<lparr>rq_name = name, rq_tags = tags, rq_meta = ds_meta m, rq_value = v, rq_time = None\<rparr>]
      else [])"

text \<open>Gigabytes and the used percentage, in 64-bit arithmetic.\<close>

definition gbytes :: "goint \<Rightarrow> goint \<Rightarrow> goint" where
  "gbytes blocks bsize = (blocks * bsize) div 1000000000"

definition used_percent :: "goint \<Rightarrow> goint \<Rightarrow> goint" where
  "used_percent tot free = (100 * (tot - free)) div tot"

text \<open>One line of the mount table; the state of the loop is \<open>part_max_used\<close>.\<close>

definition mount_line ::
  "DiskstatCollector \<Rightarrow> (string \<Rightarrow> Statfs_t option) \<Rightarrow> goint \<Rightarrow> string \<Rightarrow> (goint \<times> request list) run" where
  "mount_line m statfs part_max_used line =
     (if line = [] \<or> \<not> has_prefix line ''/dev'' then Inr (part_max_used, [])
      else let linefields = str_fields line in
      run_bind (at_index linefields 0) (\<lambda>device.
      if contains device ''loop'' then Inr (part_max_used, [])
      else run_bind (at_index linefields 1) (\<lambda>mnt.
      if contains mnt ''boot'' then Inr (part_max_used, [])
      else let mountPath = replace_all mnt [CHR 0x5C, CHR ''0'', CHR ''4'', CHR ''0''] '' '' in
      if \<exists>excl \<in> set (ds_ExcludeMounts m). contains mountPath excl then Inr (part_max_used, [])
      else case statfs mountPath of
        None \<Rightarrow> Inr (part_max_used, [])
      | Some stat \<Rightarrow>
          if Blocks stat = 0 \<or> Bsize stat = 0 then Inr (part_max_used, [])
          else let tags = [(''type'', ''node''), (''device'', device)];
                   total = gbytes (Blocks stat) (Bsize stat);
                   free = gbytes (Bfree stat) (Bsize stat);
                   rs = disk_request m ''disk_total'' tags (VUint64 total) ''GBytes'' @
                        disk_request m ''disk_free'' tags (VUint64 free) ''GBytes'';
                   perc = used_percent total free
               in Inr (if total > 0 \<and> perc > part_max_used then perc else part_max_used, rs))))"

definition diskstat_Read ::
  "(string \<Rightarrow> Statfs_t option) \<Rightarrow> string option \<Rightarrow> DiskstatCollector \<Rightarrow> request list run" where
  "diskstat_Read statfs mounts m =
     (if \<not> ds_init m then Inr []
      else case mounts of
        None \<Rightarrow> Inr []
      | Some content \<Rightarrow>
          run_bind (run_steps (mount_line m statfs) 0 (file_lines content)) (\<lambda>(part_max_used, rs).
            Inr (rs @ disk_request m ''part_max_used'' [(''type'', ''node'')] (VInt part_max_used) ''percent'')))"

definition diskstat_Close :: "DiskstatCollector \<Rightarrow> DiskstatCollector" where
  "diskstat_Close m = m\<lparr>ds_init := False\<rparr>"

subsection \<open>Bounds of the percentage\<close>

text \<open>A file system whose size in bytes fits 64 bits and which is not more than empty.\<close>

definition plausible :: "Statfs_t \<Rightarrow> bool" where
  "plausible st = (uint (Blocks st) * uint (Bsize st) < 18446744073709551616 \<and> uint (Bfree st) \<le> uint (Blocks st))"

lemma uint_gbytes:
  assumes "uint a * uint b < (18446744073709551616 :: int)"
  shows "uint (gbytes a b) = uint a * uint b div 1000000000"
proof -
  have "uint (a * b) = uint a * uint b"
    using assms uint_mult_lem [of a b] by simp
  then show ?thesis by (simp add: gbytes_def uint_div)
qed

lemma uint_used_percent:
  assumes "uint free \<le> uint tot" and "uint tot \<le> 18446744074"
  shows "uint (used_percent tot free) = 100 * (uint tot - uint free) div uint tot"
proof -
  have le: "free \<le> tot" using assms(1) by (simp add: word_le_def)
  have sub: "uint (tot - free) = uint tot - uint free" using le by (simp add: uint_sub_lem word_le_def)
  have "100 * (uint tot - uint free) \<le> 100 * uint tot" by simp
  also have "\<dots> \<le> 100 * 18446744074" using assms(2) by simp
  finally have "100 * (uint tot - uint free) < 18446744073709551616" by simp
  then have "uint (100 :: goint) * uint (tot - free) < 2 ^ LENGTH(64)" by (simp add: sub)
  then have "uint (100 * (tot - free)) = 100 * (uint tot - uint free)"
    using uint_mult_lem [of "100 :: goint" "tot - free"] sub by simp
  then show ?thesis by (simp add: used_percent_def uint_div)
qed

lemma percent_le_100:
  assumes "plausible st" and "gbytes (Blocks st) (Bsize st) > 0"
  shows "uint (used_percent (gbytes (Blocks st) (Bsize st)) (gbytes (Bfree st) (Bsize st))) \<le> 100"
proof -
  let ?t = "gbytes (Blocks st) (Bsize st)" and ?f = "gbytes (Bfree st) (Bsize st)"
  have size: "uint (Blocks st) * uint (Bsize st) < 18446744073709551616"
    and free: "uint (Bfree st) \<le> uint (Blocks st)" using assms(1) by (simp_all add: plausible_def)
  have fb: "uint (Bfree st) * uint (Bsize st) \<le> uint (Blocks st) * uint (Bsize st)"
    using free by (simp add: mult_right_mono)
  have t: "uint ?t = uint (Blocks st) * uint (Bsize st) div 1000000000" by (rule uint_gbytes [OF size])
  have f: "uint ?f = uint (Bfree st) * uint (Bsize st) div 1000000000" by (rule uint_gbytes) (use fb size in linarith)
  have ft: "uint ?f \<le> uint ?t" unfolding t f using fb by (simp add: zdiv_mono1)
  have "uint ?t \<le> 18446744074" unfolding t using size by linarith
  from uint_used_percent [OF ft this]
  have "uint (used_percent ?t ?f) = 100 * (uint ?t - uint ?f) div uint ?t" .
  also have "\<dots> \<le> 100 * uint ?t div uint ?t"
    using assms(2) uint_ge_0 [of ?f] by (intro zdiv_mono1) (simp_all add: word_less_def)
  also have "\<dots> = 100" using assms(2) by (simp add: word_less_def)
  finally show ?thesis .
qed

lemma mount_line_bound:
  assumes "mount_line m statfs p line = Inr (p', rs)" and "uint p \<le> 100"
    and "\<forall>path st. statfs path = Some st \<longrightarrow> plausible st"
  shows "uint p' \<le> 100"
proof (cases "p' = p")
  case False
  then obtain st where st: "\<exists>path. statfs path = Some st" "gbytes (Blocks st) (Bsize st) > 0"
      "p' = used_percent (gbytes (Blocks st) (Bsize st)) (gbytes (Bfree st) (Bsize st))"
    using assms(1) by (auto simp: mount_line_def Let_def run_bind_Inr_iff split: if_splits option.splits)
  with percent_le_100 [of st] assms(3) show ?thesis by blast
qed (use assms(2) in simp)

lemma mount_lines_bound:
  assumes "run_steps (mount_line m statfs) p lines = Inr (p', rs)" and "uint p \<le> 100"
    and "\<forall>path st. statfs path = Some st \<longrightarrow> plausible st"
  shows "uint p' \<le> 100"
  using assms(1,2)
proof (induction lines arbitrary: p rs)
  case (Cons line lines)
  then obtain p1 r1 r2 where "mount_line m statfs p line = Inr (p1, r1)"
      "run_steps (mount_line m statfs) p1 lines = Inr (p', r2)"
    by (auto simp: run_bind_Inr_iff)
  with Cons.IH [of p1 r2] mount_line_bound [of m statfs p line p1 r1] Cons.prems(2) assms(3) show ?case by blast
qed simp

subsection \<open>Properties\<close>

text \<open>C21: difference metrics add up: over any series of reads, whatever the file contains and
  however often a read fails, the values sent for a counter of a device sum up (modulo
  \<open>2 ^ 64\<close>) to the difference between the last and the first stored value of that counter.\<close>

theorem iostat_telescopes:
  assumes "iostat_Init ExcludeMetrics ExcludeDevices content = Inr m"
    and "fold_steps (\<lambda>m file. iostat_Read file m) m files = (m', rs)"
  shows "sum_list (map (iostat_amount (device, name)) rs) = iostat_counter m' (device, name) - iostat_counter m (device, name)"
  using iostat_reads.fold_amount [OF iostat_Init_ok [OF assms(1)], of "(device, name)" files] assms(2) by simp

text \<open>The highest used percentage is a percentage: if every mounted file system has a size
  that fits 64 bits and no more free than total blocks, the value sent last is between 0
  and 100, in 64-bit arithmetic.\<close>

theorem part_max_used_bounds:
  assumes "diskstat_Read statfs (Some content) m = Inr rs" and "ds_init m" and "allowed m ''part_max_used''"
    and "\<forall>path st. statfs path = Some st \<longrightarrow> plausible st"
  shows "\<exists>pre v. rs = pre @ [add_meta ''unit'' ''percent''
           \<lparr>rq_name = ''part_max_used'', rq_tags = [(''type'', ''node'')], rq_meta = ds_meta m, rq_value = VInt v, rq_time = None\<rparr>] \<and>
         0 \<le> sint v \<and> sint v \<le> 100"
proof -
  obtain p pre where p: "run_steps (mount_line m statfs) 0 (file_lines content) = Inr (p, pre)"
      "rs = pre @ disk_request m ''part_max_used'' [(''type'', ''node'')] (VInt p) ''percent''"
    using assms(1,2) by (auto simp: diskstat_Read_def run_bind_Inr_iff)
  have u: "uint p \<le> 100" using mount_lines_bound [OF p(1) _ assms(4)] by simp
  then have "uint p < 2 ^ 63" by (rule order.strict_trans1) simp
  moreover have "- (2 ^ 63) \<le> uint p" by (rule order_trans [of _ 0]) simp_all
  ultimately have "sint p = uint p" by (simp add: sint_uint signed_take_bit_int_eq_self)
  with u p(2) assms(3) show ?thesis by (intro exI [of _ pre] exI [of _ p]) (simp add: disk_request_def)
qed

subsection \<open>Witnesses\<close>

definition demo_diskstats :: string where
  "demo_diskstats = ''8 0 sda 10 0 5 7'' @ [CHR 0x0A]"

lemma iostat_telescopes_witness:
  "\<exists>m m' rs. iostat_Init [] [] (Some demo_diskstats) = Inr m \<and>
     fold_steps (\<lambda>m file. iostat_Read file m) m [Some demo_diskstats, None, Some demo_diskstats] = (m', rs) \<and>
     sum_list (map (iostat_amount (''sda'', ''io_reads'')) rs) =
       iostat_counter m' (''sda'', ''io_reads'') - iostat_counter m (''sda'', ''io_reads'')"
proof -
  have "\<not> (case iostat_Init [] [] (Some demo_diskstats) of Inl _ \<Rightarrow> True | Inr _ \<Rightarrow> False)" by code_simp
  then obtain m where m: "iostat_Init [] [] (Some demo_diskstats) = Inr m" by (auto split: sum.splits)
  obtain m' rs where r: "fold_steps (\<lambda>m file. iostat_Read file m) m [Some demo_diskstats, None, Some demo_diskstats] = (m', rs)"
    by (meson surj_pair)
  from iostat_telescopes [OF m r] m r show ?thesis by blast
qed

definition demo_disk :: DiskstatCollector where
  "demo_disk = \<lparr>ds_init = True, ds_meta = [], ds_ExcludeMounts = [],
     ds_allowedMetrics = [(''disk_total'', True), (''part_max_used'', True)]\<rparr>"

definition demo_statfs :: "string \<Rightarrow> Statfs_t option" where
  "demo_statfs path = (if path = ''/'' then Some \<lparr>Blocks = 1000000, Bsize = 4096, Bfree = 250000\<rparr> else None)"

lemma part_max_used_bounds_witness:
  "\<exists>rs pre v. diskstat_Read demo_statfs (Some (''/dev/sda1 / ext4'')) demo_disk = Inr rs \<and>
     rs = pre @ [add_meta ''unit'' ''percent''
           \<lparr>rq_name = ''part_max_used'', rq_tags = [(''type'', ''node'')], rq_meta = [], rq_value = VInt v, rq_time = None\<rparr>] \<and>
     sint v \<le> 100"
proof -
  have "\<not> (case diskstat_Read demo_statfs (Some (''/dev/sda1 / ext4'')) demo_disk of Inl _ \<Rightarrow> True | Inr _ \<Rightarrow> False)"
    by code_simp
  then obtain rs where rs: "diskstat_Read demo_statfs (Some (''/dev/sda1 / ext4'')) demo_disk = Inr rs"
    by (auto split: sum.splits)
  have "allowed demo_disk ''part_max_used''" by (simp add: allowed_def demo_disk_def map_get_def)
  moreover have "\<forall>path st. demo_statfs path = Some st \<longrightarrow> plausible st"
    by (simp add: demo_statfs_def plausible_def)
  ultimately show ?thesis using part_max_used_bounds [OF rs] rs by (simp add: demo_disk_def) blast
qed

end
