(* ===== verification/Cpu_Collectors.thy ===== *)
theory Cpu_Collectors
  imports Collector_Base
begin

text \<open>
  \<open>collectors/loadavgMetric.go\<close>, \<open>collectors/schedstatMetric.go\<close> and
  \<open>collectors/cpustatMetric.go\<close>: three collectors that parse a file below \<open>/proc\<close>. The
  content of the file at a read (\<open>None\<close>: it cannot be opened) and the current time are
  inputs. Indexing a slice out of range and writing to a nil map panic.
\<close>

subsection \<open>LoadavgCollector\<close>

record LoadavgCollector =
  la_init :: bool
  la_meta :: tagmap
  la_tags :: tagmap
  la_load_matches :: "string list"
  la_load_skips :: "bool list"
  la_proc_matches :: "string list"
  la_proc_skips :: "bool list"

definition loadavg_Init :: "string list \<Rightarrow> LoadavgCollector" where
  "loadavg_Init ExcludeMetrics =
     (let lm = [''load_one'', ''load_five'', ''load_fifteen'']; pm = [''proc_run'', ''proc_total'']
      in \<lparr>la_init = True, la_meta = [(''source'', ''LoadavgCollector''), (''group'', ''LOAD'')],
          la_tags = [(''type'', ''node'')],
          la_load_matches = lm, la_load_skips = map (\<lambda>n. n \<in> set ExcludeMetrics) lm,
          la_proc_matches = pm, la_proc_skips = map (\<lambda>n. n \<in> set ExcludeMetrics) pm\<rparr>)"

definition loadavg_request :: "LoadavgCollector \<Rightarrow> gotime \<Rightarrow> string \<Rightarrow> unit govalue \<Rightarrow> request" where
  "loadavg_request m now name v =
     \<lparr>rq_name = name, rq_tags = la_tags m, rq_meta = la_meta m, rq_value = v, rq_time = Some now\<rparr>"

text \<open>The two loops: position, name and skip flag of an entry.\<close>

definition load_entry ::
  "LoadavgCollector \<Rightarrow> gotime \<Rightarrow> string list \<Rightarrow> nat \<times> string \<times> bool \<Rightarrow> request list run" where
  "load_entry m now ls e =
     (case e of (i, name, skip) \<Rightarrow>
        run_bind (at_index ls (int i)) (\<lambda>s.
          case parse_float s of
            (x, None) \<Rightarrow> Inr (if skip then [] else [loadavg_request m now name (VFloat64 x)])
          | _ \<Rightarrow> Inr []))"

definition proc_entry ::
  "LoadavgCollector \<Rightarrow> gotime \<Rightarrow> string list \<Rightarrow> nat \<times> string \<times> bool \<Rightarrow> request list run" where
  "proc_entry m now lv e =
     (case e of (i, name, skip) \<Rightarrow>
        run_bind (at_index lv (int i)) (\<lambda>s.
          case parse_int 10 s of
            (x, None) \<Rightarrow> Inr (if skip then [] else [loadavg_request m now name (VInt64 x)])
          | _ \<Rightarrow> Inr []))"

definition loadavg_Read :: "gotime \<Rightarrow> string option \<Rightarrow> LoadavgCollector \<Rightarrow> request list run" where
  "loadavg_Read now file m =
     (if \<not> la_init m then Inr []
      else case file of
        None \<Rightarrow> Inr []
      | Some buffer \<Rightarrow>
          (let ls = split_on (CHR '' '') buffer in
           run_bind (run_concat (load_entry m now ls) (enumerate 0 (zip (la_load_matches m) (la_load_skips m)))) (\<lambda>r1.
           run_bind (at_index ls 3) (\<lambda>procs.
           let lv = split_on (CHR ''/'') procs in
           run_bind (run_concat (proc_entry m now lv) (enumerate 0 (zip (la_proc_matches m) (la_proc_skips m)))) (\<lambda>r2.
           Inr (r1 @ r2))))))"

definition loadavg_Close :: "LoadavgCollector \<Rightarrow> LoadavgCollector" where
  "loadavg_Close m = m\<lparr>la_init := False\<rparr>"

subsection \<open>SchedstatCollector\<close>

record SchedstatCollector =
  sc_init :: bool
  sc_meta :: tagmap
  sc_lastTimestamp :: gotime
  sc_cputags :: "(string \<times> tagmap) list"
  sc_olddata :: "(string \<times> (string \<times> goint) list) list"

text \<open>The number of a \<open>cpuN\<close> field: \<open>TrimLeft\<close> with the cutset \<open>cpu\<close>, then \<open>Atoi\<close> without its error.\<close>

definition cpu_number :: "string \<Rightarrow> goint" where
  "cpu_number field = fst (parse_int 10 (trim_left (\<lambda>c. c \<in> set ''cpu'') field))"

definition hwthread_tags :: "goint \<Rightarrow> tagmap" where
  "hwthread_tags cpu = [(''type'', ''hwthread''), (''type-id'', itoa cpu)]"

definition schedstat_init_line :: "SchedstatCollector \<Rightarrow> string \<Rightarrow> SchedstatCollector run" where
  "schedstat_init_line m line =
     (let linefields = str_fields line in
      run_bind (at_index linefields 0) (\<lambda>f0.
      if has_prefix f0 ''cpu'' \<and> f0 \<noteq> ''cpu'' then
        run_bind (at_index linefields 7) (\<lambda>f7.
        run_bind (at_index linefields 8) (\<lambda>f8.
        Inr (m\<lparr>sc_cputags := map_put f0 (hwthread_tags (cpu_number f0)) (sc_cputags m),
               sc_olddata := map_put f0 [(''running'', fst (parse_int 10 f7)), (''waiting'', fst (parse_int 10 f8))]
                               (sc_olddata m)\<rparr>)))
      else Inr m))"

definition schedstat_Init :: "gotime \<Rightarrow> string option \<Rightarrow> (goerror + SchedstatCollector) run" where
  "schedstat_Init now file =
     (case file of
        None \<Rightarrow> Inr (Inl (GoError ''Failed opening scheduler statistics file''))
      | Some content \<Rightarrow>
          run_bind (run_fold schedstat_init_line
            \<lparr>sc_init = False, sc_meta = [(''source'', ''SchedstatCollector''), (''group'', ''SCHEDSTAT'')],
             sc_lastTimestamp = 0, sc_cputags = [], sc_olddata = []\<rparr> (file_lines content)) (\<lambda>m.
          Inr (Inr (m\<lparr>sc_lastTimestamp := now, sc_init := True\<rparr>))))"

text \<open>Reading a nil inner map gives 0; writing to it panics.\<close>

definition nested_get :: "(string \<times> (string \<times> goint) list) list \<Rightarrow> string \<Rightarrow> string \<Rightarrow> goint" where
  "nested_get mm k1 k2 = (case map_of mm k1 of None \<Rightarrow> 0 | Some inner \<Rightarrow> map_get 0 inner k2)"

definition nested_put ::
  "string \<Rightarrow> string \<Rightarrow> goint \<Rightarrow> (string \<times> (string \<times> goint) list) list \<Rightarrow>
   (string \<times> (string \<times> goint) list) list run" where
  "nested_put k1 k2 v mm =
     (case map_of mm k1 of None \<Rightarrow> Inl NilMapWrite | Some inner \<Rightarrow> Inr (map_put k1 (map_put k2 v inner) mm))"

text \<open>A difference of nanosecond counters, per second of the interval.\<close>

definition load_share :: "goint \<Rightarrow> gofloat \<Rightarrow> gofloat" where
  "load_share diff seconds =
     fdiv binary64 (fdiv binary64 (f64_of_int (sint diff)) seconds) (f64_of_int 1000000000)"

definition ParseProcLine ::
  "SchedstatCollector \<Rightarrow> string list \<Rightarrow> tagmap \<Rightarrow> gotime \<Rightarrow> int \<Rightarrow> (SchedstatCollector \<times> request list) run" where
  "ParseProcLine m linefields tags now tsdelta =
     run_bind (at_index linefields 7) (\<lambda>f7.
     run_bind (at_index linefields 8) (\<lambda>f8.
     run_bind (at_index linefields 0) (\<lambda>f0.
     let running = fst (parse_int 10 f7); waiting = fst (parse_int 10 f8);
         diff_running = running - nested_get (sc_olddata m) f0 ''running'';
         diff_waiting = waiting - nested_get (sc_olddata m) f0 ''waiting'';
         l_running = load_share diff_running (duration_seconds tsdelta);
         l_waiting = load_share diff_waiting (duration_seconds tsdelta)
     in run_bind (nested_put f0 ''running'' running (sc_olddata m)) (\<lambda>od.
        run_bind (nested_put f0 ''waiting'' waiting od) (\<lambda>od'.
        Inr (m\<lparr>sc_olddata := od'\<rparr>,
             [\<lparr>rq_name = ''cpu_load_core'', rq_tags = tags, rq_meta = sc_meta m,
               rq_value = VFloat64 (fadd binary64 l_running l_waiting), rq_time = Some now\<rparr>]))))))"

definition schedstat_line ::
  "gotime \<Rightarrow> int \<Rightarrow> SchedstatCollector \<Rightarrow> string \<Rightarrow> (SchedstatCollector \<times> request list) run" where
  "schedstat_line now tsdelta m line =
     (let linefields = str_fields line in
      run_bind (at_index linefields 0) (\<lambda>f0.
        if has_prefix f0 ''cpu''
        then ParseProcLine m linefields (map_get [] (sc_cputags m) f0) now tsdelta
        else Inr (m, [])))"

text \<open>A file that cannot be opened is read as an empty one.\<close>

definition schedstat_Read ::
  "gotime \<Rightarrow> string option \<Rightarrow> SchedstatCollector \<Rightarrow> (SchedstatCollector \<times> request list) run" where
  "schedstat_Read now file m =
     (if \<not> sc_init m then Inr (m, [])
      else run_bind (run_steps (schedstat_line now (time_sub now (sc_lastTimestamp m))) m
                       (case file of None \<Rightarrow> [] | Some content \<Rightarrow> file_lines content)) (\<lambda>(m', rs).
             Inr (m'\<lparr>sc_lastTimestamp := now\<rparr>, rs)))"

definition schedstat_Close :: "SchedstatCollector \<Rightarrow> SchedstatCollector" where
  "schedstat_Close m = m\<lparr>sc_init := False\<rparr>"

subsection \<open>CpustatCollector\<close>

record CpustatCollector =
  cs_init :: bool
  cs_meta :: tagmap
  cs_excludeNumCPUs :: bool
  cs_lastTimestamp :: gotime
  cs_matches :: "(string \<times> int) list"
  cs_cputags :: "(string \<times> tagmap) list"
  cs_nodetags :: tagmap
  cs_olddata :: "(string \<times> (string \<times> goint) list) list"

definition cpustat_matches :: "(string \<times> int) list" where
  "cpustat_matches =
     [(''cpu_user'', 1), (''cpu_nice'', 2), (''cpu_system'', 3), (''cpu_idle'', 4), (''cpu_iowait'', 5),
      (''cpu_irq'', 6), (''cpu_softirq'', 7), (''cpu_steal'', 8), (''cpu_guest'', 9), (''cpu_guest_nice'', 10)]"

text \<open>The first counters of a line, with the error of \<open>ParseInt\<close> ignored.\<close>

fun cpustat_first :: "string list \<Rightarrow> (string \<times> int) list \<Rightarrow> (string \<times> goint) list run" where
  "cpustat_first linefields [] = Inr []"
| "cpustat_first linefields ((k, v) # ms) =
     run_bind (at_index linefields v) (\<lambda>f.
     run_bind (cpustat_first linefields ms) (\<lambda>rest. Inr ((k, fst (parse_int 0 f)) # rest)))"

definition cpustat_init_line :: "CpustatCollector \<Rightarrow> string \<Rightarrow> CpustatCollector run" where
  "cpustat_init_line m line =
     (let linefields = str_fields line in
      run_bind (at_index linefields 0) (\<lambda>f0.
      if f0 = ''cpu'' then
        run_bind (cpustat_first linefields (cs_matches m)) (\<lambda>vals.
        Inr (m\<lparr>cs_olddata := map_put f0 vals (cs_olddata m)\<rparr>))
      else if has_prefix f0 ''cpu'' then
        run_bind (cpustat_first linefields (cs_matches m)) (\<lambda>vals.
        Inr (m\<lparr>cs_cputags := map_put f0 (hwthread_tags (cpu_number f0)) (cs_cputags m),
               cs_olddata := map_put f0 vals (cs_olddata m)\<rparr>))
      else Inr m))"

definition cpustat_Init :: "string list \<Rightarrow> gotime \<Rightarrow> string option \<Rightarrow> (goerror + CpustatCollector) run" where
  "cpustat_Init ExcludeMetrics now file =
     (case file of
        None \<Rightarrow> Inr (Inl (GoError ''Failed to open file''))
      | Some content \<Rightarrow>
          (case scan_lines content of (lines, ok) \<Rightarrow>
           run_bind (run_fold cpustat_init_line
             \<lparr>cs_init = False, cs_meta = [(''source'', ''CpustatCollector''), (''group'', ''CPU'')],
              cs_excludeNumCPUs = (''num_cpus'' \<in> set ExcludeMetrics), cs_lastTimestamp = 0,
              cs_matches = filter (\<lambda>(k, v). k \<notin> set ExcludeMetrics) cpustat_matches,
              cs_cputags = [], cs_nodetags = [(''type'', ''node'')], cs_olddata = []\<rparr> lines) (\<lambda>m.
           Inr (if \<not> ok then Inl (GoError ''Call to scanner.Err failed'')
                else Inr (m\<lparr>cs_lastTimestamp := now, cs_init := True\<rparr>)))))"

text \<open>The first loop of \<open>parseStatLine\<close>: the counters and the values of the line.\<close>

fun stat_values ::
  "int \<Rightarrow> int \<Rightarrow> string list \<Rightarrow> string \<Rightarrow> (string \<times> int) list \<Rightarrow> (string \<times> (string \<times> goint) list) list \<Rightarrow>
   (string \<times> gofloat) list \<Rightarrow> ((string \<times> (string \<times> goint) list) list \<times> (string \<times> gofloat) list) run" where
  "stat_values clktck tsdelta linefields f0 [] od values = Inr (od, values)"
| "stat_values clktck tsdelta linefields f0 ((match, index) # ms) od values =
     run_bind (at_index linefields index) (\<lambda>f.
       case parse_int 0 f of
         (x, None) \<Rightarrow>
           (let vdiff = x - nested_get od f0 match;
                v = fdiv binary64 (fdiv binary64 (f64_of_int (sint vdiff)) (duration_seconds tsdelta)) (f64_of_int clktck)
            in run_bind (nested_put f0 match x od) (\<lambda>od'.
               stat_values clktck tsdelta linefields f0 ms od' (map_put match v values)))
       | _ \<Rightarrow> stat_values clktck tsdelta linefields f0 ms od values)"

definition percent_request :: "CpustatCollector \<Rightarrow> tagmap \<Rightarrow> gotime \<Rightarrow> string \<Rightarrow> gofloat \<Rightarrow> request" where
  "percent_request m tags now name v =
     add_tag ''unit'' ''Percent''
       \<lparr>rq_name = name, rq_tags = tags, rq_meta = cs_meta m, rq_value = VFloat64 (fmul binary64 v (Num 100)),
        rq_time = Some now\<rparr>"

definition parseStatLine ::
  "int \<Rightarrow> CpustatCollector \<Rightarrow> string list \<Rightarrow> tagmap \<Rightarrow> gotime \<Rightarrow> int \<Rightarrow> (CpustatCollector \<times> request list) run" where
  "parseStatLine clktck m linefields tags now tsdelta =
     run_bind (at_index linefields 0) (\<lambda>f0.
     run_bind (stat_values clktck tsdelta linefields f0 (cs_matches m) (cs_olddata m) []) (\<lambda>(od, values).
     let total_load = fold (\<lambda>(name, value) acc. fadd binary64 acc value) values (Num 0);
         rs = map (\<lambda>(name, value). percent_request m tags now name value) values;
         used = (case map_of values ''cpu_idle'' of
                   Some v \<Rightarrow> [percent_request m tags now ''cpu_used'' (fsub binary64 total_load v)]
                 | None \<Rightarrow> [])
     in Inr (m\<lparr>cs_olddata := od\<rparr>, rs @ used)))"

text \<open>The loop state carries the number of CPU lines.\<close>

definition cpustat_line ::
  "int \<Rightarrow> gotime \<Rightarrow> int \<Rightarrow> CpustatCollector \<times> goint \<Rightarrow> string \<Rightarrow> ((CpustatCollector \<times> goint) \<times> request list) run" where
  "cpustat_line clktck now tsdelta s line =
     (case s of (m, num_cpus) \<Rightarrow>
      let linefields = str_fields line in
      run_bind (at_index linefields 0) (\<lambda>f0.
      if f0 = ''cpu'' then
        run_bind (parseStatLine clktck m linefields (cs_nodetags m) now tsdelta) (\<lambda>(m', rs). Inr ((m', num_cpus), rs))
      else if has_prefix f0 ''cpu'' then
        run_bind (parseStatLine clktck m linefields (map_get [] (cs_cputags m) f0) now tsdelta)
          (\<lambda>(m', rs). Inr ((m', num_cpus + 1), rs))
      else Inr ((m, num_cpus), [])))"

definition cpustat_Read ::
  "int \<Rightarrow> gotime \<Rightarrow> string option \<Rightarrow> CpustatCollector \<Rightarrow> (CpustatCollector \<times> request list) run" where
  "cpustat_Read clktck now file m =
     (if \<not> cs_init m then Inr (m, [])
      else run_bind (run_steps (cpustat_line clktck now (time_sub now (cs_lastTimestamp m))) (m, 0)
                       (case file of None \<Rightarrow> [] | Some content \<Rightarrow> file_lines content)) (\<lambda>((m', num_cpus), rs).
             Inr (m'\<lparr>cs_lastTimestamp := now\<rparr>,
                  rs @ (if cs_excludeNumCPUs m then []
                        else [\<lparr>rq_name = ''num_cpus'', rq_tags = cs_nodetags m, rq_meta = cs_meta m,
                               rq_value = VInt num_cpus, rq_time = Some now\<rparr>]))))"

definition cpustat_Close :: "CpustatCollector \<Rightarrow> CpustatCollector" where
  "cpustat_Close m = m\<lparr>cs_init := False\<rparr>"

subsection \<open>When schedstat panics\<close>

definition bad_schedstat_line :: "string set \<Rightarrow> string \<Rightarrow> bool" where
  "bad_schedstat_line known line =
     (let f = str_fields line in
      f = [] \<or> (has_prefix (f ! 0) ''cpu'' \<and> (length f < 9 \<or> f ! 0 \<notin> known)))"

definition known_cpus :: "SchedstatCollector \<Rightarrow> string set" where
  "known_cpus m = dom (map_of (sc_olddata m))"

lemma nested_put_Inr_iff:
  "nested_put k1 k2 v mm = Inr mm' \<longleftrightarrow> (\<exists>inner. map_of mm k1 = Some inner \<and> mm' = map_put k1 (map_put k2 v inner) mm)"
  by (auto simp: nested_put_def split: option.splits)

lemma nested_put_known: "nested_put k1 k2 v mm = Inr mm' \<Longrightarrow> dom (map_of mm') = dom (map_of mm)"
  by (auto simp: nested_put_Inr_iff split: if_splits)

lemma nested_put_Inl: "(\<exists>p. nested_put k1 k2 v mm = Inl p) \<longleftrightarrow> k1 \<notin> dom (map_of mm)"
  by (auto simp: nested_put_def split: option.splits)

lemma run_bind_panics_iff: "(\<exists>p. run_bind r f = Inl p) \<longleftrightarrow> (\<exists>p. r = Inl p) \<or> (\<exists>x p. r = Inr x \<and> f x = Inl p)"
  by (cases r) auto

lemma at_index_in [simp]: "n < length xs \<Longrightarrow> at_index xs (int n) = Inr (xs ! n)"
  by (simp add: at_index_def)

lemma ParseProcLine_panics_iff:
  assumes "f \<noteq> []"
  shows "(\<exists>p. ParseProcLine m f tags now d = Inl p) \<longleftrightarrow> length f < 9 \<or> f ! 0 \<notin> known_cpus m"
proof (cases "length f < 9")
  case True
  then have "at_index f 8 = Inl IndexOutOfRange" by (simp add: at_index_def)
  with True show ?thesis by (cases "at_index f 7") (simp_all add: ParseProcLine_def)
next
  case False
  then have i: "at_index f 7 = Inr (f ! 7)" "at_index f 8 = Inr (f ! 8)" "at_index f 0 = Inr (f ! 0)"
    using assms by (simp_all add: at_index_def)
  show ?thesis
  proof (cases "f ! 0 \<in> known_cpus m")
    case True
    then obtain od where od: "nested_put (f ! 0) ''running'' (fst (parse_int 10 (f ! 7))) (sc_olddata m) = Inr od"
      using nested_put_Inl [of "f ! 0"] unfolding known_cpus_def by (metis sum.exhaust)
    from nested_put_known [OF this] True
    obtain od' where "nested_put (f ! 0) ''waiting'' (fst (parse_int 10 (f ! 8))) od = Inr od'"
      using nested_put_Inl [of "f ! 0"] unfolding known_cpus_def by (metis sum.exhaust)
    with od False True show ?thesis by (simp add: ParseProcLine_def i Let_def)
  next
    case unknown: False
    then obtain p where "nested_put (f ! 0) ''running'' (fst (parse_int 10 (f ! 7))) (sc_olddata m) = Inl p"
      using nested_put_Inl [of "f ! 0"] unfolding known_cpus_def by metis
    with unknown show ?thesis by (simp add: ParseProcLine_def i Let_def)
  qed
qed

lemma schedstat_line_panics_iff:
  "(\<exists>p. schedstat_line now d m line = Inl p) \<longleftrightarrow> bad_schedstat_line (known_cpus m) line"
proof (cases "str_fields line = []")
  case False
  then have "at_index (str_fields line) 0 = Inr (str_fields line ! 0)" by (simp add: at_index_def)
  with False show ?thesis
    by (simp add: schedstat_line_def bad_schedstat_line_def Let_def ParseProcLine_panics_iff)
qed (simp add: schedstat_line_def bad_schedstat_line_def at_index_def)

lemma schedstat_line_known:
  assumes "schedstat_line now d m line = Inr (m', rs)"
  shows "known_cpus m' = known_cpus m"
proof (cases "m' = m")
  case False
  with assms obtain f0 r w od od' where
    "nested_put f0 ''running'' r (sc_olddata m) = Inr od" "nested_put f0 ''waiting'' w od = Inr od'"
    "m' = m\<lparr>sc_olddata := od'\<rparr>"
    by (auto simp: schedstat_line_def ParseProcLine_def Let_def run_bind_Inr_iff split: if_splits)
  then show ?thesis using nested_put_known by (simp add: known_cpus_def)
qed simp

lemma itoa_no_sep: "CHR '' '' \<notin> set (itoa i)" "CHR ''/'' \<notin> set (itoa i)"
  by (rule itoa_chars; simp add: is_digit_def)+

subsection \<open>Properties\<close>

text \<open>Reading a load average file of the kernel's form gives the three load averages as the
  parsed numbers and the two process counts as the printed integers, in this order, without
  the excluded metrics.\<close>

theorem loadavg_roundtrip:
  assumes "parse_float f1 = (x1, None)" and "parse_float f2 = (x2, None)" and "parse_float f3 = (x3, None)"
    and "\<forall>f \<in> {f1, f2, f3}. CHR '' '' \<notin> set f"
  shows "loadavg_Read now (Some (f1 @ '' '' @ f2 @ '' '' @ f3 @ '' '' @ itoa running @ ''/'' @ itoa procs @ '' '' @ rest))
           (loadavg_Init ex) =
         Inr (map (\<lambda>(name, v). loadavg_request (loadavg_Init ex) now name v)
                (filter (\<lambda>(name, v). name \<notin> set ex)
                   [(''load_one'', VFloat64 x1), (''load_five'', VFloat64 x2), (''load_fifteen'', VFloat64 x3),
                    (''proc_run'', VInt64 running), (''proc_total'', VInt64 procs)]))"
proof -
  let ?m = "loadavg_Init ex" and ?procs = "itoa running @ ''/'' @ itoa procs"
  have "CHR '' '' \<notin> set ?procs" using itoa_no_sep by simp
  then have ls: "split_on (CHR '' '') (f1 @ '' '' @ f2 @ '' '' @ f3 @ '' '' @ ?procs @ '' '' @ rest) =
                 f1 # f2 # f3 # ?procs # split_on (CHR '' '') rest"
    using assms(4) split_on_append [of "CHR '' ''"] split_on_append [of "CHR '' ''" ?procs rest] by simp
  have lv: "split_on (CHR ''/'') ?procs = [itoa running, itoa procs]"
    using itoa_no_sep split_on_append [of "CHR ''/''" "itoa running" "itoa procs"] split_on_notin by simp
  show ?thesis
    using ls lv assms(1-3)
    by (simp add: loadavg_Read_def loadavg_Init_def Let_def load_entry_def proc_entry_def at_index_def parse_int_itoa
        nat_add_distrib)
qed


subsection \<open>Witnesses\<close>

lemma loadavg_roundtrip_witness:
  "loadavg_Read 7 (Some (''0.50 1 2.25 '' @ itoa 3 @ ''/'' @ itoa 80 @ '' 11206'')) (loadavg_Init [''load_five'']) =
   Inr (map (\<lambda>(name, v). loadavg_request (loadavg_Init [''load_five'']) 7 name v)
     [(''load_one'', VFloat64 (Num (1 / 2))), (''load_fifteen'', VFloat64 (Num (9 / 4))),
      (''proc_run'', VInt64 3), (''proc_total'', VInt64 80)])"
proof -
  have "parse_float ''0.50'' = (Num (1 / 2), None)" "parse_float ''1'' = (Num 1, None)"
      "parse_float ''2.25'' = (Num (9 / 4), None)" by code_simp+
  from loadavg_roundtrip [OF this, of 7 3 80 "''11206''" "[''load_five'']"] show ?thesis by simp
qed

definition demo_sched :: SchedstatCollector where
  "demo_sched = \<lparr>sc_init = True, sc_meta = [], sc_lastTimestamp = 0, sc_cputags = [],
     sc_olddata = [(''cpu0'', [(''running'', 1), (''waiting'', 1)])]\<rparr>"


end
