(* ===== verification/Memory_Collectors.thy ===== *)
theory Memory_Collectors
  imports Collector_Base
begin

text \<open>
  \<open>collectors/memstatMetric.go\<close> (\<open>/proc/meminfo\<close> of the node and of the NUMA nodes) and
  \<open>collectors/numastatsMetric.go\<close> (the allocation counters of the NUMA nodes). File contents
  are a function from paths, the results of \<open>filepath.Glob\<close> a list.
\<close>

subsection \<open>MemstatCollector\<close>

definition MEMSTATFILE :: string where "MEMSTATFILE = ''/proc/meminfo''"
definition NUMA_MEMSTAT_BASE :: string where "NUMA_MEMSTAT_BASE = ''/sys/devices/system/node''"

record MemstatStats =
  mst_value :: gofloat
  mst_unit :: string

record MemstatCollector =
  mem_init :: bool
  mem_meta :: tagmap
  mem_tags :: tagmap
  mem_matches :: "(string \<times> string) list"
  mem_NodeStats :: bool
  mem_NumaStats :: bool
  mem_nodefiles :: "(goint \<times> string \<times> tagmap) list"
  mem_sendMemUsed :: bool

text \<open>One line: \<open>Name: value unit\<close>, or \<open>Node n Name: value unit\<close>.\<close>

definition stat_line :: "string \<Rightarrow> (string \<times> MemstatStats) list \<Rightarrow> (string \<times> MemstatStats) list" where
  "stat_line line stats =
     (case str_fields line of
        [name, value, unit_name] \<Rightarrow>
          (case parse_float value of
             (v, None) \<Rightarrow> map_put (trim_cutset name '':'') \<lparr>mst_value = v, mst_unit = unit_name\<rparr> stats
           | _ \<Rightarrow> stats)
      | [_, _, name, value, unit_name] \<Rightarrow>
          (case parse_float value of
             (v, None) \<Rightarrow> map_put (trim_cutset name '':'') \<lparr>mst_value = v, mst_unit = unit_name\<rparr> stats
           | _ \<Rightarrow> stats)
      | _ \<Rightarrow> stats)"

text \<open>A file that cannot be opened is logged and then read as an empty one.\<close>

definition getStats :: "string option \<Rightarrow> (string \<times> MemstatStats) list" where
  "getStats file = fold stat_line (case file of None \<Rightarrow> [] | Some content \<Rightarrow> file_lines content) []"

definition memstat_matches :: "(string \<times> string) list" where
  "memstat_matches =
     [(''MemTotal'', ''mem_total''), (''SwapTotal'', ''swap_total''), (''SReclaimable'', ''mem_sreclaimable''),
      (''Slab'', ''mem_slab''), (''MemFree'', ''mem_free''), (''Buffers'', ''mem_buffers''),
      (''Cached'', ''mem_cached''), (''MemAvailable'', ''mem_available''), (''SwapFree'', ''swap_free''),
      (''Shmem'', ''mem_shared''), (''Active'', ''mem_active''), (''Inactive'', ''mem_inactive''),
      (''Dirty'', ''mem_dirty''), (''Writeback'', ''mem_writeback''), (''AnonPages'', ''mem_anon_pages''),
      (''Mapped'', ''mem_mapped''), (''VmallocTotal'', ''mem_vmalloc_total''),
      (''AnonHugePages'', ''mem_anon_hugepages''), (''ShmemHugePages'', ''mem_shared_hugepages''),
      (''ShmemPmdMapped'', ''mem_shared_pmd_mapped''), (''HugePages_Total'', ''mem_hugepages_total''),
      (''HugePages_Free'', ''mem_hugepages_free''), (''HugePages_Rsvd'', ''mem_hugepages_reserved''),
      (''HugePages_Surp'', ''mem_hugepages_surplus''), (''Hugepagesize'', ''mem_hugepages_size''),
      (''DirectMap4k'', ''mem_direct_mapped_4k''), (''DirectMap4M'', ''mem_direct_mapped_4m''),
      (''DirectMap2M'', ''mem_direct_mapped_2m''), (''DirectMap1G'', ''mem_direct_mapped_1g''),
      (''Mlocked'', ''mem_locked''), (''PageTables'', ''mem_pagetables''), (''KernelStack'', ''mem_kernelstack'')]"

text \<open>
  The submatch of the pattern \<open>.../node(\d+)/meminfo\<close>: the digits after the leftmost
  occurrence of the prefix that digits and the suffix follow.
\<close>

fun node_digits :: "string \<Rightarrow> string option" where
  "node_digits [] = None"
| "node_digits (c # s) =
     (let prefix = NUMA_MEMSTAT_BASE @ ''/node''; r = drop (length prefix) (c # s); ds = takeWhile is_digit r in
      if has_prefix (c # s) prefix \<and> ds \<noteq> [] \<and> has_prefix (dropWhile is_digit r) ''/meminfo'' then Some ds
      else node_digits s)"

text \<open>The NUMA part of \<open>Init\<close>: the files by node number, or the error of an unreadable file.\<close>

fun numa_files ::
  "(string \<Rightarrow> string option) \<Rightarrow> string list \<Rightarrow> (goint \<times> string \<times> tagmap) list \<Rightarrow>
   goerror + (goint \<times> string \<times> tagmap) list" where
  "numa_files fs [] nodes = Inr nodes"
| "numa_files fs (f # files) nodes =
     (if getStats (fs f) = [] then Inl (GoError ''cannot read data from file'')
      else numa_files fs files
        (case node_digits f of
           None \<Rightarrow> nodes
         | Some ds \<Rightarrow>
             (case atoi ds of
                None \<Rightarrow> nodes
              | Some nid \<Rightarrow>
                  map_put nid (f, [(''type'', ''memoryDomain''), (''type-id'', itoa nid)]) nodes)))"

definition memstat_Init ::
  "string list \<Rightarrow> bool \<Rightarrow> bool \<Rightarrow> (string \<Rightarrow> string option) \<Rightarrow> string list option \<Rightarrow> goerror + MemstatCollector" where
  "memstat_Init ExcludeMetrics NodeStats NumaStats fs glob =
     (let matches = filter (\<lambda>(k, v). v \<notin> set ExcludeMetrics) memstat_matches;
          sendMemUsed = (''mem_used'' \<notin> set ExcludeMetrics);
          m = \<lparr>mem_init = True, mem_meta = [(''source'', ''MemstatCollector''), (''group'', ''Memory'')],
               mem_tags = [(''type'', ''node'')], mem_matches = matches, mem_NodeStats = NodeStats,
               mem_NumaStats = NumaStats, mem_nodefiles = [], mem_sendMemUsed = sendMemUsed\<rparr>
      in if matches = [] \<and> \<not> sendMemUsed then Inl (GoError ''no metrics to collect'')
         else if NodeStats \<and> getStats (fs MEMSTATFILE) = [] then Inl (GoError ''cannot read data from file'')
         else if NumaStats then
           (case glob of
              None \<Rightarrow> Inr m
            | Some files \<Rightarrow>
                (case numa_files fs files [] of
                   Inl err \<Rightarrow> Inl err
                 | Inr nodes \<Rightarrow> Inr (m\<lparr>mem_nodefiles := nodes\<rparr>)))
         else Inr m)"

definition unit_meta :: "string \<Rightarrow> request \<Rightarrow> request" where
  "unit_meta u r = (if u = [] then r else add_meta ''unit'' u r)"

definition first_unit :: "string \<Rightarrow> string \<Rightarrow> string" where
  "first_unit u v = (if v \<noteq> [] \<and> u = [] then v else u)"

text \<open>The used memory and its unit, with the nesting of the source.\<close>

definition mem_used :: "(string \<times> MemstatStats) list \<Rightarrow> gofloat \<times> string" where
  "mem_used stats =
     (let minus = (\<lambda>name (used, u). case map_of stats name of
                     None \<Rightarrow> (used, u)
                   | Some v \<Rightarrow> (fsub binary64 used (mst_value v), first_unit u (mst_unit v)))
      in case map_of stats ''MemTotal'' of
           None \<Rightarrow> (Num 0, [])
         | Some tot \<Rightarrow>
             (case map_of stats ''MemFree'' of
                None \<Rightarrow> (Num 0, [])
              | Some free \<Rightarrow>
                  (let s = (fsub binary64 (mst_value tot) (mst_value free), first_unit (mst_unit tot) (mst_unit free))
                   in case map_of stats ''Buffers'' of
                        None \<Rightarrow> s
                      | Some _ \<Rightarrow> minus ''Shmem'' (minus ''Cached'' (minus ''Buffers'' s)))))"

definition sendStats :: "MemstatCollector \<Rightarrow> (string \<times> MemstatStats) list \<Rightarrow> tagmap \<Rightarrow> request list" where
  "sendStats m stats tags =
     map (\<lambda>(match, name).
            case map_of stats match of
              None \<Rightarrow> \<lparr>rq_name = name, rq_tags = tags, rq_meta = mem_meta m, rq_value = VFloat64 (Num 0), rq_time = None\<rparr>
            | Some v \<Rightarrow> unit_meta (mst_unit v)
                \<lparr>rq_name = name, rq_tags = tags, rq_meta = mem_meta m, rq_value = VFloat64 (mst_value v), rq_time = None\<rparr>)
       (mem_matches m) @
     (if mem_sendMemUsed m
      then (case mem_used stats of (used, u) \<Rightarrow>
              [unit_meta u \<lparr>rq_name = ''mem_used'', rq_tags = tags, rq_meta = mem_meta m, rq_value = VFloat64 used,
                            rq_time = None\<rparr>])
      else [])"

definition memstat_Read :: "(string \<Rightarrow> string option) \<Rightarrow> MemstatCollector \<Rightarrow> request list" where
  "memstat_Read fs m =
     (if \<not> mem_init m then []
      else (if mem_NodeStats m then sendStats m (getStats (fs MEMSTATFILE)) (mem_tags m) else []) @
           (if mem_NumaStats m
            then concat (map (\<lambda>(_, path, tags). sendStats m (getStats (fs path)) tags) (mem_nodefiles m))
            else []))"

definition memstat_Close :: "MemstatCollector \<Rightarrow> MemstatCollector" where
  "memstat_Close m = m\<lparr>mem_init := False\<rparr>"

subsection \<open>NUMAStatsCollector\<close>

record NUMAStatsCollectorTopolgy =
  nt_file :: string
  nt_tagSet :: tagmap
  nt_previousValues :: "(string \<times> goint) list"

record NUMAStatsCollector =
  ns_init :: bool
  ns_meta :: tagmap
  ns_topology :: "NUMAStatsCollectorTopolgy list"
  ns_SendAbsoluteValues :: bool
  ns_SendDerivedValues :: bool
  ns_lastTimestamp :: gotime

text \<open>\<open>dirs\<close> is the result of the glob, \<open>None\<close> for its error.\<close>

definition numastats_Init ::
  "bool \<Rightarrow> bool \<Rightarrow> string list option \<Rightarrow> goerror + NUMAStatsCollector" where
  "numastats_Init SendAbsoluteValues SendDerivedValues dirs =
     (let base = ''/sys/devices/system/node/node'' in
      case dirs of
        None \<Rightarrow> Inl (GoError ''unable to glob files'')
      | Some [] \<Rightarrow> Inl (GoError ''unable to find any files'')
      | Some ds \<Rightarrow>
          Inr \<lparr>ns_init = True, ns_meta = [(''source'', ''NUMAStatsCollector''), (''group'', ''NUMA'')],
               ns_topology = map (\<lambda>dir. \<lparr>nt_file = path_join dir ''numastat'',
                   nt_tagSet = [(''type'', ''memoryDomain''), (''type-id'', trim_prefix dir base)],
                   nt_previousValues = []\<rparr>) ds,
               ns_SendAbsoluteValues = SendAbsoluteValues, ns_SendDerivedValues = SendDerivedValues,
               ns_lastTimestamp = 0\<rparr>)"

definition numastats_line ::
  "NUMAStatsCollector \<Rightarrow> gotime \<Rightarrow> gofloat \<Rightarrow> NUMAStatsCollectorTopolgy \<Rightarrow> string \<Rightarrow>
   NUMAStatsCollectorTopolgy \<times> request list" where
  "numastats_line m now timeDiff t line =
     (case str_fields line of
        [key, s] \<Rightarrow>
          (case parse_int 10 s of
             (value, None) \<Rightarrow>
               (let req = (\<lambda>name v. \<lparr>rq_name = name, rq_tags = nt_tagSet t, rq_meta = ns_meta m, rq_value = v,
                                     rq_time = Some now\<rparr>);
                    r1 = (if ns_SendAbsoluteValues m then [req (''numastats_'' @ key) (VInt64 value)] else []);
                    r2 = (if ns_SendDerivedValues m
                          then (case map_of (nt_previousValues t) key of
                                  None \<Rightarrow> []
                                | Some prev \<Rightarrow> [req (''numastats_'' @ key @ ''_rate'')
                                    (VFloat64 (fdiv binary64 (f64_of_int (sint (value - prev))) timeDiff))])
                          else []);
                    t' = (if ns_SendDerivedValues m
                          then t\<lparr>nt_previousValues := map_put key value (nt_previousValues t)\<rparr> else t)
                in (t', r1 @ r2))
           | _ \<Rightarrow> (t, []))
      | _ \<Rightarrow> (t, []))"

definition numastats_node ::
  "(string \<Rightarrow> string option) \<Rightarrow> NUMAStatsCollector \<Rightarrow> gotime \<Rightarrow> gofloat \<Rightarrow> NUMAStatsCollectorTopolgy \<Rightarrow>
   NUMAStatsCollectorTopolgy \<times> request list" where
  "numastats_node fs m now timeDiff t =
     (case fs (nt_file t) of
        None \<Rightarrow> (t, [])
      | Some content \<Rightarrow> fold_steps (numastats_line m now timeDiff) t (file_lines content))"

definition numastats_Read ::
  "(string \<Rightarrow> string option) \<Rightarrow> gotime \<Rightarrow> NUMAStatsCollector \<Rightarrow> NUMAStatsCollector \<times> request list" where
  "numastats_Read fs now m =
     (if \<not> ns_init m then (m, [])
      else let timeDiff = duration_seconds (time_sub now (ns_lastTimestamp m));
               m1 = m\<lparr>ns_lastTimestamp := now\<rparr>;
               nodes = map (numastats_node fs m1 now timeDiff) (ns_topology m1)
           in (m1\<lparr>ns_topology := map fst nodes\<rparr>, concat (map snd nodes)))"

definition numastats_Close :: "NUMAStatsCollector \<Rightarrow> NUMAStatsCollector" where
  "numastats_Close m = m\<lparr>ns_init := False\<rparr>"

subsection \<open>Reading what the kernel prints\<close>

definition meminfo_line :: "string \<times> int \<Rightarrow> string" where
  "meminfo_line e = join '' '' [fst e @ '':'', int_digits (snd e), ''kB'']"

definition meminfo_file :: "(string \<times> int) list \<Rightarrow> string" where
  "meminfo_file entries = concat (map (\<lambda>e. meminfo_line e @ [CHR 0x0A]) entries)"

text \<open>Names without spaces and colons, values that a double represents, lines that fit the scanner.\<close>

definition meminfo_ok :: "(string \<times> int) list \<Rightarrow> bool" where
  "meminfo_ok entries =
     (distinct (map fst entries) \<and>
      (\<forall>(k, v) \<in> set entries. k \<noteq> [] \<and> (\<forall>c \<in> set k. \<not> is_space c \<and> c \<noteq> CHR '':'') \<and> 0 \<le> v \<and> v < 2 ^ 53 \<and>
         int (length (meminfo_line (k, v))) < max_token))"

lemma split_on_lines:
  "\<forall>l \<in> set ls. sep \<notin> set l \<Longrightarrow> split_on sep (concat (map (\<lambda>l. l @ [sep]) ls)) = ls @ [[]]"
  by (induction ls) (simp_all add: split_on_append)

lemma raw_lines_lines:
  "\<forall>l \<in> set ls. CHR 0x0A \<notin> set l \<Longrightarrow> raw_lines (concat (map (\<lambda>l. l @ [CHR 0x0A]) ls)) = ls"
  by (simp add: raw_lines_def split_on_lines)

lemma digits_not_space: "0 \<le> n \<Longrightarrow> c \<in> set (int_digits n) \<Longrightarrow> \<not> is_space c"
  using int_digits_all_digits not_digit_space by blast

lemma meminfo_line_fields:
  assumes "meminfo_ok entries" and "(k, v) \<in> set entries"
  shows "str_fields (meminfo_line (k, v)) = [k @ '':'', int_digits v, ''kB'']"
proof -
  have "\<forall>c \<in> set k. \<not> is_space c" "0 \<le> v" using assms by (auto simp: meminfo_ok_def)
  then have "\<forall>w \<in> set [k @ '':'', int_digits v, ''kB'']. w \<noteq> [] \<and> (\<forall>c \<in> set w. \<not> is_space c)"
    using digits_not_space by (auto simp: is_space_def)
  from fields_join [OF this] show ?thesis by (simp add: meminfo_line_def)
qed

lemma meminfo_line_chars:
  assumes "meminfo_ok entries" and "e \<in> set entries"
  shows "CHR 0x0A \<notin> set (meminfo_line e)" and "drop_cr (meminfo_line e) = meminfo_line e"
proof -
  obtain k v where e: "e = (k, v)" by (cases e)
  have k: "\<forall>c \<in> set k. \<not> is_space c" and v: "0 \<le> v" using assms e by (auto simp: meminfo_ok_def)
  then show "CHR 0x0A \<notin> set (meminfo_line e)"
    using digits_not_space [OF v, of "CHR 0x0A"] by (auto simp: meminfo_line_def is_space_def e)
  show "drop_cr (meminfo_line e) = meminfo_line e" by (simp add: drop_cr_def meminfo_line_def)
qed

lemma meminfo_file_lines:
  assumes "meminfo_ok entries"
  shows "file_lines (meminfo_file entries) = map meminfo_line entries"
proof -
  have "raw_lines (meminfo_file entries) = map meminfo_line entries"
    using raw_lines_lines [of "map meminfo_line entries"] meminfo_line_chars(1) [OF assms]
    by (simp add: meminfo_file_def comp_def)
  moreover have "takeWhile (\<lambda>l. int (length l) < max_token) (map meminfo_line entries) = map meminfo_line entries"
    using assms by (auto simp: takeWhile_eq_all_conv meminfo_ok_def)
  ultimately have "file_lines (meminfo_file entries) = map drop_cr (map meminfo_line entries)"
    by (simp only: file_lines_def scan_lines_def Let_def fst_conv)
  then show ?thesis using meminfo_line_chars(2) [OF assms] by simp
qed

lemma trim_colon:
  assumes "k \<noteq> []" and "\<forall>c \<in> set k. c \<noteq> CHR '':''"
  shows "trim_cutset (k @ '':'') '':'' = k"
proof -
  have "hd k \<in> set k" "last k \<in> set k" using assms(1) by simp_all
  then have "hd k \<noteq> CHR '':''" "last k \<noteq> CHR '':''" using assms(2) by blast+
  moreover have "dropWhile (\<lambda>c. c = CHR '':'') (k @ '':'') = k @ '':''"
    using assms(1) calculation(1) by (cases k) simp_all
  moreover have "dropWhile (\<lambda>c. c = CHR '':'') (rev k) = rev k"
    using assms(1) calculation(2) by (cases "rev k") (auto simp: last_rev hd_rev simp flip: hd_rev)
  ultimately show ?thesis by (simp add: trim_cutset_def trim_def trim_left_def trim_right_def)
qed

definition kb :: "int \<Rightarrow> MemstatStats" where
  "kb v = \<lparr>mst_value = Num (of_int v), mst_unit = ''kB''\<rparr>"

lemma stat_line_meminfo:
  assumes "meminfo_ok entries" and "(k, v) \<in> set entries"
  shows "stat_line (meminfo_line (k, v)) stats = map_put k (kb v) stats"
proof -
  have "k \<noteq> []" "\<forall>c \<in> set k. c \<noteq> CHR '':''" "0 \<le> v" "v < 2 ^ 53" using assms by (auto simp: meminfo_ok_def)
  then show ?thesis
    using meminfo_line_fields [OF assms] trim_colon [of k] parse_float_digits [of v]
    by (simp add: stat_line_def kb_def)
qed

lemma fold_put_map_of:
  "map_of (fold (\<lambda>(k, v). map_put k (f v)) es m) = (\<lambda>k. case map_of (rev es) k of Some v \<Rightarrow> Some (f v) | None \<Rightarrow> map_of m k)"
  by (induction es arbitrary: m) (auto simp: fun_eq_iff map_add_def split: option.splits)

lemma map_of_rev_distinct: "distinct (map fst es) \<Longrightarrow> map_of (rev es) = map_of es"
proof (induction es)
  case (Cons e es)
  obtain k v where e: "e = (k, v)" by (cases e)
  have "map_of es k = None" using Cons.prems e by (simp add: map_of_eq_None_iff)
  with Cons e show ?case by (auto simp: fun_eq_iff map_add_def split: option.splits)
qed simp

lemma getStats_meminfo:
  assumes "meminfo_ok entries"
  shows "map_of (getStats (Some (meminfo_file entries))) k = map_option kb (map_of entries k)"
proof -
  have "fold stat_line (map meminfo_line es) stats = fold (\<lambda>(k, v). map_put k (kb v)) es stats"
    if "set es \<subseteq> set entries" for es stats
    using that by (induction es arbitrary: stats) (auto simp: stat_line_meminfo [OF assms])
  then have "getStats (Some (meminfo_file entries)) = fold (\<lambda>(k, v). map_put k (kb v)) entries []"
    by (simp add: getStats_def meminfo_file_lines [OF assms])
  moreover have "map_of (rev entries) = map_of entries"
    using assms by (simp add: meminfo_ok_def map_of_rev_distinct)
  ultimately show ?thesis by (simp add: fold_put_map_of split: option.splits)
qed

subsection \<open>Properties\<close>


subsection \<open>Witnesses\<close>

definition demo_meminfo :: "(string \<times> int) list" where
  "demo_meminfo = [(''MemTotal'', 1000), (''MemFree'', 300), (''Buffers'', 50), (''Cached'', 100), (''Shmem'', 7)]"

definition demo_memstat :: MemstatCollector where
  "demo_memstat = \<lparr>mem_init = True, mem_meta = [], mem_tags = [(''type'', ''node'')],
     mem_matches = [(''MemTotal'', ''mem_total''), (''Slab'', ''mem_slab'')], mem_NodeStats = True, mem_NumaStats = False,
     mem_nodefiles = [], mem_sendMemUsed = True\<rparr>"

lemma demo_meminfo_ok: "meminfo_ok demo_meminfo"
  by (simp add: meminfo_ok_def demo_meminfo_def meminfo_line_def int_digits.simps max_token_def is_space_def)


end
