(* ===== verification/Net_Collectors.thy ===== *)
theory Net_Collectors
  imports Collector_Base
begin

text \<open>
  \<open>collectors/netstatMetric.go\<close> (byte and packet counters of \<open>/proc/net/dev\<close>) and
  \<open>collectors/nfsMetric.go\<close> (call counters printed by \<open>nfsstat\<close>). File contents, the output
  of the program and the current time are inputs.
\<close>

subsection \<open>NetstatCollector\<close>

record NetstatCollectorConfig =
  ncfg_IncludeDevices :: "string list"
  ncfg_SendAbsoluteValues :: bool
  ncfg_SendDerivedValues :: bool
  ncfg_InterfaceAliases :: "(string \<times> string list) list"

record NetstatCollectorMetric =
  nm_name :: string
  nm_index :: int
  nm_tags :: tagmap
  nm_meta :: tagmap
  nm_meta_rates :: tagmap
  nm_lastValue :: goint

record NetstatCollector =
  net_init :: bool
  net_config :: NetstatCollectorConfig
  net_aliasToCanonical :: "(string \<times> string) list"
  net_matches :: "(string \<times> NetstatCollectorMetric list) list"
  net_lastTimestamp :: gotime

definition buildAliasMapping :: "NetstatCollectorConfig \<Rightarrow> (string \<times> string) list" where
  "buildAliasMapping cfg =
     fold (\<lambda>(canon, aliases) m. fold (\<lambda>alias. map_put alias canon) aliases m) (ncfg_InterfaceAliases cfg) []"

definition getCanonicalName :: "string \<Rightarrow> (string \<times> string) list \<Rightarrow> string" where
  "getCanonicalName raw aliasToCanonical =
     (case map_of aliasToCanonical raw of Some canon \<Rightarrow> canon | None \<Rightarrow> raw)"

text \<open>The four metrics of a device, before the first read.\<close>

definition device_metrics :: "string \<Rightarrow> NetstatCollectorMetric list" where
  "device_metrics raw =
     (let tags = [(''stype'', ''network''), (''stype-id'', raw), (''type'', ''node'')];
          meta = (\<lambda>u. [(''source'', ''NetstatCollector''), (''group'', ''Network''), (''unit'', u)]);
          mk = (\<lambda>name idx u. \<lparr>nm_name = name, nm_index = idx, nm_tags = tags, nm_meta = meta u,
                               nm_meta_rates = meta (u @ ''/sec''), nm_lastValue = -1\<rparr>)
      in [mk ''net_bytes_in'' 1 ''bytes'', mk ''net_pkts_in'' 2 ''packets'',
          mk ''net_bytes_out'' 9 ''bytes'', mk ''net_pkts_out'' 10 ''packets''])"

text \<open>One line of the file in \<open>Init\<close>; a line with a colon and no field cannot occur, but would panic.\<close>

definition netstat_init_line :: "NetstatCollector \<Rightarrow> string \<Rightarrow> NetstatCollector run" where
  "netstat_init_line m l =
     (if \<not> contains l '':'' then Inr m
      else run_bind (at_index (str_fields l) 0) (\<lambda>f0.
        let raw = trim_cutset f0 '': ''; canonical = getCanonicalName raw (net_aliasToCanonical m)
        in Inr (if canonical \<in> set (ncfg_IncludeDevices (net_config m))
                then m\<lparr>net_matches := map_put canonical (device_metrics raw) (net_matches m)\<rparr> else m)))"

definition netstat_Init :: "NetstatCollectorConfig \<Rightarrow> gotime \<Rightarrow> string option \<Rightarrow> (goerror + NetstatCollector) run" where
  "netstat_Init cfg now file =
     (case file of
        None \<Rightarrow> Inr (Inl (GoError ''failed to open netstat file''))
      | Some content \<Rightarrow>
          run_bind (run_fold netstat_init_line
            \<lparr>net_init = False, net_config = cfg, net_aliasToCanonical = buildAliasMapping cfg, net_matches = [],
             net_lastTimestamp = now\<rparr> (file_lines content)) (\<lambda>m.
          Inr (if net_matches m = [] then Inl (GoError ''no devices to collect metrics found'')
               else Inr (m\<lparr>net_init := True\<rparr>))))"

text \<open>One metric of a device: the metric with its new last value, and the requests.\<close>

definition netstat_metric ::
  "NetstatCollectorConfig \<Rightarrow> gotime \<Rightarrow> gofloat \<Rightarrow> string list \<Rightarrow> NetstatCollectorMetric \<Rightarrow>
   (NetstatCollectorMetric \<times> request list) run" where
  "netstat_metric cfg now timeDiff f metric =
     run_bind (at_index f (nm_index metric)) (\<lambda>s.
       case parse_int 10 s of
         (v, None) \<Rightarrow>
           (let absolute = (if ncfg_SendAbsoluteValues cfg
                  then [\<lparr>rq_name = nm_name metric, rq_tags = nm_tags metric, rq_meta = nm_meta metric,
                         rq_value = VInt64 v, rq_time = Some now\<rparr>] else []);
                derived = (if ncfg_SendDerivedValues cfg \<and> 0 \<le> sint (nm_lastValue metric)
                  then [\<lparr>rq_name = nm_name metric @ ''_bw'', rq_tags = nm_tags metric, rq_meta = nm_meta_rates metric,
                         rq_value = VFloat64 (fdiv binary64 (f64_of_int (sint (v - nm_lastValue metric))) timeDiff),
                         rq_time = Some now\<rparr>] else [])
            in Inr (if ncfg_SendDerivedValues cfg then metric\<lparr>nm_lastValue := v\<rparr> else metric, absolute @ derived))
       | _ \<Rightarrow> Inr (metric, []))"

fun netstat_metrics ::
  "NetstatCollectorConfig \<Rightarrow> gotime \<Rightarrow> gofloat \<Rightarrow> string list \<Rightarrow> NetstatCollectorMetric list \<Rightarrow>
   (NetstatCollectorMetric list \<times> request list) run" where
  "netstat_metrics cfg now timeDiff f [] = Inr ([], [])"
| "netstat_metrics cfg now timeDiff f (x # xs) =
     run_bind (netstat_metric cfg now timeDiff f x) (\<lambda>(x', r1).
     run_bind (netstat_metrics cfg now timeDiff f xs) (\<lambda>(xs', r2). Inr (x' # xs', r1 @ r2)))"

definition netstat_line ::
  "gotime \<Rightarrow> gofloat \<Rightarrow> NetstatCollector \<Rightarrow> string \<Rightarrow> (NetstatCollector \<times> request list) run" where
  "netstat_line now timeDiff m l =
     (if \<not> contains l '':'' then Inr (m, [])
      else let f = str_fields l in
        run_bind (at_index f 0) (\<lambda>f0.
        let canonical = getCanonicalName (trim_cutset f0 '':'') (net_aliasToCanonical m)
        in case map_of (net_matches m) canonical of
             None \<Rightarrow> Inr (m, [])
           | Some devmetrics \<Rightarrow>
               run_bind (netstat_metrics (net_config m) now timeDiff f devmetrics) (\<lambda>(devmetrics', rs).
               Inr (m\<lparr>net_matches := map_put canonical devmetrics' (net_matches m)\<rparr>, rs))))"

definition netstat_Read ::
  "gotime \<Rightarrow> string option \<Rightarrow> NetstatCollector \<Rightarrow> (NetstatCollector \<times> request list) run" where
  "netstat_Read now file m =
     (if \<not> net_init m then Inr (m, [])
      else let timeDiff = duration_seconds (time_sub now (net_lastTimestamp m));
               m1 = m\<lparr>net_lastTimestamp := now\<rparr>
           in case file of
                None \<Rightarrow> Inr (m1, [])
              | Some content \<Rightarrow> run_steps (netstat_line now timeDiff) m1 (file_lines content))"

definition netstat_Close :: "NetstatCollector \<Rightarrow> NetstatCollector" where
  "netstat_Close m = m\<lparr>net_init := False\<rparr>"

subsection \<open>The NFS collectors\<close>

record NfsCollectorData =
  nd_current :: goint
  nd_last :: goint

record nfsCollector =
  nfs_init :: bool
  nfs_parallel :: bool
  nfs_name :: string
  nfs_meta :: tagmap
  nfs_tags :: tagmap
  nfs_version :: string
  nfs_ExcludeMetrics :: "string list"
  nfs_data :: "(string \<times> NfsCollectorData) list"

text \<open>\<open>strings.Lines\<close>: the lines with their newline; only their fields are used.\<close>

definition nfs_lines :: "string \<Rightarrow> string list" where
  "nfs_lines s = raw_lines s"

text \<open>The loop over the output; it stops at the first number that does not parse.\<close>

fun nfs_update_lines ::
  "string \<Rightarrow> string list \<Rightarrow> (string \<times> NfsCollectorData) list \<Rightarrow>
   (string \<times> NfsCollectorData) list \<times> goerror option" where
  "nfs_update_lines version [] data = (data, None)"
| "nfs_update_lines version (line # lines) data =
     (let lf = str_fields line in
      if length lf \<noteq> 5 \<or> lf ! 1 \<noteq> version then nfs_update_lines version lines data
      else case parse_int 0 (lf ! 4) of
        (v, Some _) \<Rightarrow> (data, Some (GoError ''ParseInt''))
      | (v, None) \<Rightarrow>
          (let name = trim_cutset (lf ! 3) '':'';
               d = (case map_of data name of
                      None \<Rightarrow> \<lparr>nd_current = v, nd_last = -1\<rparr>
                    | Some old \<Rightarrow> old\<lparr>nd_current := v\<rparr>)
           in nfs_update_lines version lines (map_put name d data)))"

definition updateStats :: "string option \<Rightarrow> nfsCollector \<Rightarrow> nfsCollector \<times> goerror option" where
  "updateStats output m =
     (case output of
        None \<Rightarrow> (m, Some (GoError ''nfsstat''))
      | Some buffer \<Rightarrow>
          (let shifted = map (\<lambda>(name, d). (name, \<lparr>nd_current = -1, nd_last = nd_current d\<rparr>)) (nfs_data m)
           in case nfs_update_lines (nfs_version m) (nfs_lines buffer) shifted of
                (data, err) \<Rightarrow> (m\<lparr>nfs_data := data\<rparr>, err)))"

definition nfs_MainInit :: "string list \<Rightarrow> bool \<Rightarrow> string option \<Rightarrow> string \<Rightarrow> string \<Rightarrow> goerror + nfsCollector" where
  "nfs_MainInit ExcludeMetrics found output name version =
     (if \<not> found then Inl (GoError ''Failed to find nfsstat binary'')
      else case updateStats output
             \<lparr>nfs_init = False, nfs_parallel = False, nfs_name = name,
              nfs_meta = [(''source'', name), (''group'', ''NFS'')], nfs_tags = [(''type'', ''node'')],
              nfs_version = version, nfs_ExcludeMetrics = ExcludeMetrics, nfs_data = []\<rparr> of
           (m, Some err) \<Rightarrow> Inl err
         | (m, None) \<Rightarrow> Inr (m\<lparr>nfs_init := True, nfs_parallel := True\<rparr>))"

definition Nfs3_Init :: "string list \<Rightarrow> bool \<Rightarrow> string option \<Rightarrow> goerror + nfsCollector" where
  "Nfs3_Init ex found output = nfs_MainInit ex found output ''Nfs3Collector'' ''v3''"

definition Nfs4_Init :: "string list \<Rightarrow> bool \<Rightarrow> string option \<Rightarrow> goerror + nfsCollector" where
  "Nfs4_Init ex found output = nfs_MainInit ex found output ''Nfs4Collector'' ''v4''"

definition nfs_prefix :: "string \<Rightarrow> string" where
  "nfs_prefix version = (if version = ''v3'' then ''nfs3'' else if version = ''v4'' then ''nfs4'' else ''nfs'')"

definition nfs_Read :: "gotime \<Rightarrow> string option \<Rightarrow> nfsCollector \<Rightarrow> nfsCollector \<times> request list" where
  "nfs_Read now output m =
     (if \<not> nfs_init m then (m, [])
      else case updateStats output m of
        (m', Some err) \<Rightarrow> (m', [])
      | (m', None) \<Rightarrow>
          (m', map (\<lambda>(name, d). add_meta ''version'' (nfs_version m)
                 \<lparr>rq_name = nfs_prefix (nfs_version m) @ ''_'' @ name, rq_tags = nfs_tags m, rq_meta = nfs_meta m,
                  rq_value = VInt64 (nd_current d - nd_last d), rq_time = Some now\<rparr>)
               (filter (\<lambda>(name, d). name \<notin> set (nfs_ExcludeMetrics m) \<and>
                          0 \<le> sint (nd_current d) \<and> 0 \<le> sint (nd_last d)) (nfs_data m'))))"

definition nfs_Close :: "nfsCollector \<Rightarrow> nfsCollector" where
  "nfs_Close m = m\<lparr>nfs_init := False\<rparr>"

end
