(* ===== verification/Slurm_Collector.thy ===== *)
theory Slurm_Collector
  imports Collector_Base Topology
begin

text \<open>
  \<open>collectors/slurmCgroupMetric.go\<close>: the memory and CPU use of Slurm jobs, read from their
  control groups and spread over the hardware threads of the job; threads without a job get
  zeros. Directory listing and file contents (read directly or by \<open>sudo cat\<close>) are inputs.
  As in the topology, a CPU range that ends at the largest integer is never left: parsing
  returns \<open>None\<close> then, and so does everything that waits for it.
\<close>

subsection \<open>State and Init\<close>

record SlurmJobData =
  jd_MemoryUsage :: gofloat
  jd_MaxMemoryUsage :: gofloat
  jd_LimitMemoryUsage :: gofloat
  jd_CpuUsageUser :: gofloat
  jd_CpuUsageSys :: gofloat
  jd_CpuSet :: "goint list"

record SlurmCgroupsConfig =
  scfg_CgroupBase :: string
  scfg_ExcludeMetrics :: "string list"
  scfg_UseSudo :: bool

record SlurmCgroupCollector =
  sl_init :: bool
  sl_meta :: tagmap
  sl_allCPUs :: "goint list"
  sl_cgroupBase :: string
  sl_excludeMetrics :: "string list"
  sl_useSudo :: bool

definition defaultCgroupBase :: string where
  "defaultCgroupBase = ''/sys/fs/cgroup/system.slice/slurmstepd.scope''"

text \<open>The two directory name patterns, on ASCII names.\<close>

definition is_job_dir :: "string \<Rightarrow> bool" where
  "is_job_dir name = (has_prefix name ''job_'' \<and> drop 4 name \<noteq> [] \<and> (\<forall>c \<in> set (drop 4 name). is_digit c))"

definition sluid_chars :: string where "sluid_chars = ''0123456789abcdefghjkmnpqrstvwxyz''"

definition is_sluid_dir :: "string \<Rightarrow> bool" where
  "is_sluid_dir name = (length name = 14 \<and> lower (hd name) = CHR ''s'' \<and> (\<forall>c \<in> set (tl name). lower c \<in> set sluid_chars))"

text \<open>\<open>entries\<close>: the directory entries with their \<open>IsDir()\<close>, \<open>None\<close> for an error.\<close>

definition findSlurmJobDirs :: "SlurmCgroupCollector \<Rightarrow> (string \<times> bool) list option \<Rightarrow> string list option" where
  "findSlurmJobDirs m entries =
     map_option (\<lambda>es. map (\<lambda>(name, _). path_join (sl_cgroupBase m) name)
                        (filter (\<lambda>(name, dir). dir \<and> (is_job_dir name \<or> is_sluid_dir name)) es)) entries"

text \<open>One element of the comma-separated list; the outer option is termination.\<close>

definition parse_cpu_range :: "goint list \<Rightarrow> string \<Rightarrow> (goerror + goint list) option" where
  "parse_cpu_range result r =
     (if contains r ''-'' then
        (case split_on (CHR ''-'') r of
           [a, b] \<Rightarrow>
             (case atoi (trim_space a) of
                None \<Rightarrow> Some (Inl (GoError ''invalid CPU range start''))
              | Some start \<Rightarrow>
                  (case atoi (trim_space b) of
                     None \<Rightarrow> Some (Inl (GoError ''invalid CPU range end''))
                   | Some stop \<Rightarrow> map_option Inr (range_loop start stop result)))
         | _ \<Rightarrow> Some (Inl (GoError ''invalid CPU range'')))
      else (case atoi (trim_space r) of
              None \<Rightarrow> Some (Inl (GoError ''invalid CPU ID''))
            | Some cpu \<Rightarrow> Some (Inr (result @ [cpu]))))"

fun parse_cpu_ranges :: "goint list \<Rightarrow> string list \<Rightarrow> (goerror + goint list) option" where
  "parse_cpu_ranges result [] = Some (Inr result)"
| "parse_cpu_ranges result (r # rs) =
     (case parse_cpu_range result r of
        None \<Rightarrow> None
      | Some (Inl err) \<Rightarrow> Some (Inl err)
      | Some (Inr result') \<Rightarrow> parse_cpu_ranges result' rs)"

definition ParseCPUs :: "string \<Rightarrow> (goerror + goint list) option" where
  "ParseCPUs cpuset = (if cpuset = [] then Some (Inr []) else parse_cpu_ranges [] (split_on (CHR '','') cpuset))"

definition GetAllCPUs :: "string option \<Rightarrow> (goerror + goint list) option" where
  "GetAllCPUs online =
     (case online of
        None \<Rightarrow> Some (Inl (GoError ''failed to read file''))
      | Some content \<Rightarrow> ParseCPUs (trim_space content))"

definition isExcluded :: "SlurmCgroupCollector \<Rightarrow> string \<Rightarrow> bool" where
  "isExcluded m metric = (metric \<in> set (sl_excludeMetrics m))"

text \<open>\<open>uid\<close> is the current user's ID, \<open>None\<close> for an error; \<open>cfg\<close> the decoded configuration.\<close>

definition slurm_Init ::
  "SlurmCgroupsConfig \<Rightarrow> string option \<Rightarrow> string option \<Rightarrow> (goerror + SlurmCgroupCollector) option" where
  "slurm_Init cfg uid online =
     (if \<not> scfg_UseSudo cfg \<and> uid = None then Some (Inl (GoError ''Failed to get current user''))
      else if \<not> scfg_UseSudo cfg \<and> uid \<noteq> Some ''0'' then Some (Inl (GoError ''requires root privileges''))
      else case GetAllCPUs online of
        None \<Rightarrow> None
      | Some (Inl err) \<Rightarrow> Some (Inl err)
      | Some (Inr cpus) \<Rightarrow>
          Some (Inr \<lparr>sl_init = True, sl_meta = [(''source'', ''SlurmCgroupCollector''), (''group'', ''SLURM'')],
                     sl_allCPUs = cpus,
                     sl_cgroupBase = (if scfg_CgroupBase cfg \<noteq> [] then scfg_CgroupBase cfg else defaultCgroupBase),
                     sl_excludeMetrics = scfg_ExcludeMetrics cfg, sl_useSudo = scfg_UseSudo cfg\<rparr>))"

subsection \<open>ReadJobData\<close>

definition read_number :: "string option \<Rightarrow> gofloat" where
  "read_number file =
     (case file of
        None \<Rightarrow> Num 0
      | Some content \<Rightarrow> (case parse_float (trim_space content) of (x, None) \<Rightarrow> x | _ \<Rightarrow> Num 0))"

text \<open>The three counters of \<open>cpu.stat\<close>.\<close>

definition cpu_stat_line :: "string \<Rightarrow> gofloat \<times> gofloat \<times> gofloat \<Rightarrow> gofloat \<times> gofloat \<times> gofloat" where
  "cpu_stat_line line st =
     (case st of (usage, user, system) \<Rightarrow>
        case str_fields line of
          name # s # _ \<Rightarrow>
            (case parse_float s of
               (v, None) \<Rightarrow>
                 (if name = ''usage_usec'' then (v, user, system)
                  else if name = ''user_usec'' then (usage, v, system)
                  else if name = ''system_usec'' then (usage, user, v) else st)
             | _ \<Rightarrow> st)
        | _ \<Rightarrow> st)"

definition cpu_shares :: "string option \<Rightarrow> gofloat \<times> gofloat" where
  "cpu_shares file =
     (case file of
        None \<Rightarrow> (Num 0, Num 0)
      | Some content \<Rightarrow>
          (case fold cpu_stat_line (split_on (CHR 0x0A) (trim_space content)) (Num 0, Num 0, Num 0) of
             (usage, user, system) \<Rightarrow>
               if Num 0 < usage
               then (fdiv binary64 (fmul binary64 user (Num 100)) usage,
                     fdiv binary64 (fmul binary64 system (Num 100)) usage)
               else (Num 0, Num 0)))"

definition ReadJobData :: "SlurmCgroupCollector \<Rightarrow> (string \<Rightarrow> string option) \<Rightarrow> string \<Rightarrow> SlurmJobData option" where
  "ReadJobData m readFile jobdir =
     (let cg = (\<lambda>f. readFile (path_join (path_join (sl_cgroupBase m) jobdir) f));
          (user, sys) = cpu_shares (cg ''cpu.stat'');
          jd = (\<lambda>cpus. \<lparr>jd_MemoryUsage = read_number (cg ''memory.current''),
                        jd_MaxMemoryUsage = read_number (cg ''memory.peak''),
                        jd_LimitMemoryUsage = read_number (cg ''memory.max''),
                        jd_CpuUsageUser = user, jd_CpuUsageSys = sys, jd_CpuSet = cpus\<rparr>)
      in case cg ''cpuset.cpus'' of
           None \<Rightarrow> Some (jd [])
         | Some s \<Rightarrow>
             (case ParseCPUs (trim_space s) of
                None \<Rightarrow> None
              | Some (Inl err) \<Rightarrow> Some (jd [])
              | Some (Inr cpus) \<Rightarrow> Some (jd cpus)))"

subsection \<open>Read\<close>

text \<open>The metrics of a thread with their units, and where the value of a job comes from.\<close>

definition job_metrics :: "(string \<times> string \<times> (SlurmJobData \<Rightarrow> gofloat)) list" where
  "job_metrics =
     [(''job_mem_used'', ''Bytes'', jd_MemoryUsage), (''job_max_mem_used'', ''Bytes'', jd_MaxMemoryUsage),
      (''job_mem_limit'', ''Bytes'', jd_LimitMemoryUsage), (''job_user_cpu'', ''%'', jd_CpuUsageUser),
      (''job_sys_cpu'', ''%'', jd_CpuUsageSys)]"

definition cpu_requests ::
  "SlurmCgroupCollector \<Rightarrow> gotime \<Rightarrow> ((SlurmJobData \<Rightarrow> gofloat) \<Rightarrow> unit govalue) \<Rightarrow> goint \<Rightarrow> request list" where
  "cpu_requests m now val cpu =
     map (\<lambda>(name, u, f). add_meta ''unit'' u
            \<lparr>rq_name = name, rq_tags = [(''type'', ''hwthread''), (''type-id'', itoa cpu)], rq_meta = sl_meta m,
             rq_value = val f, rq_time = Some now\<rparr>)
       (filter (\<lambda>(name, _). \<not> isExcluded m name) job_metrics)"

text \<open>The threads of one job, each with an equal part of the job's values.\<close>

definition job_requests :: "SlurmCgroupCollector \<Rightarrow> gotime \<Rightarrow> SlurmJobData \<Rightarrow> request list" where
  "job_requests m now jd =
     (let coreCount = f64_of_int (int (length (jd_CpuSet jd)))
      in concat (map (cpu_requests m now (\<lambda>f. VFloat64 (fdiv binary64 (f jd) coreCount))) (jd_CpuSet jd)))"

fun read_jobs :: "SlurmCgroupCollector \<Rightarrow> (string \<Rightarrow> string option) \<Rightarrow> string list \<Rightarrow> SlurmJobData list option" where
  "read_jobs m readFile [] = Some []"
| "read_jobs m readFile (jdir # jdirs) =
     (case ReadJobData m readFile (path_base jdir) of
        None \<Rightarrow> None
      | Some jd \<Rightarrow> map_option (Cons jd) (read_jobs m readFile jdirs))"

definition slurm_Read ::
  "(string \<times> bool) list option \<Rightarrow> (string \<Rightarrow> string option) \<Rightarrow> gotime \<Rightarrow> SlurmCgroupCollector \<Rightarrow> request list option" where
  "slurm_Read entries readFile now m =
     (case findSlurmJobDirs m entries of
        None \<Rightarrow> Some []
      | Some jobDirs \<Rightarrow>
          (case read_jobs m readFile jobDirs of
             None \<Rightarrow> None
           | Some jobs \<Rightarrow>
               (let cpuUsed = set (concat (map jd_CpuSet jobs))
                in Some (concat (map (job_requests m now) jobs) @
                         concat (map (cpu_requests m now (\<lambda>_. VInt 0))
                                   (filter (\<lambda>cpu. cpu \<notin> cpuUsed) (sl_allCPUs m)))))))"

definition slurm_Close :: "SlurmCgroupCollector \<Rightarrow> SlurmCgroupCollector" where
  "slurm_Close m = m\<lparr>sl_init := False\<rparr>"

subsection \<open>Lemmas\<close>

lemma contains_char: "contains s [c] \<longleftrightarrow> c \<in> set s"
  by (induction s) (auto simp: has_prefix_def)

lemma itoa_trim: "trim_space (itoa i) = itoa i"
proof -
  have "dropWhile is_space (itoa i) = itoa i" "dropWhile is_space (rev (itoa i)) = rev (itoa i)"
    using itoa_no_space [of _ i] by (simp_all add: dropWhile_eq_self_iff last_rev hd_rev)
  then show ?thesis by (simp add: trim_space_def trim_def trim_left_def trim_right_def)
qed

lemma parse_cpu_range_render:
  assumes "range_ok r"
  shows "parse_cpu_range result (render_range r) = Some (Inr (result @ expand_range r))"
proof (cases r)
  case (One a)
  with assms itoa_no_minus [of a] show ?thesis by (simp add: parse_cpu_range_def contains_char itoa_trim)
next
  case (Span a b)
  with assms split_dash_span [of a b] range_loop_Some [of b a result] show ?thesis
    by (simp add: parse_cpu_range_def contains_char itoa_trim)
qed

lemma parse_cpu_ranges_render:
  "\<forall>r \<in> set rs. range_ok r \<Longrightarrow>
   parse_cpu_ranges result (map render_range rs) = Some (Inr (result @ concat (map expand_range rs)))"
  by (induction rs arbitrary: result) (simp_all add: parse_cpu_range_render)

text \<open>The threads a list of requests reports a metric for.\<close>

definition reported :: "string \<Rightarrow> request list \<Rightarrow> string list" where
  "reported name rs = List.map_filter (\<lambda>r. if rq_name r = name then map_of (rq_tags r) ''type-id'' else None) rs"

lemma reported_append [simp]: "reported name (rs @ rs') = reported name rs @ reported name rs'"
  by (simp add: reported_def map_filter_append)

lemma reported_concat: "reported name (concat rss) = concat (map (reported name) rss)"
  by (induction rss) (simp_all, simp add: reported_def)

lemma reported_requests:
  assumes "distinct (map fst ms)" and "\<not> isExcluded m name"
  shows "reported name (map (\<lambda>(n, u, f). add_meta ''unit'' u
            \<lparr>rq_name = n, rq_tags = [(''type'', ''hwthread''), (''type-id'', itoa cpu)], rq_meta = sl_meta m,
             rq_value = val f, rq_time = Some now\<rparr>) (filter (\<lambda>(n, _). \<not> isExcluded m n) ms)) =
         (if name \<in> set (map fst ms) then [itoa cpu] else [])"
  using assms
proof (induction ms)
  case Nil
  then show ?case by (simp add: reported_def)
next
  case (Cons e ms)
  obtain n u f where e: "e = (n, u, f)" by (cases e)
  have one: "reported name (r # rs) =
      (if rq_name r = name then (case map_of (rq_tags r) ''type-id'' of None \<Rightarrow> [] | Some i \<Rightarrow> [i]) else []) @ reported name rs"
    for r rs by (simp add: reported_def split: option.splits)
  from Cons show ?case by (cases "n = name"; simp add: e one add_meta_def)
qed

lemma reported_cpu:
  assumes "name \<in> set (map fst job_metrics)" and "\<not> isExcluded m name"
  shows "reported name (cpu_requests m now val cpu) = [itoa cpu]"
proof -
  have "distinct (map fst job_metrics)" by (simp add: job_metrics_def)
  from reported_requests [OF this assms(2)] assms(1) show ?thesis by (simp add: cpu_requests_def)
qed

lemma reported_cpus:
  assumes "name \<in> set (map fst job_metrics)" and "\<not> isExcluded m name"
  shows "reported name (concat (map (cpu_requests m now val) cpus)) = map itoa cpus"
  by (induction cpus) (simp_all add: reported_cpu [OF assms], simp add: reported_def)

lemma mset_filter_split: "mset (filter P xs) + mset (filter (\<lambda>x. \<not> P x) xs) = mset xs"
  by (induction xs) auto

subsection \<open>Properties\<close>

text \<open>C38: \<open>ParseCPUs\<close> reads back the kernel's CPU list format: the text of a list of IDs and
  ranges gives exactly the IDs it stands for, in order.\<close>

theorem ParseCPUs_roundtrip:
  assumes "rs \<noteq> []" and "\<forall>r \<in> set rs. range_ok r"
  shows "ParseCPUs (trim_space (render_list rs)) = Some (Inr (concat (map expand_range rs)))"
proof -
  have split: "split_on (CHR '','') (trim_space (render_list rs)) = map render_range rs"
    by (rule render_list_split [OF assms(1)])
  have "hd (map render_range rs) \<noteq> []" using assms(1) by (cases rs; cases "hd rs") simp_all
  with split assms(1) have "trim_space (render_list rs) \<noteq> []" by (cases rs) auto
  with split parse_cpu_ranges_render [OF assms(2), of "[]"] show ?thesis by (simp add: ParseCPUs_def)
qed

text \<open>C20: one read reports every metric that is not excluded once per hardware thread: if the
  jobs have disjoint CPU sets of online CPUs, the threads a metric is reported for are exactly
  the online CPUs, those of the jobs first.\<close>

theorem slurm_covers_cpus:
  assumes "findSlurmJobDirs m entries = Some jobDirs" and "read_jobs m readFile jobDirs = Some jobs"
    and "name \<in> set (map fst job_metrics)" and "\<not> isExcluded m name"
    and "distinct (concat (map jd_CpuSet jobs))" and "set (concat (map jd_CpuSet jobs)) \<subseteq> set (sl_allCPUs m)"
    and "distinct (sl_allCPUs m)"
  shows "\<exists>rs. slurm_Read entries readFile now m = Some rs \<and>
     reported name rs = map itoa (concat (map jd_CpuSet jobs)) @
       map itoa (filter (\<lambda>cpu. cpu \<notin> set (concat (map jd_CpuSet jobs))) (sl_allCPUs m)) \<and>
     mset (reported name rs) = mset (map itoa (sl_allCPUs m))"
proof -
  let ?used = "concat (map jd_CpuSet jobs)" and ?all = "sl_allCPUs m"
  let ?idle = "filter (\<lambda>cpu. cpu \<notin> set ?used) ?all"
  have jobs: "reported name (job_requests m now jd) = map itoa (jd_CpuSet jd)" for jd
    by (simp add: job_requests_def Let_def reported_cpus [OF assms(3,4)])
  have rep: "reported name (concat (map (job_requests m now) jobs) @ concat (map (cpu_requests m now (\<lambda>_. VInt 0)) ?idle)) =
        map itoa ?used @ map itoa ?idle"
    by (simp add: reported_concat jobs comp_def map_concat reported_cpus [OF assms(3,4), unfolded reported_concat map_map comp_def])
  have "mset ?used + mset ?idle = mset ?all"
  proof -
    have "mset ?used = mset (filter (\<lambda>cpu. cpu \<in> set ?used) ?all)"
      using assms(5-7) by (intro set_eq_iff_mset_eq_distinct [THEN iffD1]) auto
    then show ?thesis using mset_filter_split [of "\<lambda>cpu. cpu \<in> set ?used" ?all] by (simp only:)
  qed
  then have "mset (map itoa ?used @ map itoa ?idle) = mset (map itoa ?all)"
    by (simp only: mset_append mset_map flip: image_mset_union)
  with rep assms(1,2) show ?thesis by (simp add: slurm_Read_def Let_def)
qed

subsection \<open>Witnesses\<close>

lemma ParseCPUs_roundtrip_witness:
  "ParseCPUs (trim_space (render_list [One 5, Span 8 10])) = Some (Inr [5, 8, 9, 10])"
  using ParseCPUs_roundtrip [of "[One 5, Span 8 10]"] by (simp add: max_goint_def upto.simps)

definition demo_slurm :: SlurmCgroupCollector where
  "demo_slurm = \<lparr>sl_init = True, sl_meta = [], sl_allCPUs = [0, 1, 2], sl_cgroupBase = ''/cg'',
     sl_excludeMetrics = [''job_mem_limit''], sl_useSudo = False\<rparr>"

definition demo_cgroup :: "string \<Rightarrow> string option" where
  "demo_cgroup = map_of [(''/cg/job_7/memory.current'', ''4096''), (''/cg/job_7/cpuset.cpus'', ''2'')]"

lemma slurm_covers_cpus_witness:
  "\<exists>rs. slurm_Read (Some [(''job_7'', True), (''x'', True)]) demo_cgroup 5 demo_slurm = Some rs \<and>
     mset (reported ''job_mem_used'' rs) = mset [''0'', ''1'', ''2'']"
proof -
  have dirs: "findSlurmJobDirs demo_slurm (Some [(''job_7'', True), (''x'', True)]) = Some [''/cg/job_7'']" by code_simp
  have sets: "map_option (map jd_CpuSet) (read_jobs demo_slurm demo_cgroup [''/cg/job_7'']) = Some [[2]]" by code_simp
  then obtain jobs where jobs: "read_jobs demo_slurm demo_cgroup [''/cg/job_7''] = Some jobs" "map jd_CpuSet jobs = [[2]]"
    by auto
  have ids: "itoa 0 = ''0''" "itoa 1 = ''1''" "itoa 2 = ''2''" by code_simp+
  show ?thesis
    using slurm_covers_cpus [OF dirs jobs(1), of "''job_mem_used''" 5]
    by (auto simp: jobs(2) ids job_metrics_def isExcluded_def demo_slurm_def)
qed

end
