(* ===== verification/Rapl_Collector.thy ===== *)
theory Rapl_Collector
  imports Collector_Base Topology
begin

text \<open>
  \<open>collectors/raplMetric.go\<close>: the average power of the RAPL zones, derived from their energy
  counters. The files below \<open>/sys\<close> are the record \<open>fsys\<close>; \<open>clock\<close> gives the time at which an
  energy file was read. The specification at the end is an energy meter that never wraps.
\<close>

subsection \<open>State\<close>

record RAPLZoneInfo =
  zi_tags :: tagmap
  zi_energyFilepath :: string
  zi_energy :: goint
  zi_energyTimestamp :: gotime
  zi_maxEnergyRange :: goint

record RAPLCollector =
  rapl_init :: bool
  rapl_zones :: "RAPLZoneInfo list"
  rapl_meta :: tagmap

subsection \<open>Init\<close>

text \<open>What \<open>readZoneInfo\<close> returns; fields that were not found keep Go's zero value.\<close>

record zone_reading =
  zr_name :: string
  zr_energyFilepath :: string
  zr_energy :: goint
  zr_energyTimestamp :: gotime
  zr_maxEnergyRange :: goint
  zr_ok :: bool

definition read_counter :: "fsys \<Rightarrow> string \<Rightarrow> goint option" where
  "read_counter fs path =
     (case fs_read fs path of
        None \<Rightarrow> None
      | Some v \<Rightarrow> (case parse_int 10 (trim_space v) of (i, None) \<Rightarrow> Some i | _ \<Rightarrow> None))"

definition readZoneInfo :: "fsys \<Rightarrow> (string \<Rightarrow> gotime) \<Rightarrow> string \<Rightarrow> zone_reading" where
  "readZoneInfo fs clock zonePath =
     (let name = fs_read fs (path_join zonePath ''name'');
          file = path_join zonePath ''energy_uj'';
          energy = read_counter fs file;
          range = read_counter fs (path_join zonePath ''max_energy_range_uj'')
      in \<lparr>zr_name = (case name of None \<Rightarrow> [] | Some v \<Rightarrow> trim_space v),
          zr_energyFilepath = file,
          zr_energy = (case energy of None \<Rightarrow> 0 | Some i \<Rightarrow> i),
          zr_energyTimestamp = (if fs_read fs file = None then 0 else clock file),
          zr_maxEnergyRange = (case range of None \<Rightarrow> 0 | Some i \<Rightarrow> i),
          zr_ok = (name \<noteq> None \<and> energy \<noteq> None \<and> range \<noteq> None)\<rparr>)"

definition powercap_dir :: string where
  "powercap_dir = ''/sys/devices/virtual/powercap/intel-rapl''"

definition rapl_zone :: "tagmap \<Rightarrow> zone_reading \<Rightarrow> RAPLZoneInfo" where
  "rapl_zone tags z =
     \<lparr>zi_tags = tags, zi_energyFilepath = zr_energyFilepath z, zi_energy = zr_energy z,
      zi_energyTimestamp = zr_energyTimestamp z, zi_maxEnergyRange = zr_maxEnergyRange z\<rparr>"

text \<open>The zones appended for one zone directory: the zone itself, then its sub zones.\<close>

definition rapl_subzones ::
  "string list \<Rightarrow> string list \<Rightarrow> fsys \<Rightarrow> (string \<Rightarrow> gotime) \<Rightarrow> string \<Rightarrow> string \<Rightarrow> zone_reading \<Rightarrow> RAPLZoneInfo list" where
  "rapl_subzones exID exName fs clock zonePath zoneID z =
     (let prefix = path_join zonePath (''intel-rapl:'' @ zoneID @ '':'')
      in concat (map (\<lambda>subZonePath.
           let subZoneID = trim_prefix subZonePath prefix; sz = readZoneInfo fs clock subZonePath;
               fullID = zoneID @ '':'' @ subZoneID
           in if zoneID \<noteq> [] \<and> zr_name z \<noteq> [] \<and> zr_ok sz \<and> fullID \<notin> set exID \<and> zr_name sz \<notin> set exName
              then [rapl_zone [(''id'', fullID), (''zone_name'', zr_name z), (''sub_zone_name'', zr_name sz)] sz]
              else [])
         (fs_glob fs (prefix @ ''*''))))"

definition rapl_zones_of ::
  "string list \<Rightarrow> string list \<Rightarrow> fsys \<Rightarrow> (string \<Rightarrow> gotime) \<Rightarrow> string \<Rightarrow> RAPLZoneInfo list" where
  "rapl_zones_of exID exName fs clock zonePath =
     (let zoneID = trim_prefix zonePath (path_join powercap_dir ''intel-rapl:'');
          z = readZoneInfo fs clock zonePath;
          own = (if zr_ok z \<and> zoneID \<notin> set exID \<and> zr_name z \<notin> set exName
                 then [rapl_zone [(''id'', zoneID), (''zone_name'', zr_name z)] z] else [])
      in own @ rapl_subzones exID exName fs clock zonePath zoneID z)"

definition rapl_Init ::
  "string list \<Rightarrow> string list \<Rightarrow> fsys \<Rightarrow> (string \<Rightarrow> gotime) \<Rightarrow> RAPLCollector \<Rightarrow> RAPLCollector \<times> goerror option" where
  "rapl_Init ExcludeByID ExcludeByName fs clock m =
     (if rapl_init m then (m, None)
      else let m1 = m\<lparr>rapl_meta := [(''source'', ''RAPLCollector''), (''group'', ''energy''), (''unit'', ''Watt'')]\<rparr>;
               paths = fs_glob fs (path_join powercap_dir ''intel-rapl:*'')
           in if paths = [] then (m1, Some (GoError ''unable to find any zones''))
              else let zones = rapl_zones m1 @ concat (map (rapl_zones_of ExcludeByID ExcludeByName fs clock) paths);
                       m2 = m1\<lparr>rapl_zones := zones\<rparr>
                   in if zones = [] then (m2, Some (GoError ''no RAPL device found''))
                      else (m2\<lparr>rapl_init := True\<rparr>, None))"

subsection \<open>Read and Close\<close>

text \<open>\<open>Duration.Microseconds()\<close>: truncated towards zero.\<close>

definition microseconds :: "int \<Rightarrow> int" where
  "microseconds d = sgn d * (\<bar>d\<bar> div 1000)"

definition energy_diff :: "goint \<Rightarrow> goint \<Rightarrow> goint \<Rightarrow> goint" where
  "energy_diff maxRange old new =
     (let d = new - old in if sint d < 0 then d + maxRange else d)"

definition rapl_zone_read ::
  "tagmap \<Rightarrow> fsys \<Rightarrow> (string \<Rightarrow> gotime) \<Rightarrow> RAPLZoneInfo \<Rightarrow> RAPLZoneInfo \<times> request list" where
  "rapl_zone_read meta fs clock p =
     (case read_counter fs (zi_energyFilepath p) of
        None \<Rightarrow> (p, [])
      | Some energy \<Rightarrow>
          (let ts = clock (zi_energyFilepath p);
               diff = energy_diff (zi_maxEnergyRange p) (zi_energy p) energy;
               timeDiff = time_sub ts (zi_energyTimestamp p);
               power = fdiv binary64 (f64_of_int (sint diff)) (f64_of_int (microseconds timeDiff))
           in (p\<lparr>zi_energy := energy, zi_energyTimestamp := ts\<rparr>,
               [\<lparr>rq_name = ''rapl_average_power'', rq_tags = zi_tags p, rq_meta = meta,
                 rq_value = VFloat64 power, rq_time = Some ts\<rparr>])))"

definition rapl_Read :: "fsys \<Rightarrow> (string \<Rightarrow> gotime) \<Rightarrow> RAPLCollector \<Rightarrow> RAPLCollector \<times> request list" where
  "rapl_Read fs clock m =
     (let rs = map (rapl_zone_read (rapl_meta m) fs clock) (rapl_zones m)
      in (m\<lparr>rapl_zones := map fst rs\<rparr>, concat (map snd rs)))"

definition rapl_Close :: "RAPLCollector \<Rightarrow> RAPLCollector" where
  "rapl_Close m = m\<lparr>rapl_init := False\<rparr>"

subsection \<open>The energy meter\<close>

text \<open>
  The abstract zone: a meter that shows the total energy since some start, in micro joules,
  without ever wrapping. The counter of the code shows the total modulo its range.
\<close>

record meter =
  mt_time :: gotime
  mt_total :: int

definition meter_power :: "meter \<Rightarrow> meter \<Rightarrow> gofloat" where
  "meter_power a b =
     fdiv binary64 (f64_of_int (mt_total b - mt_total a)) (f64_of_int (microseconds (time_sub (mt_time b) (mt_time a))))"

definition shows_meter :: "RAPLZoneInfo \<Rightarrow> meter \<Rightarrow> bool" where
  "shows_meter p a =
     (0 < sint (zi_maxEnergyRange p) \<and> zi_energyTimestamp p = mt_time a \<and>
      sint (zi_energy p) = mt_total a mod sint (zi_maxEnergyRange p))"

text \<open>The energy file of a zone shows the meter, which has advanced by less than one range.\<close>

definition reads_meter :: "fsys \<Rightarrow> (string \<Rightarrow> gotime) \<Rightarrow> RAPLZoneInfo \<Rightarrow> meter \<Rightarrow> meter \<Rightarrow> bool" where
  "reads_meter fs clock p a b =
     (clock (zi_energyFilepath p) = mt_time b \<and>
      fs_read fs (zi_energyFilepath p) =
        Some (itoa (word_of_int (mt_total b mod sint (zi_maxEnergyRange p))) @ [CHR 0x0A]) \<and>
      mt_total a \<le> mt_total b \<and> mt_total b - mt_total a < sint (zi_maxEnergyRange p))"

lemma mod_advance:
  fixes a b r :: int
  assumes "0 < r" and "a \<le> b" and "b - a < r"
  shows "b - a = (let d = b mod r - a mod r in if d < 0 then d + r else d)"
proof -
  let ?d = "b mod r - a mod r"
  have rng: "0 \<le> b mod r" "b mod r < r" "0 \<le> a mod r" "a mod r < r" using assms(1) by simp_all
  have "b - a = (b - a) mod r" using assms by simp
  also have "\<dots> = ?d mod r" by (simp add: mod_simps)
  also have "\<dots> = (let d = ?d in if d < 0 then d + r else d)"
  proof (cases "?d < 0")
    case True
    have "?d mod r = (?d + r) mod r" by simp
    also have "\<dots> = ?d + r" using True rng by (intro mod_pos_pos_trivial) linarith+
    finally show ?thesis using True by (simp add: Let_def)
  next
    case False
    then have "?d mod r = ?d" using rng by (intro mod_pos_pos_trivial) linarith+
    with False show ?thesis by (simp add: Let_def)
  qed
  finally show ?thesis .
qed

lemma energy_diff_meter:
  fixes old new maxRange :: goint
  assumes "0 < sint maxRange" and "sint old = a mod sint maxRange" and "sint new = b mod sint maxRange"
    and "a \<le> b" and "b - a < sint maxRange"
  shows "sint (energy_diff maxRange old new) = b - a"
proof -
  let ?r = "sint maxRange"
  have rng: "0 \<le> b mod ?r" "b mod ?r < ?r" "0 \<le> a mod ?r" "a mod ?r < ?r" using assms(1) by simp_all
  have d: "sint (new - old) = b mod ?r - a mod ?r"
    using rng assms(2,3) sint_range [of maxRange] by (subst sint_sub_in_range) linarith+
  have "sint (new - old + maxRange) = b mod ?r - a mod ?r + ?r" if "sint (new - old) < 0"
    using rng that sint_range [of maxRange] d by (subst sint_add_in_range) linarith+
  with d mod_advance [OF assms(1,4,5)] show ?thesis by (auto simp: energy_diff_def Let_def)
qed

lemma rapl_zone_read_meter:
  assumes "shows_meter p a" and "reads_meter fs clock p a b"
  shows "shows_meter (fst (rapl_zone_read meta fs clock p)) b \<and>
         snd (rapl_zone_read meta fs clock p) =
           [\<lparr>rq_name = ''rapl_average_power'', rq_tags = zi_tags p, rq_meta = meta,
             rq_value = VFloat64 (meter_power a b), rq_time = Some (mt_time b)\<rparr>]"
proof -
  let ?r = "sint (zi_maxEnergyRange p)" let ?e = "word_of_int (mt_total b mod ?r) :: goint"
  from assms have r: "0 < ?r" by (simp add: shows_meter_def)
  then have "0 \<le> mt_total b mod ?r" "mt_total b mod ?r < ?r" by simp_all
  then have e: "sint ?e = mt_total b mod ?r"
    using sint_range [of "zi_maxEnergyRange p"] by (intro sint_of_int_range) linarith+
  have "read_counter fs (zi_energyFilepath p) = Some ?e"
    using assms(2) trim_space_line [of "itoa ?e"] itoa_no_space [of _ ?e]
    by (simp add: read_counter_def reads_meter_def parse_int_itoa)
  moreover have "sint (energy_diff (zi_maxEnergyRange p) (zi_energy p) ?e) = mt_total b - mt_total a"
    using assms e r by (intro energy_diff_meter) (simp_all add: shows_meter_def reads_meter_def)
  ultimately show ?thesis
    using assms e r by (simp add: rapl_zone_read_def Let_def shows_meter_def reads_meter_def meter_power_def)
qed

text \<open>A series of reads, each with the files, the clock and (for the specification) the meters then.\<close>

type_synonym rapl_sample = "fsys \<times> (string \<Rightarrow> gotime) \<times> meter list"

fun rapl_Reads :: "rapl_sample list \<Rightarrow> RAPLCollector \<Rightarrow> RAPLCollector \<times> request list list" where
  "rapl_Reads [] m = (m, [])"
| "rapl_Reads ((fs, clock, _) # xs) m =
     (case rapl_Read fs clock m of (m1, rs) \<Rightarrow> (case rapl_Reads xs m1 of (m2, rss) \<Rightarrow> (m2, rs # rss)))"

fun meter_Reads :: "meter list \<Rightarrow> meter list list \<Rightarrow> gofloat list list" where
  "meter_Reads as [] = []"
| "meter_Reads as (bs # bss) = map2 meter_power as bs # meter_Reads bs bss"

fun meters_advance :: "RAPLZoneInfo list \<Rightarrow> meter list \<Rightarrow> rapl_sample list \<Rightarrow> bool" where
  "meters_advance zones as [] = True"
| "meters_advance zones as ((fs, clock, bs) # xs) =
     (list_all2 (\<lambda>(p, a) b. reads_meter fs clock p a b) (zip zones as) bs \<and> meters_advance zones bs xs)"

lemma reads_meter_static:
  "reads_meter fs clock (fst (rapl_zone_read meta fs' clock' p)) a b = reads_meter fs clock p a b"
  by (simp add: rapl_zone_read_def reads_meter_def Let_def split: option.splits)

lemma meters_advance_static:
  "meters_advance (map (\<lambda>p. fst (rapl_zone_read meta fs' clock' p)) zones) as xs = meters_advance zones as xs"
proof (induction xs arbitrary: as)
  case (Cons x xs)
  obtain fs clock bs where x: "x = (fs, clock, bs)" by (cases x)
  have "list_all2 (\<lambda>(p, a) b. reads_meter fs clock p a b) (zip (map (\<lambda>p. fst (rapl_zone_read meta fs' clock' p)) zones) as) bs
      = list_all2 (\<lambda>(p, a) b. reads_meter fs clock p a b) (zip zones as) bs"
    by (simp add: zip_map1 list_all2_map1 reads_meter_static case_prod_unfold)
  with Cons show ?case by (simp add: x)
qed simp

lemma rapl_zones_read_meters:
  assumes "list_all2 shows_meter zones as"
    and "list_all2 (\<lambda>(p, a) b. reads_meter fs clock p a b) (zip zones as) bs"
  shows "list_all2 shows_meter (map (\<lambda>p. fst (rapl_zone_read meta fs clock p)) zones) bs \<and>
         map rq_value (concat (map (\<lambda>p. snd (rapl_zone_read meta fs clock p)) zones)) =
           map VFloat64 (map2 meter_power as bs)"
  using assms
proof (induction zones as arbitrary: bs rule: list_all2_induct)
  case (Cons p zones a as)
  from Cons.prems obtain b bs' where bs: "bs = b # bs'" "reads_meter fs clock p a b"
    and rest: "list_all2 (\<lambda>(p, a) b. reads_meter fs clock p a b) (zip zones as) bs'"
    by (cases bs) auto
  from rapl_zone_read_meter [OF Cons.hyps(1) bs(2), of meta] Cons.IH [OF rest] show ?case by (simp add: bs(1))
qed simp

subsection \<open>Properties\<close>

text \<open>C5: the zones implement energy meters that never wrap: as long as every counter advances by
  less than its range between two reads, every power value sent over a series of reads is the
  energy consumed since the previous read divided by the time since then, although the counters
  of the zones wrap around.\<close>

theorem rapl_refines_meter:
  assumes "list_all2 shows_meter (rapl_zones m) as" and "meters_advance (rapl_zones m) as xs"
  shows "map (map rq_value) (snd (rapl_Reads xs m)) = map (map VFloat64) (meter_Reads as (map (snd \<circ> snd) xs))"
  using assms
proof (induction xs arbitrary: m as)
  case (Cons x xs)
  obtain fs clock bs where x: "x = (fs, clock, bs)" by (cases x)
  define m1 where "m1 = fst (rapl_Read fs clock m)"
  have m1: "rapl_zones m1 = map (\<lambda>p. fst (rapl_zone_read (rapl_meta m) fs clock p)) (rapl_zones m)"
    by (simp add: m1_def rapl_Read_def Let_def)
  have rs: "snd (rapl_Read fs clock m) = concat (map (\<lambda>p. snd (rapl_zone_read (rapl_meta m) fs clock p)) (rapl_zones m))"
    by (simp add: rapl_Read_def Let_def comp_def)
  have bs: "list_all2 (\<lambda>(p, a) b. reads_meter fs clock p a b) (zip (rapl_zones m) as) bs"
    and adv: "meters_advance (rapl_zones m1) bs xs"
    using Cons.prems(2) by (simp_all add: x m1 meters_advance_static)
  have zones: "list_all2 shows_meter (rapl_zones m1) bs"
    unfolding m1 using rapl_zones_read_meters [OF Cons.prems(1) bs, of "rapl_meta m"] by (rule conjunct1)
  have "map rq_value (snd (rapl_Read fs clock m)) = map VFloat64 (map2 meter_power as bs)"
    unfolding rs using rapl_zones_read_meters [OF Cons.prems(1) bs, of "rapl_meta m"] by (rule conjunct2)
  with Cons.IH [OF zones adv] show ?case by (simp add: x case_prod_beta m1_def)
qed simp

subsection \<open>Witnesses\<close>

definition demo_zone :: RAPLZoneInfo where
  "demo_zone = \<lparr>zi_tags = [(''id'', ''0'')], zi_energyFilepath = ''e'', zi_energy = 900, zi_energyTimestamp = 1000,
                zi_maxEnergyRange = 1000\<rparr>"

definition demo_rapl_fs :: "string \<Rightarrow> fsys" where
  "demo_rapl_fs content = \<lparr>fs_read = (\<lambda>p. if p = ''e'' then Some content else None), fs_glob = (\<lambda>_. [])\<rparr>"

lemma rapl_refines_meter_witness:
  "map (map rq_value)
     (snd (rapl_Reads [(demo_rapl_fs (itoa 100 @ [CHR 0x0A]), (\<lambda>_. 2001000), [\<lparr>mt_time = 2001000, mt_total = 1100\<rparr>]),
                       (demo_rapl_fs (itoa 101 @ [CHR 0x0A]), (\<lambda>_. 3001000), [\<lparr>mt_time = 3001000, mt_total = 1101\<rparr>])]
       \<lparr>rapl_init = True, rapl_zones = [demo_zone], rapl_meta = []\<rparr>)) =
   [[VFloat64 (fdiv binary64 (f64_of_int 200) (f64_of_int 2000))],
    [VFloat64 (fdiv binary64 (f64_of_int 1) (f64_of_int 1000))]]"
proof -
  have "meter_power \<lparr>mt_time = 1000, mt_total = 900\<rparr> \<lparr>mt_time = 2001000, mt_total = 1100\<rparr> =
      fdiv binary64 (f64_of_int 200) (f64_of_int 2000)"
    and "meter_power \<lparr>mt_time = 2001000, mt_total = 1100\<rparr> \<lparr>mt_time = 3001000, mt_total = 1101\<rparr> =
      fdiv binary64 (f64_of_int 1) (f64_of_int 1000)"
    by (simp_all add: meter_power_def microseconds_def time_sub_def two63_def)
  then show ?thesis
    by (subst rapl_refines_meter [where as = "[\<lparr>mt_time = 1000, mt_total = 900\<rparr>]"])
       (simp_all add: shows_meter_def reads_meter_def demo_zone_def demo_rapl_fs_def)
qed

end
