(* ===== verification/Infiniband_Collector.thy ===== *)
theory Infiniband_Collector
  imports Collector_Base Topology
begin

text \<open>
  \<open>collectors/infinibandMetric.go\<close>: the port counters of the Infiniband devices, as absolute
  values, as rates and summed up per port. The files below \<open>/sys\<close> are the record \<open>fsys\<close>;
  \<open>accessible\<close> is \<open>unix.Access\<close> for reading.
\<close>

subsection \<open>State\<close>

record InfinibandCollectorMetric =
  ibm_name :: string
  ibm_path :: string
  ibm_unit :: string
  ibm_unitRates :: string
  ibm_scaleByFourLanes :: bool
  ibm_addToIBTotal :: bool
  ibm_addToIBTotalPkgs :: bool
  ibm_lastState :: goint
  ibm_lastStateAvailable :: bool

record InfinibandCollectorInfo =
  ibi_lid :: string
  ibi_device :: string
  ibi_port :: string
  ibi_portCounterFiles :: "InfinibandCollectorMetric list"
  ibi_tagSet :: tagmap

record InfinibandConfig =
  ibc_ExcludeDevices :: "string list"
  ibc_SendAbsoluteValues :: bool
  ibc_SendTotalValues :: bool
  ibc_SendDerivedValues :: bool

record InfinibandCollector =
  ib_init :: bool
  ib_config :: InfinibandConfig
  ib_info :: "InfinibandCollectorInfo list"
  ib_lastTimestamp :: gotime
  ib_meta :: tagmap

subsection \<open>Init\<close>

definition ibBasePath :: string where "ibBasePath = ''/sys/class/infiniband/''"

text \<open>The four counters of a port.\<close>

definition ib_counters :: "string \<Rightarrow> InfinibandCollectorMetric list" where
  "ib_counters countersDir =
     (let mk = (\<lambda>name file unit data. \<lparr>ibm_name = name, ibm_path = path_join countersDir file, ibm_unit = unit,
                  ibm_unitRates = unit @ ''/sec'', ibm_scaleByFourLanes = data, ibm_addToIBTotal = data,
                  ibm_addToIBTotalPkgs = \<not> data, ibm_lastState = 0, ibm_lastStateAvailable = False\<rparr>)
      in [mk ''ib_recv'' ''port_rcv_data'' ''bytes'' True, mk ''ib_xmit'' ''port_xmit_data'' ''bytes'' True,
          mk ''ib_recv_pkts'' ''port_rcv_packets'' ''packets'' False,
          mk ''ib_xmit_pkts'' ''port_xmit_packets'' ''packets'' False])"

text \<open>
  One directory of the loop: \<open>Inr None\<close> when it is skipped. Splitting a path with fewer than
  seven components panics.
\<close>

definition ib_port_info ::
  "string list \<Rightarrow> fsys \<Rightarrow> (string \<Rightarrow> bool) \<Rightarrow> string \<Rightarrow> (goerror + InfinibandCollectorInfo option) run" where
  "ib_port_info exclude fs accessible path =
     (case fs_read fs (path_join path ''lid'') of
        None \<Rightarrow> Inr (Inr None)
      | Some line \<Rightarrow>
          (let LID = trim_space line in
           if LID = ''0x0'' then Inr (Inr None)
           else run_bind (at_index (split_on (CHR ''/'') path) 4) (\<lambda>device.
                run_bind (at_index (split_on (CHR ''/'') path) 6) (\<lambda>port.
                if device \<in> set exclude then Inr (Inr None)
                else let counters = ib_counters (path_join path ''counters'')
                     in Inr (if \<forall>c \<in> set counters. accessible (ibm_path c)
                             then Inr (Some \<lparr>ibi_lid = LID, ibi_device = device, ibi_port = port,
                                    ibi_portCounterFiles = counters,
                                    ibi_tagSet = [(''type'', ''node''), (''device'', device), (''port'', port), (''lid'', LID)]\<rparr>)
                             else Inl (GoError ''unable to access counter file''))))))"

fun ib_port_infos ::
  "string list \<Rightarrow> fsys \<Rightarrow> (string \<Rightarrow> bool) \<Rightarrow> string list \<Rightarrow> InfinibandCollectorInfo list \<Rightarrow>
   (InfinibandCollectorInfo list \<times> goerror option) run" where
  "ib_port_infos exclude fs accessible [] acc = Inr (acc, None)"
| "ib_port_infos exclude fs accessible (path # paths) acc =
     run_bind (ib_port_info exclude fs accessible path) (\<lambda>r. case r of
         Inl e \<Rightarrow> Inr (acc, Some e)
       | Inr None \<Rightarrow> ib_port_infos exclude fs accessible paths acc
       | Inr (Some i) \<Rightarrow> ib_port_infos exclude fs accessible paths (acc @ [i]))"

text \<open>\<open>config\<close> is the decoded configuration over the defaults (absolute values on, the others off).\<close>

definition ib_Init ::
  "InfinibandConfig \<Rightarrow> fsys \<Rightarrow> (string \<Rightarrow> bool) \<Rightarrow> InfinibandCollector \<Rightarrow> (InfinibandCollector \<times> goerror option) run" where
  "ib_Init config fs accessible m =
     (if ib_init m then Inr (m, None)
      else let m1 = m\<lparr>ib_meta := [(''source'', ''InfinibandCollector''), (''group'', ''Network'')], ib_config := config\<rparr>;
               ibDirs = fs_glob fs (ibBasePath @ ''*/ports/*'')
           in if ibDirs = [] then Inr (m1, Some (GoError ''unable to find any directories''))
              else run_bind (ib_port_infos (ibc_ExcludeDevices config) fs accessible ibDirs (ib_info m1)) (\<lambda>(infos, err).
                   let m2 = m1\<lparr>ib_info := infos\<rparr>
                   in Inr (case err of
                        Some e \<Rightarrow> (m2, Some e)
                      | None \<Rightarrow> if infos = [] then (m2, Some (GoError ''found no IB devices''))
                                else (m2\<lparr>ib_init := True\<rparr>, None))))"

subsection \<open>Read and Close\<close>

text \<open>The sums of a port while its counters are read.\<close>

record ib_sums =
  ibs_total :: goint
  ibs_totalPkts :: goint
  ibs_totalBw :: gofloat
  ibs_totalPktsBw :: gofloat
  ibs_bwAvailable :: bool
  ibs_pktsBwAvailable :: bool

definition ib_no_sums :: ib_sums where
  "ib_no_sums = \<lparr>ibs_total = 0, ibs_totalPkts = 0, ibs_totalBw = Num 0, ibs_totalPktsBw = Num 0,
                 ibs_bwAvailable = False, ibs_pktsBwAvailable = False\<rparr>"

definition ib_request :: "InfinibandCollector \<Rightarrow> InfinibandCollectorInfo \<Rightarrow> gotime \<Rightarrow> string \<Rightarrow> unit govalue \<Rightarrow> string \<Rightarrow> request" where
  "ib_request m info now name value unit =
     add_meta ''unit'' unit
       \<lparr>rq_name = name, rq_tags = ibi_tagSet info, rq_meta = ib_meta m, rq_value = value, rq_time = Some now\<rparr>"

definition ib_counter_value :: "fsys \<Rightarrow> InfinibandCollectorMetric \<Rightarrow> goint option" where
  "ib_counter_value fs c =
     (case fs_read fs (ibm_path c) of
        None \<Rightarrow> None
      | Some line \<Rightarrow> (case parse_uint 10 (trim_space line) of Inl _ \<Rightarrow> None | Inr v \<Rightarrow> Some (word_of_int v)))"

definition ib_rate :: "InfinibandCollectorMetric \<Rightarrow> goint \<Rightarrow> gofloat \<Rightarrow> gofloat" where
  "ib_rate c raw timeDiff =
     (let rate = fdiv binary64 (f64_of_int (uint (raw - ibm_lastState c))) timeDiff
      in if ibm_scaleByFourLanes c then fmul binary64 rate (Num 4) else rate)"

definition ib_add_rate :: "InfinibandCollectorMetric \<Rightarrow> gofloat \<Rightarrow> ib_sums \<Rightarrow> ib_sums" where
  "ib_add_rate c rate s =
     (if ibm_addToIBTotal c then s\<lparr>ibs_totalBw := fadd binary64 (ibs_totalBw s) rate, ibs_bwAvailable := True\<rparr>
      else if ibm_addToIBTotalPkgs c
           then s\<lparr>ibs_totalPktsBw := fadd binary64 (ibs_totalPktsBw s) rate, ibs_pktsBwAvailable := True\<rparr>
      else s)"

definition ib_add_total :: "InfinibandCollectorMetric \<Rightarrow> goint \<Rightarrow> ib_sums \<Rightarrow> ib_sums" where
  "ib_add_total c v s =
     (if ibm_addToIBTotal c then s\<lparr>ibs_total := ibs_total s + v\<rparr>
      else if ibm_addToIBTotalPkgs c then s\<lparr>ibs_totalPkts := ibs_totalPkts s + v\<rparr> else s)"

text \<open>One counter: its new state, the sums, and the requests.\<close>

definition ib_counter ::
  "InfinibandCollector \<Rightarrow> InfinibandCollectorInfo \<Rightarrow> fsys \<Rightarrow> gotime \<Rightarrow> gofloat \<Rightarrow> InfinibandCollectorMetric \<Rightarrow> ib_sums \<Rightarrow>
   InfinibandCollectorMetric \<times> ib_sums \<times> request list" where
  "ib_counter m info fs now timeDiff c s =
     (case ib_counter_value fs c of
        None \<Rightarrow> (c\<lparr>ibm_lastStateAvailable := False\<rparr>, s, [])
      | Some raw \<Rightarrow>
          (let scaled = (if ibm_scaleByFourLanes c then raw * 4 else raw);
               cfg = ib_config m;
               absolute = (if ibc_SendAbsoluteValues cfg
                           then [ib_request m info now (ibm_name c) (VUint64 scaled) (ibm_unit c)] else []);
               send_rate = (ibc_SendDerivedValues cfg \<and> ibm_lastStateAvailable c);
               rate = ib_rate c raw timeDiff;
               derived = (if send_rate
                          then [ib_request m info now (ibm_name c @ ''_bw'') (VFloat64 rate) (ibm_unitRates c)] else []);
               s1 = (if send_rate \<and> ibc_SendTotalValues cfg then ib_add_rate c rate s else s);
               c1 = (if ibc_SendDerivedValues cfg then c\<lparr>ibm_lastState := raw, ibm_lastStateAvailable := True\<rparr> else c);
               s2 = (if ibc_SendTotalValues cfg then ib_add_total c scaled s1 else s1)
           in (c1, s2, absolute @ derived)))"

fun ib_counters_read ::
  "InfinibandCollector \<Rightarrow> InfinibandCollectorInfo \<Rightarrow> fsys \<Rightarrow> gotime \<Rightarrow> gofloat \<Rightarrow> InfinibandCollectorMetric list \<Rightarrow> ib_sums \<Rightarrow>
   InfinibandCollectorMetric list \<times> ib_sums \<times> request list" where
  "ib_counters_read m info fs now timeDiff [] s = ([], s, [])"
| "ib_counters_read m info fs now timeDiff (c # cs) s =
     (case ib_counter m info fs now timeDiff c s of (c1, s1, r1) \<Rightarrow>
      (case ib_counters_read m info fs now timeDiff cs s1 of (cs1, s2, r2) \<Rightarrow> (c1 # cs1, s2, r1 @ r2)))"

definition ib_totals :: "InfinibandCollector \<Rightarrow> InfinibandCollectorInfo \<Rightarrow> gotime \<Rightarrow> ib_sums \<Rightarrow> request list" where
  "ib_totals m info now s =
     (if \<not> ibc_SendTotalValues (ib_config m) then []
      else [ib_request m info now ''ib_total'' (VUint64 (ibs_total s)) ''bytes'',
            ib_request m info now ''ib_total_pkts'' (VUint64 (ibs_totalPkts s)) ''packets''] @
           (if ibc_SendDerivedValues (ib_config m) \<and> ibs_bwAvailable s
            then [ib_request m info now ''ib_total_bw'' (VFloat64 (ibs_totalBw s)) ''bytes/sec''] else []) @
           (if ibc_SendDerivedValues (ib_config m) \<and> ibs_pktsBwAvailable s
            then [ib_request m info now ''ib_total_pkts_bw'' (VFloat64 (ibs_totalPktsBw s)) ''packets/sec''] else []))"

definition ib_port_read ::
  "InfinibandCollector \<Rightarrow> fsys \<Rightarrow> gotime \<Rightarrow> gofloat \<Rightarrow> InfinibandCollectorInfo \<Rightarrow> InfinibandCollectorInfo \<times> request list" where
  "ib_port_read m fs now timeDiff info =
     (case ib_counters_read m info fs now timeDiff (ibi_portCounterFiles info) ib_no_sums of (cs, s, rs) \<Rightarrow>
        (info\<lparr>ibi_portCounterFiles := cs\<rparr>, rs @ ib_totals m info now s))"

definition ib_Read :: "gotime \<Rightarrow> fsys \<Rightarrow> InfinibandCollector \<Rightarrow> InfinibandCollector \<times> request list" where
  "ib_Read now fs m =
     (if \<not> ib_init m then (m, [])
      else let timeDiff = duration_seconds (time_sub now (ib_lastTimestamp m));
               rs = map (ib_port_read m fs now timeDiff) (ib_info m)
           in (m\<lparr>ib_lastTimestamp := now, ib_info := map fst rs\<rparr>, concat (map snd rs)))"

definition ib_Close :: "InfinibandCollector \<Rightarrow> InfinibandCollector" where
  "ib_Close m = m\<lparr>ib_init := False\<rparr>"

subsection \<open>Rates and totals\<close>

definition ib_names :: "string set" where
  "ib_names = {''ib_recv'', ''ib_xmit'', ''ib_recv_pkts'', ''ib_xmit_pkts''}"

definition is_rate :: "request \<Rightarrow> bool" where
  "is_rate r = (rq_name r \<in> (\<lambda>n. n @ ''_bw'') ` ib_names)"

definition known_counters :: "InfinibandCollector \<Rightarrow> bool" where
  "known_counters m = (\<forall>info \<in> set (ib_info m). \<forall>c \<in> set (ibi_portCounterFiles info). ibm_name c \<in> ib_names)"

text \<open>The specification of a rate: both reads of the counter succeed, and nothing else matters.\<close>

definition rate_between ::
  "InfinibandCollector \<Rightarrow> InfinibandCollectorInfo \<Rightarrow> gotime \<times> fsys \<Rightarrow> gotime \<times> fsys \<Rightarrow> InfinibandCollectorMetric \<Rightarrow> request list" where
  "rate_between m info before now c =
     (case (ib_counter_value (snd before) c, ib_counter_value (snd now) c) of
        (Some v1, Some v2) \<Rightarrow>
          (let rate = fdiv binary64 (f64_of_int (uint (v2 - v1))) (duration_seconds (time_sub (fst now) (fst before)))
           in [ib_request m info (fst now) (ibm_name c @ ''_bw'')
                 (VFloat64 (if ibm_scaleByFourLanes c then fmul binary64 rate (Num 4) else rate)) (ibm_unitRates c)])
      | _ \<Rightarrow> [])"

lemma ib_name_not_rate: "n \<in> ib_names \<Longrightarrow> \<not> is_rate (ib_request m info now n v u)"
  by (auto simp: ib_names_def is_rate_def ib_request_def add_meta_def)

lemma ib_name_rate: "n \<in> ib_names \<Longrightarrow> is_rate (ib_request m info now (n @ ''_bw'') v u)"
  by (auto simp: is_rate_def ib_request_def add_meta_def)

lemma ib_totals_not_rate: "filter is_rate (ib_totals m info now s) = []"
  by (auto simp: ib_totals_def is_rate_def ib_request_def add_meta_def ib_names_def)

lemma ib_counter_state:
  "ibc_SendDerivedValues (ib_config m) \<Longrightarrow> fst (ib_counter m info fs now td c s) =
     (case ib_counter_value fs c of None \<Rightarrow> c\<lparr>ibm_lastStateAvailable := False\<rparr>
      | Some v \<Rightarrow> c\<lparr>ibm_lastState := v, ibm_lastStateAvailable := True\<rparr>)"
  by (simp add: ib_counter_def Let_def split: option.splits)

lemma ib_counter_rates:
  assumes "ibc_SendDerivedValues (ib_config m)" and "ibm_name c \<in> ib_names"
  shows "filter is_rate (snd (snd (ib_counter m info fs now td c s))) =
     (case ib_counter_value fs c of
        Some v \<Rightarrow> if ibm_lastStateAvailable c
                  then [ib_request m info now (ibm_name c @ ''_bw'') (VFloat64 (ib_rate c v td)) (ibm_unitRates c)] else []
      | None \<Rightarrow> [])"
  using assms by (simp add: ib_counter_def Let_def ib_name_not_rate ib_name_rate split: option.splits)

lemma ib_counters_read_state:
  "fst (ib_counters_read m info fs now td cs s) = map (\<lambda>c. fst (ib_counter m info fs now td c ib_no_sums)) cs"
proof (induction cs arbitrary: s)
  case (Cons c cs)
  have "fst (ib_counter m info fs now td c s) = fst (ib_counter m info fs now td c ib_no_sums)"
    by (simp add: ib_counter_def Let_def split: option.splits)
  with Cons show ?case by (simp add: case_prod_beta)
qed simp

lemma ib_counters_read_rates:
  "filter is_rate (snd (snd (ib_counters_read m info fs now td cs s))) =
   concat (map (\<lambda>c. filter is_rate (snd (snd (ib_counter m info fs now td c ib_no_sums)))) cs)"
proof (induction cs arbitrary: s)
  case (Cons c cs)
  have "snd (snd (ib_counter m info fs now td c s)) = snd (snd (ib_counter m info fs now td c ib_no_sums))"
    by (simp add: ib_counter_def Let_def split: option.splits)
  with Cons show ?case by (simp add: case_prod_beta)
qed simp

lemma ib_port_read_rates:
  "filter is_rate (snd (ib_port_read m fs now td info)) =
   concat (map (\<lambda>c. filter is_rate (snd (snd (ib_counter m info fs now td c ib_no_sums)))) (ibi_portCounterFiles info))"
  by (simp add: ib_port_read_def case_prod_beta ib_totals_not_rate ib_counters_read_rates)

lemma ib_port_read_state:
  "fst (ib_port_read m fs now td info) =
   info\<lparr>ibi_portCounterFiles := map (\<lambda>c. fst (ib_counter m info fs now td c ib_no_sums)) (ibi_portCounterFiles info)\<rparr>"
  by (simp add: ib_port_read_def case_prod_beta ib_counters_read_state)

lemma ib_counter_value_path: "ibm_path c' = ibm_path c \<Longrightarrow> ib_counter_value fs c' = ib_counter_value fs c"
  by (simp add: ib_counter_value_def)

text \<open>One counter over two reads.\<close>

lemma ib_counter_two_reads:
  assumes "ibc_SendDerivedValues (ib_config m)" and "ibc_SendDerivedValues (ib_config m')" and "ibm_name c \<in> ib_names"
  shows "filter is_rate (snd (snd (ib_counter m' info fs2 t2 (duration_seconds (time_sub t2 t1))
           (fst (ib_counter m info1 fs1 t1 td c ib_no_sums)) ib_no_sums))) =
         rate_between m' info (t1, fs1) (t2, fs2) c"
proof (cases "ib_counter_value fs1 c")
  case None
  let ?c = "c\<lparr>ibm_lastStateAvailable := False\<rparr>"
  from None assms(1) have st: "fst (ib_counter m info1 fs1 t1 td c ib_no_sums) = ?c" by (simp add: ib_counter_state)
  show ?thesis unfolding st using assms None
    by (subst ib_counter_rates) (simp_all add: rate_between_def split: option.splits)
next
  case (Some v)
  let ?c = "c\<lparr>ibm_lastState := v, ibm_lastStateAvailable := True\<rparr>"
  from Some assms(1) have st: "fst (ib_counter m info1 fs1 t1 td c ib_no_sums) = ?c" by (simp add: ib_counter_state)
  have val: "ib_counter_value fs2 ?c = ib_counter_value fs2 c" by (rule ib_counter_value_path) simp
  show ?thesis unfolding st using assms Some val
    by (subst ib_counter_rates) (simp_all add: rate_between_def ib_rate_def Let_def split: option.splits)
qed

text \<open>\<open>Init\<close> creates only the four known counters, and no read changes their names.\<close>

lemma ib_port_info_known:
  "ib_port_info ex fs acc path = Inr (Inr (Some i)) \<Longrightarrow> c \<in> set (ibi_portCounterFiles i) \<Longrightarrow> ibm_name c \<in> ib_names"
  by (auto simp: ib_port_info_def ib_counters_def ib_names_def Let_def run_simps split: option.splits if_splits)

lemma ib_port_infos_known:
  "ib_port_infos ex fs acc paths infos = Inr (infos', e) \<Longrightarrow>
   \<forall>i \<in> set infos. \<forall>c \<in> set (ibi_portCounterFiles i). ibm_name c \<in> ib_names \<Longrightarrow>
   \<forall>i \<in> set infos'. \<forall>c \<in> set (ibi_portCounterFiles i). ibm_name c \<in> ib_names"
proof (induction paths arbitrary: infos)
  case (Cons p paths)
  then obtain r where r: "ib_port_info ex fs acc p = Inr r" by (auto simp: run_simps)
  show ?case
  proof (cases r)
    case (Inl e')
    with Cons.prems r show ?thesis by simp
  next
    case (Inr oi)
    show ?thesis
    proof (cases oi)
      case None
      with Cons Inr r show ?thesis by simp
    next
      case (Some i)
      have "\<forall>i' \<in> set (infos @ [i]). \<forall>c \<in> set (ibi_portCounterFiles i'). ibm_name c \<in> ib_names"
        using Cons.prems(2) ib_port_info_known r Inr Some by auto
      with Cons.IH [of "infos @ [i]"] Cons.prems(1) Inr Some r show ?thesis by simp
    qed
  qed
qed simp

lemma ib_Init_known:
  assumes "ib_Init config fs acc m = Inr (m', e)" and "known_counters m"
  shows "known_counters m'"
proof (cases "ib_init m \<or> fs_glob fs (ibBasePath @ ''*/ports/*'') = []")
  case True
  with assms show ?thesis by (auto simp: ib_Init_def known_counters_def Let_def split: if_splits)
next
  case False
  with assms(1) obtain infos err where
    infos: "ib_port_infos (ibc_ExcludeDevices config) fs acc (fs_glob fs (ibBasePath @ ''*/ports/*'')) (ib_info m) = Inr (infos, err)"
    by (auto simp: ib_Init_def Let_def run_simps)
  with assms(1) False have "ib_info m' = infos"
    by (auto simp: ib_Init_def Let_def split: option.splits if_splits)
  with ib_port_infos_known [OF infos] assms(2) show ?thesis by (simp add: known_counters_def)
qed

lemma ib_counter_name: "ibm_name (fst (ib_counter m info fs now td c s)) = ibm_name c"
  by (simp add: ib_counter_def Let_def split: option.splits)

lemma ib_Read_known: "known_counters m \<Longrightarrow> known_counters (fst (ib_Read now fs m))"
  by (auto simp: ib_Read_def Let_def known_counters_def ib_port_read_state ib_counter_name)

lemma filter_concat_map: "filter P (concat (map f xs)) = concat (map (\<lambda>x. filter P (f x)) xs)"
  by (induction xs) simp_all

subsection \<open>Properties\<close>

text \<open>C13: every rate covers exactly the time between two consecutive reads: after any earlier
  history, a read sends a rate for a counter exactly if that counter could be read and parsed
  both now and in the read before, and the rate is the difference of those two values (modulo
  \<open>2 ^ 64\<close>, so a wrapped counter counts right) divided by the time between those two reads.\<close>

theorem ib_rates_exact:
  assumes "ib_init m" and "ibc_SendDerivedValues (ib_config m)" and "known_counters m"
  shows "filter is_rate (snd (ib_Read t2 fs2 (fst (ib_Read t1 fs1 m)))) =
         concat (map (\<lambda>info. concat (map (rate_between m info (t1, fs1) (t2, fs2)) (ibi_portCounterFiles info))) (ib_info m))"
proof -
  let ?td = "duration_seconds (time_sub t1 (ib_lastTimestamp m))" and ?td2 = "duration_seconds (time_sub t2 t1)"
  define m1 where "m1 = fst (ib_Read t1 fs1 m)"
  have m1: "m1 = m\<lparr>ib_lastTimestamp := t1, ib_info := map (\<lambda>info. fst (ib_port_read m fs1 t1 ?td info)) (ib_info m)\<rparr>"
    using assms(1) by (simp add: m1_def ib_Read_def Let_def comp_def)
  have req: "ib_request m1 (info\<lparr>ibi_portCounterFiles := cs\<rparr>) = ib_request m info" for info cs
    by (simp add: fun_eq_iff ib_request_def m1)
  have rate: "rate_between m1 (info\<lparr>ibi_portCounterFiles := cs\<rparr>) = rate_between m info" for info cs
    by (simp add: fun_eq_iff rate_between_def req Let_def split: option.splits)
  have "filter is_rate (snd (ib_port_read m1 fs2 t2 ?td2 (fst (ib_port_read m fs1 t1 ?td info)))) =
        concat (map (rate_between m info (t1, fs1) (t2, fs2)) (ibi_portCounterFiles info))"
    if "info \<in> set (ib_info m)" for info
  proof -
    have names: "ibm_name c \<in> ib_names" if "c \<in> set (ibi_portCounterFiles info)" for c
      using assms(3) \<open>info \<in> set (ib_info m)\<close> that by (auto simp: known_counters_def)
    have dev: "ibc_SendDerivedValues (ib_config m1)" using assms(2) by (simp add: m1)
    show ?thesis
      by (simp add: ib_port_read_state ib_port_read_rates comp_def ib_counter_two_reads [OF assms(2) dev names]
          rate cong: map_cong)
  qed
  then show ?thesis
    unfolding m1_def [symmetric] using assms(1)
    by (simp add: ib_Read_def [of t2 fs2 m1] Let_def m1 [THEN arg_cong, of ib_init] m1 [THEN arg_cong, of ib_lastTimestamp]
        m1 [THEN arg_cong, of ib_info] comp_def filter_concat_map cong: map_cong)
qed

subsection \<open>Witnesses\<close>

definition demo_ib :: InfinibandCollector where
  "demo_ib =
     \<lparr>ib_init = True,
      ib_config = \<lparr>ibc_ExcludeDevices = [], ibc_SendAbsoluteValues = True, ibc_SendTotalValues = True, ibc_SendDerivedValues = True\<rparr>,
      ib_info = [\<lparr>ibi_lid = ''1'', ibi_device = ''d'', ibi_port = ''1'', ibi_portCounterFiles = [hd (ib_counters ''c'')], ibi_tagSet = []\<rparr>],
      ib_lastTimestamp = 0, ib_meta = []\<rparr>"

definition demo_ib_fs :: "string \<Rightarrow> fsys" where
  "demo_ib_fs content = \<lparr>fs_read = (\<lambda>p. if p = ''c/port_rcv_data'' then Some content else None), fs_glob = (\<lambda>_. [])\<rparr>"

lemma ib_rates_exact_witness:
  "filter is_rate (snd (ib_Read 3000000000 (demo_ib_fs ''5'') (fst (ib_Read 1000000000 (demo_ib_fs ''18446744073709551615'') demo_ib)))) =
   [\<lparr>rq_name = ''ib_recv_bw'', rq_tags = [], rq_meta = [(''unit'', ''bytes/sec'')],
     rq_value = VFloat64 (fmul binary64 (fdiv binary64 (f64_of_int 6) (duration_seconds 2000000000)) (Num 4)),
     rq_time = Some 3000000000\<rparr>]"
proof -
  let ?c = "hd (ib_counters ''c'')"
  have v: "ib_counter_value (demo_ib_fs ''5'') ?c = Some 5"
    "ib_counter_value (demo_ib_fs ''18446744073709551615'') ?c = Some (-1)"
    by (simp_all add: ib_counter_value_def ib_counters_def demo_ib_fs_def path_join_def) code_simp+
  have "known_counters demo_ib" by (simp add: known_counters_def demo_ib_def ib_counters_def ib_names_def)
  then show ?thesis
    by (subst ib_rates_exact)
       (simp_all add: demo_ib_def rate_between_def v, simp add: ib_counters_def ib_request_def add_meta_def map_put_def Let_def time_sub_def two63_def)
qed

end
