(* ===== verification/Lustre_Collector.thy ===== *)
theory Lustre_Collector
  imports Collector_Base
begin

text \<open>
  \<open>collectors/lustreMetric.go\<close>: the counters that \<open>lctl get_param\<close> prints for the Lustre
  clients, as absolute values, differences and rates. The output of the program is an input
  (a function of the device; what was printed before a failure if it fails), so are the user
  and the search path.
\<close>

subsection \<open>State\<close>

record LustreCollectorConfig =
  lc_LCtlCommand :: string
  lc_ExcludeMetrics :: "string list"
  lc_Sudo :: bool
  lc_SendAbsoluteValues :: bool
  lc_SendDerivedValues :: bool
  lc_SendDiffValues :: bool

record LustreMetricDefinition =
  ld_name :: string
  ld_lineprefix :: string
  ld_lineoffset :: int
  ld_unit :: string
  ld_calc :: string

record LustreCollector =
  lu_init :: bool
  lu_tags :: tagmap
  lu_meta :: tagmap
  lu_config :: LustreCollectorConfig
  lu_lctl :: string
  lu_sudoCmd :: string
  lu_lastTimestamp :: gotime
  lu_definitions :: "LustreMetricDefinition list"
  lu_stats :: "(string \<times> (string \<times> goint) list) list"

definition lustre_def :: "string \<Rightarrow> string \<Rightarrow> int \<Rightarrow> string \<Rightarrow> string \<Rightarrow> LustreMetricDefinition" where
  "lustre_def name lineprefix lineoffset unit calc =
     \<lparr>ld_name = name, ld_lineprefix = lineprefix, ld_lineoffset = lineoffset, ld_unit = unit, ld_calc = calc\<rparr>"

definition LustreAbsMetrics :: "LustreMetricDefinition list" where
  "LustreAbsMetrics =
     [lustre_def ''lustre_read_requests'' ''read_bytes'' 1 ''requests'' ''none'',
      lustre_def ''lustre_write_requests'' ''write_bytes'' 1 ''requests'' ''none'',
      lustre_def ''lustre_read_bytes'' ''read_bytes'' 6 ''bytes'' ''none'',
      lustre_def ''lustre_write_bytes'' ''write_bytes'' 6 ''bytes'' ''none'',
      lustre_def ''lustre_open'' ''open'' 1 '''' ''none'',
      lustre_def ''lustre_close'' ''close'' 1 '''' ''none'',
      lustre_def ''lustre_setattr'' ''setattr'' 1 '''' ''none'',
      lustre_def ''lustre_getattr'' ''getattr'' 1 '''' ''none'',
      lustre_def ''lustre_statfs'' ''statfs'' 1 '''' ''none'',
      lustre_def ''lustre_inode_permission'' ''inode_permission'' 1 '''' ''none'']"

definition LustreDiffMetrics :: "LustreMetricDefinition list" where
  "LustreDiffMetrics =
     [lustre_def ''lustre_read_requests_diff'' ''read_bytes'' 1 ''requests'' ''difference'',
      lustre_def ''lustre_write_requests_diff'' ''write_bytes'' 1 ''requests'' ''difference'',
      lustre_def ''lustre_read_bytes_diff'' ''read_bytes'' 6 ''bytes'' ''difference'',
      lustre_def ''lustre_write_bytes_diff'' ''write_bytes'' 6 ''bytes'' ''difference'',
      lustre_def ''lustre_open_diff'' ''open'' 1 '''' ''difference'',
      lustre_def ''lustre_close_diff'' ''close'' 1 '''' ''difference'',
      lustre_def ''lustre_setattr_diff'' ''setattr'' 1 '''' ''difference'',
      lustre_def ''lustre_getattr_diff'' ''getattr'' 1 '''' ''difference'',
      lustre_def ''lustre_statfs_diff'' ''statfs'' 1 '''' ''difference'',
      lustre_def ''lustre_inode_permission_diff'' ''inode_permission'' 1 '''' ''difference'']"

definition LustreDeriveMetrics :: "LustreMetricDefinition list" where
  "LustreDeriveMetrics =
     [lustre_def ''lustre_read_requests_rate'' ''read_bytes'' 1 ''requests/sec'' ''derivative'',
      lustre_def ''lustre_write_requests_rate'' ''write_bytes'' 1 ''requests/sec'' ''derivative'',
      lustre_def ''lustre_read_bw'' ''read_bytes'' 6 ''bytes/sec'' ''derivative'',
      lustre_def ''lustre_write_bw'' ''write_bytes'' 6 ''bytes/sec'' ''derivative'']"

subsection \<open>Parsing\<close>

definition device_data :: "(string \<Rightarrow> string) \<Rightarrow> string \<Rightarrow> string list" where
  "device_data lctl device = split_on (CHR 0x0A) (lctl device)"

definition lustre_getDevices :: "(string \<Rightarrow> string) \<Rightarrow> string list" where
  "lustre_getDevices lctl =
     List.map_filter (\<lambda>line.
       if has_prefix line ''llite''
       then (let linefields = split_on (CHR ''.'') line
             in if length linefields > 2 then Some (linefields ! 1) else None)
       else None)
     (device_data lctl ''*'')"

text \<open>The first line with the prefix decides; a line with too few fields panics.\<close>

fun getMetricData :: "string list \<Rightarrow> string \<Rightarrow> int \<Rightarrow> (goint \<times> goerror option) run" where
  "getMetricData [] prefix offset = Inr (0, Some (GoError ''no such line in data''))"
| "getMetricData (line # lines) prefix offset =
     (if has_prefix line prefix
      then run_bind (at_index (str_fields line) offset) (\<lambda>f.
        Inr (case parse_int 0 f of (v, None) \<Rightarrow> (v, None) | (v, Some _) \<Rightarrow> (v, Some (GoError ''ParseInt''))))
      else getMetricData lines prefix offset)"

subsection \<open>Init\<close>

definition lustre_definitions :: "LustreCollectorConfig \<Rightarrow> LustreMetricDefinition list" where
  "lustre_definitions cfg =
     filter (\<lambda>d. ld_name d \<notin> set (lc_ExcludeMetrics cfg))
       ((if lc_SendAbsoluteValues cfg then LustreAbsMetrics else []) @
        (if lc_SendDiffValues cfg then LustreDiffMetrics else []) @
        (if lc_SendDerivedValues cfg then LustreDeriveMetrics else []))"

definition lustre_first ::
  "string list \<Rightarrow> (string \<times> goint) list \<Rightarrow> LustreMetricDefinition \<Rightarrow> (string \<times> goint) list run" where
  "lustre_first data stats d =
     run_bind (getMetricData data (ld_lineprefix d) (ld_lineoffset d)) (\<lambda>(x, err).
       Inr (map_put (ld_name d) (if err = None then x else 0) stats))"

definition lustre_device_first ::
  "(string \<Rightarrow> string) \<Rightarrow> LustreMetricDefinition list \<Rightarrow> (string \<times> (string \<times> goint) list) list \<Rightarrow> string \<Rightarrow>
   (string \<times> (string \<times> goint) list) list run" where
  "lustre_device_first lctl defs stats device =
     run_bind (run_fold (lustre_first (device_data lctl device)) [] defs) (\<lambda>s. Inr (map_put device s stats))"

text \<open>\<open>uid\<close> is the user ID (\<open>None\<close>: unknown), \<open>look\<close> is \<open>exec.LookPath\<close>.\<close>

definition lustre_Init ::
  "LustreCollectorConfig \<Rightarrow> string option \<Rightarrow> (string \<Rightarrow> string option) \<Rightarrow> gotime \<Rightarrow> (string \<Rightarrow> string) \<Rightarrow>
   (goerror + LustreCollector) run" where
  "lustre_Init cfg uid look now lctl =
     (if \<not> lc_Sudo cfg \<and> uid = None then Inr (Inl (GoError ''Failed to get current user''))
      else if \<not> lc_Sudo cfg \<and> uid \<noteq> Some ''0'' then Inr (Inl (GoError ''can only be queried by user root''))
      else if lc_Sudo cfg \<and> look ''sudo'' = None then Inr (Inl (GoError ''Cannot find sudo''))
      else case (case look (lc_LCtlCommand cfg) of Some p \<Rightarrow> Some p | None \<Rightarrow> look ''lctl'') of
        None \<Rightarrow> Inr (Inl (GoError ''Cannot find lctl command''))
      | Some p \<Rightarrow>
          (let defs = lustre_definitions cfg; devices = lustre_getDevices lctl in
           if defs = [] then Inr (Inl (GoError ''no metrics to collect''))
           else if devices = [] then Inr (Inl (GoError ''no Lustre devices found''))
           else run_bind (run_fold (lustre_device_first lctl defs) [] devices) (\<lambda>stats.
             Inr (Inr \<lparr>lu_init = True, lu_tags = [(''type'', ''node'')],
                       lu_meta = [(''source'', ''LustreCollector''), (''group'', ''Lustre'')], lu_config = cfg,
                       lu_lctl = p, lu_sudoCmd = (if lc_Sudo cfg then the (look ''sudo'') else []),
                       lu_lastTimestamp = now, lu_definitions = defs, lu_stats = stats\<rparr>))))"

subsection \<open>Read and Close\<close>

text \<open>
  The value of a metric: \<open>None\<close> for a calculation the switch does not know, which would leave
  the message nil. A clamped value is Go's untyped \<open>0\<close>, an \<open>int\<close>.
\<close>

definition lustre_value :: "string \<Rightarrow> goint \<Rightarrow> goint \<Rightarrow> gofloat \<Rightarrow> unit govalue option" where
  "lustre_value calc old use_x seconds =
     (if calc = ''none'' then Some (VInt64 use_x)
      else if calc = ''difference''
           then Some (let d = use_x - old in if sint d < 0 then VInt 0 else VInt64 d)
      else if calc = ''derivative''
           then Some (let r = fdiv binary64 (f64_of_int (sint (use_x - old))) seconds
                      in if r < Num 0 then VInt 0 else VFloat64 r)
      else None)"

definition lustre_request :: "LustreCollector \<Rightarrow> string \<Rightarrow> LustreMetricDefinition \<Rightarrow> unit govalue \<Rightarrow> request" where
  "lustre_request m device d v =
     (let r = add_tag ''device'' device
                \<lparr>rq_name = ld_name d, rq_tags = lu_tags m, rq_meta = lu_meta m, rq_value = v, rq_time = None\<rparr>
      in if ld_unit d \<noteq> [] then add_meta ''unit'' (ld_unit d) r else r)"

definition lustre_metric ::
  "LustreCollector \<Rightarrow> gofloat \<Rightarrow> string \<Rightarrow> string list \<Rightarrow> (string \<times> goint) list \<Rightarrow> LustreMetricDefinition \<Rightarrow>
   ((string \<times> goint) list \<times> request list) run" where
  "lustre_metric m seconds device data devData d =
     run_bind (getMetricData data (ld_lineprefix d) (ld_lineoffset d)) (\<lambda>(x, err).
       let old = map_get 0 devData (ld_name d);
           use_x = (if err = None then x else old);
           devData' = map_put (ld_name d) use_x devData
       in case lustre_value (ld_calc d) old use_x seconds of
            Some v \<Rightarrow> Inr (devData', [lustre_request m device d v])
          | None \<Rightarrow> if err = None then Inl NilDereference else Inr (devData', []))"

definition lustre_device ::
  "LustreCollector \<Rightarrow> gofloat \<Rightarrow> (string \<Rightarrow> string) \<Rightarrow> string \<times> (string \<times> goint) list \<Rightarrow>
   ((string \<times> (string \<times> goint) list) \<times> request list) run" where
  "lustre_device m seconds lctl entry =
     (case entry of (device, devData) \<Rightarrow>
        run_bind (run_steps (lustre_metric m seconds device (device_data lctl device)) devData (lu_definitions m)) (\<lambda>(dd, rs).
          Inr ((device, dd), rs)))"

fun lustre_devices ::
  "LustreCollector \<Rightarrow> gofloat \<Rightarrow> (string \<Rightarrow> string) \<Rightarrow> (string \<times> (string \<times> goint) list) list \<Rightarrow>
   ((string \<times> (string \<times> goint) list) list \<times> request list) run" where
  "lustre_devices m seconds lctl [] = Inr ([], [])"
| "lustre_devices m seconds lctl (e # es) =
     run_bind (lustre_device m seconds lctl e) (\<lambda>(e', r1).
     run_bind (lustre_devices m seconds lctl es) (\<lambda>(es', r2). Inr (e' # es', r1 @ r2)))"

definition lustre_Read ::
  "LustreCollector \<Rightarrow> gotime \<times> (string \<Rightarrow> string) \<Rightarrow> (LustreCollector \<times> request list) run" where
  "lustre_Read m input =
     (case input of (now, lctl) \<Rightarrow>
      if \<not> lu_init m then Inr (m, [])
      else run_bind (lustre_devices m (duration_seconds (time_sub now (lu_lastTimestamp m))) lctl (lu_stats m)) (\<lambda>(stats, rs).
           Inr (m\<lparr>lu_stats := stats, lu_lastTimestamp := now\<rparr>, rs)))"

definition lustre_Close :: "LustreCollector \<Rightarrow> LustreCollector" where
  "lustre_Close m = m\<lparr>lu_init := False\<rparr>"

subsection \<open>Panics\<close>

text \<open>The line that decides about a metric is too short.\<close>

definition short_line :: "string list \<Rightarrow> LustreMetricDefinition \<Rightarrow> bool" where
  "short_line data d =
     (case find (\<lambda>l. has_prefix l (ld_lineprefix d)) data of
        None \<Rightarrow> False | Some l \<Rightarrow> int (length (str_fields l)) \<le> ld_lineoffset d)"

definition lustre_metrics :: "LustreMetricDefinition list" where
  "lustre_metrics = LustreAbsMetrics @ LustreDiffMetrics @ LustreDeriveMetrics"

lemma lustre_metrics_known:
  "d \<in> set lustre_metrics \<Longrightarrow> 0 \<le> ld_lineoffset d \<and> ld_calc d \<in> {''none'', ''difference'', ''derivative''}"
  by (auto simp: lustre_metrics_def LustreAbsMetrics_def LustreDiffMetrics_def LustreDeriveMetrics_def lustre_def_def)

lemma getMetricData_panics_iff:
  "0 \<le> offset \<Longrightarrow> (\<exists>p. getMetricData data prefix offset = Inl p) \<longleftrightarrow>
     (case find (\<lambda>l. has_prefix l prefix) data of None \<Rightarrow> False | Some l \<Rightarrow> int (length (str_fields l)) \<le> offset)"
  by (induction data) (auto simp: at_index_def run_bind_def)

lemma lustre_metric_panics_iff:
  assumes "d \<in> set lustre_metrics"
  shows "(\<exists>p. lustre_metric m seconds device data devData d = Inl p) \<longleftrightarrow> short_line data d"
proof -
  have known: "lustre_value (ld_calc d) old x s \<noteq> None" for old x s
    using lustre_metrics_known [OF assms] by (auto simp: lustre_value_def)
  have "(\<exists>p. lustre_metric m seconds device data devData d = Inl p) \<longleftrightarrow>
      (\<exists>p. getMetricData data (ld_lineprefix d) (ld_lineoffset d) = Inl p)"
    by (cases "getMetricData data (ld_lineprefix d) (ld_lineoffset d)")
       (auto simp: lustre_metric_def Let_def known split: option.splits)
  with getMetricData_panics_iff [of "ld_lineoffset d" data "ld_lineprefix d"] lustre_metrics_known [OF assms]
  show ?thesis by (simp add: short_line_def)
qed

lemma lustre_device_panics_iff:
  assumes "set (lu_definitions m) \<subseteq> set lustre_metrics"
  shows "(\<exists>p. lustre_device m seconds lctl e = Inl p) \<longleftrightarrow>
         (\<exists>d \<in> set (lu_definitions m). short_line (device_data lctl (fst e)) d)"
proof -
  obtain device dd where e: "e = (device, dd)" by (cases e)
  have "(\<exists>p. run_steps (lustre_metric m seconds device (device_data lctl device)) dd (lu_definitions m) = Inl p) \<longleftrightarrow>
      (\<exists>d \<in> set (lu_definitions m). short_line (device_data lctl device) d)"
    by (rule run_steps_panics_iff [where ok = "\<lambda>_. True"]) (simp_all add: lustre_metric_panics_iff [OF subsetD [OF assms]])
  then show ?thesis by (auto simp: lustre_device_def e run_bind_def split: sum.splits)
qed

lemma lustre_devices_panics_iff:
  assumes "set (lu_definitions m) \<subseteq> set lustre_metrics"
  shows "(\<exists>p. lustre_devices m seconds lctl es = Inl p) \<longleftrightarrow>
         (\<exists>e \<in> set es. \<exists>d \<in> set (lu_definitions m). short_line (device_data lctl (fst e)) d)"
proof (induction es)
  case (Cons e es)
  then show ?case
    using lustre_device_panics_iff [OF assms, of seconds lctl e]
    by (cases "lustre_device m seconds lctl e") (auto simp: run_bind_def split: sum.splits)
qed simp

subsection \<open>Differences\<close>

definition diff_metric :: "string \<Rightarrow> bool" where
  "diff_metric name = (name \<in> ld_name ` set LustreDiffMetrics)"

text \<open>The stored counter of a difference metric of a device, and what a request sends for it.\<close>

definition lustre_counter :: "LustreCollector \<Rightarrow> string \<times> string \<Rightarrow> int" where
  "lustre_counter m k =
     (if diff_metric (snd k) then sint (map_get 0 (map_get [] (lu_stats m) (fst k)) (snd k)) else 0)"

definition lustre_amount :: "string \<times> string \<Rightarrow> request \<Rightarrow> int" where
  "lustre_amount k r =
     (if diff_metric (snd k) \<and> rq_name r = snd k \<and> map_of (rq_tags r) ''device'' = Some (fst k)
      then (case rq_value r of VInt64 v \<Rightarrow> sint v | VInt v \<Rightarrow> sint v | _ \<Rightarrow> 0) else 0)"

definition lustre_ok :: "LustreCollector \<Rightarrow> bool" where
  "lustre_ok m =
     (set (lu_definitions m) \<subseteq> set lustre_metrics \<and> distinct (map ld_name (lu_definitions m)) \<and>
      distinct (map fst (lu_stats m)) \<and> (\<forall>(device, dd) \<in> set (lu_stats m). \<forall>n. 0 \<le> sint (map_get 0 dd n)))"

text \<open>The counters are not negative.\<close>

definition lustre_input_ok :: "gotime \<times> (string \<Rightarrow> string) \<Rightarrow> bool" where
  "lustre_input_ok i =
     (\<forall>device. \<forall>d \<in> set lustre_metrics.
        case getMetricData (device_data (snd i) device) (ld_lineprefix d) (ld_lineoffset d) of
          Inr (x, None) \<Rightarrow> 0 \<le> sint x | _ \<Rightarrow> True)"

lemma diff_metric_calc: "d \<in> set lustre_metrics \<Longrightarrow> diff_metric (ld_name d) \<Longrightarrow> ld_calc d = ''difference''"
  by (auto simp: lustre_metrics_def LustreAbsMetrics_def LustreDiffMetrics_def LustreDeriveMetrics_def lustre_def_def
      diff_metric_def)

lemma sint_sub_nonneg:
  fixes a b :: goint
  assumes "0 \<le> sint a" and "0 \<le> sint b"
  shows "sint (a - b) = sint a - sint b"
  using assms sint_range [of a] sint_range [of b] by (intro sint_sub_in_range) linarith+

lemma map_get_put: "map_get x (map_put k v m) k' = (if k' = k then v else map_get x m k')"
  by (simp add: map_get_def)

lemma lustre_request_parts:
  "rq_name (lustre_request m device d v) = ld_name d"
  "rq_value (lustre_request m device d v) = v"
  "map_of (rq_tags (lustre_request m device d v)) ''device'' = Some device"
  by (simp_all add: lustre_request_def Let_def add_tag_def add_meta_def)

lemma lustre_metric_diff:
  assumes run: "lustre_metric m seconds device data dd d = Inr (dd', rs)"
    and d: "d \<in> set lustre_metrics"
    and pos: "\<forall>n. 0 \<le> sint (map_get 0 dd n)"
    and ok: "case getMetricData data (ld_lineprefix d) (ld_lineoffset d) of Inr (x, None) \<Rightarrow> 0 \<le> sint x | _ \<Rightarrow> True"
  shows "(\<forall>n. 0 \<le> sint (map_get 0 dd' n)) \<and> (\<forall>n. n \<noteq> ld_name d \<longrightarrow> map_get 0 dd' n = map_get 0 dd n) \<and>
         sum_list (map (lustre_amount (dev, n)) rs) =
           (if diff_metric n \<and> dev = device \<and> n = ld_name d
            then max 0 (sint (map_get 0 dd' n) - sint (map_get 0 dd n)) else 0)"
proof -
  let ?old = "map_get 0 dd (ld_name d)"
  from run obtain x err where x: "getMetricData data (ld_lineprefix d) (ld_lineoffset d) = Inr (x, err)"
    by (auto simp: lustre_metric_def run_simps)
  define use_x where "use_x = (if err = None then x else ?old)"
  have use_pos: "0 \<le> sint use_x" using ok x pos by (cases err) (auto simp: use_x_def)
  obtain v where v: "lustre_value (ld_calc d) ?old use_x seconds = Some v"
    using lustre_metrics_known [OF d] by (auto simp: lustre_value_def)
  with run x have dd': "dd' = map_put (ld_name d) use_x dd" and rs: "rs = [lustre_request m device d v]"
    by (simp_all add: lustre_metric_def Let_def use_x_def [symmetric])
  have amount: "(case v of VInt64 w \<Rightarrow> sint w | VInt w \<Rightarrow> sint w | _ \<Rightarrow> 0) = max 0 (sint use_x - sint ?old)"
    if "diff_metric (ld_name d)"
    using v diff_metric_calc [OF d that] sint_sub_nonneg [OF use_pos, of ?old] pos
    by (auto simp: lustre_value_def Let_def split: if_splits)
  show ?thesis
    using pos use_pos amount by (auto simp: dd' rs map_get_put lustre_amount_def lustre_request_parts)
qed

lemma lustre_metrics_diff:
  assumes "run_steps (lustre_metric m seconds device data) dd ds = Inr (dd', rs)"
    and "set ds \<subseteq> set lustre_metrics" and "distinct (map ld_name ds)"
    and "\<forall>n. 0 \<le> sint (map_get 0 dd n)"
    and "\<forall>d \<in> set ds. case getMetricData data (ld_lineprefix d) (ld_lineoffset d) of Inr (x, None) \<Rightarrow> 0 \<le> sint x | _ \<Rightarrow> True"
  shows "(\<forall>n. 0 \<le> sint (map_get 0 dd' n)) \<and> (\<forall>n. n \<notin> ld_name ` set ds \<longrightarrow> map_get 0 dd' n = map_get 0 dd n) \<and>
         sum_list (map (lustre_amount (dev, n)) rs) =
           (if diff_metric n \<and> dev = device then max 0 (sint (map_get 0 dd' n) - sint (map_get 0 dd n)) else 0)"
  using assms
proof (induction ds arbitrary: dd rs)
  case (Cons d ds)
  from Cons.prems(1) obtain dd1 r1 r2 where step: "lustre_metric m seconds device data dd d = Inr (dd1, r1)"
    and rest: "run_steps (lustre_metric m seconds device data) dd1 ds = Inr (dd', r2)" and rs: "rs = r1 @ r2"
    by (auto simp: run_simps)
  have d: "d \<in> set lustre_metrics"
    and dok: "case getMetricData data (ld_lineprefix d) (ld_lineoffset d) of Inr (x, None) \<Rightarrow> 0 \<le> sint x | _ \<Rightarrow> True"
    using Cons.prems(2,5) by simp_all
  note one = lustre_metric_diff [OF step d Cons.prems(4) dok, of dev n]
  have IH: "(\<forall>n. 0 \<le> sint (map_get 0 dd' n)) \<and> (\<forall>n. n \<notin> ld_name ` set ds \<longrightarrow> map_get 0 dd' n = map_get 0 dd1 n) \<and>
         sum_list (map (lustre_amount (dev, n)) r2) =
           (if diff_metric n \<and> dev = device then max 0 (sint (map_get 0 dd' n) - sint (map_get 0 dd1 n)) else 0)"
    using Cons.IH [OF rest] Cons.prems one by simp
  have "n \<noteq> ld_name d \<or> n \<notin> ld_name ` set ds" using Cons.prems(3) by auto
  with one IH rs show ?case by auto
qed simp

lemma lustre_device_key: "lustre_device m seconds lctl e = Inr (e', rs) \<Longrightarrow> fst e' = fst e"
  by (auto simp: lustre_device_def run_simps split: prod.splits)

lemma lustre_device_diff:
  assumes run: "lustre_device m seconds lctl (device, dd) = Inr ((device', dd'), rs)"
    and "set (lu_definitions m) \<subseteq> set lustre_metrics" and "distinct (map ld_name (lu_definitions m))"
    and "\<forall>n. 0 \<le> sint (map_get 0 dd n)" and "lustre_input_ok (now, lctl)"
  shows "device' = device \<and> (\<forall>n. 0 \<le> sint (map_get 0 dd' n)) \<and>
         sum_list (map (lustre_amount (dev, n)) rs) =
           (if diff_metric n \<and> dev = device then max 0 (sint (map_get 0 dd' n) - sint (map_get 0 dd n)) else 0)"
proof -
  have steps: "run_steps (lustre_metric m seconds device (device_data lctl device)) dd (lu_definitions m) = Inr (dd', rs)"
    using run by (auto simp: lustre_device_def run_simps)
  have "\<forall>d \<in> set (lu_definitions m). case getMetricData (device_data lctl device) (ld_lineprefix d) (ld_lineoffset d) of
      Inr (x, None) \<Rightarrow> 0 \<le> sint x | _ \<Rightarrow> True"
    using assms(2,5) by (auto simp: lustre_input_ok_def)
  with lustre_metrics_diff [OF steps assms(2,3,4), of dev n] lustre_device_key [OF run] show ?thesis by simp
qed

lemma map_get_Cons: "map_get x ((k, v) # m) k' = (if k' = k then v else map_get x m k')"
  by (simp add: map_get_def)

lemma map_get_absent: "k \<notin> fst ` set m \<Longrightarrow> map_get x m k = x"
  by (simp add: map_get_def map_of_eq_None_iff [THEN iffD2])

lemma lustre_devices_diff:
  assumes "lustre_devices m seconds lctl es = Inr (es', rs)"
    and "set (lu_definitions m) \<subseteq> set lustre_metrics" and "distinct (map ld_name (lu_definitions m))"
    and "\<forall>(device, dd) \<in> set es. \<forall>n. 0 \<le> sint (map_get 0 dd n)" and "distinct (map fst es)"
    and "lustre_input_ok (now, lctl)"
  shows "map fst es' = map fst es \<and> (\<forall>(device, dd) \<in> set es'. \<forall>n. 0 \<le> sint (map_get 0 dd n)) \<and>
         sum_list (map (lustre_amount (dev, n)) rs) =
           (if diff_metric n then max 0 (sint (map_get 0 (map_get [] es' dev) n) - sint (map_get 0 (map_get [] es dev) n)) else 0)"
  using assms
proof (induction es arbitrary: es' rs)
  case (Cons e es)
  obtain device dd where e: "e = (device, dd)" by (cases e)
  from Cons.prems(1) obtain e1 r1 es1 r2 where one: "lustre_device m seconds lctl e = Inr (e1, r1)"
    and rest: "lustre_devices m seconds lctl es = Inr (es1, r2)" and res: "es' = e1 # es1" "rs = r1 @ r2"
    by (auto simp: run_simps)
  obtain device1 dd1 where e1: "e1 = (device1, dd1)" by (cases e1)
  have pos: "\<forall>n. 0 \<le> sint (map_get 0 dd n)" using Cons.prems(4) by (simp add: e)
  note head = lustre_device_diff [OF one [unfolded e e1] Cons.prems(2,3) pos Cons.prems(6), of dev n]
  have tail: "map fst es1 = map fst es \<and> (\<forall>(device, dd) \<in> set es1. \<forall>n. 0 \<le> sint (map_get 0 dd n)) \<and>
      sum_list (map (lustre_amount (dev, n)) r2) =
        (if diff_metric n then max 0 (sint (map_get 0 (map_get [] es1 dev) n) - sint (map_get 0 (map_get [] es dev) n)) else 0)"
    using Cons.IH [OF rest] Cons.prems by simp
  have "device \<notin> fst ` set es" using Cons.prems(5) e by simp
  moreover from this tail have "device \<notin> fst ` set es1" by (metis list.set_map)
  ultimately have "dev = device \<Longrightarrow> map_get [] es1 dev = [] \<and> map_get [] es dev = []" by (simp add: map_get_absent)
  with head tail show ?case by (auto simp: res e e1 map_get_Cons)
qed simp

interpretation lustre: clamped_source lustre_Read lustre_counter lustre_amount lustre_ok lustre_input_ok
proof
  fix m m' :: LustreCollector and i rs and k :: "string \<times> string"
  assume ok: "lustre_ok m" "lustre_input_ok i" and run: "lustre_Read m i = Inr (m', rs)"
  obtain now lctl where i: "i = (now, lctl)" by (cases i)
  obtain dev n where k: "k = (dev, n)" by (cases k)
  let ?sec = "duration_seconds (time_sub now (lu_lastTimestamp m))"
  have *: "lustre_ok m' \<and> sum_list (map (lustre_amount k) rs) = max 0 (lustre_counter m' k - lustre_counter m k)"
  proof (cases "lu_init m")
    case False
    with run ok show ?thesis by (simp add: lustre_Read_def i)
  next
    case True
    with run obtain es' where es: "lustre_devices m ?sec lctl (lu_stats m) = Inr (es', rs)"
      and m': "m' = m\<lparr>lu_stats := es', lu_lastTimestamp := now\<rparr>"
      by (auto simp: lustre_Read_def i run_simps)
    show ?thesis
      using lustre_devices_diff [OF es, of now dev n] ok by (auto simp: m' i k lustre_ok_def lustre_counter_def lustre_amount_def)
  qed
  show "lustre_ok m'" using * by (rule conjunct1)
  show "sum_list (map (lustre_amount k) rs) = max 0 (lustre_counter m' k - lustre_counter m k)" using * by (rule conjunct2)
qed

subsection \<open>Initialisation\<close>

lemma lustre_definitions_ok:
  "set (lustre_definitions cfg) \<subseteq> set lustre_metrics \<and> distinct (map ld_name (lustre_definitions cfg))"
proof -
  have all: "distinct (map ld_name lustre_metrics)"
    by (simp add: lustre_metrics_def LustreAbsMetrics_def LustreDiffMetrics_def LustreDeriveMetrics_def lustre_def_def)
  have "distinct (map ld_name ((if a then LustreAbsMetrics else []) @ (if b then LustreDiffMetrics else []) @
      (if c then LustreDeriveMetrics else [])))" for a b c
    using all unfolding lustre_metrics_def by (cases a; cases b; cases c) auto
  then have "distinct (map ld_name (lustre_definitions cfg))"
    unfolding lustre_definitions_def by (rule distinct_map_filter)
  moreover have "set (lustre_definitions cfg) \<subseteq> set lustre_metrics"
    by (auto simp: lustre_definitions_def lustre_metrics_def)
  ultimately show ?thesis by simp
qed

lemma lustre_first_pos:
  assumes "lustre_first (device_data lctl device) s d = Inr s'" and "d \<in> set lustre_metrics"
    and "lustre_input_ok (now, lctl)" and "\<forall>n. 0 \<le> sint (map_get 0 s n)"
  shows "\<forall>n. 0 \<le> sint (map_get 0 s' n)"
proof -
  from assms(1) obtain x err where x: "getMetricData (device_data lctl device) (ld_lineprefix d) (ld_lineoffset d) = Inr (x, err)"
    and s': "s' = map_put (ld_name d) (if err = None then x else 0) s"
    by (auto simp: lustre_first_def run_simps)
  have "case getMetricData (device_data lctl device) (ld_lineprefix d) (ld_lineoffset d) of Inr (x, None) \<Rightarrow> 0 \<le> sint x | _ \<Rightarrow> True"
    using assms(2,3) by (simp add: lustre_input_ok_def)
  with x assms(4) show ?thesis by (cases err) (simp_all add: s' map_get_put)
qed

lemma lustre_Init_ok:
  assumes "lustre_Init cfg uid look now lctl = Inr (Inr m)" and "lustre_input_ok (now, lctl)"
  shows "lustre_ok m"
proof -
  let ?pos = "\<lambda>dd :: (string \<times> goint) list. \<forall>n. 0 \<le> sint (map_get 0 dd n)"
  let ?I = "\<lambda>stats :: (string \<times> (string \<times> goint) list) list. distinct (map fst stats) \<and> (\<forall>v \<in> ran (map_of stats). ?pos v)"
  from assms(1) obtain stats where
    run: "run_fold (lustre_device_first lctl (lustre_definitions cfg)) [] (lustre_getDevices lctl) = Inr stats"
    and m: "lu_definitions m = lustre_definitions cfg" "lu_stats m = stats"
    by (auto simp: lustre_Init_def Let_def run_simps split: if_splits option.splits)
  have "?I stats"
  proof (rule run_fold_invariant [OF run])
    fix u device v
    assume I: "?I u" and step: "lustre_device_first lctl (lustre_definitions cfg) u device = Inr v"
    then obtain s where s: "run_fold (lustre_first (device_data lctl device)) [] (lustre_definitions cfg) = Inr s"
      and v: "v = map_put device s u"
      by (auto simp: lustre_device_first_def run_simps)
    have "?pos s"
    proof (rule run_fold_invariant [OF s])
      fix u d v
      assume d: "d \<in> set (lustre_definitions cfg)" and pos: "?pos u"
        and first: "lustre_first (device_data lctl device) u d = Inr v"
      from d lustre_definitions_ok have "d \<in> set lustre_metrics" by blast
      from lustre_first_pos [OF first this assms(2) pos] show "?pos v" .
    qed (simp add: map_get_def)
    moreover have "ran (map_of v) \<subseteq> insert s (ran (map_of u))" by (auto simp: v ran_def)
    ultimately show "?I v" using I by (simp add: v map_put_distinct) blast
  qed simp
  then have dist: "distinct (map fst stats)" and pos: "\<forall>v \<in> ran (map_of stats). ?pos v" by simp_all
  have "?pos dd" if "(device, dd) \<in> set stats" for device dd
    using pos map_of_is_SomeI [OF dist that] ranI by fast
  with dist have "distinct (map fst stats)" "\<forall>(device, dd) \<in> set stats. ?pos dd" by auto
  with lustre_definitions_ok [of cfg] show ?thesis by (simp add: lustre_ok_def m)
qed

text \<open>What a read sends for one metric of one device, and what it stores.\<close>

lemma lustre_metric_untouched:
  "lustre_metric m sec device data dd d = Inr (dd', rs) \<Longrightarrow> n \<noteq> ld_name d \<Longrightarrow> map_get 0 dd' n = map_get 0 dd n"
  by (auto simp: lustre_metric_def run_simps Let_def map_get_put split: option.splits if_splits)

lemma lustre_metrics_untouched:
  "run_steps (lustre_metric m sec device data) dd ds = Inr (dd', rs) \<Longrightarrow> n \<notin> ld_name ` set ds \<Longrightarrow>
   map_get 0 dd' n = map_get 0 dd n"
  by (induction ds arbitrary: dd rs) (auto simp: run_simps lustre_metric_untouched)

lemma lustre_metrics_request:
  assumes "run_steps (lustre_metric m sec device data) dd ds = Inr (dd', rs)"
    and "d \<in> set ds" and "distinct (map ld_name ds)"
    and x: "getMetricData data (ld_lineprefix d) (ld_lineoffset d) = Inr (x, err)"
    and v: "lustre_value (ld_calc d) (map_get 0 dd (ld_name d)) (if err = None then x else map_get 0 dd (ld_name d)) sec = Some v"
  shows "lustre_request m device d v \<in> set rs \<and>
         map_get 0 dd' (ld_name d) = (if err = None then x else map_get 0 dd (ld_name d))"
  using assms(1-3) v
proof (induction ds arbitrary: dd rs)
  case (Cons e ds)
  from Cons.prems(1) obtain dd1 r1 r2 where step: "lustre_metric m sec device data dd e = Inr (dd1, r1)"
    and rest: "run_steps (lustre_metric m sec device data) dd1 ds = Inr (dd', r2)" and rs: "rs = r1 @ r2"
    by (auto simp: run_simps)
  show ?case
  proof (cases "e = d")
    case True
    from step x Cons.prems(4) have "r1 = [lustre_request m device d v]"
      and dd1: "map_get 0 dd1 (ld_name d) = (if err = None then x else map_get 0 dd (ld_name d))"
      by (auto simp: lustre_metric_def True Let_def map_get_put)
    moreover have "map_get 0 dd' (ld_name d) = map_get 0 dd1 (ld_name d)"
      by (rule lustre_metrics_untouched [OF rest]) (use Cons.prems(3) True in simp)
    ultimately show ?thesis by (simp add: rs)
  next
    case False
    with Cons.prems(2) have "d \<in> set ds" by simp
    then have "ld_name d \<in> ld_name ` set ds" by simp
    with Cons.prems(3) have "ld_name d \<noteq> ld_name e" by auto
    with lustre_metric_untouched [OF step, of "ld_name d"] have same: "map_get 0 dd1 (ld_name d) = map_get 0 dd (ld_name d)" by simp
    have "distinct (map ld_name ds)" using Cons.prems(3) by simp
    from Cons.IH [OF rest \<open>d \<in> set ds\<close> this] Cons.prems(4) show ?thesis
      unfolding same rs by (metis Un_iff set_append)
  qed
qed simp

lemma lustre_devices_stats:
  "lustre_devices m sec lctl es = Inr (es', rs) \<Longrightarrow> distinct (map fst es) \<Longrightarrow> (device, dd) \<in> set es \<Longrightarrow>
   \<exists>dd' rs'. run_steps (lustre_metric m sec device (device_data lctl device)) dd (lu_definitions m) = Inr (dd', rs') \<and>
     (device, dd') \<in> set es' \<and> set rs' \<subseteq> set rs \<and> map fst es' = map fst es"
proof (induction es arbitrary: es' rs)
  case (Cons e es)
  from Cons.prems(1) obtain e1 r1 es1 r2 where one: "lustre_device m sec lctl e = Inr (e1, r1)"
    and rest: "lustre_devices m sec lctl es = Inr (es1, r2)" and res: "es' = e1 # es1" "rs = r1 @ r2"
    by (auto simp: run_simps)
  have keys: "map fst es1 = map fst es" if "lustre_devices m sec lctl es = Inr (es1, r2)" for es es1 r2
    using that lustre_device_key by (induction es arbitrary: es1 r2) (auto simp: run_simps)
  show ?case
  proof (cases "e = (device, dd)")
    case True
    with one keys [OF rest] lustre_device_key [OF one] show ?thesis
      by (auto simp: lustre_device_def run_simps res)
  next
    case False
    with Cons.prems(2,3) Cons.IH [OF rest] keys [OF rest] lustre_device_key [OF one] show ?thesis
      by (auto simp: res)
  qed
qed simp

lemma lustre_Read_device:
  assumes "lustre_Read m (now, lctl) = Inr (m', rs)" and "lu_init m" and "distinct (map fst (lu_stats m))"
    and "(device, dd) \<in> set (lu_stats m)"
  shows "\<exists>dd' rs'. run_steps (lustre_metric m (duration_seconds (time_sub now (lu_lastTimestamp m))) device
            (device_data lctl device)) dd (lu_definitions m) = Inr (dd', rs') \<and>
     (device, dd') \<in> set (lu_stats m') \<and> set rs' \<subseteq> set rs \<and> map fst (lu_stats m') = map fst (lu_stats m) \<and>
     m' = m\<lparr>lu_stats := lu_stats m', lu_lastTimestamp := now\<rparr>"
proof -
  from assms(1,2) obtain es' where
    es: "lustre_devices m (duration_seconds (time_sub now (lu_lastTimestamp m))) lctl (lu_stats m) = Inr (es', rs)"
    and m': "m' = m\<lparr>lu_stats := es', lu_lastTimestamp := now\<rparr>"
    by (auto simp: lustre_Read_def run_simps)
  from lustre_devices_stats [OF es assms(3,4)] show ?thesis by (simp add: m')
qed

subsection \<open>Properties\<close>

text \<open>C12: no growth of a counter is lost: over any series of reads, what is sent for a difference
  metric of a device is never negative and never less than the growth of the stored counter; it
  is exactly that growth if the counter never decreases.\<close>

theorem lustre_differences_accounted:
  assumes "lustre_Init cfg uid look now lctl = Inr (Inr m)" and "lustre_input_ok (now, lctl)"
    and "\<forall>i \<in> set inputs. lustre_input_ok i" and "run_steps lustre_Read m inputs = Inr (m', rs)"
  shows "0 \<le> sum_list (map (lustre_amount k) rs) \<and>
         lustre_counter m' k - lustre_counter m k \<le> sum_list (map (lustre_amount k) rs) \<and>
         (rises lustre_Read (\<lambda>m. lustre_counter m k) m inputs \<longrightarrow>
            sum_list (map (lustre_amount k) rs) = lustre_counter m' k - lustre_counter m k)"
  using lustre.run_clamped [OF lustre_Init_ok [OF assms(1,2)] assms(3,4)] by blast

text \<open>A read panics exactly when, for a known device and a configured metric, the first line
  of the device that starts with the prefix of the metric has too few fields.\<close>

theorem lustre_Read_panics_iff:
  assumes "lu_init m" and "lu_definitions m = lustre_definitions cfg"
  shows "(\<exists>p. lustre_Read m (now, lctl) = Inl p) \<longleftrightarrow>
         (\<exists>e \<in> set (lu_stats m). \<exists>d \<in> set (lu_definitions m). short_line (device_data lctl (fst e)) d)"
proof -
  let ?run = "lustre_devices m (duration_seconds (time_sub now (lu_lastTimestamp m))) lctl (lu_stats m)"
  have "(\<exists>p. lustre_Read m (now, lctl) = Inl p) \<longleftrightarrow> (\<exists>p. ?run = Inl p)"
    using assms(1) by (cases ?run) (auto simp: lustre_Read_def)
  with lustre_devices_panics_iff [of m _ lctl "lu_stats m"] lustre_definitions_ok [of cfg] assms(2) show ?thesis by simp
qed

text \<open>After a read that misses a counter, the next rate is too high: it divides the growth
  since the last successful read by the time since the failed one.\<close>

theorem lustre_rate_after_gap:
  assumes "lu_init m" and "distinct (map fst (lu_stats m))" and "distinct (map ld_name (lu_definitions m))"
    and "(device, dd) \<in> set (lu_stats m)" and "d \<in> set (lu_definitions m)" and "ld_calc d = ''derivative''"
    and "lustre_Read m (t1, lctl1) = Inr (m1, rs1)" and "lustre_Read m1 (t2, lctl2) = Inr (m2, rs2)"
    and "getMetricData (device_data lctl1 device) (ld_lineprefix d) (ld_lineoffset d) = Inr (y, Some err)"
    and "getMetricData (device_data lctl2 device) (ld_lineprefix d) (ld_lineoffset d) = Inr (x, None)"
    and "rate = fdiv binary64 (f64_of_int (sint (x - map_get 0 dd (ld_name d)))) (duration_seconds (time_sub t2 t1))"
    and "\<not> rate < Num 0"
  shows "lustre_request m device d (VFloat64 rate) \<in> set rs2"
proof -
  let ?n = "ld_name d"
  from lustre_Read_device [OF assms(7,1,2,4)] obtain dd1 r1 where
    run1: "run_steps (lustre_metric m (duration_seconds (time_sub t1 (lu_lastTimestamp m))) device (device_data lctl1 device))
        dd (lu_definitions m) = Inr (dd1, r1)"
    and in1: "(device, dd1) \<in> set (lu_stats m1)" and keys: "map fst (lu_stats m1) = map fst (lu_stats m)"
    and m1: "m1 = m\<lparr>lu_stats := lu_stats m1, lu_lastTimestamp := t1\<rparr>" by blast
  obtain v1 where "lustre_value (ld_calc d) (map_get 0 dd ?n) (if Some err = None then y else map_get 0 dd ?n)
      (duration_seconds (time_sub t1 (lu_lastTimestamp m))) = Some v1"
    using assms(6) by (auto simp: lustre_value_def Let_def)
  from lustre_metrics_request [OF run1 assms(5,3,9) this] have kept: "map_get 0 dd1 ?n = map_get 0 dd ?n" by simp
  have fields: "lu_init m1" "lu_definitions m1 = lu_definitions m" "lu_lastTimestamp m1 = t1" "lu_tags m1 = lu_tags m"
    "lu_meta m1 = lu_meta m"
    using assms(1) by (subst m1, simp)+
  have dist: "distinct (map fst (lu_stats m1))" using assms(2) keys by simp
  from lustre_Read_device [OF assms(8) fields(1) dist in1] fields obtain dd2 r2 where
    run2: "run_steps (lustre_metric m1 (duration_seconds (time_sub t2 t1)) device (device_data lctl2 device))
        dd1 (lu_definitions m) = Inr (dd2, r2)" and sub: "set r2 \<subseteq> set rs2" by auto
  have "lustre_value (ld_calc d) (map_get 0 dd1 ?n) (if None = (None :: goerror option) then x else map_get 0 dd1 ?n)
      (duration_seconds (time_sub t2 t1)) = Some (VFloat64 rate)"
    using assms(6,11,12) by (simp add: lustre_value_def kept Let_def)
  from lustre_metrics_request [OF run2 assms(5,3,10) this] sub have "lustre_request m1 device d (VFloat64 rate) \<in> set rs2" by blast
  moreover have "lustre_request m1 device d (VFloat64 rate) = lustre_request m device d (VFloat64 rate)"
    by (simp add: lustre_request_def fields)
  ultimately show ?thesis by simp
qed

subsection \<open>Witnesses\<close>

definition demo_lctl :: "string \<Rightarrow> string \<Rightarrow> string" where
  "demo_lctl counters device =
     (if device = ''*'' then ''llite.home.stats='' else counters)"

definition demo_lustre_config :: LustreCollectorConfig where
  "demo_lustre_config =
     \<lparr>lc_LCtlCommand = ''lctl'',
      lc_ExcludeMetrics = filter (\<lambda>n. n \<noteq> ''lustre_open_diff'' \<and> n \<noteq> ''lustre_read_bw'') (map ld_name lustre_metrics),
      lc_Sudo = False, lc_SendAbsoluteValues = False, lc_SendDerivedValues = True, lc_SendDiffValues = True\<rparr>"

definition demo_lustre :: LustreCollector where
  "demo_lustre =
     \<lparr>lu_init = True, lu_tags = [(''type'', ''node'')], lu_meta = [(''source'', ''LustreCollector''), (''group'', ''Lustre'')],
      lu_config = demo_lustre_config, lu_lctl = ''/bin/lctl'', lu_sudoCmd = [], lu_lastTimestamp = 0,
      lu_definitions = [lustre_def ''lustre_open_diff'' ''open'' 1 '''' ''difference'',
                        lustre_def ''lustre_read_bw'' ''read_bytes'' 6 ''bytes/sec'' ''derivative''],
      lu_stats = [(''home'', [(''lustre_open_diff'', 2), (''lustre_read_bw'', 0)])]\<rparr>"

lemma demo_lustre_definitions: "lu_definitions demo_lustre = lustre_definitions demo_lustre_config"
  by code_simp

lemma demo_lustre_Init:
  "lustre_Init demo_lustre_config (Some ''0'') (\<lambda>_. Some ''/bin/lctl'') 0 (demo_lctl ''open 2 x'') = Inr (Inr demo_lustre)"
  by code_simp

lemma demo_lctl_ok: "lustre_input_ok (now, demo_lctl ''open 2 x'')" "lustre_input_ok (now, demo_lctl ''open 5 x'')"
proof -
  have data: "\<forall>s \<in> {''llite.home.stats='', ''open 2 x'', ''open 5 x''}. \<forall>d \<in> set lustre_metrics.
      case getMetricData (split_on (CHR 0x0A) s) (ld_lineprefix d) (ld_lineoffset d) of
          Inr (x, None) \<Rightarrow> 0 \<le> sint x | _ \<Rightarrow> True"
    by code_simp
  show "lustre_input_ok (now, demo_lctl ''open 2 x'')" "lustre_input_ok (now, demo_lctl ''open 5 x'')"
    using data by (auto simp: lustre_input_ok_def device_data_def demo_lctl_def)
qed

lemma lustre_differences_accounted_witness:
  "\<exists>m' rs. run_steps lustre_Read demo_lustre [(1000000000, demo_lctl ''open 5 x'')] = Inr (m', rs) \<and>
     lustre_counter m' (''home'', ''lustre_open_diff'') = 5 \<and>
     sum_list (map (lustre_amount (''home'', ''lustre_open_diff'')) rs) = 3"
proof -
  let ?k = "(''home'', ''lustre_open_diff'')" and ?in = "[(1000000000, demo_lctl ''open 5 x'')]"
  obtain m' rs where run: "run_steps lustre_Read demo_lustre ?in = Inr (m', rs)"
    and c: "lustre_counter m' ?k = 5"
  proof -
    have "case run_steps lustre_Read demo_lustre ?in of Inl _ \<Rightarrow> False | Inr (m', _) \<Rightarrow> lustre_counter m' ?k = 5"
      by code_simp
    then show thesis using that by (auto split: sum.splits)
  qed
  have "rises lustre_Read (\<lambda>m. lustre_counter m ?k) demo_lustre ?in" by code_simp
  moreover have "lustre_counter demo_lustre ?k = 2" by code_simp
  ultimately show ?thesis
    using lustre_differences_accounted [OF demo_lustre_Init demo_lctl_ok(1) _ run, of ?k] demo_lctl_ok(2) run c by auto
qed

lemma lustre_Read_panics_iff_witness:
  "\<exists>p. lustre_Read demo_lustre (1, demo_lctl ''read_bytes 2'') = Inl p"
proof -
  have "\<exists>e \<in> set (lu_stats demo_lustre). \<exists>d \<in> set (lu_definitions demo_lustre).
      short_line (device_data (demo_lctl ''read_bytes 2'') (fst e)) d" by code_simp
  moreover have "lu_init demo_lustre" by (simp add: demo_lustre_def)
  ultimately show ?thesis using lustre_Read_panics_iff [OF _ demo_lustre_definitions] by blast
qed

text \<open>4000 bytes read in two seconds, of which one read missed the first: the rate sent is 4000 per second.\<close>

lemma lustre_rate_after_gap_witness:
  "\<exists>m1 rs1 m2 rs2. lustre_Read demo_lustre (1000000000, demo_lctl '''') = Inr (m1, rs1) \<and>
     lustre_Read m1 (2000000000, demo_lctl ''read_bytes 1 2 3 4 5 4000'') = Inr (m2, rs2) \<and>
     lustre_request demo_lustre ''home'' (lustre_def ''lustre_read_bw'' ''read_bytes'' 6 ''bytes/sec'' ''derivative'')
       (VFloat64 (Num 4000)) \<in> set rs2"
proof -
  let ?d = "lustre_def ''lustre_read_bw'' ''read_bytes'' 6 ''bytes/sec'' ''derivative''"
  let ?dd = "[(''lustre_open_diff'', 2), (''lustre_read_bw'', 0)] :: (string \<times> goint) list"
  have "case lustre_Read demo_lustre (1000000000, demo_lctl '''') of Inl _ \<Rightarrow> False
        | Inr (m1, _) \<Rightarrow> (case lustre_Read m1 (2000000000, demo_lctl ''read_bytes 1 2 3 4 5 4000'') of Inl _ \<Rightarrow> False | Inr _ \<Rightarrow> True)"
    by code_simp
  then obtain m1 rs1 m2 rs2 where reads: "lustre_Read demo_lustre (1000000000, demo_lctl '''') = Inr (m1, rs1)"
    "lustre_Read m1 (2000000000, demo_lctl ''read_bytes 1 2 3 4 5 4000'') = Inr (m2, rs2)"
    by (auto split: sum.splits)
  have state: "lu_init demo_lustre" "distinct (map fst (lu_stats demo_lustre))"
    "distinct (map ld_name (lu_definitions demo_lustre))" "(''home'', ?dd) \<in> set (lu_stats demo_lustre)"
    "?d \<in> set (lu_definitions demo_lustre)" "ld_calc ?d = ''derivative''"
    by (simp_all add: demo_lustre_def lustre_def_def)
  have data: "getMetricData (device_data (demo_lctl '''') ''home'') (ld_lineprefix ?d) (ld_lineoffset ?d)
      = Inr (0, Some (GoError ''no such line in data''))"
    "getMetricData (device_data (demo_lctl ''read_bytes 1 2 3 4 5 4000'') ''home'') (ld_lineprefix ?d) (ld_lineoffset ?d)
      = Inr (4000, None)"
    "Num 4000 = fdiv binary64 (f64_of_int (sint (4000 - map_get 0 ?dd (ld_name ?d))))
      (duration_seconds (time_sub 2000000000 1000000000))" "\<not> Num 4000 < Num 0"
    by code_simp+
  from lustre_rate_after_gap [OF state reads data] reads show ?thesis by blast
qed

end
