(* ===== verification/Gpfs_Collector.thy ===== *)
theory Gpfs_Collector
  imports Collector_Base
begin

text \<open>
  \<open>collectors/gpfsMetric.go\<close>: the I/O statistics that \<open>mmpmon\<close> prints for the GPFS file
  systems, as absolute values, differences, rates and totals. The output of the program is an
  input (\<open>None\<close>: it failed), so are the user and the search path. The specification at the end
  works on samples: one file system at one time with its counters.
\<close>

subsection \<open>State\<close>

type_synonym GpfsCollectorState = "(string \<times> goint) list"

record GpfsCollectorConfig =
  gc_Mmpmon :: string
  gc_ExcludeFilesystems :: "string list"
  gc_ExcludeMetrics :: "string list"
  gc_Sudo :: bool
  gc_SendAbsoluteValues :: bool
  gc_SendDiffValues :: bool
  gc_SendDerivedValues :: bool
  gc_SendTotalValues :: bool
  gc_SendBandwidths :: bool

record GpfsMetricDefinition =
  gd_name :: string
  gd_prefix :: string
  gd_unit :: string
  gd_calc :: string

record GpfsCollector =
  gp_init :: bool
  gp_tags :: tagmap
  gp_meta :: tagmap
  gp_config :: GpfsCollectorConfig
  gp_sudoCmd :: string
  gp_skipFS :: "string list"
  gp_lastTimestamp :: "(string \<times> gotime) list"
  gp_definitions :: "GpfsMetricDefinition list"
  gp_lastState :: "(string \<times> GpfsCollectorState) list"

text \<open>The tables; the descriptions are used in log messages only.\<close>

definition gpfs_def :: "string \<Rightarrow> string \<Rightarrow> string \<Rightarrow> string \<Rightarrow> GpfsMetricDefinition" where
  "gpfs_def name prefix unit calc = \<lparr>gd_name = name, gd_prefix = prefix, gd_unit = unit, gd_calc = calc\<rparr>"

definition GpfsAbsMetrics :: "GpfsMetricDefinition list" where
  "GpfsAbsMetrics =
     [gpfs_def ''gpfs_num_opens'' ''_oc_'' ''requests'' ''none'',
      gpfs_def ''gpfs_num_closes'' ''_cc_'' ''requests'' ''none'',
      gpfs_def ''gpfs_num_reads'' ''_rdc_'' ''requests'' ''none'',
      gpfs_def ''gpfs_num_writes'' ''_wc_'' ''requests'' ''none'',
      gpfs_def ''gpfs_num_readdirs'' ''_dir_'' ''requests'' ''none'',
      gpfs_def ''gpfs_num_inode_updates'' ''_iu_'' ''requests'' ''none'',
      gpfs_def ''gpfs_bytes_read'' ''_br_'' ''bytes'' ''none'',
      gpfs_def ''gpfs_bytes_written'' ''_bw_'' ''bytes'' ''none'']"

definition GpfsDiffMetrics :: "GpfsMetricDefinition list" where
  "GpfsDiffMetrics =
     [gpfs_def ''gpfs_num_opens_diff'' ''_oc_'' ''requests'' ''difference'',
      gpfs_def ''gpfs_num_closes_diff'' ''_cc_'' ''requests'' ''difference'',
      gpfs_def ''gpfs_num_reads_diff'' ''_rdc_'' ''requests'' ''difference'',
      gpfs_def ''gpfs_num_writes_diff'' ''_wc_'' ''requests'' ''difference'',
      gpfs_def ''gpfs_num_readdirs_diff'' ''_dir_'' ''requests'' ''difference'',
      gpfs_def ''gpfs_num_inode_updates_diff'' ''_iu_'' ''requests'' ''difference'',
      gpfs_def ''gpfs_bytes_read_diff'' ''_br_'' ''bytes'' ''difference'',
      gpfs_def ''gpfs_bytes_written_diff'' ''_bw_'' ''bytes'' ''difference'']"

definition GpfsDeriveMetrics :: "GpfsMetricDefinition list" where
  "GpfsDeriveMetrics =
     [gpfs_def ''gpfs_opens_rate'' ''_oc_'' ''requests/sec'' ''derivative'',
      gpfs_def ''gpfs_closes_rate'' ''_oc_'' ''requests/sec'' ''derivative'',
      gpfs_def ''gpfs_reads_rate'' ''_rdc_'' ''requests/sec'' ''derivative'',
      gpfs_def ''gpfs_writes_rate'' ''_wc_'' ''requests/sec'' ''derivative'',
      gpfs_def ''gpfs_readdirs_rate'' ''_dir_'' ''requests/sec'' ''derivative'',
      gpfs_def ''gpfs_inode_updates_rate'' ''_iu_'' ''requests/sec'' ''derivative'',
      gpfs_def ''gpfs_bw_read'' ''_br_'' ''bytes/sec'' ''derivative'',
      gpfs_def ''gpfs_bw_write'' ''_bw_'' ''bytes/sec'' ''derivative'']"

definition GpfsTotalMetrics :: "GpfsMetricDefinition list" where
  "GpfsTotalMetrics =
     [gpfs_def ''gpfs_bytes_total'' ''bytesTotal'' ''bytes'' ''none'',
      gpfs_def ''gpfs_bytes_total_diff'' ''bytesTotal'' ''bytes'' ''difference'',
      gpfs_def ''gpfs_bw_total'' ''bytesTotal'' ''bytes/sec'' ''derivative'',
      gpfs_def ''gpfs_iops'' ''iops'' ''requests'' ''none'',
      gpfs_def ''gpfs_iops_diff'' ''iops'' ''requests'' ''difference'',
      gpfs_def ''gpfs_iops_rate'' ''iops'' ''requests/sec'' ''derivative'',
      gpfs_def ''gpfs_metaops'' ''metaops'' ''requests'' ''none'',
      gpfs_def ''gpfs_metaops_diff'' ''metaops'' ''requests'' ''difference'',
      gpfs_def ''gpfs_metaops_rate'' ''metaops'' ''requests/sec'' ''derivative'']"

subsection \<open>Init\<close>

definition gpfs_derived :: "GpfsCollectorConfig \<Rightarrow> GpfsMetricDefinition list" where
  "gpfs_derived cfg =
     (if gc_SendDerivedValues cfg then GpfsDeriveMetrics
      else if gc_SendBandwidths cfg then filter (\<lambda>d. gd_unit d = ''bytes/sec'') GpfsDeriveMetrics else [])"

definition gpfs_totals :: "GpfsCollectorConfig \<Rightarrow> GpfsMetricDefinition list" where
  "gpfs_totals cfg =
     (if gc_SendTotalValues cfg
      then filter (\<lambda>d. (gd_calc d = ''none'' \<and> gc_SendAbsoluteValues cfg) \<or>
                       (gd_calc d = ''difference'' \<and> gc_SendDiffValues cfg) \<or>
                       (gd_calc d = ''derivative'' \<and> gc_SendDerivedValues cfg)) GpfsTotalMetrics
      else if gc_SendBandwidths cfg then filter (\<lambda>d. gd_unit d = ''bytes/sec'') GpfsTotalMetrics else [])"

definition gpfs_definitions :: "GpfsCollectorConfig \<Rightarrow> GpfsMetricDefinition list" where
  "gpfs_definitions cfg =
     filter (\<lambda>d. gd_name d \<notin> set (gc_ExcludeMetrics cfg))
       ((if gc_SendAbsoluteValues cfg then GpfsAbsMetrics else []) @
        (if gc_SendDiffValues cfg then GpfsDiffMetrics else []) @
        gpfs_derived cfg @ gpfs_totals cfg)"

text \<open>\<open>exec.LookPath\<close>: the path, \<open>EACCES\<close>, or another error.\<close>

datatype look_path = Found string | NoAccess | NotFound

text \<open>The configuration is the decoded one, with \<open>mmpmon\<close> as the default command.\<close>

definition gpfs_Init ::
  "GpfsCollectorConfig \<Rightarrow> string option \<Rightarrow> (string \<Rightarrow> look_path) \<Rightarrow> GpfsCollector \<Rightarrow> goerror + GpfsCollector" where
  "gpfs_Init cfg uid look m =
     (if gp_init m then Inr m
      else if \<not> gc_Sudo cfg \<and> uid = None then Inl (GoError ''failed to get current user'')
      else if \<not> gc_Sudo cfg \<and> uid \<noteq> Some ''0'' then Inl (GoError ''can only be queried by user root'')
      else case (if gc_Sudo cfg then look ''sudo'' else Found []) of
        NoAccess \<Rightarrow> Inl (GoError ''cannot find sudo'')
      | NotFound \<Rightarrow> Inl (GoError ''cannot find sudo'')
      | Found sudo \<Rightarrow>
          (if gc_Sudo cfg \<and> \<not> has_prefix (gc_Mmpmon cfg) ''/'' then Inl (GoError ''mmpmon_path must be absolute'')
           else case (case look (gc_Mmpmon cfg) of
                        Found p \<Rightarrow> Some p
                      | NoAccess \<Rightarrow> if gc_Sudo cfg then Some (gc_Mmpmon cfg) else None
                      | NotFound \<Rightarrow> None) of
             None \<Rightarrow> Inl (GoError ''failed to find mmpmon binary'')
           | Some p \<Rightarrow>
               (if gpfs_definitions cfg = [] then Inl (GoError ''no metrics to collect'')
                else Inr \<lparr>gp_init = True, gp_tags = [(''type'', ''node''), (''filesystem'', '''')],
                       gp_meta = [(''source'', ''GpfsCollector''), (''group'', ''GPFS'')],
                       gp_config = cfg\<lparr>gc_Mmpmon := p\<rparr>, gp_sudoCmd = sudo, gp_skipFS = gc_ExcludeFilesystems cfg,
                       gp_lastTimestamp = [], gp_definitions = gpfs_definitions cfg, gp_lastState = []\<rparr>)))"

subsection \<open>Read and Close\<close>

text \<open>\<open>lineSplit[i]\<close> and \<open>lineSplit[i+1]\<close> for \<open>i = 1, 3, ...\<close>: an odd rest panics.\<close>

fun key_values :: "string list \<Rightarrow> (string \<times> string) list \<Rightarrow> (string \<times> string) list run" where
  "key_values [] kv = Inr kv"
| "key_values [k] kv = Inl IndexOutOfRange"
| "key_values (k # v # ws) kv = key_values ws (map_put k v kv)"

text \<open>\<open>time.Unix(sec, nsec)\<close> on the time line that starts with Go's zero time.\<close>

definition time_unix :: "goint \<Rightarrow> goint \<Rightarrow> gotime" where
  "time_unix sec nsec = (62135596800 + sint sec) * 1000000000 + sint nsec"

definition gpfs_abs_state :: "(string \<times> string) list \<Rightarrow> GpfsCollectorState" where
  "gpfs_abs_state kv =
     fold (\<lambda>d st. case parse_int 10 (map_get [] kv (gd_prefix d)) of
                    (v, None) \<Rightarrow> map_put (gd_prefix d) v st | _ \<Rightarrow> st) GpfsAbsMetrics []"

definition gpfs_add_total :: "string \<times> string \<Rightarrow> GpfsCollectorState \<Rightarrow> GpfsCollectorState" where
  "gpfs_add_total e st =
     (case e of (src, dst) \<Rightarrow>
        (case map_of st src of None \<Rightarrow> st | Some v \<Rightarrow> map_put dst (map_get 0 st dst + v) st))"

definition gpfs_newstate :: "(string \<times> string) list \<Rightarrow> GpfsCollectorState" where
  "gpfs_newstate kv =
     fold gpfs_add_total
       [(''_br_'', ''bytesTotal''), (''_bw_'', ''bytesTotal''), (''_rdc_'', ''iops''), (''_wc_'', ''iops''),
        (''_oc_'', ''metaops''), (''_cc_'', ''metaops''), (''_dir_'', ''metaops''), (''_iu_'', ''metaops'')]
       (gpfs_abs_state kv)"

text \<open>The value of a metric; \<open>None\<close> when it could not be computed. An untyped \<open>0\<close> is an \<open>int\<close>.\<close>

definition gpfs_value ::
  "GpfsMetricDefinition \<Rightarrow> goint option \<Rightarrow> goint option \<Rightarrow> gofloat \<Rightarrow> unit govalue option" where
  "gpfs_value d vold vnew timeDiff =
     (if gd_calc d = ''none'' then (case vnew of Some v \<Rightarrow> Some (VInt64 v) | None \<Rightarrow> map_option VInt64 vold)
      else if gd_calc d = ''difference''
           then (case (vnew, vold) of
                   (Some new, Some old) \<Rightarrow> Some (let x = new - old in if sint x < 0 then VInt 0 else VInt64 x)
                 | (None, Some _) \<Rightarrow> Some (VInt 0)
                 | _ \<Rightarrow> None)
      else if gd_calc d = ''derivative''
           then (case (vnew, vold) of
                   (Some new, Some old) \<Rightarrow>
                     Some (if Num 0 < timeDiff
                           then (let x = fdiv binary64 (f64_of_int (sint (new - old))) timeDiff
                                 in if x < Num 0 then VFloat64 (Num 0) else VFloat64 x)
                           else VFloat64 (Num 0))
                 | (None, Some _) \<Rightarrow> Some (VFloat64 (Num 0))
                 | _ \<Rightarrow> None)
      else None)"

definition gpfs_requests ::
  "tagmap \<Rightarrow> tagmap \<Rightarrow> GpfsMetricDefinition list \<Rightarrow> GpfsCollectorState \<Rightarrow> GpfsCollectorState \<Rightarrow> gotime \<Rightarrow> gofloat \<Rightarrow>
   request list" where
  "gpfs_requests tags meta defs old new timestamp timeDiff =
     List.map_filter (\<lambda>d.
       map_option (\<lambda>v.
         let r = \<lparr>rq_name = gd_name d, rq_tags = tags, rq_meta = meta, rq_value = v, rq_time = Some timestamp\<rparr>
         in if gd_unit d \<noteq> [] then add_meta ''unit'' (gd_unit d) r else r)
       (gpfs_value d (map_of old (gd_prefix d)) (map_of new (gd_prefix d)) timeDiff)) defs"

text \<open>The numbers at the start of a statistics line: return code, seconds, microseconds.\<close>

definition gpfs_header :: "(string \<times> string) list \<Rightarrow> gotime option" where
  "gpfs_header kv =
     (case atoi (map_get [] kv ''_rc_'') of
        None \<Rightarrow> None
      | Some rc \<Rightarrow>
          (if rc \<noteq> 0 then None
           else case parse_int 10 (map_get [] kv ''_t_'') of
             (_, Some _) \<Rightarrow> None
           | (sec, None) \<Rightarrow>
               (case parse_int 10 (map_get [] kv ''_tu_'') of
                  (_, Some _) \<Rightarrow> None
                | (msec, None) \<Rightarrow> Some (time_unix sec (msec * 1000)))))"

definition gpfs_line :: "GpfsCollector \<Rightarrow> string \<Rightarrow> (GpfsCollector \<times> request list) run" where
  "gpfs_line m line =
     (let lineSplit = str_fields line in
      run_bind (at_index lineSplit 0) (\<lambda>w.
      if w \<noteq> ''_fs_io_s_'' then Inr (m, [])
      else run_bind (key_values (tl lineSplit) []) (\<lambda>kv.
        case map_of kv ''_fs_'' of
          None \<Rightarrow> Inr (m, [])
        | Some fs \<Rightarrow>
            (if fs \<in> set (gp_skipFS m) then Inr (m, [])
             else let m1 = m\<lparr>gp_tags := map_put ''filesystem'' fs (gp_tags m),
                             gp_lastState := (if map_of (gp_lastState m) fs = None
                                              then map_put fs [] (gp_lastState m) else gp_lastState m)\<rparr>
                  in case gpfs_header kv of
                       None \<Rightarrow> Inr (m1, [])
                     | Some timestamp \<Rightarrow>
                         (let known = map_of (gp_lastTimestamp m1) fs;
                              timeDiff = (case known of None \<Rightarrow> Num 0
                                          | Some t \<Rightarrow> duration_seconds (time_sub timestamp t));
                              m2 = (if known = None then m1\<lparr>gp_lastTimestamp := map_put fs 0 (gp_lastTimestamp m1)\<rparr> else m1);
                              newstate = gpfs_newstate kv;
                              rs = gpfs_requests (gp_tags m2) (gp_meta m2) (gp_definitions m2)
                                     (map_get [] (gp_lastState m2) fs) newstate timestamp timeDiff;
                              m3 = (if newstate \<noteq> []
                                    then m2\<lparr>gp_lastState := map_put fs newstate (gp_lastState m2),
                                            gp_lastTimestamp := map_put fs timestamp (gp_lastTimestamp m2)\<rparr>
                                    else m2)
                          in Inr (m3, rs))))))"

definition gpfs_Read :: "GpfsCollector \<Rightarrow> string option \<Rightarrow> (GpfsCollector \<times> request list) run" where
  "gpfs_Read m output =
     (if \<not> gp_init m then Inr (m, [])
      else case output of
        None \<Rightarrow> Inr (m, [])
      | Some stdout \<Rightarrow> run_steps gpfs_line m (file_lines stdout))"

definition gpfs_Close :: "GpfsCollector \<Rightarrow> GpfsCollector" where
  "gpfs_Close m = m\<lparr>gp_init := False\<rparr>"

subsection \<open>Samples\<close>

text \<open>
  The specification. A line of the output that describes a file system in order is a sample:
  the file system, the time \<open>mmpmon\<close> took it, and its counters. What is sent for a sample
  depends on the last sample of the same file system, and on nothing else.
\<close>

type_synonym gpfs_history = "string \<Rightarrow> (gotime \<times> GpfsCollectorState) option"

definition gpfs_sample :: "string list \<Rightarrow> string \<Rightarrow> (string \<times> gotime \<times> GpfsCollectorState) option" where
  "gpfs_sample skip line =
     (case str_fields line of
        w # ws \<Rightarrow>
          (if w \<noteq> ''_fs_io_s_'' then None
           else case key_values ws [] of
             Inl _ \<Rightarrow> None
           | Inr kv \<Rightarrow>
               (case (map_of kv ''_fs_'', gpfs_header kv) of
                  (Some fs, Some t) \<Rightarrow> if fs \<in> set skip then None else Some (fs, t, gpfs_newstate kv)
                | _ \<Rightarrow> None))
      | [] \<Rightarrow> None)"

definition sample_tags :: "string \<Rightarrow> tagmap" where
  "sample_tags fs = [(''type'', ''node''), (''filesystem'', fs)]"

definition sample_requests ::
  "tagmap \<Rightarrow> GpfsMetricDefinition list \<Rightarrow> gpfs_history \<Rightarrow> string \<times> gotime \<times> GpfsCollectorState \<Rightarrow> request list" where
  "sample_requests meta defs h s =
     (case s of (fs, t, new) \<Rightarrow>
        (case h fs of
           None \<Rightarrow> gpfs_requests (sample_tags fs) meta defs [] new t (Num 0)
         | Some (t0, old) \<Rightarrow> gpfs_requests (sample_tags fs) meta defs old new t (duration_seconds (time_sub t t0))))"

definition sample_update :: "gpfs_history \<Rightarrow> string \<times> gotime \<times> GpfsCollectorState \<Rightarrow> gpfs_history" where
  "sample_update h s = (case s of (fs, t, new) \<Rightarrow> if new = [] then h else h(fs \<mapsto> (t, new)))"

fun sample_run ::
  "tagmap \<Rightarrow> GpfsMetricDefinition list \<Rightarrow> gpfs_history \<Rightarrow> (string \<times> gotime \<times> GpfsCollectorState) list \<Rightarrow> request list" where
  "sample_run meta defs h [] = []"
| "sample_run meta defs h (s # ss) = sample_requests meta defs h s @ sample_run meta defs (sample_update h s) ss"

text \<open>The history that the state of the collector stands for.\<close>

definition history_of :: "(string \<times> GpfsCollectorState) list \<Rightarrow> (string \<times> gotime) list \<Rightarrow> gpfs_history" where
  "history_of states stamps fs =
     (case (map_of states fs, map_of stamps fs) of
        (Some st, Some t) \<Rightarrow> if st = [] then None else Some (t, st)
      | _ \<Rightarrow> None)"

definition gpfs_abs :: "GpfsCollector \<Rightarrow> gpfs_history" where
  "gpfs_abs m = history_of (gp_lastState m) (gp_lastTimestamp m)"

text \<open>A stored state has a time stamp.\<close>

definition timed :: "(string \<times> GpfsCollectorState) list \<Rightarrow> (string \<times> gotime) list \<Rightarrow> bool" where
  "timed states stamps = (\<forall>fs st. map_of states fs = Some st \<longrightarrow> st \<noteq> [] \<longrightarrow> map_of stamps fs \<noteq> None)"

definition gpfs_ok :: "GpfsCollector \<Rightarrow> bool" where
  "gpfs_ok m = ((\<exists>fs. gp_tags m = sample_tags fs) \<and> timed (gp_lastState m) (gp_lastTimestamp m))"

lemma history_new_fs [simp]:
  "map_of states fs = None \<Longrightarrow> history_of (map_put fs [] states) stamps = history_of states stamps"
  by (simp add: fun_eq_iff history_of_def split: option.split)

lemma history_no_time [simp]:
  assumes "timed states stamps" and "map_of stamps fs = None"
  shows "history_of states (map_put fs t stamps) = history_of states stamps"
proof
  fix x
  show "history_of states (map_put fs t stamps) x = history_of states stamps x"
  proof (cases "x = fs")
    case True
    with assms have "map_of states fs = Some st \<Longrightarrow> st = []" for st unfolding timed_def by blast
    with True show ?thesis by (simp add: history_of_def assms(2) split: option.split)
  qed (simp add: history_of_def)
qed

lemma history_put [simp]:
  "new \<noteq> [] \<Longrightarrow> history_of (map_put fs new states) (map_put fs t stamps) = (history_of states stamps)(fs \<mapsto> (t, new))"
  by (simp add: fun_eq_iff history_of_def)

lemma timed_put [simp]:
  "timed states stamps \<Longrightarrow> timed (map_put fs [] states) stamps"
  "timed states stamps \<Longrightarrow> timed states (map_put fs t stamps)"
  "timed states stamps \<Longrightarrow> timed (map_put fs new states) (map_put fs t stamps)"
  by (auto simp: timed_def)

lemma map_put_again [simp]: "map_put k v (map_put k w m) = map_put k v m"
proof (cases "k \<in> fst ` set m")
  case True
  moreover from this have "k \<in> fst ` set (map (\<lambda>(k', v'). if k' = k then (k, w) else (k', v')) m)"
    by force
  ultimately show ?thesis by (auto simp: map_put_def)
next
  case False
  then have "map (\<lambda>(k', v'). if k' = k then (k, v) else (k', v')) m = m"
    by (intro map_idI) (auto simp: image_iff split: prod.splits)
  with False show ?thesis by (simp add: map_put_def)
qed

lemma sample_run_append:
  "sample_run meta defs h (xs @ ys) = sample_run meta defs h xs @ sample_run meta defs (foldl sample_update h xs) ys"
  by (induction xs arbitrary: h) simp_all

lemma gpfs_value_fresh: "gpfs_value d None v td = gpfs_value d None v td'"
  by (simp add: gpfs_value_def split: option.split)

lemma gpfs_requests_fresh: "gpfs_requests tags meta defs [] new t td = gpfs_requests tags meta defs [] new t td'"
  unfolding gpfs_requests_def map_of.simps by (subst gpfs_value_fresh [of _ _ td td']) (rule refl)

lemma put_filesystem: "map_put ''filesystem'' fs (sample_tags fs') = sample_tags fs"
  by (simp add: map_put_def sample_tags_def)

definition same_setup :: "GpfsCollector \<Rightarrow> GpfsCollector \<Rightarrow> bool" where
  "same_setup m m' =
     (gp_init m' = gp_init m \<and> gp_meta m' = gp_meta m \<and> gp_definitions m' = gp_definitions m \<and> gp_skipFS m' = gp_skipFS m)"

text \<open>One line: what it sends, and the history afterwards.\<close>

lemma gpfs_line_no_sample:
  assumes run: "gpfs_line m line = Inr (m', rs)" and ok: "gpfs_ok m" and none: "gpfs_sample (gp_skipFS m) line = None"
  shows "rs = [] \<and> gpfs_ok m' \<and> gpfs_abs m' = gpfs_abs m \<and> same_setup m m'"
proof -
  from run obtain w ws where ws: "str_fields line = w # ws"
    by (cases "str_fields line") (auto simp: gpfs_line_def at_index_def)
  show ?thesis
  proof (cases "w = ''_fs_io_s_''")
    case False
    with run ok show ?thesis by (simp add: gpfs_line_def ws at_index_def same_setup_def)
  next
    case True
    with run ws obtain kv where kv: "key_values ws [] = Inr kv"
      by (auto simp: gpfs_line_def at_index_def run_simps)
    show ?thesis
    proof (cases "map_of kv ''_fs_'' = None \<or> the (map_of kv ''_fs_'') \<in> set (gp_skipFS m)")
      case skip: True
      then have "gpfs_line m line = Inr (m, [])"
        by (cases "map_of kv ''_fs_''") (auto simp: gpfs_line_def ws at_index_def True kv)
      with run ok show ?thesis by (simp add: same_setup_def)
    next
      case False
      then obtain fs where fs: "map_of kv ''_fs_'' = Some fs" "fs \<notin> set (gp_skipFS m)" by auto
      with none ws True kv have "gpfs_header kv = None" by (auto simp: gpfs_sample_def split: option.splits)
      with run ok fs True kv ws show ?thesis
        by (auto simp: gpfs_line_def at_index_def put_filesystem gpfs_ok_def gpfs_abs_def same_setup_def)
    qed
  qed
qed

lemma gpfs_line_sample:
  assumes "gpfs_line m line = Inr (m', rs)" and "gpfs_ok m" and s: "gpfs_sample (gp_skipFS m) line = Some (fs, t, new)"
  shows "rs = sample_requests (gp_meta m) (gp_definitions m) (gpfs_abs m) (fs, t, new) \<and> gpfs_ok m' \<and>
         gpfs_abs m' = sample_update (gpfs_abs m) (fs, t, new) \<and> same_setup m m'"
proof -
  from s obtain ws kv where ws: "str_fields line = ''_fs_io_s_'' # ws" and kv: "key_values ws [] = Inr kv"
    and fs: "map_of kv ''_fs_'' = Some fs" and t: "gpfs_header kv = Some t" and skip: "fs \<notin> set (gp_skipFS m)"
    and new: "new = gpfs_newstate kv"
    by (auto simp: gpfs_sample_def split: list.splits if_splits option.splits sum.splits)
  from assms(2) obtain fs0 where tags: "gp_tags m = sample_tags fs0" by (auto simp: gpfs_ok_def)
  let ?known = "map_of (gp_lastTimestamp m) fs"
  let ?td = "case ?known of None \<Rightarrow> Num 0 | Some t0 \<Rightarrow> duration_seconds (time_sub t t0)"
  let ?old = "map_get [] (gp_lastState m) fs"
  have old: "map_get [] (if map_of (gp_lastState m) fs = None then map_put fs [] (gp_lastState m) else gp_lastState m) fs = ?old"
    by (simp add: map_get_def)
  have rs: "rs = gpfs_requests (sample_tags fs) (gp_meta m) (gp_definitions m) ?old new t ?td"
    using assms(1) old unfolding gpfs_line_def
    by (auto simp: ws at_index_def kv fs t skip Let_def tags put_filesystem new split: if_splits)
  have "rs = sample_requests (gp_meta m) (gp_definitions m) (gpfs_abs m) (fs, t, new)"
  proof (cases "gpfs_abs m fs")
    case None
    have "?old = []"
    proof (rule ccontr)
      assume "?old \<noteq> []"
      then obtain st where "map_of (gp_lastState m) fs = Some st" "st \<noteq> []" by (auto simp: map_get_def split: option.splits)
      moreover from this assms(2) obtain t0 where "?known = Some t0" by (auto simp: gpfs_ok_def timed_def)
      ultimately show False using None by (simp add: gpfs_abs_def history_of_def)
    qed
    with None gpfs_requests_fresh [of "sample_tags fs" "gp_meta m" "gp_definitions m" new t ?td "Num 0"] rs
    show ?thesis by (simp add: sample_requests_def)
  next
    case (Some a)
    then obtain t0 st where "map_of (gp_lastState m) fs = Some st" "?known = Some t0" "a = (t0, st)"
      by (auto simp: gpfs_abs_def history_of_def split: option.splits if_splits)
    with Some rs show ?thesis by (simp add: sample_requests_def map_get_def)
  qed
  moreover have "gpfs_ok m' \<and> gpfs_abs m' = sample_update (gpfs_abs m) (fs, t, new) \<and> same_setup m m'"
    using assms(1,2) unfolding gpfs_line_def
    by (auto simp: ws at_index_def kv fs t skip Let_def tags put_filesystem new gpfs_ok_def gpfs_abs_def sample_update_def
        same_setup_def split: if_splits)
  ultimately show ?thesis by blast
qed

lemma map_filter_Cons: "List.map_filter f (x # xs) = (case f x of None \<Rightarrow> [] | Some y \<Rightarrow> [y]) @ List.map_filter f xs"
  by (simp split: option.split)

lemma gpfs_lines_samples:
  assumes "run_steps gpfs_line m lines = Inr (m', rs)" and "gpfs_ok m"
  shows "rs = sample_run (gp_meta m) (gp_definitions m) (gpfs_abs m) (List.map_filter (gpfs_sample (gp_skipFS m)) lines) \<and>
         gpfs_ok m' \<and> gpfs_abs m' = foldl sample_update (gpfs_abs m) (List.map_filter (gpfs_sample (gp_skipFS m)) lines) \<and>
         same_setup m m'"
  using assms
proof (induction lines arbitrary: m rs)
  case Nil
  then show ?case by (simp add: same_setup_def)
next
  case (Cons line lines)
  from Cons.prems(1) obtain m1 r1 r2 where line: "gpfs_line m line = Inr (m1, r1)"
    and rest: "run_steps gpfs_line m1 lines = Inr (m', r2)" and rs: "rs = r1 @ r2"
    by (auto simp: run_simps)
  show ?case
  proof (cases "gpfs_sample (gp_skipFS m) line")
    case None
    from gpfs_line_no_sample [OF line Cons.prems(2) None] Cons.IH [OF rest] None show ?thesis
      by (simp add: rs same_setup_def)
  next
    case (Some s)
    obtain fs t new where s: "s = (fs, t, new)" by (cases s)
    from gpfs_line_sample [OF line Cons.prems(2)] Some s Cons.IH [OF rest] show ?thesis
      by (simp add: rs same_setup_def)
  qed
qed

definition output_lines :: "string option \<Rightarrow> string list" where
  "output_lines out = (case out of None \<Rightarrow> [] | Some s \<Rightarrow> file_lines s)"

lemma gpfs_Read_samples:
  assumes "gpfs_Read m out = Inr (m', rs)" and "gpfs_ok m" and "gp_init m"
  shows "rs = sample_run (gp_meta m) (gp_definitions m) (gpfs_abs m)
           (List.map_filter (gpfs_sample (gp_skipFS m)) (output_lines out)) \<and> gpfs_ok m' \<and>
         gpfs_abs m' = foldl sample_update (gpfs_abs m) (List.map_filter (gpfs_sample (gp_skipFS m)) (output_lines out)) \<and>
         same_setup m m'"
proof -
  from assms(1,3) have "run_steps gpfs_line m (output_lines out) = Inr (m', rs)"
    by (auto simp: gpfs_Read_def output_lines_def split: option.splits)
  from gpfs_lines_samples [OF this assms(2)] show ?thesis .
qed

lemma gpfs_Init_ok:
  "gpfs_Init cfg uid look m0 = Inr m \<Longrightarrow> \<not> gp_init m0 \<Longrightarrow>
   gpfs_ok m \<and> gp_init m \<and> gpfs_abs m = (\<lambda>_. None) \<and> gp_skipFS m = gc_ExcludeFilesystems cfg \<and>
   gp_definitions m = gpfs_definitions cfg"
  by (auto simp: gpfs_Init_def gpfs_ok_def gpfs_abs_def history_of_def timed_def sample_tags_def fun_eq_iff
      split: if_splits look_path.splits option.splits)

subsection \<open>Errors\<close>

text \<open>A line that makes the parser index past the end: blank, or statistics with a key without a value.\<close>

definition bad_gpfs_line :: "string \<Rightarrow> bool" where
  "bad_gpfs_line line =
     (case str_fields line of [] \<Rightarrow> True | w # ws \<Rightarrow> w = ''_fs_io_s_'' \<and> odd (length ws))"

lemma key_values_panics_iff: "(\<exists>p. key_values ws kv = Inl p) \<longleftrightarrow> odd (length ws)"
  by (induction ws kv rule: key_values.induct) simp_all

lemma gpfs_line_panics_iff: "(\<exists>p. gpfs_line m line = Inl p) \<longleftrightarrow> bad_gpfs_line line"
proof (cases "str_fields line")
  case Nil
  then show ?thesis by (simp add: gpfs_line_def bad_gpfs_line_def at_index_def)
next
  case (Cons w ws)
  show ?thesis
  proof (cases "key_values ws []")
    case (Inl p)
    with key_values_panics_iff [of ws "[]"] Cons show ?thesis
      by (auto simp: gpfs_line_def bad_gpfs_line_def at_index_def)
  next
    case (Inr kv)
    with key_values_panics_iff [of ws "[]"] have "even (length ws)" by auto
    with Cons Inr show ?thesis
      by (auto simp: gpfs_line_def bad_gpfs_line_def at_index_def Let_def split: option.splits if_splits)
  qed
qed

subsection \<open>The messages of one metric\<close>

lemma gpfs_requests_of:
  "filter (\<lambda>r. rq_name r = n) (gpfs_requests tags meta defs old new t td) =
   gpfs_requests tags meta (filter (\<lambda>d. gd_name d = n) defs) old new t td"
  unfolding gpfs_requests_def
  by (induction defs) (auto simp: Let_def add_meta_def split: option.splits)

lemma sample_requests_of:
  "filter (\<lambda>r. rq_name r = n) (sample_requests meta defs h s) =
   sample_requests meta (filter (\<lambda>d. gd_name d = n) defs) h s"
  by (simp add: sample_requests_def gpfs_requests_of split: prod.split option.split)

lemma sample_run_of:
  "filter (\<lambda>r. rq_name r = n) (sample_run meta defs h ss) = sample_run meta (filter (\<lambda>d. gd_name d = n) defs) h ss"
  by (induction ss arbitrary: h) (simp_all add: sample_requests_of)

lemma gpfs_definition_of:
  assumes "gc_SendDerivedValues cfg" and "n \<notin> set (gc_ExcludeMetrics cfg)"
    and "n = ''gpfs_closes_rate'' \<or> n = ''gpfs_opens_rate''"
  shows "filter (\<lambda>d. gd_name d = n) (gpfs_definitions cfg) = [gpfs_def n ''_oc_'' ''requests/sec'' ''derivative'']"
proof -
  have others: "filter (\<lambda>d. gd_name d = n) GpfsAbsMetrics = []" "filter (\<lambda>d. gd_name d = n) GpfsDiffMetrics = []"
    "filter (\<lambda>d. gd_name d = n) (gpfs_totals cfg) = []"
  proof -
    have tables: "\<forall>d \<in> set (GpfsAbsMetrics @ GpfsDiffMetrics @ GpfsTotalMetrics).
        gd_name d \<noteq> ''gpfs_closes_rate'' \<and> gd_name d \<noteq> ''gpfs_opens_rate''"
      by code_simp
    moreover have "set (gpfs_totals cfg) \<subseteq> set GpfsTotalMetrics" by (auto simp: gpfs_totals_def)
    ultimately show "filter (\<lambda>d. gd_name d = n) GpfsAbsMetrics = []" "filter (\<lambda>d. gd_name d = n) GpfsDiffMetrics = []"
      "filter (\<lambda>d. gd_name d = n) (gpfs_totals cfg) = []"
      using assms(3) by (auto simp: filter_empty_conv)
  qed
  have derived: "filter (\<lambda>d. gd_name d = n) (gpfs_derived cfg) = [gpfs_def n ''_oc_'' ''requests/sec'' ''derivative'']"
    using assms(1,3) by (elim disjE) (simp_all add: GpfsDeriveMetrics_def gpfs_derived_def gpfs_def_def)
  have swap: "filter (\<lambda>d. gd_name d = n) (gpfs_definitions cfg) =
      filter (\<lambda>d. gd_name d \<notin> set (gc_ExcludeMetrics cfg)) (filter (\<lambda>d. gd_name d = n)
       ((if gc_SendAbsoluteValues cfg then GpfsAbsMetrics else []) @
        (if gc_SendDiffValues cfg then GpfsDiffMetrics else []) @ gpfs_derived cfg @ gpfs_totals cfg))"
    unfolding gpfs_definitions_def filter_filter by (rule filter_cong) auto
  show ?thesis using assms(2) unfolding swap filter_append
    by (simp add: if_distrib [of "filter _"] others derived gpfs_def_def del: filter_filter cong: if_cong)
qed

lemma sample_run_rename:
  "sample_run meta [gpfs_def n' p u c] h ss =
   map (\<lambda>r. r\<lparr>rq_name := n'\<rparr>) (sample_run meta [gpfs_def n p u c] h ss)"
proof (induction ss arbitrary: h)
  case (Cons s ss)
  have "gpfs_value (gpfs_def n' p u c) = gpfs_value (gpfs_def n p u c)"
    by (simp add: fun_eq_iff gpfs_value_def gpfs_def_def)
  then have "gpfs_requests tags meta [gpfs_def n' p u c] old new t td =
      map (\<lambda>r. r\<lparr>rq_name := n'\<rparr>) (gpfs_requests tags meta [gpfs_def n p u c] old new t td)" for tags old new t td
    by (simp add: gpfs_requests_def gpfs_def_def Let_def add_meta_def split: option.split)
  then have "sample_requests meta [gpfs_def n' p u c] h s =
      map (\<lambda>r. r\<lparr>rq_name := n'\<rparr>) (sample_requests meta [gpfs_def n p u c] h s)"
    by (simp add: sample_requests_def split: prod.split option.split)
  with Cons show ?case by simp
qed simp

subsection \<open>Properties\<close>


text \<open>A read panics exactly when the output has a blank line or a statistics line in which the
  last key has no value.\<close>

theorem gpfs_Read_panics_iff:
  assumes "gp_init m"
  shows "(\<exists>p. gpfs_Read m (Some out) = Inl p) \<longleftrightarrow> (\<exists>line \<in> set (file_lines out). bad_gpfs_line line)"
proof -
  have "(\<exists>p. run_steps gpfs_line m (file_lines out) = Inl p) \<longleftrightarrow> (\<exists>line \<in> set (file_lines out). bad_gpfs_line line)"
    by (rule run_steps_panics_iff [where ok = "\<lambda>_. True"]) (simp_all add: gpfs_line_panics_iff)
  with assms show ?thesis by (simp add: gpfs_Read_def)
qed

text \<open>The rate of closes is the rate of opens: whatever the output, the messages sent for
  \<open>gpfs_closes_rate\<close> are those sent for \<open>gpfs_opens_rate\<close> under the other name.\<close>

theorem gpfs_closes_rate_is_opens_rate:
  assumes "gpfs_Init cfg uid look m0 = Inr m" and "\<not> gp_init m0" and "gc_SendDerivedValues cfg"
    and "''gpfs_closes_rate'' \<notin> set (gc_ExcludeMetrics cfg)" and "''gpfs_opens_rate'' \<notin> set (gc_ExcludeMetrics cfg)"
    and "gpfs_Read m output = Inr (m', rs)"
  shows "filter (\<lambda>r. rq_name r = ''gpfs_closes_rate'') rs =
         map (\<lambda>r. r\<lparr>rq_name := ''gpfs_closes_rate''\<rparr>) (filter (\<lambda>r. rq_name r = ''gpfs_opens_rate'') rs)"
proof -
  from gpfs_Read_samples [OF assms(6)] gpfs_Init_ok [OF assms(1,2)]
  have rs: "rs = sample_run (gp_meta m) (gpfs_definitions cfg) (gpfs_abs m)
      (List.map_filter (gpfs_sample (gp_skipFS m)) (output_lines output))" by simp
  show ?thesis
    unfolding rs sample_run_of gpfs_definition_of [OF assms(3,4), simplified] gpfs_definition_of [OF assms(3,5), simplified]
    by (rule sample_run_rename)
qed

subsection \<open>Witnesses\<close>

definition demo_gpfs_config :: GpfsCollectorConfig where
  "demo_gpfs_config =
     \<lparr>gc_Mmpmon = ''mmpmon'', gc_ExcludeFilesystems = [''tmp''],
      gc_ExcludeMetrics = [''gpfs_reads_rate'', ''gpfs_writes_rate'', ''gpfs_readdirs_rate'', ''gpfs_inode_updates_rate'',
                           ''gpfs_bw_read'', ''gpfs_bw_write''],
      gc_Sudo = False, gc_SendAbsoluteValues = False, gc_SendDiffValues = False, gc_SendDerivedValues = True,
      gc_SendTotalValues = False, gc_SendBandwidths = False\<rparr>"

definition no_gpfs :: GpfsCollector where
  "no_gpfs = \<lparr>gp_init = False, gp_tags = [], gp_meta = [], gp_config = demo_gpfs_config, gp_sudoCmd = [], gp_skipFS = [],
              gp_lastTimestamp = [], gp_definitions = [], gp_lastState = []\<rparr>"

definition demo_gpfs :: GpfsCollector where
  "demo_gpfs = projr (gpfs_Init demo_gpfs_config (Some ''0'') (\<lambda>c. Found c) no_gpfs)"

lemma demo_gpfs_Init: "gpfs_Init demo_gpfs_config (Some ''0'') (\<lambda>c. Found c) no_gpfs = Inr demo_gpfs"
  by code_simp

definition demo_mmpmon :: "nat \<Rightarrow> nat \<Rightarrow> string" where
  "demo_mmpmon t opens =
     ''_fs_io_s_ _fs_ home _rc_ 0 _t_ '' @ int_digits (int t) @ '' _tu_ 0 _oc_ '' @ int_digits (int opens) @
     '' _cc_ 1 _rdc_ 0 _wc_ 0 _dir_ 0 _iu_ 0 _br_ 0 _bw_ 0''"


lemma gpfs_Read_panics_iff_witness: "\<exists>p. gpfs_Read demo_gpfs (Some (''_fs_io_s_ _fs_'')) = Inl p"
proof -
  have init: "gp_init demo_gpfs" and bad: "\<exists>line \<in> set (file_lines ''_fs_io_s_ _fs_''). bad_gpfs_line line" by code_simp+
  show ?thesis by (rule gpfs_Read_panics_iff [OF init, THEN iffD2, OF bad])
qed

text \<open>Two samples in one output: 8 opens and no close in four seconds, reported as two closes per second.\<close>

lemma gpfs_closes_rate_is_opens_rate_witness:
  "\<exists>m' rs. gpfs_Read demo_gpfs (Some (demo_mmpmon 10 5 @ [CHR 0x0A] @ demo_mmpmon 14 13)) = Inr (m', rs) \<and>
     filter (\<lambda>r. rq_name r = ''gpfs_closes_rate'') rs =
       map (\<lambda>r. r\<lparr>rq_name := ''gpfs_closes_rate''\<rparr>) (filter (\<lambda>r. rq_name r = ''gpfs_opens_rate'') rs) \<and>
     map rq_value (filter (\<lambda>r. rq_name r = ''gpfs_opens_rate'') rs) = [VFloat64 (Num 2)]"
proof -
  let ?out = "Some (demo_mmpmon 10 5 @ [CHR 0x0A] @ demo_mmpmon 14 13)"
  have "case gpfs_Read demo_gpfs ?out of Inl _ \<Rightarrow> False
        | Inr (_, rs) \<Rightarrow> map rq_value (filter (\<lambda>r. rq_name r = ''gpfs_opens_rate'') rs) = [VFloat64 (Num 2)]" by code_simp
  then obtain m' rs where run: "gpfs_Read demo_gpfs ?out = Inr (m', rs)"
    and opens: "map rq_value (filter (\<lambda>r. rq_name r = ''gpfs_opens_rate'') rs) = [VFloat64 (Num 2)]"
    by (auto split: sum.splits)
  have init: "\<not> gp_init no_gpfs" by (simp add: no_gpfs_def)
  have cfg: "gc_SendDerivedValues demo_gpfs_config" "''gpfs_closes_rate'' \<notin> set (gc_ExcludeMetrics demo_gpfs_config)"
    "''gpfs_opens_rate'' \<notin> set (gc_ExcludeMetrics demo_gpfs_config)"
    by (simp_all add: demo_gpfs_config_def)
  from gpfs_closes_rate_is_opens_rate [OF demo_gpfs_Init init cfg run] run opens show ?thesis
    by (intro exI [of _ m'] exI [of _ rs] conjI) simp_all
qed

end
