(* ===== verification/Go_Regexp.thy ===== *)
theory Go_Regexp
  imports Go_Strings
begin

text \<open>
  Go's \<open>regexp\<close> package for the expressions of the sources: a backtracking matcher with
  leftmost-first (Perl-like) preference, which is what the package documents. A match
  attempt returns all ways to match at a position, the preferred one first.
\<close>

subsection \<open>Expressions\<close>

datatype rx =
    Cls "char \<Rightarrow> bool"        \<comment> \<open>one character\<close>
  | Cat rx rx
  | Alt rx rx
  | Star bool rx            \<comment> \<open>\<open>*\<close>, preferring more (\<open>True\<close>) or fewer (\<open>False\<close>) repetitions\<close>
  | Grp string rx           \<comment> \<open>a capturing group with its name or number\<close>
  | Bol
  | Eol
  | Eps

definition Lit :: "string \<Rightarrow> rx" where
  "Lit s = foldr (\<lambda>c r. Cat (Cls (\<lambda>x. x = c)) r) s Eps"

definition Plus :: "bool \<Rightarrow> rx \<Rightarrow> rx" where
  "Plus greedy r = Cat r (Star greedy r)"

fun Seq :: "rx list \<Rightarrow> rx" where
  "Seq [] = Eps"
| "Seq [r] = r"
| "Seq (r # rs) = Cat r (Seq rs)"

text \<open>The classes \<open>\\s\<close>, \<open>[a-zA-Z]\<close> and \<open>.\<close>.\<close>

definition rx_space :: "char \<Rightarrow> bool" where
  "rx_space c = (c \<in> {CHR '' '', CHR 0x09, CHR 0x0A, CHR 0x0C, CHR 0x0D})"

definition rx_alpha :: "char \<Rightarrow> bool" where
  "rx_alpha c = (let n = (of_char c :: nat) in 65 \<le> n \<and> n \<le> 90 \<or> 97 \<le> n \<and> n \<le> 122)"

definition any_char :: "char \<Rightarrow> bool" where
  "any_char c = (c \<noteq> CHR 0x0A)"

subsection \<open>Matching\<close>

text \<open>The position, the rest of the text, and the captures so far.\<close>

type_synonym rx_state = "nat \<times> string \<times> (string \<times> string) list"

text \<open>Up to \<open>n\<close> repetitions, each of which must consume something.\<close>

primrec rx_star :: "(rx_state \<Rightarrow> rx_state list) \<Rightarrow> bool \<Rightarrow> nat \<Rightarrow> rx_state \<Rightarrow> rx_state list" where
  "rx_star f greedy 0 st = [st]"
| "rx_star f greedy (Suc n) st =
     (let more = concat (map (rx_star f greedy n)
                   (filter (\<lambda>st'. length (fst (snd st')) < length (fst (snd st))) (f st)))
      in if greedy then more @ [st] else st # more)"

primrec rx_at :: "rx \<Rightarrow> rx_state \<Rightarrow> rx_state list" where
  "rx_at (Cls p) st = (case st of (i, s, g) \<Rightarrow> (case s of [] \<Rightarrow> [] | c # t \<Rightarrow> if p c then [(Suc i, t, g)] else []))"
| "rx_at (Cat a b) st = concat (map (rx_at b) (rx_at a st))"
| "rx_at (Alt a b) st = rx_at a st @ rx_at b st"
| "rx_at (Star greedy a) st = rx_star (rx_at a) greedy (length (fst (snd st))) st"
| "rx_at (Grp name a) st =
     (case st of (i, s, g) \<Rightarrow> map (\<lambda>(j, t, g'). (j, t, map_put name (take (j - i) s) g')) (rx_at a st))"
| "rx_at Bol st = (if fst st = 0 then [st] else [])"
| "rx_at Eol st = (if fst (snd st) = [] then [st] else [])"
| "rx_at Eps st = [st]"

text \<open>The leftmost match from a position on: where it starts, where it ends and its captures.\<close>

fun rx_find :: "rx \<Rightarrow> nat \<Rightarrow> string \<Rightarrow> (nat \<times> rx_state) option" where
  "rx_find r i [] = (case rx_at r (i, [], []) of [] \<Rightarrow> None | st # _ \<Rightarrow> Some (i, st))"
| "rx_find r i (c # s) =
     (case rx_at r (i, c # s, []) of [] \<Rightarrow> rx_find r (Suc i) s | st # _ \<Rightarrow> Some (i, st))"

definition rx_matches :: "rx \<Rightarrow> string \<Rightarrow> bool" where
  "rx_matches r s = (rx_find r 0 s \<noteq> None)"

text \<open>\<open>FindStringSubmatch\<close>: the captures of the leftmost match.\<close>

definition rx_submatch :: "rx \<Rightarrow> string \<Rightarrow> (string \<times> string) list option" where
  "rx_submatch r s = map_option (\<lambda>(_, _, _, g). g) (rx_find r 0 s)"

text \<open>
  \<open>FindAllStringSubmatch\<close> and \<open>ReplaceAllString\<close> for expressions that match no empty text:
  the search goes on where the last match ended. \<open>n\<close> bounds the number of matches by the
  length of the text.
\<close>

fun rx_find_all :: "rx \<Rightarrow> nat \<Rightarrow> nat \<Rightarrow> string \<Rightarrow> (string \<times> string) list list" where
  "rx_find_all r 0 i s = []"
| "rx_find_all r (Suc n) i s =
     (case rx_find r i s of
        None \<Rightarrow> []
      | Some (_, j, t, g) \<Rightarrow> g # (if j = i then [] else rx_find_all r n j t))"

definition rx_all_submatches :: "rx \<Rightarrow> string \<Rightarrow> (string \<times> string) list list" where
  "rx_all_submatches r s = rx_find_all r (length s) 0 s"

fun rx_replace :: "rx \<Rightarrow> string \<Rightarrow> nat \<Rightarrow> nat \<Rightarrow> string \<Rightarrow> string" where
  "rx_replace r new 0 i s = s"
| "rx_replace r new (Suc n) i s =
     (case rx_find r i s of
        None \<Rightarrow> s
      | Some (b, j, t, g) \<Rightarrow> take (b - i) s @ new @ (if j = i then t else rx_replace r new n j t))"

definition rx_replace_all :: "rx \<Rightarrow> string \<Rightarrow> string \<Rightarrow> string" where
  "rx_replace_all r s new = rx_replace r new (length s) 0 s"

end
