(* ===== verification/Nfsiostat_Collector.thy ===== *)
theory Nfsiostat_Collector
  imports Collector_Base Go_Regexp
begin

text \<open>
  \<open>collectors/nfsiostatMetric.go\<close>: the byte counters of the NFS mounts in
  \<open>/proc/self/mountstats\<close>, as absolute values and rates. The content of the file (\<open>None\<close>: it
  cannot be read) and the time are inputs.
\<close>

subsection \<open>State\<close>

record NfsIOStatCollectorConfig =
  nc_ExcludeMetrics :: "string list"
  nc_ExcludeFilesystems :: "string list"
  nc_UseServerAddressAsSType :: bool
  nc_SendAbsoluteValues :: bool
  nc_SendDerivedValues :: bool

type_synonym mount_data = "(string \<times> (string \<times> goint) list) list"

record NfsIOStatCollector =
  ns_init :: bool
  ns_config :: NfsIOStatCollectorConfig
  ns_meta :: tagmap
  ns_tags :: tagmap
  ns_data :: mount_data
  ns_key :: string
  ns_lastTimestamp :: gotime

subsection \<open>Parsing\<close>

definition not_blank :: rx where
  "not_blank = Plus True (Cls (\<lambda>c. c \<noteq> CHR '' ''))"

definition deviceRegex :: rx where
  "deviceRegex =
     Seq [Lit ''device '', Grp ''server'' not_blank, Lit '' mounted on '', Grp ''mntpoint'' not_blank,
          Lit '' with fstype nfs'', Grp ''version'' (Star True (Cls is_digit)), Lit '' statvers='',
          Plus True (Cls (\<lambda>c. is_digit c \<or> c = CHR ''.''))]"

definition bytesRegex :: rx where
  "bytesRegex =
     Seq [Plus True (Cls rx_space), Lit ''bytes:'', Plus True (Cls rx_space), Grp ''nread'' not_blank, Lit '' '',
          Grp ''nwrite'' not_blank, Lit '' '', Grp ''dread'' not_blank, Lit '' '', Grp ''dwrite'' not_blank, Lit '' '',
          Grp ''nfsread'' not_blank, Lit '' '', Grp ''nfswrite'' not_blank, Lit '' '', Grp ''pageread'' not_blank,
          Lit '' '', Grp ''pagewrite'' not_blank]"

definition resolve_regex_fields :: "string \<Rightarrow> rx \<Rightarrow> (string \<times> string) list" where
  "resolve_regex_fields s regex =
     fold (\<lambda>match fields. fold (\<lambda>(name, group). map_put name group) match fields) (rx_all_submatches regex s) []"

definition mount_values :: "string list \<Rightarrow> (string \<times> string) list \<Rightarrow> (string \<times> goint) list" where
  "mount_values exclude bytes =
     fold (\<lambda>(name, sval) vs.
       if name \<in> set exclude then vs
       else case parse_int 10 sval of (v, None) \<Rightarrow> map_put name v vs | _ \<Rightarrow> vs) bytes []"

text \<open>One line: the data so far and the device whose byte line is still to come (\<open>[]\<close>: none).\<close>

definition mountstats_line ::
  "NfsIOStatCollectorConfig \<Rightarrow> string \<Rightarrow> string \<Rightarrow> mount_data \<times> (string \<times> string) list \<Rightarrow>
   mount_data \<times> (string \<times> string) list" where
  "mountstats_line cfg key l st =
     (case st of (data, current) \<Rightarrow>
        let dev = resolve_regex_fields l deviceRegex;
            current1 = (if dev \<noteq> [] \<and> map_get [] dev key \<notin> set (nc_ExcludeFilesystems cfg)
                        then (if map_get [] dev ''version'' = [] then map_put ''version'' ''3'' dev else dev)
                        else current)
        in if current1 = [] then (data, current1)
           else let bytes = resolve_regex_fields l bytesRegex
                in if bytes = [] then (data, current1)
                   else (map_put (map_get [] current1 key) (mount_values (nc_ExcludeMetrics cfg) bytes) data, []))"

definition readNfsiostats :: "NfsIOStatCollectorConfig \<Rightarrow> string \<Rightarrow> string option \<Rightarrow> mount_data" where
  "readNfsiostats cfg key content =
     (case content of
        None \<Rightarrow> []
      | Some stats \<Rightarrow> fst (fold (mountstats_line cfg key) (split_on (CHR 0x0A) stats) ([], [])))"

subsection \<open>Init\<close>

text \<open>\<open>config\<close> is the decoded configuration over the defaults (absolute values only).\<close>

definition nfsio_Init :: "NfsIOStatCollectorConfig \<Rightarrow> gotime \<Rightarrow> string option \<Rightarrow> NfsIOStatCollector" where
  "nfsio_Init config now content =
     (let key = (if nc_UseServerAddressAsSType config then ''server'' else ''mntpoint'')
      in \<lparr>ns_init = True, ns_config = config,
          ns_meta = [(''source'', ''NfsIOStatCollector''), (''group'', ''NFS''), (''unit'', ''bytes'')],
          ns_tags = [(''type'', ''node'')], ns_data = readNfsiostats config key content, ns_key = key,
          ns_lastTimestamp = now\<rparr>)"

subsection \<open>Read and Close\<close>

definition nfsio_tag :: "string \<Rightarrow> request \<Rightarrow> request" where
  "nfsio_tag mntpoint r = add_tag ''stype-id'' mntpoint (add_tag ''stype'' ''filesystem'' r)"

definition nfsio_absolute :: "NfsIOStatCollector \<Rightarrow> gotime \<Rightarrow> string \<Rightarrow> string \<Rightarrow> goint \<Rightarrow> request" where
  "nfsio_absolute m now mntpoint name v =
     nfsio_tag mntpoint \<lparr>rq_name = ''nfsio_'' @ name, rq_tags = ns_tags m, rq_meta = ns_meta m,
                         rq_value = VInt64 v, rq_time = Some now\<rparr>"

definition nfsio_rate :: "NfsIOStatCollector \<Rightarrow> gotime \<Rightarrow> gofloat \<Rightarrow> string \<Rightarrow> string \<Rightarrow> goint \<Rightarrow> goint \<Rightarrow> request" where
  "nfsio_rate m now timeDiff mntpoint name old new =
     nfsio_tag mntpoint
       (add_meta ''unit'' (if has_prefix name ''page'' then ''4K_pages/s'' else ''bytes/sec'')
          \<lparr>rq_name = ''nfsio_'' @ name @ ''_bw'', rq_tags = ns_tags m, rq_meta = ns_meta m,
           rq_value = VFloat64 (fdiv binary64 (f64_of_int (sint (new - old))) timeDiff), rq_time = Some now\<rparr>)"

text \<open>One counter of a mount point that was there before: its stored values, and the requests.\<close>

definition nfsio_value ::
  "NfsIOStatCollector \<Rightarrow> gotime \<Rightarrow> gofloat \<Rightarrow> string \<Rightarrow> (string \<times> goint) list \<Rightarrow> string \<times> goint \<Rightarrow>
   (string \<times> goint) list \<times> request list" where
  "nfsio_value m now timeDiff mntpoint old entry =
     (case entry of (name, newVal) \<Rightarrow>
        (map_put name newVal old,
         (if nc_SendAbsoluteValues (ns_config m) then [nfsio_absolute m now mntpoint name newVal] else []) @
         (if nc_SendDerivedValues (ns_config m)
          then [nfsio_rate m now timeDiff mntpoint name (map_get 0 old name) newVal] else [])))"

definition nfsio_mount ::
  "NfsIOStatCollector \<Rightarrow> gotime \<Rightarrow> gofloat \<Rightarrow> mount_data \<Rightarrow> string \<times> (string \<times> goint) list \<Rightarrow> mount_data \<times> request list" where
  "nfsio_mount m now timeDiff data entry =
     (case entry of (mntpoint, values) \<Rightarrow>
        (case map_of data mntpoint of
           Some old \<Rightarrow> (case fold_steps (nfsio_value m now timeDiff mntpoint) old values of
                         (old', rs) \<Rightarrow> (map_put mntpoint old' data, rs))
         | None \<Rightarrow> (map_put mntpoint values data, [])))"

definition nfsio_Read :: "gotime \<Rightarrow> string option \<Rightarrow> NfsIOStatCollector \<Rightarrow> NfsIOStatCollector \<times> request list" where
  "nfsio_Read now content m =
     (let timeDiff = duration_seconds (time_sub now (ns_lastTimestamp m));
          newdata = readNfsiostats (ns_config m) (ns_key m) content
      in case fold_steps (nfsio_mount m now timeDiff) (ns_data m) newdata of
           (data, rs) \<Rightarrow>
             (m\<lparr>ns_lastTimestamp := now, ns_data := filter (\<lambda>e. fst e \<in> fst ` set newdata) data\<rparr>, rs))"

definition nfsio_Close :: "NfsIOStatCollector \<Rightarrow> NfsIOStatCollector" where
  "nfsio_Close m = m\<lparr>ns_init := False\<rparr>"

subsection \<open>Rates\<close>

definition well_keyed :: "mount_data \<Rightarrow> bool" where
  "well_keyed data = (distinct (map fst data) \<and> (\<forall>e \<in> set data. distinct (map fst (snd e))))"

text \<open>What a read sends for a mount point, from its values at the previous read and now.\<close>

definition nfsio_between ::
  "NfsIOStatCollector \<Rightarrow> gotime \<Rightarrow> gotime \<Rightarrow> mount_data \<Rightarrow> string \<times> (string \<times> goint) list \<Rightarrow> request list" where
  "nfsio_between m t1 t2 before entry =
     (case entry of (mnt, vs2) \<Rightarrow>
        (case map_of before mnt of
           None \<Rightarrow> []
         | Some vs1 \<Rightarrow> concat (map (\<lambda>(name, v).
             (if nc_SendAbsoluteValues (ns_config m) then [nfsio_absolute m t2 mnt name v] else []) @
             (if nc_SendDerivedValues (ns_config m)
              then [nfsio_rate m t2 (duration_seconds (time_sub t2 t1)) mnt name (map_get 0 vs1 name) v] else [])) vs2)))"

lemma mount_values_distinct: "distinct (map fst (mount_values exclude bytes))"
proof -
  have "distinct (map fst (fold (\<lambda>(name, sval) vs. if name \<in> set exclude then vs
       else case parse_int 10 sval of (v, None) \<Rightarrow> map_put name v vs | _ \<Rightarrow> vs) bytes acc))"
    if "distinct (map fst acc)" for acc
    using that by (induction bytes arbitrary: acc) (auto simp: map_put_distinct split: prod.splits option.splits)
  then show ?thesis by (simp add: mount_values_def)
qed

lemma well_keyed_put: "well_keyed data \<Longrightarrow> distinct (map fst vs) \<Longrightarrow> well_keyed (map_put k vs data)"
  using set_map_put [of k vs data] by (auto simp: well_keyed_def map_put_distinct)

lemma mountstats_line_keyed: "well_keyed (fst st) \<Longrightarrow> well_keyed (fst (mountstats_line cfg key l st))"
  by (cases st) (simp add: mountstats_line_def Let_def well_keyed_put mount_values_distinct)

lemma readNfsiostats_keyed: "well_keyed (readNfsiostats cfg key content)"
proof -
  have "well_keyed (fst (fold (mountstats_line cfg key) ls st))" if "well_keyed (fst st)" for ls st
    using that by (induction ls arbitrary: st) (simp_all add: mountstats_line_keyed)
  from this [of "([], [])"] have "well_keyed (fst (fold (mountstats_line cfg key) ls ([], [])))" for ls
    by (simp add: well_keyed_def)
  then show ?thesis by (cases content) (simp_all add: readNfsiostats_def well_keyed_def [of "[]"])
qed

text \<open>The counters of one mount point: each is compared with the value stored before the read.\<close>

lemma nfsio_values:
  "distinct (map fst vs) \<Longrightarrow>
   snd (fold_steps (nfsio_value m now td mnt) old vs) = concat (map (\<lambda>e. snd (nfsio_value m now td mnt old e)) vs) \<and>
   (\<forall>k. map_of (fst (fold_steps (nfsio_value m now td mnt) old vs)) k =
        (case map_of vs k of None \<Rightarrow> map_of old k | Some v \<Rightarrow> Some v))"
proof (induction vs arbitrary: old)
  case (Cons e vs)
  obtain name v where e: "e = (name, v)" by (cases e)
  have fst_e: "fst (nfsio_value m now td mnt old e) = map_put name v old" by (simp add: nfsio_value_def e)
  have same: "concat (map (\<lambda>x. snd (nfsio_value m now td mnt (map_put name v old) x)) vs) =
      concat (map (\<lambda>x. snd (nfsio_value m now td mnt old x)) vs)"
  proof (rule arg_cong [of _ _ concat], rule map_cong [OF refl])
    fix x assume "x \<in> set vs"
    then have "fst x \<noteq> name" using Cons.prems by (auto simp: e)
    then show "snd (nfsio_value m now td mnt (map_put name v old) x) = snd (nfsio_value m now td mnt old x)"
      by (cases x) (simp add: nfsio_value_def map_get_def)
  qed
  have "map_of vs name = None" using Cons.prems by (simp add: e map_of_eq_None_iff)
  moreover have "distinct (map fst vs)" using Cons.prems by simp
  ultimately show ?case using Cons.IH [of "map_put name v old"] same
    by (auto simp: case_prod_beta fst_e [unfolded e] e split: option.split)
qed simp

lemma nfsio_mounts:
  assumes "well_keyed ds"
  shows "snd (fold_steps (nfsio_mount m now td) data ds) = concat (map (\<lambda>e. snd (nfsio_mount m now td data e)) ds) \<and>
         (\<forall>k. map_of (fst (fold_steps (nfsio_mount m now td) data ds)) k =
           (case map_of ds k of None \<Rightarrow> map_of data k | Some vs \<Rightarrow> map_of (fst (nfsio_mount m now td data (k, vs))) k))"
  using assms
proof (induction ds arbitrary: data)
  case (Cons e ds)
  obtain k0 vs0 where e: "e = (k0, vs0)" by (cases e)
  let ?d1 = "fst (nfsio_mount m now td data e)"
  have notin: "k0 \<notin> fst ` set ds" using Cons.prems by (simp add: well_keyed_def e)
  have keyed: "well_keyed ds"
    using Cons.prems by (simp add: well_keyed_def)
  have other: "k \<noteq> k0 \<Longrightarrow> map_of ?d1 k = map_of data k" for k
    by (simp add: nfsio_mount_def e case_prod_beta split: option.split)
  have agree: "k \<noteq> k0 \<Longrightarrow> snd (nfsio_mount m now td ?d1 (k, vs)) = snd (nfsio_mount m now td data (k, vs)) \<and>
      map_of (fst (nfsio_mount m now td ?d1 (k, vs))) k = map_of (fst (nfsio_mount m now td data (k, vs))) k" for k vs
    using other [of k] by (simp add: nfsio_mount_def case_prod_beta split: option.split)
  have reqs: "concat (map (\<lambda>x. snd (nfsio_mount m now td ?d1 x)) ds) = concat (map (\<lambda>x. snd (nfsio_mount m now td data x)) ds)"
  proof (rule arg_cong [of _ _ concat], rule map_cong [OF refl])
    fix x assume "x \<in> set ds"
    with notin have "fst x \<noteq> k0" by auto
    with agree [of "fst x" "snd x"] show "snd (nfsio_mount m now td ?d1 x) = snd (nfsio_mount m now td data x)" by simp
  qed
  have "map_of ds k0 = None" using notin by (simp add: map_of_eq_None_iff)
  with Cons.IH [OF keyed, of ?d1] reqs agree other show ?case
    by (auto simp: case_prod_beta e split: option.split)
qed simp

lemma map_of_filter_keys: "map_of (filter (\<lambda>e. fst e \<in> S) d) k = (if k \<in> S then map_of d k else None)"
  by (induction d) auto

text \<open>
  After a read the stored map has exactly the mount points of the file, and for each of them
  the values of the file over older ones.
\<close>

lemma nfsio_stored:
  fixes t :: gotime
  defines "D \<equiv> \<lambda>m c. readNfsiostats (ns_config m) (ns_key m) c"
  shows "map_of (ns_data (fst (nfsio_Read t c m))) mnt = None \<longleftrightarrow> map_of (D m c) mnt = None"
    and "map_of (D m c) mnt = Some vs \<Longrightarrow>
         \<exists>st. map_of (ns_data (fst (nfsio_Read t c m))) mnt = Some st \<and>
              (\<forall>name v. map_of vs name = Some v \<longrightarrow> map_of st name = Some v)"
proof -
  let ?f = "nfsio_mount m t (duration_seconds (time_sub t (ns_lastTimestamp m)))"
  let ?after = "fst (fold_steps ?f (ns_data m) (D m c))"
  have keyed: "well_keyed (D m c)" by (simp add: D_def readNfsiostats_keyed)
  have data: "map_of (ns_data (fst (nfsio_Read t c m))) mnt =
      (if mnt \<in> fst ` set (D m c) then map_of ?after mnt else None)"
    by (simp add: nfsio_Read_def D_def Let_def case_prod_beta map_of_filter_keys)
  have after: "map_of ?after mnt = (case map_of (D m c) mnt of None \<Rightarrow> map_of (ns_data m) mnt
      | Some vs \<Rightarrow> map_of (fst (?f (ns_data m) (mnt, vs))) mnt)"
    using nfsio_mounts [OF keyed] by blast
  have known: "mnt \<in> fst ` set (D m c) \<longleftrightarrow> map_of (D m c) mnt \<noteq> None"
    by (simp add: map_of_eq_None_iff)
  have put: "\<exists>st. map_of (fst (?f (ns_data m) (mnt, vs))) mnt = Some st \<and>
      (\<forall>name v. map_of vs name = Some v \<longrightarrow> map_of st name = Some v)" if "distinct (map fst vs)" for vs
    using nfsio_values [OF that] by (auto simp: nfsio_mount_def case_prod_beta split: option.split)
  have keys: "distinct (map fst vs)" if "map_of (D m c) mnt = Some vs" for vs
    using keyed map_of_SomeD [OF that] by (auto simp: well_keyed_def)
  show "map_of (ns_data (fst (nfsio_Read t c m))) mnt = None \<longleftrightarrow> map_of (D m c) mnt = None"
  proof (cases "map_of (D m c) mnt")
    case None
    with data known show ?thesis by simp
  next
    case (Some vs)
    with data after known put [OF keys [OF Some]] show ?thesis by auto
  qed
  show "map_of (D m c) mnt = Some vs \<Longrightarrow>
         \<exists>st. map_of (ns_data (fst (nfsio_Read t c m))) mnt = Some st \<and>
              (\<forall>name v. map_of vs name = Some v \<longrightarrow> map_of st name = Some v)"
    using data after known put [OF keys] by simp
qed

text \<open>
  Two consecutive reads: what the second sends is a function of the two file contents alone:
  for each mount point present in both, its values now and their rates of change since then;
  for a mount point that was not there, nothing (it only sets the reference).
\<close>

text \<open>C14: the NFS collector is a function of two consecutive snapshots: whatever the history, the requests of a read are, mount point by mount point, the current values and the difference quotients against the file content at the previous read over the time between the two reads; a mount point that appeared in between sends nothing. The hypothesis is that a mount point lists at the previous read every counter it lists now (the kernel's byte line has all eight of them).\<close>

theorem nfsio_rates_exact:
  assumes "\<And>mnt vs1 vs2. (mnt, vs2) \<in> set (readNfsiostats (ns_config m) (ns_key m) c2) \<Longrightarrow>
    map_of (readNfsiostats (ns_config m) (ns_key m) c1) mnt = Some vs1 \<Longrightarrow> fst ` set vs2 \<subseteq> fst ` set vs1"
  shows "snd (nfsio_Read t2 c2 (fst (nfsio_Read t1 c1 m))) =
    concat (map (nfsio_between m t1 t2 (readNfsiostats (ns_config m) (ns_key m) c1))
                (readNfsiostats (ns_config m) (ns_key m) c2))"
proof -
  let ?D = "readNfsiostats (ns_config m) (ns_key m)"
  let ?m1 = "fst (nfsio_Read t1 c1 m)"
  let ?td = "duration_seconds (time_sub t2 t1)"
  have same [simp]: "ns_config ?m1 = ns_config m" "ns_key ?m1 = ns_key m" "ns_lastTimestamp ?m1 = t1"
      "ns_tags ?m1 = ns_tags m" "ns_meta ?m1 = ns_meta m"
    by (simp_all add: nfsio_Read_def Let_def case_prod_beta)
  have "snd (nfsio_mount ?m1 t2 ?td (ns_data ?m1) e) = nfsio_between m t1 t2 (?D c1) e" if e: "e \<in> set (?D c2)" for e
  proof (cases e)
    case (Pair mnt vs2)
    have keys: "distinct (map fst vs2)"
      using readNfsiostats_keyed [of "ns_config m" "ns_key m" c2] e Pair by (auto simp: well_keyed_def)
    show ?thesis
    proof (cases "map_of (?D c1) mnt")
      case None
      with nfsio_stored(1) [of t1 c1 m mnt] show ?thesis by (simp add: Pair nfsio_mount_def nfsio_between_def)
    next
      case (Some vs1)
      from nfsio_stored(2) [OF Some, of t1] obtain st where
        st: "map_of (ns_data ?m1) mnt = Some st" "\<forall>name v. map_of vs1 name = Some v \<longrightarrow> map_of st name = Some v" by blast
      have old: "map_get 0 st name = map_get 0 vs1 name" if "(name, v) \<in> set vs2" for name v
      proof -
        have "name \<in> fst ` set vs1" using assms [of mnt vs2, OF _ Some] e Pair that by force
        then obtain w where "map_of vs1 name = Some w" by (metis map_of_eq_None_iff not_None_eq)
        with st(2) show ?thesis by (simp add: map_get_def)
      qed
      have "snd (nfsio_mount ?m1 t2 ?td (ns_data ?m1) e) = concat (map (\<lambda>e. snd (nfsio_value ?m1 t2 ?td mnt st e)) vs2)"
        using nfsio_values [OF keys, of ?m1 t2 ?td mnt st] st(1) by (simp add: nfsio_mount_def Pair case_prod_beta)
      also have "\<dots> = nfsio_between m t1 t2 (?D c1) e"
        unfolding nfsio_between_def Pair using Some old
        by (auto simp: nfsio_value_def nfsio_absolute_def nfsio_rate_def intro!: arg_cong [of _ _ concat] map_cong)
      finally show ?thesis .
    qed
  qed
  then have "concat (map (\<lambda>e. snd (nfsio_mount ?m1 t2 ?td (ns_data ?m1) e)) (?D c2)) =
      concat (map (nfsio_between m t1 t2 (?D c1)) (?D c2))"
    by (intro arg_cong [of _ _ concat] map_cong refl)
  with nfsio_mounts [OF readNfsiostats_keyed, of ?m1 t2 ?td "ns_data ?m1" "ns_config m" "ns_key m" c2] show ?thesis
    by (simp add: nfsio_Read_def [of t2] Let_def case_prod_beta)
qed

definition nfs_text :: "string \<Rightarrow> string option" where
  "nfs_text nread = Some (''device a:/x mounted on /m with fstype nfs4 statvers=1.1'' @ [CHR 0x0A] @
     [CHR 0x09] @ ''bytes: '' @ nread @ '' 0 0 0 8 9 1 1'' @ [CHR 0x0A])"

definition nfs_collector :: NfsIOStatCollector where
  "nfs_collector = nfsio_Init \<lparr>nc_ExcludeMetrics = [''dread''], nc_ExcludeFilesystems = [],
     nc_UseServerAddressAsSType = False, nc_SendAbsoluteValues = False, nc_SendDerivedValues = True\<rparr> 0 None"

lemma nfs_parsed:
  "readNfsiostats (ns_config nfs_collector) (ns_key nfs_collector) (nfs_text ''5'') =
     [(''/m'', [(''nread'', 5), (''nwrite'', 0), (''dwrite'', 0), (''nfsread'', 8), (''nfswrite'', 9),
                (''pageread'', 1), (''pagewrite'', 1)])]"
  "readNfsiostats (ns_config nfs_collector) (ns_key nfs_collector) (nfs_text ''25'') =
     [(''/m'', [(''nread'', 25), (''nwrite'', 0), (''dwrite'', 0), (''nfsread'', 8), (''nfswrite'', 9),
                (''pageread'', 1), (''pagewrite'', 1)])]"
  by code_simp+

theorem nfsio_rates_exact_witness:
  "length (snd (nfsio_Read 30000000000 (nfs_text ''25'') (fst (nfsio_Read 20000000000 (nfs_text ''5'') nfs_collector)))) = 7"
proof -
  have "snd (nfsio_Read 30000000000 (nfs_text ''25'') (fst (nfsio_Read 20000000000 (nfs_text ''5'') nfs_collector))) =
    concat (map (nfsio_between nfs_collector 20000000000 30000000000
                  (readNfsiostats (ns_config nfs_collector) (ns_key nfs_collector) (nfs_text ''5'')))
                (readNfsiostats (ns_config nfs_collector) (ns_key nfs_collector) (nfs_text ''25'')))"
    by (rule nfsio_rates_exact) (auto simp: nfs_parsed)
  then show ?thesis
    by (simp add: nfs_parsed nfsio_between_def) (simp add: nfs_collector_def nfsio_Init_def Let_def)
qed

end
