(* ===== verification/Beegfs_Collectors.thy ===== *)
theory Beegfs_Collectors
  imports Collector_Base Go_Regexp
begin

text \<open>
  \<open>collectors/beegfsmetaMetric.go\<close> and \<open>collectors/beegfsstorageMetric.go\<close>: the operation
  counts \<open>beegfs-ctl\<close> prints for the BeeGFS-on-demand mounts. The two files differ in their
  tables, their name prefixes and in how they split \<open>/proc/mounts\<close> into lines, so the
  operations are defined once over these three and instantiated for each file. The content of
  \<open>/proc/mounts\<close> and the program's output per mount point (\<open>None\<close>: it failed) are inputs.
\<close>

subsection \<open>State\<close>

record BeegfsCollectorConfig =
  bc_Beegfs :: string
  bc_ExcludeMetrics :: "string list"
  bc_ExcludeFilesystems :: "string list"

record BeegfsMetaCollector =
  bf_init :: bool
  bf_meta :: tagmap
  bf_tags :: tagmap
  bf_matches :: "(string \<times> string) list"
  bf_config :: BeegfsCollectorConfig
  bf_skipFS :: "string list"

type_synonym BeegfsStorageCollector = BeegfsMetaCollector

definition nodeMdstat_array :: "string list" where
  "nodeMdstat_array =
     [''sum'', ''ack'', ''close'', ''entInf'', ''fndOwn'', ''mkdir'', ''create'', ''rddir'', ''refrEn'', ''mdsInf'',
      ''rmdir'', ''rmLnk'', ''mvDirIns'', ''mvFiIns'', ''open'', ''ren'', ''sChDrct'', ''sAttr'', ''sDirPat'', ''stat'',
      ''statfs'', ''trunc'', ''symlnk'', ''unlnk'', ''lookLI'', ''statLI'', ''revalLI'', ''openLI'', ''createLI'',
      ''hardlnk'', ''flckAp'', ''flckEn'', ''flckRg'', ''dirparent'', ''listXA'', ''getXA'', ''rmXA'', ''setXA'', ''mirror'']"

definition storageStat_array :: "string list" where
  "storageStat_array =
     [''sum'', ''ack'', ''sChDrct'', ''getFSize'', ''sAttr'', ''statfs'', ''trunc'', ''close'', ''fsync'', ''ops-rd'',
      ''MiB-rd/s'', ''ops-wr'', ''MiB-wr/s'', ''gendbg'', ''hrtbeat'', ''remNode'', ''storInf'', ''unlnk'']"

subsection \<open>Init\<close>

definition beegfs_matches :: "string \<Rightarrow> string list \<Rightarrow> string list \<Rightarrow> (string \<times> string) list" where
  "beegfs_matches prefix table exclude =
     fold (\<lambda>op. if op \<in> set exclude then map_put ''other'' ''0'' else map_put (prefix @ op) ''0'') table []"

text \<open>
  \<open>cfg\<close> is the decoded configuration over the defaults, \<open>uid\<close> the user (\<open>None\<close>: unknown) and
  \<open>found\<close> the search path.
\<close>

definition beegfs_Init ::
  "string \<Rightarrow> string list \<Rightarrow> string \<Rightarrow> string \<Rightarrow> BeegfsCollectorConfig \<Rightarrow> string option \<Rightarrow> (string \<Rightarrow> bool) \<Rightarrow>
   BeegfsMetaCollector \<Rightarrow> goerror + BeegfsMetaCollector" where
  "beegfs_Init prefix table name grp cfg uid found m =
     (if bf_init m then Inr m
      else if uid = None then Inl (GoError ''failed to get current user'')
      else if uid \<noteq> Some ''0'' then Inl (GoError ''can only be queried by user root'')
      else if \<not> found (bc_Beegfs cfg) then Inl (GoError ''failed to find beegfs-ctl'')
      else Inr \<lparr>bf_init = True, bf_meta = [(''source'', name), (''group'', grp)],
                bf_tags = [(''type'', ''node''), (''filesystem'', '''')],
                bf_matches = beegfs_matches prefix table (bc_ExcludeMetrics cfg),
                bf_config = cfg, bf_skipFS = bc_ExcludeFilesystems cfg\<rparr>)"

definition beegfsmeta_Init where
  "beegfsmeta_Init = beegfs_Init ''beegfs_cmeta_'' nodeMdstat_array ''BeegfsMetaCollector'' ''BeegfsMeta''"

definition beegfsstorage_Init where
  "beegfsstorage_Init = beegfs_Init ''beegfs_cstorage_'' storageStat_array ''BeegfsStorageCollector'' ''BeegfsStorage''"

subsection \<open>Mount points\<close>

text \<open>A line without words, or a BeeGFS line with one word, is out of range.\<close>

definition beegfs_mount :: "string list \<Rightarrow> string \<Rightarrow> string list run" where
  "beegfs_mount skip line =
     (if line = [] then Inr []
      else case str_fields line of
        [] \<Rightarrow> Inl IndexOutOfRange
      | dev # fs \<Rightarrow>
          (if \<not> contains dev ''beegfs_ondemand'' then Inr []
           else case fs of [] \<Rightarrow> Inl IndexOutOfRange | mnt # _ \<Rightarrow> Inr (if mnt \<in> set skip then [] else [mnt])))"

subsection \<open>The output of the program\<close>

definition sumLine :: rx where
  "sumLine =
     Seq [Bol, Lit ''Sum:'', Plus True (Cls rx_space), Plus True (Cls is_digit), Plus True (Cls rx_space), Lit ''['',
          Plus True (Cls rx_alpha), Plus True (Lit '']'')]"

definition statsLine :: rx where
  "statsLine =
     Seq [Bol, Grp ''1'' (Star False (Cls any_char)), Plus False (Cls rx_space),
          Grp ''2'' (Cat (Cls is_digit) (Star False (Cls any_char))), Eol]"

definition beegfs_split :: "string \<Rightarrow> string list" where
  "beegfs_split text =
     (let dummy = rx_replace_all (Cls (\<lambda>c. c \<in> set ''[|]'')) text '' ''
      in split_on (CHR '' '') (trim_space (rx_replace_all (Plus True (Cls rx_space)) dummy '' '')))"

text \<open>One pair of the line: the number and the operation. A text that is no number is logged.\<close>

definition beegfs_put :: "string \<Rightarrow> string \<Rightarrow> string \<Rightarrow> (string \<times> string) list \<Rightarrow> (string \<times> string) list" where
  "beegfs_put prefix n op matches =
     (if op \<in> fst ` set matches then map_put (prefix @ op) n matches
      else case parse_float32 (map_get [] matches ''other'') of
        (_, Some _) \<Rightarrow> matches
      | (f1, None) \<Rightarrow>
          (case parse_float32 n of
             (_, Some _) \<Rightarrow> matches
           | (f2, None) \<Rightarrow> map_put ''beegfs_cstorage_other'' (format_f (fadd binary64 f1 f2)) matches))"

fun beegfs_fill :: "string \<Rightarrow> string list \<Rightarrow> (string \<times> string) list \<Rightarrow> (string \<times> string) list run" where
  "beegfs_fill prefix [] matches = Inr matches"
| "beegfs_fill prefix [n] matches = Inl IndexOutOfRange"
| "beegfs_fill prefix (n # op # ws) matches = beegfs_fill prefix ws (beegfs_put prefix n op matches)"

definition beegfs_request :: "BeegfsMetaCollector \<Rightarrow> string \<times> string \<Rightarrow> request" where
  "beegfs_request m e =
     (case e of (key, data) \<Rightarrow>
        \<lparr>rq_name = key, rq_tags = bf_tags m, rq_meta = bf_meta m,
         rq_value = VFloat64 (fst (parse_float32 data)), rq_time = None\<rparr>)"

text \<open>A line that matches \<open>sumLine\<close> and not \<open>statsLine\<close> would be a nil slice.\<close>

definition beegfs_line ::
  "string \<Rightarrow> BeegfsMetaCollector \<Rightarrow> string \<Rightarrow> (BeegfsMetaCollector \<times> request list) run" where
  "beegfs_line prefix m readLine =
     (if \<not> rx_matches sumLine readLine then Inr (m, [])
      else case rx_submatch statsLine readLine of
        None \<Rightarrow> Inl IndexOutOfRange
      | Some match \<Rightarrow>
          run_bind (beegfs_fill prefix (beegfs_split (map_get [] match ''2'')) (bf_matches m)) (\<lambda>matches.
            let m' = m\<lparr>bf_matches := matches\<rparr> in Inr (m', map (beegfs_request m') matches)))"

subsection \<open>Read and Close\<close>

text \<open>The loop over the mount points ends at the first one whose program run fails.\<close>

fun beegfs_mounts ::
  "string \<Rightarrow> (string \<Rightarrow> string option) \<Rightarrow> BeegfsMetaCollector \<Rightarrow> string list \<Rightarrow>
   (BeegfsMetaCollector \<times> request list) run" where
  "beegfs_mounts prefix prog m [] = Inr (m, [])"
| "beegfs_mounts prefix prog m (mnt # mnts) =
     (let m1 = m\<lparr>bf_tags := map_put ''filesystem'' mnt (bf_tags m)\<rparr>
      in case prog mnt of
           None \<Rightarrow> Inr (m1, [])
         | Some stdout \<Rightarrow>
             run_bind (run_steps (beegfs_line prefix) m1 (file_lines stdout)) (\<lambda>(m2, r1).
               run_bind (beegfs_mounts prefix prog m2 mnts) (\<lambda>(m3, r2). Inr (m3, r1 @ r2))))"

definition beegfs_Read ::
  "string \<Rightarrow> string list \<Rightarrow> (string \<Rightarrow> string option) \<Rightarrow> BeegfsMetaCollector \<Rightarrow>
   (BeegfsMetaCollector \<times> request list) run" where
  "beegfs_Read prefix lines prog m =
     (if \<not> bf_init m then Inr (m, [])
      else run_bind (run_concat (beegfs_mount (bf_skipFS m)) lines) (beegfs_mounts prefix prog m))"

definition beegfsmeta_Read ::
  "string \<Rightarrow> (string \<Rightarrow> string option) \<Rightarrow> BeegfsMetaCollector \<Rightarrow> (BeegfsMetaCollector \<times> request list) run" where
  "beegfsmeta_Read mounts = beegfs_Read ''beegfs_cmeta_'' (split_on (CHR 0x0A) mounts)"

definition beegfsstorage_Read ::
  "string \<Rightarrow> (string \<Rightarrow> string option) \<Rightarrow> BeegfsMetaCollector \<Rightarrow> (BeegfsMetaCollector \<times> request list) run" where
  "beegfsstorage_Read mounts = beegfs_Read ''beegfs_cstorage_'' (str_lines mounts)"

definition beegfsmeta_Close :: "BeegfsMetaCollector \<Rightarrow> BeegfsMetaCollector" where
  "beegfsmeta_Close m = m\<lparr>bf_init := False\<rparr>"

definition beegfsstorage_Close :: "BeegfsStorageCollector \<Rightarrow> BeegfsStorageCollector" where
  "beegfsstorage_Close m = m\<lparr>bf_init := False\<rparr>"

subsection \<open>What is sent for the operations of the tables\<close>

text \<open>
  The keys of \<open>matches\<close> carry the prefix, and the operations the program prints do not. No
  entry is under the bare name of an operation, and the entries of the table stay at \<open>0\<close>.
\<close>

definition idle_entries :: "string \<Rightarrow> string list \<Rightarrow> (string \<times> string) list \<Rightarrow> bool" where
  "idle_entries prefix table ms =
     (\<forall>e \<in> set ms. fst e \<notin> set table \<and> (\<forall>op \<in> set table. fst e = prefix @ op \<longrightarrow> snd e = ''0''))"

definition idle_request :: "string \<Rightarrow> string list \<Rightarrow> request \<Rightarrow> bool" where
  "idle_request prefix table r = (\<forall>op \<in> set table. rq_name r = prefix @ op \<longrightarrow> rq_value r = VFloat64 (Num 0))"

text \<open>The contract of a table: none of its operations is a key \<open>Read\<close> writes.\<close>

locale idle_table =
  fixes prefix :: string and table :: "string list"
  assumes key_no_operation: "prefix @ op \<notin> set table"
    and other_no_operation: "''other'' \<notin> set table"
    and sum_no_operation: "''beegfs_cstorage_other'' \<notin> set table"
    and other_entry: "prefix @ op = ''beegfs_cstorage_other'' \<Longrightarrow> op = ''other''"
begin

lemma idle_put:
  assumes "idle_entries prefix table ms" and "k \<notin> set table"
    and "\<And>op. op \<in> set table \<Longrightarrow> k = prefix @ op \<Longrightarrow> v = ''0''"
  shows "idle_entries prefix table (map_put k v ms)"
  using assms set_map_put [of k v ms] unfolding idle_entries_def by fastforce

lemma idle_matches: "idle_entries prefix table (beegfs_matches prefix table exclude)"
proof -
  have "idle_entries prefix table
      (fold (\<lambda>op. if op \<in> set exclude then map_put ''other'' ''0'' else map_put (prefix @ op) ''0'') ops ms)"
    if "idle_entries prefix table ms" for ops ms
    using that by (induction ops arbitrary: ms) (simp_all add: idle_put key_no_operation other_no_operation)
  from this [of "[]"] show ?thesis by (simp add: beegfs_matches_def idle_entries_def)
qed

lemma idle_beegfs_put:
  assumes idle: "idle_entries prefix table ms"
  shows "idle_entries prefix table (beegfs_put prefix n op ms)"
proof -
  have "idle_entries prefix table (map_put (prefix @ op) n ms)" if "op \<in> fst ` set ms"
  proof (rule idle_put [OF idle key_no_operation])
    fix op' assume "op' \<in> set table" "prefix @ op = prefix @ op'"
    with that idle show "n = ''0''" by (auto simp: idle_entries_def)
  qed
  moreover have "idle_entries prefix table (map_put ''beegfs_cstorage_other'' s ms)" for s
    using idle_put [OF idle sum_no_operation] other_entry other_no_operation by metis
  ultimately show ?thesis by (simp add: beegfs_put_def idle split: prod.split option.split)
qed

lemma idle_fill: "idle_entries prefix table ms \<Longrightarrow> beegfs_fill prefix ws ms = Inr ms' \<Longrightarrow> idle_entries prefix table ms'"
  by (induction ws arbitrary: ms rule: induct_list012)
    (simp, simp, metis beegfs_fill.simps(3) idle_beegfs_put)

lemma idle_requests:
  assumes "idle_entries prefix table (bf_matches m)"
  shows "list_all (idle_request prefix table) (map (beegfs_request m) (bf_matches m))"
proof -
  have "fst (parse_float32 ''0'') = Num 0" by code_simp
  with assms show ?thesis
    by (fastforce simp: list_all_iff idle_entries_def idle_request_def beegfs_request_def)
qed

lemma idle_line:
  assumes "idle_entries prefix table (bf_matches m)" and "beegfs_line prefix m l = Inr (m', rs)"
  shows "idle_entries prefix table (bf_matches m') \<and> list_all (idle_request prefix table) rs"
proof (cases "rx_matches sumLine l")
  case True
  with assms(2) obtain match ms where fill: "beegfs_fill prefix (beegfs_split (map_get [] match ''2'')) (bf_matches m) = Inr ms"
    and m': "m' = m\<lparr>bf_matches := ms\<rparr>" and rs: "rs = map (beegfs_request m') ms"
    by (auto simp: beegfs_line_def run_simps Let_def split: option.splits)
  have ms: "bf_matches m' = ms" by (simp add: m')
  with idle_fill [OF assms(1) fill] idle_requests [of m'] show ?thesis by (simp add: rs)
next
  case False
  with assms show ?thesis by (simp add: beegfs_line_def)
qed

lemma idle_mounts:
  "idle_entries prefix table (bf_matches m) \<Longrightarrow> beegfs_mounts prefix prog m mnts = Inr (m', rs) \<Longrightarrow>
   idle_entries prefix table (bf_matches m') \<and> list_all (idle_request prefix table) rs"
proof (induction mnts arbitrary: m rs)
  case (Cons mnt mnts)
  let ?m1 = "m\<lparr>bf_tags := map_put ''filesystem'' mnt (bf_tags m)\<rparr>"
  have m1: "idle_entries prefix table (bf_matches ?m1)" using Cons.prems(1) by simp
  show ?case
  proof (cases "prog mnt")
    case None
    with Cons.prems show ?thesis by (auto simp: Let_def)
  next
    case (Some stdout)
    with Cons.prems(2) obtain m2 r1 r2 where
      lines: "run_steps (beegfs_line prefix) ?m1 (file_lines stdout) = Inr (m2, r1)"
      and rest: "beegfs_mounts prefix prog m2 mnts = Inr (m', r2)" and rs: "rs = r1 @ r2"
      by (auto simp: Let_def run_simps)
    have "idle_entries prefix table (bf_matches m2) \<and> list_all (idle_request prefix table) r1"
      using run_steps_all [where ok = "\<lambda>m. idle_entries prefix table (bf_matches m)" and P = "idle_request prefix table",
        OF m1 lines] idle_line by blast
    with Cons.IH [OF _ rest] rs show ?thesis by simp
  qed
qed simp

lemma idle_Read:
  assumes "idle_entries prefix table (bf_matches m)" and "beegfs_Read prefix lines prog m = Inr (m', rs)"
  shows "idle_entries prefix table (bf_matches m') \<and> list_all (idle_request prefix table) rs"
proof (cases "bf_init m")
  case True
  with assms(2) obtain mnts where "beegfs_mounts prefix prog m mnts = Inr (m', rs)"
    by (auto simp: beegfs_Read_def run_simps)
  with idle_mounts assms(1) show ?thesis by blast
next
  case False
  with assms show ?thesis by (simp add: beegfs_Read_def)
qed

end

interpretation beegfsmeta: idle_table "''beegfs_cmeta_''" nodeMdstat_array
  by unfold_locales (simp_all add: nodeMdstat_array_def)

interpretation beegfsstorage: idle_table "''beegfs_cstorage_''" storageStat_array
  by unfold_locales (simp_all add: storageStat_array_def)

text \<open>The numbers and operations of a line come in pairs; an odd rest is an index out of range.\<close>

lemma beegfs_fill_panics: "(\<exists>p. beegfs_fill prefix ws ms = Inl p) \<longleftrightarrow> odd (length ws)"
  by (induction ws arbitrary: ms rule: induct_list012) simp_all

lemma beegfs_Init_entries:
  assumes "\<not> bf_init m0" and "beegfs_Init prefix table name grp cfg uid found m0 = Inr m"
  shows "bf_matches m = beegfs_matches prefix table (bc_ExcludeMetrics cfg)"
  using assms by (auto simp: beegfs_Init_def split: if_splits)

text \<open>C35: the metadata counts of BeeGFS never leave 0: whatever beegfs-ctl prints and whichever file systems are mounted, in any number of reads after any successful Init, a request named after one of the 39 operations of the table has the value 0, because Read looks the operation up without the prefix its entry is stored under.\<close>

theorem beegfsmeta_counts_stay_zero:
  assumes "\<not> bf_init m0" and "beegfsmeta_Init cfg uid found m0 = Inr m"
    and "run_steps (\<lambda>m (mounts, prog). beegfsmeta_Read mounts prog m) m reads = Inr (m', rs)"
    and "r \<in> set rs" and "op \<in> set nodeMdstat_array" and "rq_name r = ''beegfs_cmeta_'' @ op"
  shows "rq_value r = VFloat64 (Num 0)"
proof -
  have "idle_entries ''beegfs_cmeta_'' nodeMdstat_array (bf_matches m)"
    using beegfs_Init_entries [OF assms(1)] assms(2) beegfsmeta.idle_matches by (simp add: beegfsmeta_Init_def)
  moreover have "idle_entries ''beegfs_cmeta_'' nodeMdstat_array (bf_matches s') \<and> list_all (idle_request ''beegfs_cmeta_'' nodeMdstat_array) r1"
    if idle: "idle_entries ''beegfs_cmeta_'' nodeMdstat_array (bf_matches s)"
      and step: "(\<lambda>m (mounts, prog). beegfsmeta_Read mounts prog m) s i = Inr (s', r1)" for s i s' r1
  proof -
    obtain mounts prog where "i = (mounts, prog)" by (cases i)
    with step have "beegfs_Read ''beegfs_cmeta_'' (split_on (CHR 0x0A) mounts) prog s = Inr (s', r1)" by (simp add: beegfsmeta_Read_def)
    then show ?thesis by (rule beegfsmeta.idle_Read [OF idle])
  qed
  ultimately have "list_all (idle_request ''beegfs_cmeta_'' nodeMdstat_array) rs"
    using run_steps_all [where ok = "\<lambda>m. idle_entries ''beegfs_cmeta_'' nodeMdstat_array (bf_matches m)" and P = "idle_request ''beegfs_cmeta_'' nodeMdstat_array",
      OF _ assms(3)] by blast
  with assms(4-6) show ?thesis by (auto simp: list_all_iff idle_request_def)
qed

text \<open>The same for the storage counts.\<close>

theorem beegfsstorage_counts_stay_zero:
  assumes "\<not> bf_init m0" and "beegfsstorage_Init cfg uid found m0 = Inr m"
    and "run_steps (\<lambda>m (mounts, prog). beegfsstorage_Read mounts prog m) m reads = Inr (m', rs)"
    and "r \<in> set rs" and "op \<in> set storageStat_array" and "rq_name r = ''beegfs_cstorage_'' @ op"
  shows "rq_value r = VFloat64 (Num 0)"
proof -
  have "idle_entries ''beegfs_cstorage_'' storageStat_array (bf_matches m)"
    using beegfs_Init_entries [OF assms(1)] assms(2) beegfsstorage.idle_matches by (simp add: beegfsstorage_Init_def)
  moreover have "idle_entries ''beegfs_cstorage_'' storageStat_array (bf_matches s') \<and> list_all (idle_request ''beegfs_cstorage_'' storageStat_array) r1"
    if idle: "idle_entries ''beegfs_cstorage_'' storageStat_array (bf_matches s)"
      and step: "(\<lambda>m (mounts, prog). beegfsstorage_Read mounts prog m) s i = Inr (s', r1)" for s i s' r1
  proof -
    obtain mounts prog where "i = (mounts, prog)" by (cases i)
    with step have "beegfs_Read ''beegfs_cstorage_'' (str_lines mounts) prog s = Inr (s', r1)" by (simp add: beegfsstorage_Read_def)
    then show ?thesis by (rule beegfsstorage.idle_Read [OF idle])
  qed
  ultimately have "list_all (idle_request ''beegfs_cstorage_'' storageStat_array) rs"
    using run_steps_all [where ok = "\<lambda>m. idle_entries ''beegfs_cstorage_'' storageStat_array (bf_matches m)" and P = "idle_request ''beegfs_cstorage_'' storageStat_array",
      OF _ assms(3)] by blast
  with assms(4-6) show ?thesis by (auto simp: list_all_iff idle_request_def)
qed

definition beegfs_cfg :: BeegfsCollectorConfig where
  "beegfs_cfg = \<lparr>bc_Beegfs = ''beegfs-ctl'', bc_ExcludeMetrics = [''ack''], bc_ExcludeFilesystems = []\<rparr>"

definition beegfs_fresh :: BeegfsMetaCollector where
  "beegfs_fresh = \<lparr>bf_init = False, bf_meta = [], bf_tags = [], bf_matches = [], bf_config = beegfs_cfg, bf_skipFS = []\<rparr>"

text \<open>A line reports five calls of \<open>open\<close>.\<close>

definition beegfs_demo :: "string \<times> (string \<Rightarrow> string option)" where
  "beegfs_demo = (''beegfs_ondemand /b'', (\<lambda>_. Some ''Sum: 6 [sum] 5 [open]''))"

theorem beegfsmeta_counts_stay_zero_witness:
  "case beegfsmeta_Init beegfs_cfg (Some ''0'') (\<lambda>_. True) beegfs_fresh of
     Inl _ \<Rightarrow> False
   | Inr m \<Rightarrow> (case run_steps (\<lambda>m (mounts, prog). beegfsmeta_Read mounts prog m) m [beegfs_demo] of
       Inl _ \<Rightarrow> False
     | Inr (m', rs) \<Rightarrow>
         (\<exists>r \<in> set rs. rq_name r = ''beegfs_cmeta_open'') \<and>
         (\<forall>r \<in> set rs. rq_name r = ''beegfs_cmeta_open'' \<longrightarrow> rq_value r = VFloat64 (Num 0)))"
proof -
  have "case beegfsmeta_Init beegfs_cfg (Some ''0'') (\<lambda>_. True) beegfs_fresh of
     Inl _ \<Rightarrow> False
   | Inr m \<Rightarrow> (case run_steps (\<lambda>m (mounts, prog). beegfsmeta_Read mounts prog m) m [beegfs_demo] of
       Inl _ \<Rightarrow> False
     | Inr (m', rs) \<Rightarrow> (\<exists>r \<in> set rs. rq_name r = ''beegfs_cmeta_open''))" by code_simp
  then obtain m m' rs where init: "beegfsmeta_Init beegfs_cfg (Some ''0'') (\<lambda>_. True) beegfs_fresh = Inr m"
    and run: "run_steps (\<lambda>m (mounts, prog). beegfsmeta_Read mounts prog m) m [beegfs_demo] = Inr (m', rs)"
    and opened: "\<exists>r \<in> set rs. rq_name r = ''beegfs_cmeta_open''" by (auto split: sum.splits)
  have "rq_value r = VFloat64 (Num 0)" if "r \<in> set rs" "rq_name r = ''beegfs_cmeta_open''" for r
    by (rule beegfsmeta_counts_stay_zero [OF _ init run that(1), of "''open''"])
      (simp_all add: that beegfs_fresh_def nodeMdstat_array_def)
  with init run opened show ?thesis by simp
qed

end
