(* ===== verification/Cpufreq_Collectors.thy ===== *)
theory Cpufreq_Collectors
  imports Collector_Base Topology
begin

text \<open>
  \<open>collectors/cpufreqMetric.go\<close> and \<open>collectors/cpufreqCpuinfoMetric.go\<close>: the frequency of the
  first hardware thread of every core, from sysfs over the CPU topology (package ccTopology) and
  from \<open>/proc/cpuinfo\<close>. File contents, access rights and the time are inputs.
\<close>

section \<open>CPUFreqCollector\<close>

record CPUFreqCollectorTopology =
  ft_scalingCurFreqFile :: string
  ft_tagSet :: tagmap

record CPUFreqCollector =
  cf_init :: bool
  cf_meta :: tagmap
  cf_topology :: "CPUFreqCollectorTopology list"

definition scalingCurFreqFile :: "goint \<Rightarrow> string" where
  "scalingCurFreqFile c = ''/sys/devices/system/cpu/cpu'' @ itoa c @ ''/cpufreq/scaling_cur_freq''"

definition cpufreq_entry :: "HwthreadEntry \<Rightarrow> CPUFreqCollectorTopology" where
  "cpufreq_entry c =
     \<lparr>ft_scalingCurFreqFile = scalingCurFreqFile (CpuID c),
      ft_tagSet = [(''type'', ''hwthread''), (''type-id'', itoa (CpuID c)), (''package_id'', itoa (Socket c))]\<rparr>"

text \<open>The loop over the CPUs: an empty core list panics, a file that is not readable is an error.\<close>

fun cpufreq_topology ::
  "(string \<Rightarrow> bool) \<Rightarrow> HwthreadEntry list \<Rightarrow> (goerror + CPUFreqCollectorTopology list) run" where
  "cpufreq_topology access [] = Inr (Inr [])"
| "cpufreq_topology access (c # cs) =
     run_bind (at_index (CoreCPUsList c) 0) (\<lambda>first.
       if CpuID c \<noteq> first then cpufreq_topology access cs
       else if \<not> access (scalingCurFreqFile (CpuID c)) then Inr (Inl (GoError ''unable to access file''))
       else run_bind (cpufreq_topology access cs) (\<lambda>r.
         Inr (case r of Inl e \<Rightarrow> Inl e | Inr ts \<Rightarrow> Inr (cpufreq_entry c # ts))))"

definition cpufreq_Init ::
  "(string \<Rightarrow> bool) \<Rightarrow> topo_cache \<Rightarrow> CPUFreqCollector \<Rightarrow> (goerror + CPUFreqCollector) run" where
  "cpufreq_Init access topo m =
     (if cf_init m then Inr (Inr m)
      else run_bind (cpufreq_topology access (CpuData topo)) (\<lambda>r.
        Inr (case r of
               Inl e \<Rightarrow> Inl e
             | Inr ts \<Rightarrow> Inr \<lparr>cf_init = True,
                 cf_meta = [(''source'', ''CPUFreqCollector''), (''group'', ''CPU''), (''unit'', ''Hz'')],
                 cf_topology = ts\<rparr>)))"

definition cpufreq_request ::
  "CPUFreqCollector \<Rightarrow> gotime \<Rightarrow> (string \<Rightarrow> string option) \<Rightarrow> CPUFreqCollectorTopology \<Rightarrow> request list" where
  "cpufreq_request m now fs t =
     (case fs (ft_scalingCurFreqFile t) of
        None \<Rightarrow> []
      | Some line \<Rightarrow>
          (case parse_int 10 (trim_space line) of
             (cpuFreq, None) \<Rightarrow> [\<lparr>rq_name = ''cpufreq'', rq_tags = ft_tagSet t, rq_meta = cf_meta m,
                                 rq_value = VInt64 cpuFreq, rq_time = Some now\<rparr>]
           | _ \<Rightarrow> []))"

definition cpufreq_Read :: "gotime \<Rightarrow> (string \<Rightarrow> string option) \<Rightarrow> CPUFreqCollector \<Rightarrow> request list" where
  "cpufreq_Read now fs m =
     (if \<not> cf_init m then [] else concat (map (cpufreq_request m now fs) (cf_topology m)))"

definition cpufreq_Close :: "CPUFreqCollector \<Rightarrow> CPUFreqCollector" where
  "cpufreq_Close m = m\<lparr>cf_init := False\<rparr>"

section \<open>CPUFreqCpuInfoCollector\<close>

record CPUFreqCpuInfoCollectorTopology =
  it_isHT :: bool
  it_tagSet :: tagmap

record CPUFreqCpuInfoCollector =
  ci_init :: bool
  ci_meta :: tagmap
  ci_topology :: "CPUFreqCpuInfoCollectorTopology list"

text \<open>The variables of the loop in \<open>Init\<close>; \<open>cs_seen\<close> are the keys of \<open>coreSeenBefore\<close>.\<close>

record cpuinfo_scan =
  cs_topology :: "CPUFreqCpuInfoCollectorTopology list"
  cs_seen :: "string list"
  cs_foundFreq :: bool
  cs_processor :: string
  cs_coreID :: string
  cs_physicalPackageID :: string

definition cpuinfo_key :: "string \<Rightarrow> (string \<times> string) option" where
  "cpuinfo_key line =
     (case split_on (CHR '':'') line of [k, v] \<Rightarrow> Some (trim_space k, trim_space v) | _ \<Rightarrow> None)"

definition cpuinfo_collect :: "string \<Rightarrow> cpuinfo_scan \<Rightarrow> cpuinfo_scan" where
  "cpuinfo_collect line s =
     (case cpuinfo_key line of
        None \<Rightarrow> s
      | Some (key, v) \<Rightarrow>
          if key = ''cpu MHz'' then s\<lparr>cs_foundFreq := True\<rparr>
          else if key = ''processor'' then s\<lparr>cs_processor := v\<rparr>
          else if key = ''core id'' then s\<lparr>cs_coreID := v\<rparr>
          else if key = ''physical id'' then s\<lparr>cs_physicalPackageID := v\<rparr>
          else s)"

definition cpuinfo_store :: "cpuinfo_scan \<Rightarrow> cpuinfo_scan" where
  "cpuinfo_store s =
     (if cs_foundFreq s \<and> cs_processor s \<noteq> [] \<and> cs_coreID s \<noteq> [] \<and> cs_physicalPackageID s \<noteq> []
      then let globalID = cs_physicalPackageID s @ '':'' @ cs_coreID s
           in \<lparr>cs_topology = cs_topology s @
                 [\<lparr>it_isHT = globalID \<in> set (cs_seen s),
                   it_tagSet = [(''type'', ''hwthread''), (''type-id'', cs_processor s),
                                (''package_id'', cs_physicalPackageID s)]\<rparr>],
               cs_seen = globalID # cs_seen s, cs_foundFreq = False, cs_processor = [], cs_coreID = [],
               cs_physicalPackageID = []\<rparr>
      else s)"

definition cpuinfo_init_line :: "string \<Rightarrow> cpuinfo_scan \<Rightarrow> cpuinfo_scan" where
  "cpuinfo_init_line line s = cpuinfo_store (cpuinfo_collect line s)"

definition cpuinfo_start :: cpuinfo_scan where
  "cpuinfo_start = \<lparr>cs_topology = [], cs_seen = [], cs_foundFreq = False, cs_processor = [], cs_coreID = [],
                    cs_physicalPackageID = []\<rparr>"

definition cpuinfo_Init :: "string option \<Rightarrow> CPUFreqCpuInfoCollector \<Rightarrow> goerror + CPUFreqCpuInfoCollector" where
  "cpuinfo_Init content m =
     (if ci_init m then Inr m
      else case content of
        None \<Rightarrow> Inl (GoError ''failed to open /proc/cpuinfo'')
      | Some text \<Rightarrow>
          (case scan_lines text of (lines, ok) \<Rightarrow>
             (let topology = cs_topology (fold cpuinfo_init_line lines cpuinfo_start)
              in if \<not> ok then Inl (GoError ''call to scanner.Err failed'')
                 else if topology = [] then Inl (GoError ''no CPU frequency info found'')
                 else Inr \<lparr>ci_init = True,
                   ci_meta = [(''source'', ''CPUFreqCpuInfoCollector''), (''group'', ''CPU''), (''unit'', ''MHz'')],
                   ci_topology = topology\<rparr>)))"

text \<open>The text of a frequency line (key and value are trimmed separately in \<open>Read\<close>).\<close>

definition freq_text :: "string \<Rightarrow> string option" where
  "freq_text line =
     (case cpuinfo_key line of Some (key, v) \<Rightarrow> if key = ''cpu MHz'' then Some v else None | None \<Rightarrow> None)"

text \<open>The loop of \<open>Read\<close>; a frequency that is no number ends it.\<close>

fun cpuinfo_lines :: "CPUFreqCpuInfoCollector \<Rightarrow> gotime \<Rightarrow> int \<Rightarrow> string list \<Rightarrow> request list run" where
  "cpuinfo_lines m now processorCounter [] = Inr []"
| "cpuinfo_lines m now processorCounter (line # lines) =
     (case freq_text line of
        None \<Rightarrow> cpuinfo_lines m now processorCounter lines
      | Some v \<Rightarrow>
          run_bind (at_index (ci_topology m) processorCounter) (\<lambda>t.
            if it_isHT t then cpuinfo_lines m now (processorCounter + 1) lines
            else (case parse_float v of
                    (_, Some _) \<Rightarrow> Inr []
                  | (x, None) \<Rightarrow>
                      run_bind (cpuinfo_lines m now (processorCounter + 1) lines) (\<lambda>rs.
                        Inr (\<lparr>rq_name = ''cpufreq'', rq_tags = it_tagSet t, rq_meta = ci_meta m,
                              rq_value = VFloat64 x, rq_time = Some now\<rparr> # rs)))))"

definition cpuinfo_Read :: "gotime \<Rightarrow> string option \<Rightarrow> CPUFreqCpuInfoCollector \<Rightarrow> request list run" where
  "cpuinfo_Read now content m =
     (if \<not> ci_init m then Inr []
      else case content of None \<Rightarrow> Inr [] | Some text \<Rightarrow> cpuinfo_lines m now 0 (file_lines text))"

definition cpuinfo_Close :: "CPUFreqCpuInfoCollector \<Rightarrow> CPUFreqCpuInfoCollector" where
  "cpuinfo_Close m = m\<lparr>ci_init := False\<rparr>"

section \<open>One thread per core\<close>

text \<open>
  The kernel's core lists: no thread is in a list twice, every thread is in its own list, the
  threads of a list have the same list, and all of them are listed CPUs.
\<close>

definition core_lists_ok :: "HwthreadEntry list \<Rightarrow> bool" where
  "core_lists_ok ds =
     (distinct (map CpuID ds) \<and>
      (\<forall>d \<in> set ds. distinct (CoreCPUsList d) \<and> CpuID d \<in> set (CoreCPUsList d) \<and>
         (\<forall>c \<in> set (CoreCPUsList d). \<exists>e \<in> set ds. CpuID e = c \<and> CoreCPUsList e = CoreCPUsList d)))"

definition first_threads :: "HwthreadEntry list \<Rightarrow> HwthreadEntry list" where
  "first_threads ds = filter (\<lambda>d. CpuID d = hd (CoreCPUsList d)) ds"

lemma sum_map_Inr_iff:
  "(case r of Inl e \<Rightarrow> Inl e | Inr ts \<Rightarrow> Inr (f ts)) = Inr y \<longleftrightarrow> (\<exists>ts. r = Inr ts \<and> y = f ts)"
  by (cases r) auto

lemma cpufreq_topology_ok:
  "cpufreq_topology access ds = Inr (Inr ts) \<Longrightarrow> ts = map cpufreq_entry (first_threads ds)"
proof (induction ds arbitrary: ts)
  case (Cons d ds)
  then have "CoreCPUsList d \<noteq> []" by (auto simp: run_simps)
  then have hd: "CoreCPUsList d ! 0 = hd (CoreCPUsList d)" by (simp add: hd_conv_nth)
  with Cons show ?case
    by (auto simp: run_simps sum_map_Inr_iff first_threads_def split: if_splits)
qed (simp add: first_threads_def)

lemma first_threads_cores:
  assumes "core_lists_ok ds"
  shows "distinct (map CoreCPUsList (first_threads ds)) \<and>
         CoreCPUsList ` set (first_threads ds) = CoreCPUsList ` set ds"
proof
  have "inj_on CoreCPUsList (set (first_threads ds))"
  proof (rule inj_onI)
    fix d e assume "d \<in> set (first_threads ds)" "e \<in> set (first_threads ds)" "CoreCPUsList d = CoreCPUsList e"
    then have "d \<in> set ds" "e \<in> set ds" "CpuID d = CpuID e" by (auto simp: first_threads_def)
    with assms show "d = e" by (auto simp: core_lists_ok_def distinct_map dest: inj_onD)
  qed
  moreover have "distinct (first_threads ds)" using assms by (auto simp: core_lists_ok_def first_threads_def distinct_map)
  ultimately show "distinct (map CoreCPUsList (first_threads ds))" by (simp add: distinct_map)
  have "CoreCPUsList d \<in> CoreCPUsList ` set (first_threads ds)" if d: "d \<in> set ds" for d
  proof -
    from d assms have "CoreCPUsList d \<noteq> []" by (auto simp: core_lists_ok_def)
    then have "hd (CoreCPUsList d) \<in> set (CoreCPUsList d)" by simp
    with d assms obtain e where "e \<in> set ds" "CpuID e = hd (CoreCPUsList d)" "CoreCPUsList e = CoreCPUsList d"
      unfolding core_lists_ok_def by blast
    then show ?thesis by (force simp: first_threads_def image_iff)
  qed
  then show "CoreCPUsList ` set (first_threads ds) = CoreCPUsList ` set ds" by (auto simp: first_threads_def)
qed

lemma smt_zero_iff:
  fixes c :: goint
  assumes "distinct xs" and "c \<in> set xs"
  shows "(word_of_int (slices_index xs c) :: goint) = 0 \<longleftrightarrow> c = hd xs"
proof -
  have "card (set xs) \<le> card (UNIV :: goint set)" by (rule card_mono) simp_all
  with distinct_card [OF assms(1)] have "length xs \<le> 2 ^ 64" by (simp add: card_word)
  moreover have "0 \<le> slices_index xs c" and "slices_index xs c < int (length xs)"
    using slices_index_found [OF assms(2)] slices_index_bounds [of xs c] by auto
  ultimately have "(word_of_int (slices_index xs c) :: goint) = 0 \<longleftrightarrow> slices_index xs c = 0"
    by (auto simp: word_of_int_eq_0_iff dest: zdvd_imp_le)
  also have "\<dots> \<longleftrightarrow> c = hd xs"
    using assms(2) slices_index_bounds [of "tl xs" c] by (cases xs) (auto simp: Let_def)
  finally show ?thesis .
qed

lemma entries_SMT: "read_entries fs cs = Some ds \<Longrightarrow> d \<in> set ds \<Longrightarrow>
   SMT d = word_of_int (slices_index (CoreCPUsList d) (CpuID d))"
proof (induction cs arbitrary: ds)
  case (Cons c cs)
  then show ?case by (fastforce simp: read_entry_def Let_def split: option.splits)
qed simp

lemma topo_entry_SMT: "topo_init fs = Some topo \<Longrightarrow> d \<in> set (CpuData topo) \<Longrightarrow>
   SMT d = word_of_int (slices_index (CoreCPUsList d) (CpuID d))"
  using entries_SMT by (auto simp: topo_init_def CpuData_def Let_def split: option.splits)

text \<open>C25: exactly one hardware thread of every physical core is measured: on the CPU data that the
  topology package reads from sysfs, if the kernel's core lists are consistent, a successful Init
  selects the threads with SMT number 0 among the listed ones, in the order of the CPU data, one
  for each core list and none twice; their tags carry the CPU and socket of the topology.\<close>

theorem cpufreq_one_thread_per_core:
  assumes "topo_init fs = Some topo" and "core_lists_ok (CpuData topo)" and "\<not> cf_init m0"
    and "cpufreq_Init access topo m0 = Inr (Inr m)"
  shows "\<exists>sel. cf_topology m = map cpufreq_entry sel \<and> sel = filter (\<lambda>d. SMT d = 0) (CpuData topo) \<and>
           distinct (map CoreCPUsList sel) \<and> CoreCPUsList ` set sel = CoreCPUsList ` set (CpuData topo)"
proof -
  have "cf_topology m = map cpufreq_entry (first_threads (CpuData topo))"
    using assms(3,4) cpufreq_topology_ok [of access "CpuData topo"]
    by (auto simp: cpufreq_Init_def run_simps sum_map_Inr_iff)
  moreover have "first_threads (CpuData topo) = filter (\<lambda>d. SMT d = 0) (CpuData topo)"
    unfolding first_threads_def
  proof (rule filter_cong [OF refl])
    fix d assume d: "d \<in> set (CpuData topo)"
    have "SMT d = word_of_int (slices_index (CoreCPUsList d) (CpuID d))"
      using topo_entry_SMT [OF assms(1)] d by simp
    moreover have "distinct (CoreCPUsList d)" "CpuID d \<in> set (CoreCPUsList d)"
      using assms(2) d by (simp_all add: core_lists_ok_def)
    ultimately show "(CpuID d = hd (CoreCPUsList d)) = (SMT d = 0)" by (simp add: smt_zero_iff)
  qed
  ultimately show ?thesis
    using first_threads_cores [OF assms(2)] by (intro exI [of _ "first_threads (CpuData topo)"]) simp
qed

definition cpufreq_fresh :: CPUFreqCollector where
  "cpufreq_fresh = \<lparr>cf_init = False, cf_meta = [], cf_topology = []\<rparr>"

lemma demo_core_lists: "core_lists_ok (CpuData demo_topo)"
  by (simp add: core_lists_ok_def CpuData_def demo_topo_def demo_thread_def)

theorem cpufreq_one_thread_per_core_witness:
  "\<exists>m. cpufreq_Init (\<lambda>_. True) demo_topo cpufreq_fresh = Inr (Inr m) \<and>
       map (\<lambda>t. map_of (ft_tagSet t) ''type-id'') (cf_topology m) = [Some ''0'', Some ''1'']"
proof -
  have "case cpufreq_Init (\<lambda>_. True) demo_topo cpufreq_fresh of Inr (Inr _) \<Rightarrow> True | _ \<Rightarrow> False" by code_simp
  then obtain m where m: "cpufreq_Init (\<lambda>_. True) demo_topo cpufreq_fresh = Inr (Inr m)"
    by (auto split: sum.splits)
  have "\<not> cf_init cpufreq_fresh" by (simp add: cpufreq_fresh_def)
  from cpufreq_one_thread_per_core [OF demo_topo_init demo_core_lists this m]
  have "cf_topology m = map cpufreq_entry (filter (\<lambda>d. SMT d = 0) (CpuData demo_topo))" by metis
  also have "\<dots> = map cpufreq_entry [demo_thread 0 0 [0, 2] 0, demo_thread 1 0 [1, 3] 1]"
    by (simp add: CpuData_def demo_topo_def demo_thread_def)
  finally have "cf_topology m = map cpufreq_entry [demo_thread 0 0 [0, 2] 0, demo_thread 1 0 [1, 3] 1]" .
  moreover have "itoa 0 = ''0''" "itoa 1 = ''1''" by code_simp+
  ultimately show ?thesis using m by (simp add: cpufreq_entry_def demo_thread_def)
qed

section \<open>When the number of frequencies changes\<close>

lemma cpuinfo_lines_panics:
  assumes "0 \<le> k"
  shows "(\<exists>p. cpuinfo_lines m now k ls = Inl p) \<longleftrightarrow>
    length (drop (nat k) (ci_topology m)) < length (List.map_filter freq_text ls) \<and>
    (\<forall>(t, v) \<in> set (zip (drop (nat k) (ci_topology m)) (List.map_filter freq_text ls)).
       it_isHT t \<or> snd (parse_float v) = None)"
  using assms
proof (induction ls arbitrary: k)
  case (Cons l ls)
  show ?case
  proof (cases "freq_text l")
    case None
    with Cons show ?thesis by (simp add: List.map_filter_simps)
  next
    case (Some v)
    note v = this
    show ?thesis
    proof (cases "nat k < length (ci_topology m)")
      case True
      define t where "t = ci_topology m ! nat k"
      have t: "drop (nat k) (ci_topology m) = t # drop (nat (k + 1)) (ci_topology m)"
        using True Cons.prems by (simp add: t_def Cons_nth_drop_Suc [symmetric] nat_add_distrib)
      have at: "at_index (ci_topology m) k = Inr t" using True Cons.prems by (simp add: at_index_def t_def)
      have next_step: "(\<exists>p. cpuinfo_lines m now (k + 1) ls = Inl p) \<longleftrightarrow>
          length (drop (nat (k + 1)) (ci_topology m)) < length (List.map_filter freq_text ls) \<and>
          (\<forall>(t, v) \<in> set (zip (drop (nat (k + 1)) (ci_topology m)) (List.map_filter freq_text ls)).
             it_isHT t \<or> snd (parse_float v) = None)"
        using Cons.IH [of "k + 1"] Cons.prems by simp
      obtain x err where x: "parse_float v = (x, err)" by (cases "parse_float v")
      have "(\<exists>p. cpuinfo_lines m now k (l # ls) = Inl p) \<longleftrightarrow>
          (it_isHT t \<or> err = None) \<and> (\<exists>p. cpuinfo_lines m now (k + 1) ls = Inl p)"
        by (cases "cpuinfo_lines m now (k + 1) ls"; cases err) (auto simp: v at x)
      also have "\<dots> \<longleftrightarrow> length (t # drop (nat (k + 1)) (ci_topology m)) < length (v # List.map_filter freq_text ls) \<and>
          (\<forall>(t, v) \<in> set (zip (t # drop (nat (k + 1)) (ci_topology m)) (v # List.map_filter freq_text ls)).
             it_isHT t \<or> snd (parse_float v) = None)"
        unfolding next_step by (auto simp: x)
      finally show ?thesis by (simp only: t v List.map_filter_simps option.case)
    next
      case False
      then have "at_index (ci_topology m) k = Inl IndexOutOfRange" using Cons.prems by (auto simp: at_index_def)
      with False v show ?thesis by (simp add: List.map_filter_simps)
    qed
  qed
qed (simp add: List.map_filter_simps)

text \<open>The frequencies of \<open>/proc/cpuinfo\<close> are matched to the CPUs of Init by their position: a
  read panics exactly when the file has more frequency lines than Init recorded CPUs (a CPU has
  come online, or a block without core id was never recorded) and none of the values that are
  parsed before is malformed.\<close>

theorem cpuinfo_Read_panics_iff:
  assumes "ci_init m"
  shows "(\<exists>p. cpuinfo_Read now (Some text) m = Inl p) \<longleftrightarrow>
    length (ci_topology m) < length (List.map_filter freq_text (file_lines text)) \<and>
    (\<forall>(t, v) \<in> set (zip (ci_topology m) (List.map_filter freq_text (file_lines text))).
       it_isHT t \<or> snd (parse_float v) = None)"
  using cpuinfo_lines_panics [of 0 m now "file_lines text"] assms by (simp add: cpuinfo_Read_def)

definition demo_cpuinfo :: CPUFreqCpuInfoCollector where
  "demo_cpuinfo =
     \<lparr>ci_init = True, ci_meta = [],
      ci_topology = [\<lparr>it_isHT = False, it_tagSet = [(''type'', ''hwthread''), (''type-id'', ''0'')]\<rparr>]\<rparr>"

definition demo_cpuinfo_text :: string where
  "demo_cpuinfo_text = ''cpu MHz : 2400.5'' @ [CHR 0x0A] @ ''cpu MHz : 800'' @ [CHR 0x0A]"

theorem cpuinfo_Read_panics_iff_witness:
  "ci_init demo_cpuinfo \<and> (\<exists>p. cpuinfo_Read 0 (Some demo_cpuinfo_text) demo_cpuinfo = Inl p)"
proof -
  have init: "ci_init demo_cpuinfo" by (simp add: demo_cpuinfo_def)
  have "List.map_filter freq_text (file_lines demo_cpuinfo_text) = [''2400.5'', ''800'']" by code_simp
  moreover have "snd (parse_float ''2400.5'') = None" by code_simp
  ultimately show ?thesis using cpuinfo_Read_panics_iff [OF init, of 0 demo_cpuinfo_text] init
    by (simp add: demo_cpuinfo_def)
qed

end
