(* ===== verification/Likwid_Collector.thy ===== *)
theory Likwid_Collector
  imports Collector_Base Aggregator "HOL-Library.List_Lexorder" "HOL-Library.Char_ord" "HOL-Library.Sublist"
begin

text \<open>
  \<open>collectors/likwidMetric.go\<close>: hardware performance counters through the C library LIKWID.
  A read goes through the configured event sets; it measures each one (\<open>takeMeasurement\<close>), derives
  metrics from the counters with the expression evaluation of the aggregator, and at the end
  derives global metrics from those. The C library, the lock file with its watcher and the
  signals are inputs (\<open>lw_world\<close>); the calls into the library are recorded in order. \<open>eval\<close> is
  \<open>agg.EvalFloat64Condition\<close> up to its cache of compiled formulas (\<open>likwid_eval\<close>). Hardware
  threads and sockets come from the CPU topology.
\<close>

subsection \<open>State\<close>

record LikwidCollectorMetricConfig =
  lm_Name :: string
  lm_Calc :: string
  lm_Type :: string
  lm_Publish :: bool
  lm_SendCoreTotalVal :: bool
  lm_SendSocketTotalVal :: bool
  lm_SendNodeTotalVal :: bool
  lm_Unit :: string

record LikwidCollectorEventsetConfig =
  le_Events :: "(string \<times> string) list"
  le_Metrics :: "LikwidCollectorMetricConfig list"

type_synonym lw_values = "(goint \<times> (string \<times> gofloat) list) list"

record LikwidEventsetConfig =
  lw_internal :: nat
  lw_eorder :: "string list"
  lw_estr :: string
  lw_results :: lw_values
  lw_metrics :: lw_values

record LikwidCollectorConfig =
  lc_Eventsets :: "LikwidCollectorEventsetConfig list"
  lc_Metrics :: "LikwidCollectorMetricConfig list"
  lc_ForceOverwrite :: bool
  lc_InvalidToZero :: bool
  lc_AccessMode :: string
  lc_DaemonPath :: string
  lc_LibraryPath :: string
  lc_LockfilePath :: string

text \<open>The fields that \<open>Read\<close> and \<open>Close\<close> use; the other ones are only set.\<close>

record LikwidCollector =
  lk_init :: bool
  lk_meta :: tagmap
  lk_hwthreads :: "goint list"  \<comment> \<open>\<open>topo.HwthreadList()\<close>, which never changes\<close>
  lk_cpu2tid :: "(goint \<times> goint) list"
  lk_sock2tid :: "(goint \<times> goint) list"
  lk_tid2core :: "(goint \<times> goint) list"
  lk_tid2socket :: "(goint \<times> goint) list"
  lk_config :: LikwidCollectorConfig
  lk_basefreq :: gofloat
  lk_myuid :: goint
  lk_lock_err_once :: bool

type_synonym lw_eval = "string \<Rightarrow> (string \<times> gofloat) list \<Rightarrow> gofloat \<times> goerror option"

definition likwid_eval ::
  "('m, 'e, 'l) gval_lib \<Rightarrow> ('e \<Rightarrow> (string \<times> gofloat) list \<Rightarrow> gofloat \<times> goerror option) \<Rightarrow> lw_eval" where
  "likwid_eval lib eval_float64 calc params = snd (EvalFloat64Condition lib eval_float64 [] calc params)"

subsection \<open>Event sets and formulas\<close>

definition checkMetricType :: "string \<Rightarrow> bool" where
  "checkMetricType t = (t \<in> {''node'', ''socket'', ''hwthread'', ''core'', ''memoryDomain''})"

definition genLikwidEventSet :: "goint list \<Rightarrow> nat \<Rightarrow> LikwidCollectorEventsetConfig \<Rightarrow> LikwidEventsetConfig" where
  "genLikwidEventSet hwthreads internal evset =
     (let clist = sort (map fst (le_Events evset));
          zeros = fold (\<lambda>k. map_put k (Num 0)) (map fst (le_Events evset) @ map lm_Name (le_Metrics evset)) []
      in \<lparr>lw_internal = internal, lw_eorder = clist,
          lw_estr = join '','' (map (\<lambda>k. map_get [] (le_Events evset) k @ '':'' @ k) clist),
          lw_results = fold (\<lambda>i. map_put i zeros) hwthreads [],
          lw_metrics = fold (\<lambda>i. map_put i []) hwthreads []\<rparr>)"

definition testLikwidMetricFormula :: "lw_eval \<Rightarrow> string \<Rightarrow> string list \<Rightarrow> bool" where
  "testLikwidMetricFormula eval formula params =
     (snd (eval formula (fold (\<lambda>p. map_put p (Num 1)) params [])) = None)"

definition baseFreqFiles :: "string list" where
  "baseFreqFiles = [''/sys/devices/system/cpu/cpu0/cpufreq/bios_limit'',
                    ''/sys/devices/system/cpu/cpu0/cpufreq/base_frequency'']"

text \<open>The first readable file that holds a number, else the cycle clock of the library.\<close>

fun first_freq :: "(string \<Rightarrow> string option) \<Rightarrow> string list \<Rightarrow> gofloat option" where
  "first_freq fs [] = None"
| "first_freq fs (f # files) =
     (case fs f of
        None \<Rightarrow> first_freq fs files
      | Some buffer \<Rightarrow>
          (case parse_int 0 (replace_all buffer [CHR 0x0A] []) of
             (x, None) \<Rightarrow> Some (f64_of_int (sint x))
           | _ \<Rightarrow> first_freq fs files))"

definition getBaseFreq :: "(string \<Rightarrow> string option) \<Rightarrow> goint \<Rightarrow> gofloat" where
  "getBaseFreq fs cycleClock =
     fmul binary64
       (case first_freq fs baseFreqFiles of
          Some freq \<Rightarrow> freq
        | None \<Rightarrow> fdiv binary64 (f64_of_int (uint cycleClock)) (Num 1000)) (Num 1000)"

subsection \<open>Init\<close>

text \<open>The calls of \<open>Init\<close> and \<open>Close\<close> that have an effect outside the collector.\<close>

datatype lw_action =
    SetEnv string string
  | TopologyInit
  | HPMmode int
  | HPMinit
  | HPMaddThread goint
  | TopologyFinalize

record lw_system =
  ls_lib_new :: bool
  ls_lib_open :: bool
  ls_setenv :: "string \<Rightarrow> bool"
  ls_path :: string
  ls_topology_init :: int
  ls_cpustr :: "string \<Rightarrow> goint option"  \<comment> \<open>\<open>cpustr_to_cpulist\<close> for one CPU, \<open>None\<close> if it fails\<close>
  ls_files :: "string \<Rightarrow> string option"
  ls_cycleClock :: goint
  ls_uid :: goint

text \<open>
  The checks of the metrics. They work on copies of the configurations: \<open>metric.Calc = ""\<close> does
  not reach \<open>m.config\<close>, so the outcome is the parameter list of the global metrics and the
  number of usable metrics only.
\<close>

definition check_metric :: "lw_eval \<Rightarrow> string list \<Rightarrow> LikwidCollectorMetricConfig \<Rightarrow> bool" where
  "check_metric eval params metric =
     (checkMetricType (lm_Type metric) \<and> testLikwidMetricFormula eval (lm_Calc metric) params)"

definition check_eventset ::
  "lw_eval \<Rightarrow> string list \<times> nat \<Rightarrow> LikwidCollectorEventsetConfig \<Rightarrow> string list \<times> nat" where
  "check_eventset eval st evset =
     (if le_Events evset = [] then st
      else let params = [''time'', ''inverseClock''] @ map fst (le_Events evset);
               usable = filter (check_metric eval params) (le_Metrics evset)
           in (fst st @ map lm_Name usable, snd st + length usable))"

definition totalMetrics :: "lw_eval \<Rightarrow> LikwidCollectorConfig \<Rightarrow> nat" where
  "totalMetrics eval cfg =
     (let st = foldl (check_eventset eval) ([''time'', ''inverseClock''], 0) (lc_Eventsets cfg)
      in snd st + length (filter (check_metric eval (fst st)) (lc_Metrics cfg)))"

definition likwid_tids :: "goint list \<Rightarrow> (goint \<times> goint) list" where
  "likwid_tids cpulist = fold (\<lambda>(i, c). map_put c (word_of_nat i)) (enumerate 0 cpulist) []"

definition likwid_sockets :: "lw_system \<Rightarrow> (goint \<times> goint) list \<Rightarrow> goint list \<Rightarrow> (goint \<times> goint) list" where
  "likwid_sockets sys cpu2tid sockets =
     fold (\<lambda>sid m. case ls_cpustr sys (''S'' @ itoa sid @ '':0'') of
                     Some cpu \<Rightarrow> map_put sid (map_get 0 cpu2tid cpu) m | None \<Rightarrow> m) sockets []"

definition likwid_tid2core :: "HwthreadEntry list \<Rightarrow> (goint \<times> goint) list" where
  "likwid_tid2core ds =
     fold (\<lambda>c. map_put (CpuID c) (case CoreCPUsList c of [] \<Rightarrow> CpuID c | first # _ \<Rightarrow> first)) ds []"

definition likwid_tid2socket :: "HwthreadEntry list \<Rightarrow> (goint \<times> goint) list" where
  "likwid_tid2socket ds = fold (\<lambda>c. map_put (CpuID c) (Socket c)) ds []"

definition likwid_collector :: "LikwidCollectorConfig \<Rightarrow> lw_system \<Rightarrow> topo_cache \<Rightarrow> LikwidCollector" where
  "likwid_collector cfg sys topo =
     (let cpu2tid = likwid_tids (HwthreadList topo)
      in \<lparr>lk_init = True, lk_meta = [(''group'', ''PerfCounter'')], lk_hwthreads = HwthreadList topo,
          lk_cpu2tid = cpu2tid, lk_sock2tid = likwid_sockets sys cpu2tid (SocketList topo),
          lk_tid2core = likwid_tid2core (CpuData topo), lk_tid2socket = likwid_tid2socket (CpuData topo),
          lk_config = cfg, lk_basefreq = getBaseFreq (ls_files sys) (ls_cycleClock sys),
          lk_myuid = ls_uid sys, lk_lock_err_once = False\<rparr>)"

text \<open>The access mode; \<open>None\<close> when the path of the daemon cannot be set.\<close>

definition likwid_access :: "LikwidCollectorConfig \<Rightarrow> lw_system \<Rightarrow> goint list \<Rightarrow> lw_action list \<times> bool" where
  "likwid_access cfg sys cpulist =
     (if lc_AccessMode cfg = ''direct'' then ([HPMmode 0], True)
      else if lc_AccessMode cfg = ''accessdaemon'' then
        (let path = (if ls_path sys = [] then lc_DaemonPath cfg else lc_DaemonPath cfg @ '':'' @ ls_path sys);
             daemon = (if lc_DaemonPath cfg = [] then [] else [SetEnv ''PATH'' path])
         in if daemon \<noteq> [] \<and> \<not> ls_setenv sys ''PATH'' then (daemon, False)
            else (daemon @ [HPMmode 1, HPMinit] @ map HPMaddThread cpulist, True))
      else ([], True))"

definition likwid_Init ::
  "lw_eval \<Rightarrow> topo_cache \<Rightarrow> lw_system \<Rightarrow> LikwidCollectorConfig \<Rightarrow>
   lw_action list \<times> (goerror + LikwidCollector)" where
  "likwid_Init eval topo sys cfg =
     (let force = (if lc_ForceOverwrite cfg then [SetEnv ''LIKWID_FORCE'' ''1''] else [])
      in if \<not> ls_lib_new sys then ([], Inl (GoError ''error instantiating DynamicLibrary''))
         else if \<not> ls_lib_open sys then ([], Inl (GoError ''error opening library''))
         else if force \<noteq> [] \<and> \<not> ls_setenv sys ''LIKWID_FORCE'' then (force, Inl (GoError ''error setting LIKWID_FORCE''))
         else if totalMetrics eval cfg = 0 then (force, Inl (GoError ''no LIKWID eventset or metric usable''))
         else if ls_topology_init sys \<noteq> 0 then (force @ [TopologyInit], Inl (GoError ''failed to initialize topology''))
         else case likwid_access cfg sys (HwthreadList topo) of
           (acts, ok) \<Rightarrow>
             (force @ TopologyInit # acts,
              if ok then Inr (likwid_collector cfg sys topo) else Inl (GoError ''error setting PATH'')))"

subsection \<open>One measurement\<close>

text \<open>The calls into the library, in the order of the code.\<close>

datatype lw_stage = PInit | PAdd | PSetup | PStart | PRead | PSleep | PReadAgain | PStop | PFinalize

text \<open>
  What a \<open>select\<close> finds: nothing, a signal, or an event of the lock file, which is a mere
  change of its attributes (\<open>Chmod\<close>) or not.
\<close>

datatype lw_event = Quiet | Signalled | LockEvent bool

datatype lw_stat = StatNotExist | StatError | StatOwner "32 word"

record lw_world =
  lww_watcher :: bool                \<comment> \<open>\<open>fsnotify.NewWatcher\<close>\<close>
  lww_stat :: lw_stat                \<comment> \<open>the lock file before\<close>
  lww_create :: bool
  lww_close :: bool
  lww_restat :: lw_stat              \<comment> \<open>and after its creation\<close>
  lww_event :: "lw_stage \<Rightarrow> lw_event"
  lww_ret :: "lw_stage \<Rightarrow> int"       \<comment> \<open>return codes; for \<open>PAdd\<close> the group\<close>
  lww_result :: "int \<Rightarrow> nat \<Rightarrow> goint \<Rightarrow> gofloat"
  lww_time :: "int \<Rightarrow> gofloat"

text \<open>
  The lock file: whether the measurement may go on, the error it returns with otherwise, and
  the flag that keeps the error of a foreign lock from being repeated.
\<close>

definition likwid_owner :: "LikwidCollector \<Rightarrow> lw_stat \<Rightarrow> LikwidCollector \<times> bool \<times> goerror option" where
  "likwid_owner m st =
     (case st of
        StatOwner uid \<Rightarrow>
          if uid \<noteq> ucast (lk_myuid m)
          then (m\<lparr>lk_lock_err_once := True\<rparr>, False,
                if lk_lock_err_once m then None else Some (GoError ''access to performance counters locked''))
          else (m\<lparr>lk_lock_err_once := False\<rparr>, True, None)
      | _ \<Rightarrow> (m, False, Some (GoError ''stat'')))"

definition likwid_lock :: "LikwidCollector \<Rightarrow> lw_world \<Rightarrow> LikwidCollector \<times> bool \<times> goerror option" where
  "likwid_lock m w =
     (if lc_LockfilePath (lk_config m) = [] then (m, True, None)
      else case lww_stat w of
        StatNotExist \<Rightarrow>
          if \<not> lww_create w then (m, False, Some (GoError ''failed to create lock file''))
          else if \<not> lww_close w then (m, False, Some (GoError ''failed to close lock file''))
          else likwid_owner m (lww_restat w)
      | st \<Rightarrow> likwid_owner m st)"

text \<open>
  One \<open>select\<close> around a call: after a \<open>Chmod\<close> of the lock file the call is left out and the
  return code stays what it was. Before \<open>signal.Notify\<close> no signal is seen.
\<close>

definition lw_call :: "lw_world \<Rightarrow> lw_stage \<Rightarrow> int \<Rightarrow> lw_stage list \<times> int" where
  "lw_call w st before =
     (case lww_event w st of
        Quiet \<Rightarrow> ([st], lww_ret w st)
      | LockEvent chmod \<Rightarrow> if chmod then ([], before) else ([st], lww_ret w st)
      | Signalled \<Rightarrow> if st = PInit \<or> st = PFinalize then ([st], lww_ret w st) else ([], -1))"

text \<open>Calls in sequence up to the first that fails.\<close>

fun lw_calls :: "lw_world \<Rightarrow> lw_stage list \<Rightarrow> lw_stage list \<times> bool" where
  "lw_calls w [] = ([], True)"
| "lw_calls w (st # sts) =
     (case lw_call w st 0 of (tr, ret) \<Rightarrow>
        if ret \<noteq> 0 then (tr, False) else (case lw_calls w sts of (tr', ok) \<Rightarrow> (tr @ tr', ok)))"

text \<open>Initialisation up to the second read: the calls and the group, \<open>None\<close> for an error.\<close>

definition lw_open :: "lw_world \<Rightarrow> lw_stage list \<times> int option" where
  "lw_open w =
     (case lw_call w PInit (-1) of (t0, ret) \<Rightarrow>
        if ret \<noteq> 0 then (t0, None)
        else case lw_call w PAdd (-1) of (t1, gid) \<Rightarrow>
          if gid < 0 then (t0 @ t1, None)
          else case lw_calls w [PSetup, PStart, PRead] of (t2, ok) \<Rightarrow>
            if \<not> ok then (t0 @ t1 @ t2, None)
            else case lw_calls w [PReadAgain] of (t3, ok3) \<Rightarrow>
              (t0 @ t1 @ t2 @ PSleep # t3, if ok3 then Some gid else None))"

definition lw_close :: "lw_world \<Rightarrow> lw_stage list \<times> bool" where
  "lw_close w =
     (case lw_calls w [PStop] of (t1, ok) \<Rightarrow>
        if ok then (t1 @ fst (lw_call w PFinalize 0), True) else (t1, False))"

text \<open>A store into a map of maps: a missing inner map is nil.\<close>

definition nested_write :: "goint \<Rightarrow> string \<Rightarrow> gofloat \<Rightarrow> lw_values \<Rightarrow> lw_values run" where
  "nested_write tid k v n =
     (case map_of n tid of None \<Rightarrow> Inl NilMapWrite | Some vs \<Rightarrow> Inr (map_put tid (map_put k v vs) n))"

definition nested_read :: "lw_values \<Rightarrow> goint \<Rightarrow> string \<Rightarrow> gofloat" where
  "nested_read n tid k = map_get (Num 0) (map_get [] n tid) k"

definition lw_invalid :: "gofloat \<Rightarrow> bool" where
  "lw_invalid x = (x \<in> {NaN, PosInf, NegInf})"

definition lw_store_counter ::
  "LikwidCollector \<Rightarrow> lw_world \<Rightarrow> int \<Rightarrow> lw_values \<Rightarrow> nat \<times> string \<Rightarrow> lw_values run" where
  "lw_store_counter m w gid res entry =
     (case entry of (eidx, gctr) \<Rightarrow>
        run_fold (\<lambda>r tid.
          let fres = lww_result w gid eidx tid
          in nested_write tid gctr (if lc_InvalidToZero (lk_config m) \<and> lw_invalid fres then Num 0 else fres) r)
          res (map snd (lk_cpu2tid m)))"

definition lw_store :: "LikwidCollector \<Rightarrow> lw_world \<Rightarrow> int \<Rightarrow> LikwidEventsetConfig \<Rightarrow> LikwidEventsetConfig run" where
  "lw_store m w gid evset =
     run_bind (run_fold (lw_store_counter m w gid) (lw_results evset) (enumerate 0 (lw_eorder evset))) (\<lambda>r1.
     run_bind (run_fold (\<lambda>r tid. nested_write tid ''time'' (lww_time w gid) r) r1 (map snd (lk_cpu2tid m))) (\<lambda>r2.
       Inr (evset\<lparr>lw_results := r2\<rparr>)))"

text \<open>The collector, the calls, the event set with its results, whether to skip it, the error.\<close>

definition takeMeasurement ::
  "LikwidCollector \<Rightarrow> LikwidEventsetConfig \<Rightarrow> lw_world \<Rightarrow>
   (LikwidCollector \<times> lw_stage list \<times> LikwidEventsetConfig \<times> bool \<times> goerror option) run" where
  "takeMeasurement m evset w =
     (if \<not> lww_watcher w then Inr (m, [], evset, True, Some (GoError ''failed to create watcher''))
      else case likwid_lock m w of
        (m', False, err) \<Rightarrow> Inr (m', [], evset, True, err)
      | (m', True, _) \<Rightarrow>
          (case lw_open w of
             (tr, None) \<Rightarrow> Inr (m', tr, evset, True, Some (GoError ''failed measurement''))
           | (tr, Some gid) \<Rightarrow>
               run_bind (lw_store m' w gid evset) (\<lambda>evset'.
                 case lw_close w of (tr', ok) \<Rightarrow>
                   Inr (m', tr @ tr', evset', \<not> ok, if ok then None else Some (GoError ''failed to stop events'')))))"

subsection \<open>Metrics\<close>

definition likwid_request ::
  "LikwidCollector \<Rightarrow> gotime \<Rightarrow> LikwidCollectorMetricConfig \<Rightarrow> tagmap \<Rightarrow> gofloat \<Rightarrow> request" where
  "likwid_request m now metric tags v =
     (let r = \<lparr>rq_name = lm_Name metric, rq_tags = tags, rq_meta = lk_meta m, rq_value = VFloat64 v, rq_time = Some now\<rparr>
      in if lm_Unit metric \<noteq> [] then add_meta ''unit'' (lm_Unit metric) r else r)"

definition domain_tags :: "LikwidCollectorMetricConfig \<Rightarrow> goint \<Rightarrow> tagmap" where
  "domain_tags metric domain =
     (''type'', lm_Type metric) # (if lm_Type metric \<noteq> ''node'' then [(''type-id'', itoa domain)] else [])"

definition scopemap :: "LikwidCollector \<Rightarrow> LikwidCollectorMetricConfig \<Rightarrow> (goint \<times> goint) list" where
  "scopemap m metric = (if lm_Type metric = ''socket'' then lk_sock2tid m else lk_cpu2tid m)"

text \<open>A formula that cannot be evaluated gives 0.\<close>

definition likwid_value :: "lw_eval \<Rightarrow> LikwidCollector \<Rightarrow> string \<Rightarrow> (string \<times> gofloat) list \<Rightarrow> gofloat" where
  "likwid_value eval m calc params =
     (let v = (case eval calc params of (x, None) \<Rightarrow> x | (_, Some _) \<Rightarrow> Num 0)
      in if lc_InvalidToZero (lk_config m) \<and> lw_invalid v then Num 0 else v)"

definition likwid_domain ::
  "lw_eval \<Rightarrow> LikwidCollector \<Rightarrow> gotime \<Rightarrow> LikwidCollectorMetricConfig \<Rightarrow> LikwidEventsetConfig \<Rightarrow> goint \<times> goint \<Rightarrow>
   (LikwidEventsetConfig \<times> request list) run" where
  "likwid_domain eval m now metric evset e =
     (case e of (domain, tid) \<Rightarrow>
        if sint tid < 0 \<or> lm_Calc metric = [] then Inr (evset, [])
        else let v = likwid_value eval m (lm_Calc metric) (map_get [] (lw_results evset) tid)
             in run_bind (nested_write tid (lm_Name metric) v (lw_metrics evset)) (\<lambda>ms.
                  Inr (evset\<lparr>lw_metrics := ms\<rparr>,
                       if v \<noteq> NaN \<and> lm_Publish metric
                       then [likwid_request m now metric (domain_tags metric domain) v] else [])))"

text \<open>The values that go into the totals, with their hardware thread.\<close>

definition total_values ::
  "LikwidCollector \<Rightarrow> LikwidCollectorMetricConfig \<Rightarrow> LikwidEventsetConfig \<Rightarrow> (goint \<times> gofloat) list" where
  "total_values m metric evset =
     filter (\<lambda>(tid, v). v \<noteq> NaN \<and> lm_Publish metric)
       (map (\<lambda>tid. (tid, nested_read (lw_metrics evset) tid (lm_Name metric)))
          (filter (\<lambda>tid. 0 \<le> sint tid \<and> lm_Calc metric \<noteq> []) (map snd (scopemap m metric))))"

definition add_total :: "(goint \<times> goint) list \<Rightarrow> goint \<times> gofloat \<Rightarrow> (goint \<times> gofloat) list \<Rightarrow> (goint \<times> gofloat) list" where
  "add_total ids e totals =
     (case e of (tid, v) \<Rightarrow>
        (let i = map_get 0 ids tid in map_put i (fadd binary64 (map_get (Num 0) totals i) v) totals))"

definition domain_totals ::
  "LikwidCollector \<Rightarrow> gotime \<Rightarrow> LikwidCollectorMetricConfig \<Rightarrow> LikwidEventsetConfig \<Rightarrow> string \<Rightarrow> (goint \<times> goint) list \<Rightarrow>
   request list" where
  "domain_totals m now metric evset type ids =
     map (\<lambda>(i, v). likwid_request m now metric [(''type'', type), (''type-id'', itoa i)] v)
       (fold (add_total ids) (total_values m metric evset) [])"

definition node_total ::
  "LikwidCollector \<Rightarrow> gotime \<Rightarrow> LikwidCollectorMetricConfig \<Rightarrow> LikwidEventsetConfig \<Rightarrow> request" where
  "node_total m now metric evset =
     likwid_request m now metric [(''type'', ''node'')]
       (fold (\<lambda>(_, v) total. fadd binary64 total v) (total_values m metric evset) (Num 0))"

definition likwid_totals ::
  "LikwidCollector \<Rightarrow> gotime \<Rightarrow> LikwidCollectorMetricConfig \<Rightarrow> LikwidEventsetConfig \<Rightarrow> request list" where
  "likwid_totals m now metric evset =
     (if lm_SendCoreTotalVal metric then domain_totals m now metric evset ''core'' (lk_tid2core m) else []) @
     (if lm_SendSocketTotalVal metric then domain_totals m now metric evset ''socket'' (lk_tid2socket m) else []) @
     (if lm_SendNodeTotalVal metric then [node_total m now metric evset] else [])"

text \<open>\<open>now i\<close> is the time at which the metric with index \<open>i\<close> is sent.\<close>

definition likwid_metric ::
  "lw_eval \<Rightarrow> LikwidCollector \<Rightarrow> (nat \<Rightarrow> gotime) \<Rightarrow> LikwidEventsetConfig \<Rightarrow> nat \<times> LikwidCollectorMetricConfig \<Rightarrow>
   (LikwidEventsetConfig \<times> request list) run" where
  "likwid_metric eval m now evset e =
     (case e of (i, metric) \<Rightarrow>
        run_bind (run_steps (likwid_domain eval m (now i) metric) evset (scopemap m metric)) (\<lambda>(evset', rs).
          Inr (evset', rs @ likwid_totals m (now i) metric evset')))"

definition lw_constants :: "LikwidCollector \<Rightarrow> gofloat \<Rightarrow> lw_values \<Rightarrow> goint \<Rightarrow> lw_values run" where
  "lw_constants m interval res tid =
     run_bind (nested_write tid ''inverseClock'' (fdiv binary64 (Num 1) (lk_basefreq m)) res)
       (nested_write tid ''gotime'' interval)"

definition calcEventsetMetrics ::
  "lw_eval \<Rightarrow> LikwidCollector \<Rightarrow> (nat \<Rightarrow> gotime) \<Rightarrow> gofloat \<Rightarrow> LikwidEventsetConfig \<Rightarrow>
   (LikwidEventsetConfig \<times> request list) run" where
  "calcEventsetMetrics eval m now interval evset =
     run_bind (run_fold (lw_constants m interval) (lw_results evset) (map snd (lk_cpu2tid m))) (\<lambda>res.
     run_bind (at_index (lc_Eventsets (lk_config m)) (int (lw_internal evset))) (\<lambda>cfg.
       run_steps (likwid_metric eval m now) (evset\<lparr>lw_results := res\<rparr>) (enumerate 0 (le_Metrics cfg))))"

text \<open>\<open>maps.Copy\<close> of the metrics of every group: later groups win.\<close>

definition global_params :: "LikwidEventsetConfig list \<Rightarrow> gofloat \<Rightarrow> goint \<Rightarrow> (string \<times> gofloat) list" where
  "global_params groups interval tid =
     map_put ''gotime'' interval
       (fold (\<lambda>g params. fold (\<lambda>(k, v). map_put k v) (map_get [] (lw_metrics g) tid) params) groups [])"

definition global_domain ::
  "lw_eval \<Rightarrow> LikwidCollector \<Rightarrow> gotime \<Rightarrow> gofloat \<Rightarrow> LikwidEventsetConfig list \<Rightarrow> LikwidCollectorMetricConfig \<Rightarrow>
   goint \<times> goint \<Rightarrow> request list" where
  "global_domain eval m now interval groups metric e =
     (case e of (domain, tid) \<Rightarrow>
        if sint tid < 0 then []
        else let v = likwid_value eval m (lm_Calc metric) (global_params groups interval tid)
             in if v \<noteq> NaN \<and> lm_Publish metric
                then [likwid_request m now metric (domain_tags metric domain) v] else [])"

definition calcGlobalMetrics ::
  "lw_eval \<Rightarrow> LikwidCollector \<Rightarrow> gotime \<Rightarrow> gofloat \<Rightarrow> LikwidEventsetConfig list \<Rightarrow> request list" where
  "calcGlobalMetrics eval m now interval groups =
     concat (map (\<lambda>metric. concat (map (global_domain eval m now interval groups metric) (scopemap m metric)))
       (lc_Metrics (lk_config m)))"

subsection \<open>Read and Close\<close>

text \<open>
  The loop over the event sets: the worlds of the measurements still to come, the groups
  measured so far. An error ends the read, without global metrics.
\<close>

record lw_run =
  lr_collector :: LikwidCollector
  lr_calls :: "lw_stage list"
  lr_requests :: "request list"

fun likwid_eventsets ::
  "lw_eval \<Rightarrow> (nat \<Rightarrow> lw_world) \<Rightarrow> (nat \<Rightarrow> nat \<Rightarrow> gotime) \<Rightarrow> gotime \<Rightarrow> gofloat \<Rightarrow>
   (nat \<times> LikwidCollectorEventsetConfig) list \<Rightarrow> LikwidEventsetConfig list \<Rightarrow> lw_run \<Rightarrow> lw_run run" where
  "likwid_eventsets eval w now endt interval [] groups s =
     Inr (if groups = [] then s
          else s\<lparr>lr_requests := lr_requests s @ calcGlobalMetrics eval (lr_collector s) endt interval groups\<rparr>)"
| "likwid_eventsets eval w now endt interval ((evidx, evset) # rest) groups s =
     run_bind (takeMeasurement (lr_collector s) (genLikwidEventSet (lk_hwthreads (lr_collector s)) evidx evset) (w evidx))
       (\<lambda>(m, tr, e, skip, err).
          let s1 = s\<lparr>lr_collector := m, lr_calls := lr_calls s @ tr\<rparr>
          in if err \<noteq> None then Inr s1
             else if skip then likwid_eventsets eval w now endt interval rest groups s1
             else run_bind (calcEventsetMetrics eval m (now evidx) interval e) (\<lambda>(e', rs).
                    likwid_eventsets eval w now endt interval rest (groups @ [e'])
                      (s1\<lparr>lr_requests := lr_requests s1 @ rs\<rparr>)))"

definition ReadThread ::
  "lw_eval \<Rightarrow> (nat \<Rightarrow> lw_world) \<Rightarrow> (nat \<Rightarrow> nat \<Rightarrow> gotime) \<Rightarrow> gotime \<Rightarrow> int \<Rightarrow> LikwidCollector \<Rightarrow> lw_run run" where
  "ReadThread eval w now endt interval m =
     likwid_eventsets eval w now endt (duration_seconds interval)
       (enumerate 0 (lc_Eventsets (lk_config m))) [] \<lparr>lr_collector = m, lr_calls = [], lr_requests = []\<rparr>"

definition likwid_Read ::
  "lw_eval \<Rightarrow> (nat \<Rightarrow> lw_world) \<Rightarrow> (nat \<Rightarrow> nat \<Rightarrow> gotime) \<Rightarrow> gotime \<Rightarrow> int \<Rightarrow> LikwidCollector \<Rightarrow> lw_run run" where
  "likwid_Read eval w now endt interval m =
     (if \<not> lk_init m then Inr \<lparr>lr_collector = m, lr_calls = [], lr_requests = []\<rparr>
      else ReadThread eval w now endt interval m)"

definition likwid_Close :: "LikwidCollector \<Rightarrow> LikwidCollector \<times> lw_action list" where
  "likwid_Close m = (if lk_init m then (m\<lparr>lk_init := False\<rparr>, [TopologyFinalize]) else (m, []))"

subsection \<open>Maps of maps\<close>

text \<open>Stores for a list of hardware threads: they all need an inner map, and keep the keys.\<close>

lemma nested_write_keys: "nested_write tid k v n = Inr n' \<Longrightarrow> fst ` set n' = fst ` set n"
proof -
  assume "nested_write tid k v n = Inr n'"
  then obtain vs where vs: "map_of n tid = Some vs" and n': "n' = map_put tid (map_put k v vs) n"
    by (auto simp: nested_write_def split: option.splits)
  have "tid \<in> fst ` set n" using map_of_SomeD [OF vs] by force
  then show ?thesis by (auto simp: n' map_put_keys)
qed

lemma nested_write_panics_iff: "(\<exists>p. nested_write tid k v n = Inl p) \<longleftrightarrow> tid \<notin> fst ` set n"
  by (auto simp: nested_write_def map_of_eq_None_iff [symmetric] split: option.splits)

lemma nested_writes:
  assumes "\<And>n tid. (\<exists>p. f n tid = Inl p) \<longleftrightarrow> tid \<notin> fst ` set n"
    and "\<And>n tid n'. f n tid = Inr n' \<Longrightarrow> fst ` set n' = fst ` set n"
  shows "((\<exists>p. run_fold f n tids = Inl p) \<longleftrightarrow> \<not> set tids \<subseteq> fst ` set n) \<and>
         (\<forall>n'. run_fold f n tids = Inr n' \<longrightarrow> fst ` set n' = fst ` set n)"
proof (induction tids arbitrary: n)
  case (Cons tid tids)
  show ?case
  proof (cases "f n tid")
    case (Inl p)
    with assms(1) [of n tid] show ?thesis by auto
  next
    case (Inr n1)
    with assms(1) [of n tid] have "tid \<in> fst ` set n" by auto
    moreover have "fst ` set n1 = fst ` set n" using assms(2) [OF Inr] .
    ultimately show ?thesis using Cons.IH [of n1] Inr by auto
  qed
qed simp

lemma lw_store_counter_keys:
  "((\<exists>p. lw_store_counter m w gid res e = Inl p) \<longleftrightarrow> \<not> snd ` set (lk_cpu2tid m) \<subseteq> fst ` set res) \<and>
   (\<forall>res'. lw_store_counter m w gid res e = Inr res' \<longrightarrow> fst ` set res' = fst ` set res)"
  unfolding lw_store_counter_def case_prod_beta Let_def
  using nested_writes [of "\<lambda>r tid. nested_write tid (snd e)
      (if lc_InvalidToZero (lk_config m) \<and> lw_invalid (lww_result w gid (fst e) tid) then Num 0
       else lww_result w gid (fst e) tid) r" res "map snd (lk_cpu2tid m)"]
  by (simp add: nested_write_panics_iff nested_write_keys)

lemma lw_store_panics_iff:
  "(\<exists>p. lw_store m w gid evset = Inl p) \<longleftrightarrow> \<not> snd ` set (lk_cpu2tid m) \<subseteq> fst ` set (lw_results evset)"
proof -
  let ?T = "snd ` set (lk_cpu2tid m)"
  have counters: "(\<not> (?T \<subseteq> fst ` set res) \<longrightarrow> es = [] \<or> (\<exists>p. run_fold (lw_store_counter m w gid) res es = Inl p)) \<and>
      (?T \<subseteq> fst ` set res \<longrightarrow> (\<exists>r. run_fold (lw_store_counter m w gid) res es = Inr r \<and> fst ` set r = fst ` set res))"
    for res es
  proof (induction es arbitrary: res)
    case (Cons e es)
    show ?case
    proof (cases "lw_store_counter m w gid res e")
      case (Inl p)
      with lw_store_counter_keys [of m w gid res e] show ?thesis by auto
    next
      case (Inr r1)
      with lw_store_counter_keys [of m w gid res e] Cons.IH [of r1] show ?thesis by auto
    qed
  qed simp
  have time: "(\<exists>p. run_fold (\<lambda>r tid. nested_write tid ''time'' (lww_time w gid) r) r (map snd (lk_cpu2tid m)) = Inl p) \<longleftrightarrow>
      \<not> ?T \<subseteq> fst ` set r" for r
    using nested_writes [of "\<lambda>r tid. nested_write tid ''time'' (lww_time w gid) r" r "map snd (lk_cpu2tid m)"]
    by (simp add: nested_write_panics_iff nested_write_keys)
  show ?thesis
  proof (cases "?T \<subseteq> fst ` set (lw_results evset)")
    case True
    with counters [of "lw_results evset" "enumerate 0 (lw_eorder evset)"] obtain r where
      r: "run_fold (lw_store_counter m w gid) (lw_results evset) (enumerate 0 (lw_eorder evset)) = Inr r"
      "fst ` set r = fst ` set (lw_results evset)" by auto
    with time [of r] True show ?thesis by (simp add: lw_store_def run_bind_Inl_iff)
  next
    case False
    show ?thesis
    proof (cases "lw_eorder evset = []")
      case True
      with False time [of "lw_results evset"] show ?thesis by (auto simp: lw_store_def)
    next
      case nonempty: False
      then have "enumerate 0 (lw_eorder evset) \<noteq> []" by (cases "lw_eorder evset") simp_all
      with False counters [of "lw_results evset" "enumerate 0 (lw_eorder evset)"] show ?thesis
        by (auto simp: lw_store_def)
    qed
  qed
qed

subsection \<open>Which hardware threads can be measured\<close>

lemma likwid_tids_distinct:
  assumes "distinct L"
  shows "likwid_tids L = map (\<lambda>(i, c). (c, word_of_nat i)) (enumerate 0 L)"
proof -
  have "likwid_tids L = fold (\<lambda>(k, v). map_put k v) (map (\<lambda>(i, c). (c, word_of_nat i)) (enumerate 0 L)) []"
    by (simp add: likwid_tids_def fold_map comp_def split_def)
  also have "\<dots> = map (\<lambda>(i, c). (c, word_of_nat i)) (enumerate 0 L)"
    using fold_map_put_new [of "[]" "map (\<lambda>(i, c). (c, word_of_nat i)) (enumerate 0 L)"] assms
    by (simp add: comp_def case_prod_beta)
  finally show ?thesis .
qed

lemma likwid_tids_range:
  assumes "distinct L"
  shows "snd ` set (likwid_tids L) = word_of_nat ` {..<length L}"
proof -
  have "snd ` set (likwid_tids L) = word_of_nat ` (fst ` set (enumerate 0 L))"
    by (simp add: likwid_tids_distinct [OF assms] image_image case_prod_beta)
  also have "fst ` set (enumerate 0 L) = {..<length L}"
    using map_fst_enumerate [of 0 L] by (metis atLeast_upt list.set_map add_0)
  finally show ?thesis .
qed

lemma fold_put_keys: "fst ` set (fold (\<lambda>i. map_put i z) L m) = set L \<union> fst ` set m"
  by (induction L arbitrary: m) (auto simp: map_put_keys)

lemma result_keys: "fst ` set (lw_results (genLikwidEventSet L i evset)) = set L"
  by (simp add: genLikwidEventSet_def Let_def fold_put_keys)

lemma likwid_Init_ok:
  "likwid_Init eval topo sys cfg = (acts, Inr m) \<Longrightarrow> m = likwid_collector cfg sys topo"
  by (auto simp: likwid_Init_def Let_def split: if_splits prod.splits)

lemma HwthreadList_distinct: "topo_init fs = Some topo \<Longrightarrow> distinct (HwthreadList topo)"
  by (simp add: HwthreadList_def topo_init_shape sorted_ids_def compact_sort_ints)

lemma likwid_lock_maps:
  "likwid_lock m w = (m', ok, err) \<Longrightarrow>
   lk_cpu2tid m' = lk_cpu2tid m \<and> lk_config m' = lk_config m \<and> lk_hwthreads m' = lk_hwthreads m"
  by (auto simp: likwid_lock_def likwid_owner_def split: if_splits lw_stat.splits)

text \<open>C24: LIKWID counts the hardware threads from 0 on, the result maps are keyed by the operating
  system's CPU numbers: a measurement that gets as far as reading the counters panics exactly when
  some number below the number of hardware threads is not the number of a hardware thread, that
  is, when the CPU numbers of the node have a gap (a CPU is offline).\<close>

theorem likwid_panics_on_gaps:
  assumes "topo_init fs = Some topo" and "likwid_Init eval topo sys cfg = (acts, Inr m)"
    and "lww_watcher w" and "likwid_lock m w = (m', True, err)" and "lw_open w = (tr, Some gid)"
  shows "(\<exists>p. takeMeasurement m (genLikwidEventSet (lk_hwthreads m) i evset) w = Inl p) \<longleftrightarrow>
         (\<exists>k < length (HwthreadList topo). word_of_nat k \<notin> set (HwthreadList topo))"
proof -
  let ?e = "genLikwidEventSet (lk_hwthreads m) i evset"
  have m: "lk_hwthreads m = HwthreadList topo" "lk_cpu2tid m = likwid_tids (HwthreadList topo)"
    using likwid_Init_ok [OF assms(2)] by (simp_all add: likwid_collector_def Let_def)
  have "(\<exists>p. takeMeasurement m ?e w = Inl p) \<longleftrightarrow> (\<exists>p. lw_store m' w gid ?e = Inl p)"
    using assms(3-5) by (cases "lw_store m' w gid ?e") (auto simp: takeMeasurement_def split: prod.splits)
  also have "\<dots> \<longleftrightarrow> \<not> snd ` set (likwid_tids (HwthreadList topo)) \<subseteq> set (HwthreadList topo)"
    using likwid_lock_maps [OF assms(4)] m by (simp add: lw_store_panics_iff result_keys)
  also have "\<dots> \<longleftrightarrow> (\<exists>k < length (HwthreadList topo). word_of_nat k \<notin> set (HwthreadList topo))"
    using likwid_tids_range [OF HwthreadList_distinct [OF assms(1)]] by auto
  finally show ?thesis .
qed

subsection \<open>The calls of a measurement\<close>

definition full_measurement :: "lw_stage list" where
  "full_measurement = [PInit, PAdd, PSetup, PStart, PRead, PSleep, PReadAgain, PStop, PFinalize]"

lemma lw_call_trace: "subseq (fst (lw_call w st b)) [st]"
  by (auto simp: lw_call_def split: lw_event.splits)

lemma lw_calls_trace: "subseq (fst (lw_calls w sts)) sts"
proof (induction sts)
  case (Cons st sts)
  have "subseq (fst (lw_call w st 0) @ t) ([st] @ sts)" if "subseq t sts" for t
    using list_emb_append_mono [OF lw_call_trace that] .
  from this [of "[]"] this [OF Cons] show ?case
    by (simp add: case_prod_beta)
qed simp

lemma lw_open_trace: "subseq (fst (lw_open w)) [PInit, PAdd, PSetup, PStart, PRead, PSleep, PReadAgain]"
proof -
  define t0 t1 t2 t3 where "t0 = fst (lw_call w PInit (-1))" and "t1 = fst (lw_call w PAdd (-1))"
    and "t2 = fst (lw_calls w [PSetup, PStart, PRead])" and "t3 = fst (lw_calls w [PReadAgain])"
  have subs: "subseq t0 [PInit]" "subseq t1 [PAdd]" "subseq t2 [PSetup, PStart, PRead]" "subseq t3 [PReadAgain]"
    unfolding t0_def t1_def t2_def t3_def by (rule lw_call_trace lw_calls_trace)+
  have "fst (lw_open w) \<in> {t0, t0 @ t1, t0 @ t1 @ t2, t0 @ t1 @ t2 @ [PSleep] @ t3}"
    by (auto simp: lw_open_def t0_def t1_def t2_def t3_def case_prod_beta)
  moreover have "subseq (t0 @ t1 @ t2 @ [PSleep] @ t3) ([PInit] @ [PAdd] @ [PSetup, PStart, PRead] @ [PSleep] @ [PReadAgain])"
    by (intro list_emb_append_mono subs) simp
  moreover have "subseq t0 (t0 @ t1 @ t2 @ [PSleep] @ t3)" "subseq (t0 @ t1) (t0 @ t1 @ t2 @ [PSleep] @ t3)"
      "subseq (t0 @ t1 @ t2) (t0 @ t1 @ t2 @ [PSleep] @ t3)"
    by (metis append.assoc list_emb_append2 subseq_order.refl prefix_imp_subseq prefix_def)+
  ultimately show ?thesis by (auto dest: subseq_order.trans)
qed

lemma lw_close_trace: "subseq (fst (lw_close w)) [PStop, PFinalize]"
proof -
  have "subseq (fst (lw_calls w [PStop]) @ fst (lw_call w PFinalize 0)) ([PStop] @ [PFinalize])"
    by (intro list_emb_append_mono lw_calls_trace lw_call_trace)
  moreover have "subseq (fst (lw_calls w [PStop]) @ []) ([PStop] @ [PFinalize])"
    by (intro list_emb_append_mono lw_calls_trace) simp
  ultimately show ?thesis by (simp add: lw_close_def case_prod_beta)
qed

text \<open>C23: a measurement calls the library in the order of a full measurement and only leaves calls
  out; it ends the session with the library only if it succeeded: a measurement that is skipped,
  with or without an error, never calls \<open>perfmon_finalize\<close>, even if \<open>perfmon_init\<close> and the setup of
  the counters had succeeded; and it calls nothing at all while the lock file belongs to another
  user.\<close>

theorem likwid_measurement_calls:
  assumes "takeMeasurement m evset w = Inr (m', tr, evset', skip, err)"
  shows "subseq tr full_measurement \<and> (skip \<longrightarrow> PFinalize \<notin> set tr) \<and> (err \<noteq> None \<longrightarrow> skip) \<and>
         (\<forall>uid. lc_LockfilePath (lk_config m) \<noteq> [] \<longrightarrow> lww_stat w = StatOwner uid \<longrightarrow> uid \<noteq> ucast (lk_myuid m) \<longrightarrow>
            tr = [] \<and> skip)"
proof (cases "lww_watcher w \<and> fst (snd (likwid_lock m w))")
  case False
  with assms have "tr = [] \<and> skip"
    by (cases "likwid_lock m w") (auto simp: takeMeasurement_def split: bool.splits if_splits)
  then show ?thesis by simp
next
  case True
  then obtain m1 err1 where watcher: "lww_watcher w" and lock: "likwid_lock m w = (m1, True, err1)"
    by (cases "likwid_lock m w") auto
  have own: "\<not> (lc_LockfilePath (lk_config m) \<noteq> [] \<and> lww_stat w = StatOwner uid \<and> uid \<noteq> ucast (lk_myuid m))" for uid
    using lock by (auto simp: likwid_lock_def likwid_owner_def split: if_splits)
  have nofin: "PFinalize \<notin> set (fst (lw_open w))"
    using subseq_order.trans [OF _ lw_open_trace [of w], of "[PFinalize]"] by (auto simp: subseq_singleton_left)
  have trace: "subseq (fst (lw_open w) @ t) full_measurement" if "subseq t [PStop, PFinalize]" for t
    using list_emb_append_mono [OF lw_open_trace that] by (simp add: full_measurement_def)
  show ?thesis
  proof (cases "snd (lw_open w)")
    case None
    with watcher lock assms have "tr = fst (lw_open w)" "skip"
      by (auto simp: takeMeasurement_def split: prod.splits)
    with nofin own trace [of "[]"] show ?thesis by auto
  next
    case (Some gid)
    with watcher lock assms have tr: "tr = fst (lw_open w) @ fst (lw_close w)" "skip = (\<not> snd (lw_close w))"
        "err \<noteq> None \<longrightarrow> skip"
      by (cases "lw_open w"; cases "lw_close w"; auto simp: takeMeasurement_def run_simps)+
    have "PFinalize \<notin> set (fst (lw_close w))" if "\<not> snd (lw_close w)"
      using that by (auto simp: lw_close_def lw_call_def split: if_splits prod.splits lw_event.splits)
    with tr nofin own trace [OF lw_close_trace] show ?thesis by auto
  qed
qed

subsection \<open>Totals\<close>

text \<open>The sum over the hardware threads of one core or socket.\<close>

definition group_sum :: "(goint \<times> goint) list \<Rightarrow> (goint \<Rightarrow> int) \<Rightarrow> goint list \<Rightarrow> goint \<Rightarrow> int" where
  "group_sum ids f tids i = (\<Sum>tid\<leftarrow>filter (\<lambda>tid. map_get 0 ids tid = i) tids. f tid)"

lemma group_sum_bound: "\<bar>group_sum ids f tids i\<bar> \<le> (\<Sum>tid\<leftarrow>tids. \<bar>f tid\<bar>)"
  by (induction tids) (auto simp: group_sum_def)

lemma fold_add_total:
  assumes "(\<Sum>tid\<leftarrow>tids. \<bar>f tid\<bar>) < 2 ^ 53"
  shows "distinct (map fst (fold (add_total ids) (map (\<lambda>tid. (tid, Num (of_int (f tid)))) tids) [])) \<and>
    (\<forall>i. map_of (fold (add_total ids) (map (\<lambda>tid. (tid, Num (of_int (f tid)))) tids) []) i =
       (if i \<in> map_get 0 ids ` set tids then Some (Num (of_int (group_sum ids f tids i))) else None))"
  using assms
proof (induction tids rule: rev_induct)
  case (snoc t tids)
  let ?R = "fold (add_total ids) (map (\<lambda>tid. (tid, Num (of_int (f tid)))) tids) []"
  define i where "i = map_get 0 ids t"
  have bound: "(\<Sum>tid\<leftarrow>tids. \<bar>f tid\<bar>) < 2 ^ 53" using snoc.prems by simp
  note IH = snoc.IH [OF bound]
  have "group_sum ids f tids i = 0" if "i \<notin> map_get 0 ids ` set tids"
  proof -
    have "filter (\<lambda>tid. map_get 0 ids tid = i) tids = []" using that by (auto simp: filter_empty_conv)
    then show ?thesis by (simp add: group_sum_def)
  qed
  then have "map_get (Num 0) ?R i = Num (of_int (group_sum ids f tids i))"
    using IH by (auto simp: map_get_def)
  moreover have "\<bar>group_sum ids f tids i + f t\<bar> < 2 ^ 53"
    using group_sum_bound [of ids f tids i] snoc.prems by simp
  ultimately have step: "fold (add_total ids) (map (\<lambda>tid. (tid, Num (of_int (f tid)))) (tids @ [t])) [] =
      map_put i (Num (of_int (group_sum ids f tids i + f t))) ?R"
    using fadd_int [of "group_sum ids f tids i" "f t"] by (simp add: add_total_def i_def [symmetric] Let_def)
  have sums: "group_sum ids f (tids @ [t]) j = group_sum ids f tids j + (if j = i then f t else 0)" for j
    by (simp add: group_sum_def i_def)
  show ?case unfolding step using IH by (simp add: map_put_distinct sums i_def [symmetric])
qed simp

lemma fold_node_total:
  assumes "(\<Sum>tid\<leftarrow>tids. \<bar>f tid\<bar>) < 2 ^ 53"
  shows "fold (\<lambda>(_, v) total. fadd binary64 total v) (map (\<lambda>tid. (tid, Num (of_int (f tid)))) tids) (Num 0) =
         Num (of_int (\<Sum>tid\<leftarrow>tids. f tid))"
  using assms
proof (induction tids rule: rev_induct)
  case (snoc t tids)
  have "\<bar>\<Sum>tid\<leftarrow>tids. f tid\<bar> \<le> (\<Sum>tid\<leftarrow>tids. \<bar>f tid\<bar>)" by (induction tids) simp_all
  with snoc.prems have "\<bar>(\<Sum>tid\<leftarrow>tids. f tid) + f t\<bar> < 2 ^ 53" by simp
  from fadd_int [OF this] snoc show ?case by simp
qed simp

definition published :: "LikwidCollector \<Rightarrow> LikwidCollectorMetricConfig \<Rightarrow> bool" where
  "published m metric =
     (lm_Publish metric \<and> lm_Calc metric \<noteq> [] \<and> (\<forall>e \<in> set (scopemap m metric). 0 \<le> sint (snd e)))"

lemma total_values_int:
  assumes "published m metric"
    and "\<And>tid. tid \<in> snd ` set (scopemap m metric) \<Longrightarrow>
           nested_read (lw_metrics evset) tid (lm_Name metric) = Num (of_int (f tid))"
  shows "total_values m metric evset = map (\<lambda>tid. (tid, Num (of_int (f tid)))) (map snd (scopemap m metric))"
proof -
  have "filter (\<lambda>tid. 0 \<le> sint tid \<and> lm_Calc metric \<noteq> []) (map snd (scopemap m metric)) = map snd (scopemap m metric)"
    using assms(1) by (auto simp: published_def filter_id_conv)
  moreover have "map (\<lambda>tid. (tid, nested_read (lw_metrics evset) tid (lm_Name metric))) (map snd (scopemap m metric)) =
      map (\<lambda>tid. (tid, Num (of_int (f tid)))) (map snd (scopemap m metric))"
    using assms(2) by auto
  ultimately show ?thesis
    unfolding total_values_def using assms(1) by (simp add: published_def filter_id_conv case_prod_beta)
qed

lemma likwid_totals_exact:
  assumes "published m metric"
    and "\<And>tid. tid \<in> snd ` set (scopemap m metric) \<Longrightarrow>
           nested_read (lw_metrics evset) tid (lm_Name metric) = Num (of_int (f tid))"
    and "(\<Sum>tid\<leftarrow>map snd (scopemap m metric). \<bar>f tid\<bar>) < 2 ^ 53"
  shows "node_total m now metric evset =
           likwid_request m now metric [(''type'', ''node'')] (Num (of_int (\<Sum>tid\<leftarrow>map snd (scopemap m metric). f tid))) \<and>
         set (domain_totals m now metric evset type ids) =
           (\<lambda>i. likwid_request m now metric [(''type'', type), (''type-id'', itoa i)]
                  (Num (of_int (group_sum ids f (map snd (scopemap m metric)) i)))) `
             (map_get 0 ids ` snd ` set (scopemap m metric)) \<and>
         length (domain_totals m now metric evset type ids) = card (map_get 0 ids ` snd ` set (scopemap m metric))"
proof -
  let ?tids = "map snd (scopemap m metric)"
  let ?R = "fold (add_total ids) (total_values m metric evset) []"
  note vals = total_values_int [where f = f, OF assms(1,2)]
  have R: "distinct (map fst ?R)"
    "\<And>i. map_of ?R i = (if i \<in> map_get 0 ids ` set ?tids then Some (Num (of_int (group_sum ids f ?tids i))) else None)"
    using fold_add_total [OF assms(3), of ids] vals by simp_all
  have set_R: "set ?R = (\<lambda>i. (i, Num (of_int (group_sum ids f ?tids i)))) ` (map_get 0 ids ` set ?tids)"
  proof (intro set_eqI)
    fix e :: "goint \<times> gofloat"
    obtain i v where e: "e = (i, v)" by (cases e)
    have "e \<in> set ?R \<longleftrightarrow> map_of ?R i = Some v" using R(1) e by simp
    then show "e \<in> set ?R \<longleftrightarrow> e \<in> (\<lambda>i. (i, Num (of_int (group_sum ids f ?tids i)))) ` (map_get 0 ids ` set ?tids)"
      using R(2) [of i] e by auto
  qed
  have "length ?R = card (fst ` set ?R)" using distinct_card [OF R(1)] by simp
  also have "fst ` set ?R = map_get 0 ids ` set ?tids" unfolding set_R by (simp add: image_image)
  finally have "length ?R = card (map_get 0 ids ` set ?tids)" .
  moreover have "node_total m now metric evset = likwid_request m now metric [(''type'', ''node'')]
      (Num (of_int (\<Sum>tid\<leftarrow>?tids. f tid)))"
    using fold_node_total [OF assms(3)] vals by (simp add: node_total_def)
  ultimately show ?thesis using set_R by (simp add: domain_totals_def image_image)
qed

text \<open>The loop over the domains of a metric: what it stores and what it sends.\<close>

lemma nested_read_write:
  "nested_write tid k v n = Inr n' \<Longrightarrow> nested_read n' t k = (if t = tid then v else nested_read n t k)"
  by (auto simp: nested_write_def nested_read_def map_get_def split: option.splits)

lemma likwid_domains:
  assumes "published m metric" and "set scope \<subseteq> set (scopemap m metric)"
    and "run_steps (likwid_domain eval m now metric) evset scope = Inr (evset', rs)"
  shows "lw_results evset' = lw_results evset \<and>
    (\<forall>t. nested_read (lw_metrics evset') t (lm_Name metric) =
       (if t \<in> snd ` set scope then likwid_value eval m (lm_Calc metric) (map_get [] (lw_results evset) t)
        else nested_read (lw_metrics evset) t (lm_Name metric))) \<and>
    rs = concat (map (\<lambda>(domain, tid).
      let v = likwid_value eval m (lm_Calc metric) (map_get [] (lw_results evset) tid)
      in if v \<noteq> NaN then [likwid_request m now metric (domain_tags metric domain) v] else []) scope)"
  using assms(2,3)
proof (induction scope arbitrary: evset rs)
  case (Cons e scope)
  obtain domain tid where e: "e = (domain, tid)" by (cases e)
  have tid: "0 \<le> sint tid" "lm_Calc metric \<noteq> []" "lm_Publish metric"
    using assms(1) Cons.prems(1) by (auto simp: published_def e)
  define v where "v = likwid_value eval m (lm_Calc metric) (map_get [] (lw_results evset) tid)"
  from Cons.prems(2) obtain e1 r1 r2 where step: "likwid_domain eval m now metric evset e = Inr (e1, r1)"
      "run_steps (likwid_domain eval m now metric) e1 scope = Inr (evset', r2)" and rs: "rs = r1 @ r2"
    by (auto simp: run_simps)
  from step(1) tid obtain ms where ms: "nested_write tid (lm_Name metric) v (lw_metrics evset) = Inr ms"
      and e1: "e1 = evset\<lparr>lw_metrics := ms\<rparr>"
      and r1: "r1 = (if v \<noteq> NaN then [likwid_request m now metric (domain_tags metric domain) v] else [])"
    by (auto simp: likwid_domain_def e v_def Let_def run_simps)
  have sub: "set scope \<subseteq> set (scopemap m metric)" using Cons.prems(1) by simp
  from Cons.IH [OF sub step(2)] show ?case
    using nested_read_write [OF ms] by (simp add: e rs r1 e1 v_def [symmetric] Let_def)
qed simp

text \<open>C11: the values and the totals of a published metric are exact: if its formula gives integers
  on the counter values of the hardware threads of its scope, and the sum of their magnitudes is
  below \<open>2 ^ 53\<close>, then every domain gets the value of its thread, the node total is the sum over
  all threads of the scope, and the core totals (or the socket totals) are one message for every
  core that a thread of the scope is mapped to, each with the sum over exactly the threads mapped
  to it, whatever the iteration order of the maps.\<close>

theorem likwid_metric_exact:
  assumes "published m metric" and "likwid_metric eval m now evset (i, metric) = Inr (evset', rs)"
    and "\<And>tid. tid \<in> snd ` set (scopemap m metric) \<Longrightarrow>
           likwid_value eval m (lm_Calc metric) (map_get [] (lw_results evset) tid) = Num (of_int (f tid))"
    and "(\<Sum>tid\<leftarrow>map snd (scopemap m metric). \<bar>f tid\<bar>) < 2 ^ 53"
  shows "rs = map (\<lambda>(domain, tid). likwid_request m (now i) metric (domain_tags metric domain) (Num (of_int (f tid))))
                (scopemap m metric) @ likwid_totals m (now i) metric evset' \<and>
         node_total m (now i) metric evset' =
           likwid_request m (now i) metric [(''type'', ''node'')]
             (Num (of_int (\<Sum>tid\<leftarrow>map snd (scopemap m metric). f tid))) \<and>
         set (domain_totals m (now i) metric evset' type ids) =
           (\<lambda>k. likwid_request m (now i) metric [(''type'', type), (''type-id'', itoa k)]
                  (Num (of_int (group_sum ids f (map snd (scopemap m metric)) k)))) `
             (map_get 0 ids ` snd ` set (scopemap m metric)) \<and>
         length (domain_totals m (now i) metric evset' type ids) = card (map_get 0 ids ` snd ` set (scopemap m metric))"
proof -
  from assms(2) obtain r1 where run: "run_steps (likwid_domain eval m (now i) metric) evset (scopemap m metric) = Inr (evset', r1)"
    and rs: "rs = r1 @ likwid_totals m (now i) metric evset'"
    by (auto simp: likwid_metric_def run_simps)
  note domains = likwid_domains [OF assms(1) subset_refl run]
  have "r1 = concat (map (\<lambda>(domain, tid).
      [likwid_request m (now i) metric (domain_tags metric domain) (Num (of_int (f tid)))]) (scopemap m metric))"
    unfolding conjunct2 [OF conjunct2 [OF domains]]
    using assms(3) by (intro arg_cong [of _ _ concat] map_cong refl) (force simp: Let_def)
  moreover have "nested_read (lw_metrics evset') tid (lm_Name metric) = Num (of_int (f tid))"
    if "tid \<in> snd ` set (scopemap m metric)" for tid
    using domains assms(3) [OF that] that by simp
  ultimately show ?thesis
    using likwid_totals_exact [where f = f and m = m and metric = metric, OF assms(1) _ assms(4)] rs
    by (simp add: split_def concat_map_singleton)
qed

text \<open>
  The checks of \<open>Init\<close> do not reach the configuration: a published metric whose formula cannot be
  evaluated is not disabled, every read sends 0 for each of its domains.
\<close>

theorem likwid_uncomputable_sends_zero:
  assumes "published m metric" and "\<And>params. snd (eval (lm_Calc metric) params) \<noteq> None"
    and "likwid_metric eval m now evset (i, metric) = Inr (evset', rs)" and "(domain, tid) \<in> set (scopemap m metric)"
  shows "likwid_request m (now i) metric (domain_tags metric domain) (Num 0) \<in> set rs"
proof -
  have zero: "likwid_value eval m (lm_Calc metric) params = Num 0" for params
    using assms(2) [of params]
    by (cases "eval (lm_Calc metric) params") (auto simp: likwid_value_def lw_invalid_def Let_def)
  from assms(3) obtain r1 where run: "run_steps (likwid_domain eval m (now i) metric) evset (scopemap m metric) = Inr (evset', r1)"
    and rs: "rs = r1 @ likwid_totals m (now i) metric evset'"
    by (auto simp: likwid_metric_def run_simps)
  have "r1 = map (\<lambda>e. likwid_request m (now i) metric (domain_tags metric (fst e)) (Num 0)) (scopemap m metric)"
    using likwid_domains [OF assms(1) subset_refl run] by (simp add: zero split_def concat_map_singleton)
  with assms(4) rs show ?thesis by force
qed

text \<open>The cache of compiled formulas changes no result, as long as it holds what was compiled.\<close>

lemma likwid_eval_cached:
  assumes "\<And>calc e. map_of mapping calc = Some e \<Longrightarrow>
    gv_new_evaluable lib (replace_all (replace_all calc [CHR 0x27] [CHR 0x22]) ''%'' [CHR 0x5C]) = Inr e"
  shows "snd (EvalFloat64Condition lib ev mapping calc params) = likwid_eval lib ev calc params"
  using assms [of calc]
  by (auto simp: likwid_eval_def EvalFloat64Condition_def cached_evaluable_def Let_def split: option.split sum.split)

subsection \<open>Witnesses\<close>

text \<open>Two event counters on a node whose CPU 1 is offline.\<close>

definition gap_topo :: topo_cache where
  "gap_topo =
     \<lparr>c_HwthreadList = [0, 2], c_SMTList = [0], c_CoreList = [0, 1], c_SocketList = [0], c_DieList = [0],
      c_NumaDomainList = [0], c_CpuData = [demo_thread 0 0 [0] 0, (demo_thread 2 0 [2] 0)\<lparr>Core := 1\<rparr>]\<rparr>"

definition gap_sysfs :: fsys where
  "gap_sysfs =
     \<lparr>fs_read = map_of
        [(''/sys/devices/system/cpu/cpu0/topology/core_id'', ''0\<newline>''),
         (''/sys/devices/system/cpu/cpu0/topology/physical_package_id'', ''0\<newline>''),
         (''/sys/devices/system/cpu/cpu0/topology/core_cpus_list'', ''0\<newline>''),
         (''/sys/devices/system/cpu/cpu2/topology/core_id'', ''1\<newline>''),
         (''/sys/devices/system/cpu/cpu2/topology/physical_package_id'', ''0\<newline>''),
         (''/sys/devices/system/cpu/cpu2/topology/core_cpus_list'', ''2\<newline>'')],
      fs_glob = (\<lambda>p. case map_of
        [(''/sys/devices/system/cpu/cpu[0-9]*'', [''/sys/devices/system/cpu/cpu0'', ''/sys/devices/system/cpu/cpu2'']),
         (''/sys/devices/system/cpu/cpu0/node*'', [''/sys/devices/system/cpu/cpu0/node0'']),
         (''/sys/devices/system/cpu/cpu2/node*'', [''/sys/devices/system/cpu/cpu2/node0''])] p of
          None \<Rightarrow> [] | Some l \<Rightarrow> l)\<rparr>"

definition demo_metric :: LikwidCollectorMetricConfig where
  "demo_metric = \<lparr>lm_Name = ''cycles'', lm_Calc = ''PMC0'', lm_Type = ''hwthread'', lm_Publish = True,
     lm_SendCoreTotalVal = True, lm_SendSocketTotalVal = False, lm_SendNodeTotalVal = True, lm_Unit = []\<rparr>"

definition demo_eventset :: LikwidCollectorEventsetConfig where
  "demo_eventset = \<lparr>le_Events = [(''PMC0'', ''CYCLES'')], le_Metrics = [demo_metric]\<rparr>"

definition demo_likwid_config :: LikwidCollectorConfig where
  "demo_likwid_config = \<lparr>lc_Eventsets = [demo_eventset], lc_Metrics = [], lc_ForceOverwrite = False,
     lc_InvalidToZero = False, lc_AccessMode = ''direct'', lc_DaemonPath = [], lc_LibraryPath = ''liblikwid.so'',
     lc_LockfilePath = ''/var/run/likwid.lock''\<rparr>"

definition demo_likwid_system :: lw_system where
  "demo_likwid_system = \<lparr>ls_lib_new = True, ls_lib_open = True, ls_setenv = (\<lambda>_. True), ls_path = [],
     ls_topology_init = 0, ls_cpustr = (\<lambda>_. Some 0), ls_files = (\<lambda>_. None), ls_cycleClock = 2000000000, ls_uid = 0\<rparr>"

text \<open>Formulas that are the name of a counter.\<close>

definition demo_eval :: lw_eval where
  "demo_eval calc params = (case map_of params calc of Some v \<Rightarrow> (v, None) | None \<Rightarrow> (NaN, Some (GoError ''unknown'')))"

definition demo_world :: "lw_stat \<Rightarrow> lw_world" where
  "demo_world st = \<lparr>lww_watcher = True, lww_stat = st, lww_create = True, lww_close = True, lww_restat = st,
     lww_event = (\<lambda>_. Quiet), lww_ret = (\<lambda>_. 0), lww_result = (\<lambda>_ _ tid. f64_of_int (100 + sint tid)),
     lww_time = (\<lambda>_. Num 1)\<rparr>"

lemma gap_topo_init: "topo_init gap_sysfs = Some gap_topo"
  by code_simp

lemma demo_likwid_Init:
  "likwid_Init demo_eval topo demo_likwid_system demo_likwid_config =
     ([TopologyInit, HPMmode 0], Inr (likwid_collector demo_likwid_config demo_likwid_system topo))"
proof -
  have "totalMetrics demo_eval demo_likwid_config = 1" by code_simp
  then show ?thesis
    by (simp add: likwid_Init_def likwid_access_def demo_likwid_system_def demo_likwid_config_def)
qed

lemma demo_lock:
  "likwid_lock (likwid_collector demo_likwid_config demo_likwid_system topo) (demo_world (StatOwner 0)) =
     (likwid_collector demo_likwid_config demo_likwid_system topo, True, None)"
  by (simp add: likwid_lock_def likwid_owner_def likwid_collector_def Let_def demo_likwid_config_def
      demo_likwid_system_def demo_world_def)

theorem likwid_panics_on_gaps_witness:
  "\<exists>p. takeMeasurement (likwid_collector demo_likwid_config demo_likwid_system gap_topo)
         (genLikwidEventSet [0, 2] 0 demo_eventset) (demo_world (StatOwner 0)) = Inl p"
proof -
  let ?m = "likwid_collector demo_likwid_config demo_likwid_system gap_topo"
  have open_ok: "lw_open (demo_world (StatOwner 0)) = ([PInit, PAdd, PSetup, PStart, PRead, PSleep, PReadAgain], Some 0)"
    by (simp add: lw_open_def lw_call_def demo_world_def)
  have "(\<exists>p. takeMeasurement ?m (genLikwidEventSet (lk_hwthreads ?m) 0 demo_eventset) (demo_world (StatOwner 0)) = Inl p) \<longleftrightarrow>
      (\<exists>k < length (HwthreadList gap_topo). word_of_nat k \<notin> set (HwthreadList gap_topo))"
    by (rule likwid_panics_on_gaps [OF gap_topo_init demo_likwid_Init _ demo_lock open_ok]) (simp add: demo_world_def)
  moreover have "\<exists>k < length (HwthreadList gap_topo). word_of_nat k \<notin> set (HwthreadList gap_topo)"
    by (intro exI [of _ 1]) (simp add: HwthreadList_def gap_topo_def)
  ultimately show ?thesis by (simp add: likwid_collector_def Let_def HwthreadList_def gap_topo_def)
qed

text \<open>A measurement whose counters cannot be set up.\<close>

theorem likwid_measurement_calls_witness:
  "\<exists>m' evset' err. takeMeasurement (likwid_collector demo_likwid_config demo_likwid_system gap_topo)
       (genLikwidEventSet [0, 2] 0 demo_eventset)
       ((demo_world (StatOwner 0))\<lparr>lww_ret := (\<lambda>st. if st = PSetup then -1 else 0)\<rparr>) =
     Inr (m', [PInit, PAdd, PSetup], evset', True, Some err) \<and> PFinalize \<notin> set [PInit, PAdd, PSetup] \<and>
     subseq [PInit, PAdd, PSetup] full_measurement"
proof -
  let ?w = "(demo_world (StatOwner 0))\<lparr>lww_ret := (\<lambda>st. if st = PSetup then -1 else 0)\<rparr>"
  let ?m = "likwid_collector demo_likwid_config demo_likwid_system gap_topo"
  let ?e = "genLikwidEventSet [0, 2] 0 demo_eventset"
  have "lw_open ?w = ([PInit, PAdd, PSetup], None)"
    by (simp add: lw_open_def lw_call_def demo_world_def)
  moreover have "likwid_lock ?m ?w = (?m, True, None)"
  proof -
    have "likwid_lock ?m ?w = likwid_lock ?m (demo_world (StatOwner 0))"
      by (simp add: likwid_lock_def split: lw_stat.split)
    then show ?thesis by (simp add: demo_lock)
  qed
  ultimately have run: "takeMeasurement ?m ?e ?w =
      Inr (?m, [PInit, PAdd, PSetup], ?e, True, Some (GoError ''failed measurement''))"
    by (simp add: takeMeasurement_def demo_world_def)
  from likwid_measurement_calls [OF run] have "subseq [PInit, PAdd, PSetup] full_measurement" by blast
  with run show ?thesis by simp
qed

text \<open>Two threads of one core with 100 and 101 cycles.\<close>

definition smt_likwid :: LikwidCollector where
  "smt_likwid = \<lparr>lk_init = True, lk_meta = [], lk_hwthreads = [0, 1], lk_cpu2tid = [(0, 0), (1, 1)], lk_sock2tid = [(0, 0)],
     lk_tid2core = [(0, 0), (1, 0)], lk_tid2socket = [(0, 0), (1, 0)], lk_config = demo_likwid_config,
     lk_basefreq = Num 2000000000, lk_myuid = 0, lk_lock_err_once = False\<rparr>"

definition smt_results :: LikwidEventsetConfig where
  "smt_results = \<lparr>lw_internal = 0, lw_eorder = [''PMC0''], lw_estr = ''CYCLES:PMC0'',
     lw_results = [(0, [(''PMC0'', Num 100)]), (1, [(''PMC0'', Num 101)])], lw_metrics = [(0, []), (1, [])]\<rparr>"

theorem likwid_metric_exact_witness:
  "\<exists>evset' rs. likwid_metric demo_eval smt_likwid (\<lambda>_. 7) smt_results (0, demo_metric) = Inr (evset', rs) \<and>
     rs = map (\<lambda>(tags, v). likwid_request smt_likwid 7 demo_metric tags (Num v))
       [([(''type'', ''hwthread''), (''type-id'', ''0'')], 100), ([(''type'', ''hwthread''), (''type-id'', ''1'')], 101),
        ([(''type'', ''core''), (''type-id'', ''0'')], 201), ([(''type'', ''node'')], 201)]"
proof -
  define f where "f = (\<lambda>tid :: goint. 100 + sint tid)"
  have scope: "scopemap smt_likwid demo_metric = [(0, 0), (1, 1)]"
    by (simp add: scopemap_def demo_metric_def smt_likwid_def)
  have pub: "published smt_likwid demo_metric" by (simp add: published_def scope) (simp add: demo_metric_def)
  have "case likwid_metric demo_eval smt_likwid (\<lambda>_. 7) smt_results (0, demo_metric) of Inl _ \<Rightarrow> False | Inr _ \<Rightarrow> True"
    by code_simp
  then obtain evset' rs where run: "likwid_metric demo_eval smt_likwid (\<lambda>_. 7) smt_results (0, demo_metric) = Inr (evset', rs)"
    by (auto split: sum.splits)
  have vals: "likwid_value demo_eval smt_likwid (lm_Calc demo_metric) (map_get [] (lw_results smt_results) tid) =
      Num (of_int (f tid))" if "tid \<in> snd ` set (scopemap smt_likwid demo_metric)" for tid
  proof -
    from that consider "tid = 0" | "tid = 1" by (auto simp: scope)
    then show ?thesis
      by cases (simp_all add: f_def likwid_value_def demo_eval_def demo_metric_def smt_results_def map_get_def Let_def
          smt_likwid_def demo_likwid_config_def)
  qed
  have cores_of: "lk_tid2core smt_likwid = [(0, 0), (1, 0)]" by (simp add: smt_likwid_def)
  have bound: "(\<Sum>tid\<leftarrow>map snd (scopemap smt_likwid demo_metric). \<bar>f tid\<bar>) < 2 ^ 53"
    by (simp add: scope f_def)
  note exact = likwid_metric_exact [OF pub run vals bound, of "''core''" "lk_tid2core smt_likwid"]
  have ids: "itoa 0 = ''0''" "itoa 1 = ''1''" by code_simp+
  have cores: "set (domain_totals smt_likwid 7 demo_metric evset' ''core'' (lk_tid2core smt_likwid)) =
      {likwid_request smt_likwid 7 demo_metric [(''type'', ''core''), (''type-id'', ''0'')] (Num 201)}"
    using exact by (simp add: scope cores_of map_get_def group_sum_def f_def ids)
  moreover have "length (domain_totals smt_likwid 7 demo_metric evset' ''core'' (lk_tid2core smt_likwid)) = 1"
    using exact by (simp add: scope cores_of map_get_def)
  ultimately have core: "domain_totals smt_likwid 7 demo_metric evset' ''core'' (lk_tid2core smt_likwid) =
      [likwid_request smt_likwid 7 demo_metric [(''type'', ''core''), (''type-id'', ''0'')] (Num 201)]"
    by (cases "domain_totals smt_likwid 7 demo_metric evset' ''core'' (lk_tid2core smt_likwid)") auto
  have "node_total smt_likwid 7 demo_metric evset' = likwid_request smt_likwid 7 demo_metric [(''type'', ''node'')] (Num 201)"
    using exact by (simp add: scope f_def)
  then have totals: "likwid_totals smt_likwid 7 demo_metric evset' =
      [likwid_request smt_likwid 7 demo_metric [(''type'', ''core''), (''type-id'', ''0'')] (Num 201),
       likwid_request smt_likwid 7 demo_metric [(''type'', ''node'')] (Num 201)]"
    using core by (simp add: likwid_totals_def demo_metric_def)
  have "domain_tags demo_metric d = [(''type'', ''hwthread''), (''type-id'', itoa d)]" for d
    by (simp add: domain_tags_def demo_metric_def)
  with exact totals run ids show ?thesis by (simp add: scope f_def)
qed

end
