(* ===== verification/Sensor_Collectors.thy ===== *)
theory Sensor_Collectors
  imports Collector_Base Topology "HOL-Library.Signed_Division"
begin

text \<open>
  \<open>collectors/tempMetric.go\<close> (the temperature sensors below \<open>/sys/class/hwmon\<close>) and
  \<open>collectors/ipmiMetric.go\<close> (the sensors that \<open>ipmi-sensors\<close> or \<open>ipmitool\<close> print). The files
  are the record \<open>fsys\<close>; the output of the programs is an input.
\<close>

section \<open>TempCollector\<close>

record TempCollectorConfig =
  tcf_ExcludeMetrics :: "string list"
  tcf_TagOverride :: "(string \<times> tagmap) list"
  tcf_ReportMaxTemp :: bool
  tcf_ReportCriticalTemp :: bool

record TempCollectorSensor =
  ts_name :: string
  ts_label :: string
  ts_metricName :: string
  ts_file :: string
  ts_maxTempName :: string
  ts_maxTemp :: goint
  ts_critTempName :: string
  ts_critTemp :: goint
  ts_tags :: tagmap

record TempCollector =
  tm_init :: bool
  tm_meta :: tagmap
  tm_config :: TempCollectorConfig
  tm_sensors :: "TempCollectorSensor list"

text \<open>\<open>x / 1000\<close> on \<open>int64\<close> truncates.\<close>

definition millis :: "goint \<Rightarrow> goint" where
  "millis x = word_of_int (sint x sdiv 1000)"

definition read_text :: "fsys \<Rightarrow> string \<Rightarrow> string" where
  "read_text fs path = (case fs_read fs path of Some s \<Rightarrow> trim_space s | None \<Rightarrow> [])"

text \<open>The \<open>switch\<close> over name and label; \<open>None\<close> when both are empty.\<close>

definition sensor_base :: "string \<Rightarrow> string \<Rightarrow> string option" where
  "sensor_base name label =
     (if name = [] \<and> label = [] then None
      else if name = ''coretemp'' \<and> has_prefix label ''Core '' \<or> name = ''coretemp'' \<and> has_prefix label ''Package id ''
           then Some (''temp_'' @ label)
      else if name \<noteq> [] \<and> label \<noteq> [] then Some (name @ ''_'' @ label)
      else if name \<noteq> [] then Some name
      else Some label)"

definition sensor_metricName :: "string \<Rightarrow> string" where
  "sensor_metricName base =
     (let n = replace_all (lower_str base) '' '' ''_'' in if contains n ''temp'' then n else ''temp_'' @ n)"

text \<open>A limit of the sensor: its metric name and value, empty and 0 if there is none.\<close>

definition sensor_limit :: "fsys \<Rightarrow> bool \<Rightarrow> string \<Rightarrow> string \<Rightarrow> string \<Rightarrow> string \<times> goint" where
  "sensor_limit fs report limit_file metricName prefix =
     (if \<not> report then ([], 0)
      else case fs_read fs limit_file of
        None \<Rightarrow> ([], 0)
      | Some buffer \<Rightarrow>
          (case parse_int 10 (trim_space buffer) of
             (x, None) \<Rightarrow> (replace_first metricName ''temp'' (prefix @ ''temp''), millis x)
           | _ \<Rightarrow> ([], 0)))"

fun override_tags :: "string \<Rightarrow> (string \<times> tagmap) list \<Rightarrow> tagmap" where
  "override_tags file [] = [(''type'', ''node'')]"
| "override_tags file ((key, newtags) # rest) = (if contains file key then newtags else override_tags file rest)"

definition temp_sensor :: "TempCollectorConfig \<Rightarrow> fsys \<Rightarrow> string \<Rightarrow> TempCollectorSensor option" where
  "temp_sensor cfg fs file =
     (let name = read_text fs (path_join (path_dir file) ''name'');
          stem = trim_suffix file ''_input'';
          label = read_text fs (stem @ ''_label'')
      in case sensor_base name label of
           None \<Rightarrow> None
         | Some base \<Rightarrow>
             (let metricName = sensor_metricName base;
                  maxT = sensor_limit fs (tcf_ReportMaxTemp cfg) (stem @ ''_max'') metricName ''max_'';
                  critT = sensor_limit fs (tcf_ReportCriticalTemp cfg) (stem @ ''_crit'') metricName ''crit_''
              in if fs_read fs file = None then None
                 else Some \<lparr>ts_name = name, ts_label = label, ts_metricName = metricName, ts_file = file,
                            ts_maxTempName = fst maxT, ts_maxTemp = snd maxT,
                            ts_critTempName = fst critT, ts_critTemp = snd critT,
                            ts_tags = override_tags file (tcf_TagOverride cfg)\<rparr>))"

definition temp_Init :: "TempCollectorConfig \<Rightarrow> fsys \<Rightarrow> TempCollector \<Rightarrow> goerror + TempCollector" where
  "temp_Init cfg fs m =
     (if tm_init m then Inr m
      else let inputFiles = fs_glob fs ''/sys/class/hwmon/*/temp*_input'';
               sensors = List.map_filter (temp_sensor cfg fs) inputFiles
           in if inputFiles = [] then Inl (GoError ''unable to find any files'')
              else if sensors = [] then Inl (GoError ''no temperature sensors found'')
              else Inr \<lparr>tm_init = True,
                        tm_meta = [(''source'', ''TempCollector''), (''group'', ''IPMI''), (''unit'', ''degC'')],
                        tm_config = cfg, tm_sensors = sensors\<rparr>)"

definition temp_request :: "TempCollector \<Rightarrow> TempCollectorSensor \<Rightarrow> string \<Rightarrow> goint \<Rightarrow> request" where
  "temp_request m sensor name v =
     \<lparr>rq_name = name, rq_tags = ts_tags sensor, rq_meta = tm_meta m, rq_value = VInt64 v, rq_time = None\<rparr>"

definition sensor_read :: "TempCollector \<Rightarrow> fsys \<Rightarrow> TempCollectorSensor \<Rightarrow> request list" where
  "sensor_read m fs sensor =
     (case fs_read fs (ts_file sensor) of
        None \<Rightarrow> []
      | Some buffer \<Rightarrow>
          (case parse_int 10 (trim_space buffer) of
             (_, Some _) \<Rightarrow> []
           | (x, None) \<Rightarrow>
               [temp_request m sensor (ts_metricName sensor) (millis x)] @
               (if tcf_ReportMaxTemp (tm_config m) \<and> ts_maxTemp sensor \<noteq> 0
                then [temp_request m sensor (ts_maxTempName sensor) (ts_maxTemp sensor)] else []) @
               (if tcf_ReportCriticalTemp (tm_config m) \<and> ts_critTemp sensor \<noteq> 0
                then [temp_request m sensor (ts_critTempName sensor) (ts_critTemp sensor)] else [])))"

text \<open>\<open>Read\<close> does not look at \<open>init\<close>.\<close>

definition temp_Read :: "fsys \<Rightarrow> TempCollector \<Rightarrow> request list" where
  "temp_Read fs m = concat (map (sensor_read m fs) (tm_sensors m))"

definition temp_Close :: "TempCollector \<Rightarrow> TempCollector" where
  "temp_Close m = m\<lparr>tm_init := False\<rparr>"

section \<open>IpmiCollector\<close>

record IpmiCollector =
  ip_init :: bool
  ip_meta :: tagmap
  ip_ipmitool :: string
  ip_ipmisensors :: string
  ip_includeMetrics :: "string list"

record IpmiConfig =
  ic_IpmitoolPath :: string
  ic_IpmisensorsPath :: string
  ic_Sudo :: bool
  ic_IncludeMetrics :: "string list"

text \<open>A program: it does not start, or it prints something and ends well or not.\<close>

datatype ipmi_run = NoStart | Printed string bool

definition ipmi_include :: "string list \<Rightarrow> string list" where
  "ipmi_include metrics = filter (\<lambda>s. s \<noteq> []) (map (\<lambda>s. lower_str (trim_space s)) metrics)"

definition ipmi_wanted :: "IpmiCollector \<Rightarrow> string \<Rightarrow> bool" where
  "ipmi_wanted m name = (ip_includeMetrics m = [] \<or> name \<in> set (ip_includeMetrics m))"

definition ipmi_request :: "IpmiCollector \<Rightarrow> string \<Rightarrow> gofloat \<Rightarrow> request" where
  "ipmi_request m name v =
     \<lparr>rq_name = name, rq_tags = [(''type'', ''node'')], rq_meta = ip_meta m, rq_value = VFloat64 v, rq_time = None\<rparr>"

definition ipmitool_line :: "IpmiCollector \<Rightarrow> string \<Rightarrow> request list" where
  "ipmitool_line m line =
     (let lv = split_on (CHR ''|'') line in
      if length lv < 3 then []
      else let txt = trim_space (lv ! 1) in
        if txt = ''0x0'' \<or> txt = ''na'' then []
        else case parse_float txt of
          (_, Some _) \<Rightarrow> []
        | (v, None) \<Rightarrow>
            (let name = lower_str (replace_all (trim_space (lv ! 0)) '' '' ''_'');
                 unit = trim_space (lv ! 2)
             in if \<not> ipmi_wanted m name then []
                else [add_meta ''unit'' (if unit = ''degrees C'' then ''degC'' else if unit = ''degrees F'' then ''degF'' else unit)
                        (ipmi_request m name v)]))"

definition ipmisensors_line :: "IpmiCollector \<Rightarrow> string \<Rightarrow> request list" where
  "ipmisensors_line m line =
     (let lv = split_on (CHR '','') line in
      if length lv \<le> 3 then []
      else if lv ! 3 = ''N/A'' \<or> lv ! 3 = ''Reading'' then []
      else case parse_float (trim_space (lv ! 3)) of
        (_, Some _) \<Rightarrow> []
      | (v, None) \<Rightarrow>
          (let name = lower_str (replace_all (lv ! 1) '' '' ''_'')
           in if \<not> ipmi_wanted m name then []
              else [if 4 < length lv then add_meta ''unit'' (lv ! 4) (ipmi_request m name v) else ipmi_request m name v]))"

text \<open>What is sent, and whether the error is nil.\<close>

definition readIpmiTool :: "IpmiCollector \<Rightarrow> ipmi_run \<Rightarrow> request list \<times> bool" where
  "readIpmiTool m prog =
     (case prog of
        NoStart \<Rightarrow> ([], False)
      | Printed stdout ok \<Rightarrow>
          (concat (map (ipmitool_line m) (file_lines stdout)), snd (scan_lines stdout) \<and> ok))"

definition readIpmiSensors :: "IpmiCollector \<Rightarrow> ipmi_run \<Rightarrow> request list \<times> bool" where
  "readIpmiSensors m prog =
     (case prog of
        NoStart \<Rightarrow> ([], False)
      | Printed stdout ok \<Rightarrow> (concat (map (ipmisensors_line m) (file_lines stdout)), ok))"

text \<open>\<open>Init\<close> tries the programs; what they send then is consumed unseen.\<close>

definition ipmi_Init ::
  "IpmiConfig \<Rightarrow> (string \<Rightarrow> bool) \<Rightarrow> ipmi_run \<Rightarrow> ipmi_run \<Rightarrow> IpmiCollector \<Rightarrow> goerror + IpmiCollector" where
  "ipmi_Init cfg found sensors tool m =
     (if ip_init m then Inr m
      else let m1 = \<lparr>ip_init = False, ip_meta = [(''source'', ''IpmiCollector''), (''group'', ''IPMI'')],
                     ip_ipmitool = ic_IpmitoolPath cfg, ip_ipmisensors = ic_IpmisensorsPath cfg,
                     ip_includeMetrics = ipmi_include (ic_IncludeMetrics cfg)\<rparr>
           in if found (ic_IpmisensorsPath cfg) \<and> snd (readIpmiSensors m1 sensors) then Inr (m1\<lparr>ip_init := True\<rparr>)
              else let m2 = m1\<lparr>ip_ipmisensors := []\<rparr>
                   in if found (ic_IpmitoolPath cfg) \<and> snd (readIpmiTool m2 tool) then Inr (m2\<lparr>ip_init := True\<rparr>)
                      else Inl (GoError ''unable to init neither ipmitool nor ipmi-sensors''))"

definition ipmi_Read :: "ipmi_run \<Rightarrow> ipmi_run \<Rightarrow> IpmiCollector \<Rightarrow> request list" where
  "ipmi_Read sensors tool m =
     (if \<not> ip_init m then []
      else if ip_ipmisensors m \<noteq> [] then fst (readIpmiSensors m sensors)
      else if ip_ipmitool m \<noteq> [] then fst (readIpmiTool m tool)
      else [])"

definition ipmi_Close :: "IpmiCollector \<Rightarrow> IpmiCollector" where
  "ipmi_Close m = m\<lparr>ip_init := False\<rparr>"

section \<open>Names\<close>

definition plain_name :: "string \<Rightarrow> bool" where
  "plain_name s = (CHR '' '' \<notin> set s \<and> lower_str s = s)"

lemma of_char_lower:
  "(of_char (lower c) :: nat) = (if 65 \<le> (of_char c :: nat) \<and> (of_char c :: nat) \<le> 90 then of_char c + 32 else of_char c)"
  by (simp add: lower_def)

lemma lower_idem: "lower (lower c) = lower c"
proof -
  have "(of_char (lower (lower c)) :: nat) = of_char (lower c)" by (simp add: of_char_lower)
  then show ?thesis by (simp only: of_char_eq_iff)
qed

lemma plain_append: "plain_name (s @ t) \<longleftrightarrow> plain_name s \<and> plain_name t"
  by (auto simp: plain_name_def lower_str_def)

lemma plain_Cons: "plain_name (c # s) \<longleftrightarrow> c \<noteq> CHR '' '' \<and> lower c = c \<and> plain_name s"
  by (auto simp: plain_name_def lower_str_def)

lemma plain_underscores: "plain_name (replace_all (lower_str s) '' '' ''_'')"
proof (induction s)
  case (Cons c s)
  have "lower (CHR ''_'') = CHR ''_''" by code_simp
  with Cons show ?case by (simp add: lower_str_def plain_Cons has_prefix_def lower_idem)
qed (simp add: lower_str_def plain_name_def)

lemma contains_append: "sub \<noteq> [] \<Longrightarrow> contains (s @ sub @ t) sub"
proof (induction s)
  case Nil
  then have "has_prefix (sub @ t) sub" by (simp add: has_prefix_def)
  with Nil show ?case by (cases "sub @ t") simp_all
qed simp

lemma contains_Cons: "contains s sub \<Longrightarrow> contains (c # s) sub" by simp

text \<open>The first occurrence of a nonempty text is replaced.\<close>

lemma replace_first_parts:
  assumes "contains s old" and "old \<noteq> []"
  shows "\<exists>pre post. s = pre @ old @ post \<and> replace_first s old new = pre @ new @ post"
  using assms(1)
proof (induction s)
  case (Cons c s)
  show ?case
  proof (cases "has_prefix (c # s) old")
    case True
    then have "c # s = old @ drop (length old) (c # s)" by (metis append_take_drop_id has_prefix_def)
    with True show ?thesis by (intro exI [of _ "[]"] exI [of _ "drop (length old) (c # s)"]) simp
  next
    case False
    with Cons obtain pre post where "s = pre @ old @ post" "replace_first s old new = pre @ new @ post" by auto
    with False show ?thesis by (intro exI [of _ "c # pre"] exI [of _ post]) simp
  qed
qed (use assms(2) in \<open>simp add: contains.simps\<close>)

definition temp_name_ok :: "string \<Rightarrow> bool" where
  "temp_name_ok s = (plain_name s \<and> contains s ''temp'')"

lemma plain_temp: "plain_name ''temp_''" "plain_name ''max_temp''" "plain_name ''crit_temp''"
  by code_simp+

lemma sensor_metricName_ok: "temp_name_ok (sensor_metricName base)"
proof -
  let ?n = "replace_all (lower_str base) '' '' ''_''"
  have "plain_name (''temp_'' @ ?n)" unfolding plain_append using plain_temp(1) plain_underscores by blast
  moreover have "contains (''temp_'' @ ?n) ''temp''" using contains_append [of "''temp''" "[]" "''_'' @ ?n"] by simp
  moreover have "plain_name ?n" by (rule plain_underscores)
  ultimately show ?thesis by (auto simp: temp_name_ok_def sensor_metricName_def Let_def)
qed

lemma limit_name_ok:
  assumes "temp_name_ok n" and "prefix \<in> {''max_'', ''crit_''}"
  shows "temp_name_ok (replace_first n ''temp'' (prefix @ ''temp''))"
proof -
  from assms(1) obtain pre post where n: "n = pre @ ''temp'' @ post"
    and r: "replace_first n ''temp'' (prefix @ ''temp'') = pre @ (prefix @ ''temp'') @ post"
    using replace_first_parts [of n "''temp''" "prefix @ ''temp''"] by (auto simp: temp_name_ok_def)
  have "plain_name (prefix @ ''temp'')" using assms(2) plain_temp by auto
  moreover have "plain_name pre" "plain_name post"
    using assms(1) unfolding n temp_name_ok_def plain_append by blast+
  ultimately have "plain_name (pre @ (prefix @ ''temp'') @ post)" unfolding plain_append by blast
  then show ?thesis
    using contains_append [of "''temp''" "pre @ prefix" post] by (simp add: r temp_name_ok_def)
qed

definition sensor_ok :: "TempCollectorSensor \<Rightarrow> bool" where
  "sensor_ok s = (temp_name_ok (ts_metricName s) \<and> (ts_maxTemp s \<noteq> 0 \<longrightarrow> temp_name_ok (ts_maxTempName s)) \<and>
                  (ts_critTemp s \<noteq> 0 \<longrightarrow> temp_name_ok (ts_critTempName s)))"

lemma sensor_limit_ok:
  assumes "temp_name_ok n" and "prefix \<in> {''max_'', ''crit_''}" and "snd (sensor_limit fs report file n prefix) \<noteq> 0"
  shows "temp_name_ok (fst (sensor_limit fs report file n prefix))"
  using assms(3) limit_name_ok [OF assms(1,2)]
  by (auto simp: sensor_limit_def split: if_splits option.splits prod.splits)

lemma temp_sensor_ok: "temp_sensor cfg fs file = Some s \<Longrightarrow> sensor_ok s"
  using sensor_limit_ok [OF sensor_metricName_ok]
  by (auto simp: temp_sensor_def sensor_ok_def Let_def sensor_metricName_ok split: option.splits if_splits)

text \<open>C31: every metric of the temperature collector is well formed: whatever the name and label files
  of the sensors contain, a metric sent after any successful Init has a lower-case name without
  blanks that contains \<open>temp\<close>, and an integer value.\<close>

theorem temp_metrics_typed:
  assumes "\<not> tm_init m0" and "temp_Init cfg fs m0 = Inr m" and "r \<in> set (temp_Read fs' m)"
  shows "temp_name_ok (rq_name r) \<and> (\<exists>v. rq_value r = VInt64 v)"
proof -
  have sensors: "sensor_ok s" if "s \<in> set (tm_sensors m)" for s
    using assms(1,2) that temp_sensor_ok
    by (auto simp: temp_Init_def Let_def List.map_filter_def split: if_splits)
  from assms(3) obtain s where s: "s \<in> set (tm_sensors m)" "r \<in> set (sensor_read m fs' s)"
    by (auto simp: temp_Read_def)
  with sensors [OF s(1)] show ?thesis
    by (auto simp: sensor_read_def temp_request_def sensor_ok_def split: option.splits prod.splits if_splits)
qed

definition demo_hwmon :: fsys where
  "demo_hwmon =
     \<lparr>fs_read = map_of
        [(''/sys/class/hwmon/hwmon0/name'', ''coretemp\<newline>''),
         (''/sys/class/hwmon/hwmon0/temp1_label'', ''Core 7\<newline>''),
         (''/sys/class/hwmon/hwmon0/temp1_input'', ''45900\<newline>''),
         (''/sys/class/hwmon/hwmon0/temp1_max'', ''86000\<newline>'')],
      fs_glob = (\<lambda>_. [''/sys/class/hwmon/hwmon0/temp1_input''])\<rparr>"

definition demo_temp_config :: TempCollectorConfig where
  "demo_temp_config = \<lparr>tcf_ExcludeMetrics = [], tcf_TagOverride = [], tcf_ReportMaxTemp = True, tcf_ReportCriticalTemp = True\<rparr>"

definition temp_fresh :: TempCollector where
  "temp_fresh = \<lparr>tm_init = False, tm_meta = [], tm_config = demo_temp_config, tm_sensors = []\<rparr>"

theorem temp_metrics_typed_witness:
  "\<exists>m r. temp_Init demo_temp_config demo_hwmon temp_fresh = Inr m \<and> r \<in> set (temp_Read demo_hwmon m) \<and>
         rq_name r = ''max_temp_core_7'' \<and> temp_name_ok ''max_temp_core_7''"
proof -
  have "case temp_Init demo_temp_config demo_hwmon temp_fresh of
      Inl _ \<Rightarrow> False
    | Inr m \<Rightarrow> map (\<lambda>r. (rq_name r, rq_value r)) (temp_Read demo_hwmon m) =
        [(''temp_core_7'', VInt64 45), (''max_temp_core_7'', VInt64 86)]" by code_simp
  then obtain m where init: "temp_Init demo_temp_config demo_hwmon temp_fresh = Inr m"
    and read: "map (\<lambda>r. (rq_name r, rq_value r)) (temp_Read demo_hwmon m) =
        [(''temp_core_7'', VInt64 45), (''max_temp_core_7'', VInt64 86)]" by (auto split: sum.splits)
  from read obtain r1 r2 where r: "temp_Read demo_hwmon m = [r1, r2]" "rq_name r2 = ''max_temp_core_7''"
    by (auto simp: map_eq_Cons_conv)
  have "\<not> tm_init temp_fresh" by (simp add: temp_fresh_def)
  from temp_metrics_typed [OF this init, of r2 demo_hwmon] r init show ?thesis by (intro exI [of _ m] exI [of _ r2]) simp
qed

section \<open>The filter of the IPMI collector\<close>

lemma plain_lower: "plain_name s \<Longrightarrow> plain_name (lower_str s)" by (simp add: plain_name_def)

lemma lower_underscores: "plain_name (lower_str (replace_all s '' '' ''_''))"
proof (induction s)
  case (Cons c s)
  have blank: "lower c = CHR '' '' \<Longrightarrow> c = CHR '' ''"
  proof -
    assume "lower c = CHR '' ''"
    then have "(of_char (lower c) :: nat) = of_char (CHR '' '')" by simp
    then have "(of_char c :: nat) = of_char (CHR '' '')" by (simp add: of_char_lower split: if_splits)
    then show ?thesis by (simp only: of_char_eq_iff)
  qed
  have "lower (CHR ''_'') = CHR ''_''" by code_simp
  with Cons blank show ?case by (auto simp: lower_str_def plain_Cons has_prefix_def lower_idem)
qed (simp add: lower_str_def plain_name_def)

lemma ipmi_lines_wanted:
  "r \<in> set (ipmitool_line m l) \<or> r \<in> set (ipmisensors_line m l) \<Longrightarrow> ipmi_wanted m (rq_name r) \<and> plain_name (rq_name r)"
  using lower_underscores
  by (auto simp: ipmitool_line_def ipmisensors_line_def ipmi_request_def add_meta_def Let_def
      split: if_splits prod.splits option.splits)

text \<open>
  The names that are sent have no blanks, since blanks become underscores, and the entries of the
  filter keep theirs: an entry with a blank selects nothing.
\<close>

theorem ipmi_blank_entries_select_nothing:
  assumes "ip_includeMetrics m \<noteq> []" and "\<forall>e \<in> set (ip_includeMetrics m). CHR '' '' \<in> set e"
  shows "ipmi_Read sensors tool m = []"
proof -
  have "r \<notin> set (ipmitool_line m l) \<and> r \<notin> set (ipmisensors_line m l)" for r l
    using ipmi_lines_wanted [of r m l] assms by (auto simp: ipmi_wanted_def plain_name_def)
  then have "ipmitool_line m l = [] \<and> ipmisensors_line m l = []" for l
    by (metis list.set_intros(1) neq_Nil_conv)
  then show ?thesis
    by (simp add: ipmi_Read_def readIpmiSensors_def readIpmiTool_def split: ipmi_run.split)
qed

end
