(* ===== verification/Misc_Collectors.thy ===== *)
theory Misc_Collectors
  imports Collector_Base
begin

text \<open>
  \<open>collectors/topprocsMetric.go\<close> (the first lines of \<open>ps\<close>), \<open>collectors/customCmdMetric.go\<close>
  (messages in the line protocol from commands and files) and \<open>collectors/selfMetric.go\<close> (the Go
  runtime and \<open>getrusage\<close>). The output of programs, the contents of files and the values of the runtime are
  inputs;
  decoding the line protocol (cc-lib) is a parameter.
\<close>

section \<open>TopProcsCollector\<close>

definition MAX_NUM_PROCS :: int where "MAX_NUM_PROCS = 10"
definition DEFAULT_NUM_PROCS :: int where "DEFAULT_NUM_PROCS = 2"

record TopProcsCollector =
  tp_init :: bool
  tp_meta :: tagmap
  tp_tags :: tagmap
  tp_Num_procs :: int

text \<open>\<open>config\<close> is the decoded number, \<open>None\<close> without a configuration; \<open>ps_ok\<close>: \<open>ps\<close> can be run.\<close>

definition topprocs_Init :: "int option \<Rightarrow> bool \<Rightarrow> goerror + TopProcsCollector" where
  "topprocs_Init config ps_ok =
     (let n = (case config of Some k \<Rightarrow> k | None \<Rightarrow> DEFAULT_NUM_PROCS)
      in if n \<le> 0 \<or> MAX_NUM_PROCS < n then Inl (GoError ''num_procs option must be set'')
         else if \<not> ps_ok then Inl (GoError ''failed to get output from command'')
         else Inr \<lparr>tp_init = True, tp_meta = [(''source'', ''TopProcsCollector''), (''group'', ''TopProcs'')],
                   tp_tags = [(''type'', ''node'')], tp_Num_procs = n\<rparr>)"

definition topprocs_line :: "TopProcsCollector \<Rightarrow> string list \<Rightarrow> int \<Rightarrow> request list run" where
  "topprocs_line m lines i =
     run_bind (at_index lines i) (\<lambda>l.
       Inr [\<lparr>rq_name = ''topproc'' @ itoa (word_of_int i), rq_tags = tp_tags m, rq_meta = tp_meta m,
             rq_value = VString l, rq_time = None\<rparr>])"

definition topprocs_Read :: "string option \<Rightarrow> TopProcsCollector \<Rightarrow> request list run" where
  "topprocs_Read stdout m =
     (if \<not> tp_init m then Inr []
      else case stdout of
        None \<Rightarrow> Inr []
      | Some out \<Rightarrow> run_concat (topprocs_line m (split_on (CHR 0x0A) out)) [1..tp_Num_procs m])"

definition topprocs_Close :: "TopProcsCollector \<Rightarrow> TopProcsCollector" where
  "topprocs_Close m = m\<lparr>tp_init := False\<rparr>"

text \<open>
  Output with a header and too few processes panics: the lines are counted with the empty one
  after the last newline.
\<close>

theorem topprocs_Read_panics_iff:
  assumes "topprocs_Init config True = Inr m"
  shows "(\<exists>p. topprocs_Read (Some out) m = Inl p) \<longleftrightarrow> int (length (split_on (CHR 0x0A) out)) \<le> tp_Num_procs m"
proof -
  have m: "tp_init m" "1 \<le> tp_Num_procs m"
    using assms by (auto simp: topprocs_Init_def Let_def split: if_splits)
  have "(\<exists>p. topprocs_line m ls i = Inl p) \<longleftrightarrow> \<not> i < int (length ls)" if "1 \<le> i" for ls i
    using that by (cases "at_index ls i") (auto simp: topprocs_line_def run_simps at_index_def split: if_splits)
  then have "(\<exists>p. topprocs_Read (Some out) m = Inl p) \<longleftrightarrow>
      (\<exists>i \<in> {1..tp_Num_procs m}. \<not> i < int (length (split_on (CHR 0x0A) out)))"
    using m by (simp add: topprocs_Read_def run_concat_panics_iff)
  also have "\<dots> \<longleftrightarrow> int (length (split_on (CHR 0x0A) out)) \<le> tp_Num_procs m"
    using m(2) by (auto intro!: bexI [of _ "tp_Num_procs m"])
  finally show ?thesis .
qed

section \<open>CustomCmdCollector\<close>

record CustomCmdCollectorConfig =
  ccf_Commands :: "string list"
  ccf_Files :: "string list"
  ccf_ExcludeMetrics :: "string list"

record CustomCmdCollector =
  cu_init :: bool
  cu_config :: CustomCmdCollectorConfig
  cu_cmdFieldsSlice :: "string list list"
  cu_files :: "string list"

text \<open>The commands that can be executed; a blank one has no first word.\<close>

definition custom_command :: "(string list \<Rightarrow> string option) \<Rightarrow> string \<Rightarrow> string list list run" where
  "custom_command exec c =
     run_bind (at_index (str_fields c) 0) (\<lambda>_. Inr (if exec (str_fields c) = None then [] else [str_fields c]))"

definition customcmd_Init ::
  "CustomCmdCollectorConfig \<Rightarrow> (string list \<Rightarrow> string option) \<Rightarrow> (string \<Rightarrow> string option) \<Rightarrow>
   CustomCmdCollector \<Rightarrow> (goerror + CustomCmdCollector) run" where
  "customcmd_Init cfg exec fs m =
     run_bind (run_concat (custom_command exec) (ccf_Commands cfg)) (\<lambda>started.
       let cmds = cu_cmdFieldsSlice m @ started;
           files = cu_files m @ filter (\<lambda>f. fs f \<noteq> None) (ccf_Files cfg)
       in Inr (if files = [] \<and> cmds = [] then Inl (GoError ''no metrics to collect'')
               else Inr \<lparr>cu_init = True, cu_config = cfg, cu_cmdFieldsSlice = cmds, cu_files = files\<rparr>))"

definition custom_send :: "'m msg_api \<Rightarrow> (string \<Rightarrow> 'm list option) \<Rightarrow> string list \<Rightarrow> string option \<Rightarrow> 'm list" where
  "custom_send api fromBytes exclude input =
     (case input of
        None \<Rightarrow> []
      | Some text \<Rightarrow>
          (case fromBytes text of None \<Rightarrow> [] | Some metrics \<Rightarrow> filter (\<lambda>x. msg_name api x \<notin> set exclude) metrics))"

definition customcmd_Read ::
  "'m msg_api \<Rightarrow> (string \<Rightarrow> 'm list option) \<Rightarrow> (string list \<Rightarrow> string option) \<Rightarrow> (string \<Rightarrow> string option) \<Rightarrow>
   CustomCmdCollector \<Rightarrow> 'm list" where
  "customcmd_Read api fromBytes exec fs m =
     (if \<not> cu_init m then []
      else concat (map (\<lambda>c. custom_send api fromBytes (ccf_ExcludeMetrics (cu_config m)) (exec c)) (cu_cmdFieldsSlice m)) @
           concat (map (\<lambda>f. custom_send api fromBytes (ccf_ExcludeMetrics (cu_config m)) (fs f)) (cu_files m)))"

definition customcmd_Close :: "CustomCmdCollector \<Rightarrow> CustomCmdCollector" where
  "customcmd_Close m = m\<lparr>cu_init := False\<rparr>"

theorem customcmd_Init_panics_iff:
  "(\<exists>p. customcmd_Init cfg exec fs m = Inl p) \<longleftrightarrow> (\<exists>c \<in> set (ccf_Commands cfg). str_fields c = [])"
proof -
  have "(\<exists>p. custom_command exec c = Inl p) \<longleftrightarrow> str_fields c = []" for c
    by (cases "str_fields c") (simp_all add: custom_command_def at_index_def)
  then show ?thesis
    using run_concat_panics_iff [of "custom_command exec" "ccf_Commands cfg"]
    by (simp add: customcmd_Init_def run_bind_Inl_iff Let_def)
qed

section \<open>SelfCollector\<close>

record SelfCollectorConfig =
  sc_MemStats :: bool
  sc_GoRoutines :: bool
  sc_CgoCalls :: bool
  sc_Rusage :: bool

record SelfCollector =
  sf_init :: bool
  sf_meta :: tagmap
  sf_tags :: tagmap
  sf_config :: SelfCollectorConfig

text \<open>\<open>runtime.MemStats\<close> and \<open>syscall.Rusage\<close>: the fields that are used; times are seconds and microseconds.\<close>

record go_memstats =
  ms_TotalAlloc :: goint
  ms_HeapAlloc :: goint
  ms_HeapSys :: goint
  ms_HeapIdle :: goint
  ms_HeapInuse :: goint
  ms_HeapReleased :: goint
  ms_HeapObjects :: goint

record go_rusage =
  ru_Utime :: "goint \<times> goint"
  ru_Stime :: "goint \<times> goint"
  ru_Nvcsw :: goint
  ru_Nivcsw :: goint
  ru_Nsignals :: goint
  ru_Majflt :: goint
  ru_Minflt :: goint

definition self_Init :: "SelfCollectorConfig \<Rightarrow> SelfCollector" where
  "self_Init cfg = \<lparr>sf_init = True, sf_meta = [(''source'', ''SelfCollector''), (''group'', ''Self'')],
                    sf_tags = [(''type'', ''node'')], sf_config = cfg\<rparr>"

definition self_request :: "SelfCollector \<Rightarrow> gotime \<Rightarrow> string \<Rightarrow> unit govalue \<Rightarrow> string \<Rightarrow> request" where
  "self_request m t name v unit =
     (let r = \<lparr>rq_name = name, rq_tags = sf_tags m, rq_meta = sf_meta m, rq_value = v, rq_time = Some t\<rparr>
      in if unit = [] then r else add_meta ''unit'' unit r)"

text \<open>\<open>float64(sec) + float64(nsec) * 1e-9\<close>.\<close>

definition rusage_seconds :: "goint \<times> goint \<Rightarrow> gofloat" where
  "rusage_seconds tv =
     fadd binary64 (f64_of_int (sint (fst tv)))
       (fmul binary64 (f64_of_int (sint (snd tv * 1000))) (fround binary64 (1 / 1000000000)))"

definition self_Read :: "gotime \<Rightarrow> go_memstats \<Rightarrow> goint \<Rightarrow> goint \<Rightarrow> go_rusage option \<Rightarrow> SelfCollector \<Rightarrow> request list" where
  "self_Read t ms goroutines cgo rusage m =
     (if sc_MemStats (sf_config m) then
        [self_request m t ''total_alloc'' (VUint64 (ms_TotalAlloc ms)) ''Bytes'',
         self_request m t ''heap_alloc'' (VUint64 (ms_HeapAlloc ms)) ''Bytes'',
         self_request m t ''heap_sys'' (VUint64 (ms_HeapSys ms)) ''Bytes'',
         self_request m t ''heap_idle'' (VUint64 (ms_HeapIdle ms)) ''Bytes'',
         self_request m t ''heap_inuse'' (VUint64 (ms_HeapInuse ms)) ''Bytes'',
         self_request m t ''heap_released'' (VUint64 (ms_HeapReleased ms)) ''Bytes'',
         self_request m t ''heap_objects'' (VUint64 (ms_HeapObjects ms)) []] else []) @
     (if sc_GoRoutines (sf_config m) then [self_request m t ''num_goroutines'' (VInt goroutines) []] else []) @
     (if sc_CgoCalls (sf_config m) then [self_request m t ''num_cgo_calls'' (VInt64 cgo) []] else []) @
     (if sc_Rusage (sf_config m) then
        (case rusage of
           None \<Rightarrow> []
         | Some ru \<Rightarrow>
             [self_request m t ''rusage_user_time'' (VFloat64 (rusage_seconds (ru_Utime ru))) ''seconds'',
              self_request m t ''rusage_system_time'' (VFloat64 (rusage_seconds (ru_Stime ru))) ''seconds'',
              self_request m t ''rusage_vol_ctx_switch'' (VInt64 (ru_Nvcsw ru)) [],
              self_request m t ''rusage_invol_ctx_switch'' (VInt64 (ru_Nivcsw ru)) [],
              self_request m t ''rusage_signals'' (VInt64 (ru_Nsignals ru)) [],
              self_request m t ''rusage_major_pgfaults'' (VInt64 (ru_Majflt ru)) [],
              self_request m t ''rusage_minor_pgfaults'' (VInt64 (ru_Minflt ru)) []]) else [])"

definition self_Close :: "SelfCollector \<Rightarrow> SelfCollector" where
  "self_Close m = m\<lparr>sf_init := False\<rparr>"

end
