(* ===== verification/Smartmon_Collector.thy ===== *)
theory Smartmon_Collector
  imports Collector_Base
begin

text \<open>
  \<open>collectors/smartmonMetric.go\<close>: the health log of disks, as \<open>smartctl\<close> prints it. The search
  path, the output of the scan and the decoded output of the queries are inputs. The names in
  the configuration set flags; a read sends the metrics whose flag is not set.
\<close>

record SmartMonCollectorConfig =
  sm_UseSudo :: bool
  sm_ExcludeDevices :: "string list"
  sm_ExcludeMetrics :: "string list"
  sm_Devices :: "(string \<times> string) list" \<comment> \<open>name and type\<close>

record deviceT =
  sd_Name :: string
  sd_Type :: string
  sd_queryCommand :: "string list"

record smartmon_exclude =
  ex_temp :: bool
  ex_percentUsed :: bool
  ex_availSpare :: bool
  ex_dataUnitsRead :: bool
  ex_dataUnitsWrite :: bool
  ex_hostReads :: bool
  ex_hostWrites :: bool
  ex_powerCycles :: bool
  ex_powerOn :: bool
  ex_UnsafeShutdowns :: bool
  ex_mediaErrors :: bool
  ex_errlogEntries :: bool
  ex_warnTempTime :: bool
  ex_critCompTime :: bool

record SmartMonCollector =
  sm_init :: bool
  sm_meta :: tagmap
  sm_tags :: tagmap
  sm_config :: SmartMonCollectorConfig
  sm_devices :: "deviceT list"
  sm_sudoCmd :: string
  sm_smartCtlCmd :: string
  sm_excludeMetric :: smartmon_exclude

record SmartMonHealthLog =
  hl_Temperature :: goint
  hl_PercentageUsed :: goint
  hl_AvailableSpare :: goint
  hl_DataUnitsRead :: goint
  hl_DataUnitsWrite :: goint
  hl_HostReads :: goint
  hl_HostWrites :: goint
  hl_PowerCycles :: goint
  hl_PowerOnHours :: goint
  hl_UnsafeShutdowns :: goint
  hl_MediaErrors :: goint
  hl_NumErrorLogEntries :: goint
  hl_WarnTempTime :: goint
  hl_CriticalCompTime :: goint

record SmartMonData =
  sd_SerialNumber :: string
  sd_UserCapacity :: "goint \<times> goint" \<comment> \<open>blocks and bytes\<close>
  sd_HealthLog :: SmartMonHealthLog

section \<open>Init\<close>

definition no_excludes :: smartmon_exclude where
  "no_excludes = \<lparr>ex_temp = False, ex_percentUsed = False, ex_availSpare = False,
                 ex_dataUnitsRead = False, ex_dataUnitsWrite = False, ex_hostReads = False,
                 ex_hostWrites = False, ex_powerCycles = False, ex_powerOn = False,
                 ex_UnsafeShutdowns = False, ex_mediaErrors = False, ex_errlogEntries = False,
                 ex_warnTempTime = False, ex_critCompTime = False\<rparr>"

text \<open>The \<open>switch\<close> over the excluded names; an unknown name is an error.\<close>

definition exclude_name :: "string \<Rightarrow> smartmon_exclude \<Rightarrow> smartmon_exclude option" where
  "exclude_name n e =
     (if n = ''smartmon_temp'' then Some (e\<lparr>ex_temp := True\<rparr>)
      else if n = ''smartmon_percent_used'' then Some (e\<lparr>ex_percentUsed := True\<rparr>)
      else if n = ''smartmon_avail_spare'' then Some (e\<lparr>ex_availSpare := True\<rparr>)
      else if n = ''smartmon_data_units_read'' then Some (e\<lparr>ex_dataUnitsRead := True\<rparr>)
      else if n = ''smartmon_data_units_write'' then Some (e\<lparr>ex_dataUnitsWrite := True\<rparr>)
      else if n = ''smartmon_host_reads'' then Some (e\<lparr>ex_hostReads := True\<rparr>)
      else if n = ''smartmon_host_writes'' then Some (e\<lparr>ex_hostWrites := True\<rparr>)
      else if n = ''smartmon_power_cycles'' then Some (e\<lparr>ex_powerCycles := True\<rparr>)
      else if n = ''smartmon_power_on'' then Some (e\<lparr>ex_powerOn := True\<rparr>)
      else if n = ''smartmon_unsafe_shutdowns'' then Some (e\<lparr>ex_UnsafeShutdowns := True\<rparr>)
      else if n = ''smartmon_media_errors'' then Some (e\<lparr>ex_mediaErrors := True\<rparr>)
      else if n = ''smartmon_errlog_entries'' then Some (e\<lparr>ex_errlogEntries := True\<rparr>)
      else if n = ''smartmon_warn_temp_time'' then Some (e\<lparr>ex_warnTempTime := True\<rparr>)
      else if n = ''smartmon_crit_comp_time'' then Some (e\<lparr>ex_critCompTime := True\<rparr>)
      else None)"

fun exclude_names :: "string list \<Rightarrow> smartmon_exclude \<Rightarrow> smartmon_exclude option" where
  "exclude_names [] e = Some e"
| "exclude_names (n # ns) e = (case exclude_name n e of None \<Rightarrow> None | Some e' \<Rightarrow> exclude_names ns e')"

definition query_command :: "SmartMonCollector \<Rightarrow> string \<Rightarrow> string \<Rightarrow> string list" where
  "query_command m name type =
     (if sm_UseSudo (sm_config m) then [sm_sudoCmd m] else []) @
     [sm_smartCtlCmd m, ''--json=c'', ''--device='' @ type, ''--all'', name]"

definition smartmon_device :: "SmartMonCollector \<Rightarrow> string \<times> string \<Rightarrow> deviceT list" where
  "smartmon_device m dev =
     (case dev of (name, type) \<Rightarrow>
        if name \<in> set (sm_ExcludeDevices (sm_config m)) then []
        else [\<lparr>sd_Name = name, sd_Type = type, sd_queryCommand = query_command m name type\<rparr>])"

text \<open>\<open>scan\<close>: the devices that the scan command reports, \<open>None\<close> when it fails or prints no JSON.\<close>

definition getSmartmonDevices ::
  "(string list \<Rightarrow> (string \<times> string) list option) \<Rightarrow> SmartMonCollector \<Rightarrow> goerror + SmartMonCollector" where
  "getSmartmonDevices scan m =
     (if sm_Devices (sm_config m) \<noteq> [] then
        Inr (m\<lparr>sm_devices := sm_devices m @ concat (map (smartmon_device m) (sm_Devices (sm_config m)))\<rparr>)
      else case scan ((if sm_UseSudo (sm_config m) then [sm_sudoCmd m] else []) @
                      [sm_smartCtlCmd m, ''--scan'', ''--json=c'']) of
        None \<Rightarrow> Inl (GoError ''Failed to execute device scan command'')
      | Some devs \<Rightarrow> Inr (m\<lparr>sm_devices := concat (map (smartmon_device m) devs)\<rparr>))"

definition smartmon_start :: "SmartMonCollectorConfig \<Rightarrow> string \<Rightarrow> string \<Rightarrow> smartmon_exclude \<Rightarrow> SmartMonCollector" where
  "smartmon_start cfg sudo smartctl e =
     \<lparr>sm_init = False, sm_meta = [(''source'', ''SmartMonCollector''), (''group'', ''Disk'')],
      sm_tags = [(''type'', ''node''), (''stype'', ''disk'')], sm_config = cfg, sm_devices = [],
      sm_sudoCmd = sudo, sm_smartCtlCmd = smartctl, sm_excludeMetric = e\<rparr>"

definition smartmon_Init ::
  "SmartMonCollectorConfig \<Rightarrow> (string \<Rightarrow> string option) \<Rightarrow> (string list \<Rightarrow> (string \<times> string) list option) \<Rightarrow>
   goerror + SmartMonCollector" where
  "smartmon_Init cfg lookpath scan =
     (case exclude_names (sm_ExcludeMetrics cfg) no_excludes of
        None \<Rightarrow> Inl (GoError ''Unknown excluded metric'')
      | Some e \<Rightarrow>
          (if sm_UseSudo cfg \<and> lookpath ''sudo'' = None then Inl (GoError ''No sudo command found in search path'')
           else case lookpath ''smartctl'' of
             None \<Rightarrow> Inl (GoError ''No smartctl command found in search path'')
           | Some p \<Rightarrow>
               (case getSmartmonDevices scan
                  (smartmon_start cfg (if sm_UseSudo cfg then the (lookpath ''sudo'') else []) p e) of
                  Inl err \<Rightarrow> Inl err
                | Inr m \<Rightarrow> Inr (m\<lparr>sm_init := True\<rparr>))))"

section \<open>Read and Close\<close>

definition smartmon_request ::
  "SmartMonCollector \<Rightarrow> gotime \<Rightarrow> deviceT \<Rightarrow> string \<Rightarrow> unit govalue \<Rightarrow> string \<Rightarrow> request" where
  "smartmon_request m t d name v unit =
     (let r = add_tag ''stype-id'' (sd_Name d)
                \<lparr>rq_name = name, rq_tags = sm_tags m, rq_meta = sm_meta m, rq_value = v, rq_time = Some t\<rparr>
      in if unit = [] then r else add_meta ''unit'' unit r)"

text \<open>The metrics of a device: the flag that excludes it, its name, value and unit.\<close>

definition smartmon_table ::
  "smartmon_exclude \<Rightarrow> SmartMonHealthLog \<Rightarrow> (bool \<times> string \<times> unit govalue \<times> string) list" where
  "smartmon_table e h =
     [(ex_temp e, ''smartmon_temp'', VInt (hl_Temperature h), ''degC''),
      (ex_percentUsed e, ''smartmon_percent_used'', VInt (hl_PercentageUsed h), ''percent''),
      (ex_availSpare e, ''smartmon_avail_spare'', VInt (hl_AvailableSpare h), ''percent''),
      (ex_dataUnitsRead e, ''smartmon_data_units_read'', VInt (hl_DataUnitsRead h), []),
      (ex_dataUnitsWrite e, ''smartmon_data_units_write'', VInt (hl_DataUnitsWrite h), []),
      (ex_hostReads e, ''smartmon_host_reads'', VInt (hl_HostReads h), []),
      (ex_hostWrites e, ''smartmon_host_writes'', VInt (hl_HostWrites h), []),
      (ex_powerCycles e, ''smartmon_power_cycles'', VInt (hl_PowerCycles h), []),
      (ex_powerOn e, ''smartmon_power_on'', VInt64 (hl_PowerOnHours h * 3600), ''sec''),
      (ex_UnsafeShutdowns e, ''smartmon_unsafe_shutdowns'', VInt (hl_UnsafeShutdowns h), []),
      (ex_mediaErrors e, ''smartmon_media_errors'', VInt (hl_MediaErrors h), []),
      (ex_errlogEntries e, ''smartmon_errlog_entries'', VInt (hl_NumErrorLogEntries h), []),
      (ex_warnTempTime e, ''smartmon_warn_temp_time'', VInt (hl_WarnTempTime h), []),
      (ex_critCompTime e, ''smartmon_crit_comp_time'', VInt (hl_CriticalCompTime h), [])]"

definition smartmon_metrics :: "SmartMonCollector \<Rightarrow> gotime \<Rightarrow> deviceT \<Rightarrow> SmartMonHealthLog \<Rightarrow> request list" where
  "smartmon_metrics m t d h =
     concat (map (\<lambda>(excluded, name, v, unit). if excluded then [] else [smartmon_request m t d name v unit])
       (smartmon_table (sm_excludeMetric m) h))"

definition smartmon_device_read ::
  "gotime \<Rightarrow> (string list \<Rightarrow> SmartMonData option) \<Rightarrow> SmartMonCollector \<Rightarrow> deviceT \<Rightarrow> request list" where
  "smartmon_device_read t query m d =
     (case query (sd_queryCommand d) of
        None \<Rightarrow> []
      | Some data \<Rightarrow> smartmon_metrics m t d (sd_HealthLog data))"

definition smartmon_Read ::
  "gotime \<Rightarrow> (string list \<Rightarrow> SmartMonData option) \<Rightarrow> SmartMonCollector \<Rightarrow> request list" where
  "smartmon_Read t query m = concat (map (smartmon_device_read t query m) (sm_devices m))"

definition smartmon_Close :: "SmartMonCollector \<Rightarrow> SmartMonCollector" where
  "smartmon_Close m = m\<lparr>sm_init := False\<rparr>"

section \<open>Names\<close>

definition smartmon_names :: "string list" where
  "smartmon_names =
     [''smartmon_temp'', ''smartmon_percent_used'', ''smartmon_avail_spare'', ''smartmon_data_units_read'',
      ''smartmon_data_units_write'', ''smartmon_host_reads'', ''smartmon_host_writes'', ''smartmon_power_cycles'',
      ''smartmon_power_on'', ''smartmon_unsafe_shutdowns'', ''smartmon_media_errors'', ''smartmon_errlog_entries'',
      ''smartmon_warn_temp_time'', ''smartmon_crit_comp_time'']"

definition exclude_set :: "string set \<Rightarrow> smartmon_exclude" where
  "exclude_set X =
     \<lparr>ex_temp = (''smartmon_temp'' \<in> X),
      ex_percentUsed = (''smartmon_percent_used'' \<in> X),
      ex_availSpare = (''smartmon_avail_spare'' \<in> X),
      ex_dataUnitsRead = (''smartmon_data_units_read'' \<in> X),
      ex_dataUnitsWrite = (''smartmon_data_units_write'' \<in> X),
      ex_hostReads = (''smartmon_host_reads'' \<in> X),
      ex_hostWrites = (''smartmon_host_writes'' \<in> X),
      ex_powerCycles = (''smartmon_power_cycles'' \<in> X),
      ex_powerOn = (''smartmon_power_on'' \<in> X),
      ex_UnsafeShutdowns = (''smartmon_unsafe_shutdowns'' \<in> X),
      ex_mediaErrors = (''smartmon_media_errors'' \<in> X),
      ex_errlogEntries = (''smartmon_errlog_entries'' \<in> X),
      ex_warnTempTime = (''smartmon_warn_temp_time'' \<in> X),
      ex_critCompTime = (''smartmon_crit_comp_time'' \<in> X)\<rparr>"

lemma exclude_name_set: "exclude_name n (exclude_set X) = (if n \<in> set smartmon_names then Some (exclude_set (insert n X)) else None)"
  by (simp add: exclude_name_def smartmon_names_def exclude_set_def)

lemma exclude_names_set:
  "exclude_names ns (exclude_set X) = (if set ns \<subseteq> set smartmon_names then Some (exclude_set (set ns \<union> X)) else None)"
  by (induction ns arbitrary: X) (simp_all add: exclude_name_set)

lemma no_excludes_set: "no_excludes = exclude_set {}"
  by (simp add: no_excludes_def exclude_set_def)

lemma request_name [simp]: "rq_name (smartmon_request m t d n v u) = n"
  by (simp add: smartmon_request_def add_tag_def add_meta_def Let_def)

definition smartmon_read_table :: "string set \<Rightarrow> SmartMonCollector \<times> gotime \<times> deviceT \<times> SmartMonHealthLog \<Rightarrow> request list" where
  "smartmon_read_table X = (\<lambda>(m, t, d, h). smartmon_metrics (m\<lparr>sm_excludeMetric := exclude_set X\<rparr>) t d h)"

lemma table_flags: "list_all (\<lambda>(excluded, n, _). excluded = (n \<in> X)) (smartmon_table (exclude_set X) h)"
  by (simp add: smartmon_table_def exclude_set_def)

lemma table_rest: "map snd (smartmon_table e h) = map snd (smartmon_table no_excludes h)"
  by (simp add: smartmon_table_def)

lemma smartmon_table_names: "map (\<lambda>x. fst (snd x)) (smartmon_table e h) = smartmon_names"
  by (simp add: smartmon_table_def smartmon_names_def)

lemma flagged_without:
  "list_all (\<lambda>(excluded, n, _). excluded = (n \<in> X)) T \<Longrightarrow> (\<And>n v u. rq_name (req n v u) = n) \<Longrightarrow>
   concat (map (\<lambda>(excluded, n, v, u). if excluded then [] else [req n v u]) T) =
   without X (map ((\<lambda>(n, v, u). req n v u) \<circ> snd) T)"
  by (induction T) auto

lemma smartmon_table_without:
  "smartmon_read_table X (m, t, d, h) =
   without X (map (\<lambda>(n, v, u). smartmon_request m t d n v u) (map snd (smartmon_table no_excludes h)))"
proof -
  let ?m = "m\<lparr>sm_excludeMetric := exclude_set X\<rparr>"
  have req: "smartmon_request ?m t d n v u = smartmon_request m t d n v u" for n v u
    by (simp add: smartmon_request_def)
  have "smartmon_read_table X (m, t, d, h) =
      without X (map ((\<lambda>(n, v, u). smartmon_request ?m t d n v u) \<circ> snd) (smartmon_table (exclude_set X) h))"
    unfolding smartmon_read_table_def smartmon_metrics_def prod.case
    by (simp add: flagged_without [OF table_flags])
  then show ?thesis
    by (simp only: req list.map_comp [symmetric] table_rest [of "exclude_set X" h])
qed

interpretation smartmon: distinct_table "smartmon_read_table {}" smartmon_read_table smartmon_names
proof unfold_locales
  show "smartmon_read_table X q = without X (smartmon_read_table {} q)" for X q
    by (cases q) (simp add: smartmon_table_without without_def del: map_map)
  show "map rq_name (smartmon_read_table {} q) = smartmon_names" for q
    by (cases q) (simp add: smartmon_table_without without_def comp_def case_prod_beta
        smartmon_table_names)
  show "distinct smartmon_names" by (simp add: smartmon_names_def)
qed

section \<open>What a read sends\<close>

lemma getSmartmonDevices_fields:
  assumes "getSmartmonDevices scan m = Inr m'" and "sm_devices m = []"
  shows "sm_config m' = sm_config m \<and> sm_excludeMetric m' = sm_excludeMetric m \<and> sm_tags m' = sm_tags m \<and>
    (\<exists>devs. (if sm_Devices (sm_config m) \<noteq> [] then devs = sm_Devices (sm_config m) else \<exists>cmd. scan cmd = Some devs) \<and>
            sm_devices m' = concat (map (smartmon_device m') devs))"
proof -
  have same: "smartmon_device (m\<lparr>sm_devices := ds\<rparr>) = smartmon_device m" for ds
    by (simp add: smartmon_device_def query_command_def fun_eq_iff)
  show ?thesis
  proof (cases "sm_Devices (sm_config m) = []")
    case True
    with assms obtain cmd devs where "scan cmd = Some devs" "m' = m\<lparr>sm_devices := concat (map (smartmon_device m) devs)\<rparr>"
      by (auto simp: getSmartmonDevices_def Let_def split: option.splits)
    with True show ?thesis by (auto simp: same)
  next
    case False
    with assms show ?thesis by (auto simp: getSmartmonDevices_def same)
  qed
qed

lemma smartmon_Init_fields:
  assumes "smartmon_Init cfg lookpath scan = Inr m"
  shows "sm_config m = cfg \<and> sm_excludeMetric m = exclude_set (set (sm_ExcludeMetrics cfg)) \<and>
    sm_tags m = [(''type'', ''node''), (''stype'', ''disk'')] \<and>
    (\<exists>devs. (if sm_Devices cfg \<noteq> [] then devs = sm_Devices cfg else \<exists>cmd. scan cmd = Some devs) \<and>
            sm_devices m = concat (map (smartmon_device m) devs))"
proof -
  from assms obtain e sudo p m1 where e: "exclude_names (sm_ExcludeMetrics cfg) no_excludes = Some e"
    and dev: "getSmartmonDevices scan (smartmon_start cfg sudo p e) = Inr m1" and m: "m = m1\<lparr>sm_init := True\<rparr>"
    by (auto simp: smartmon_Init_def split: option.splits if_splits sum.splits)
  from e have "e = exclude_set (set (sm_ExcludeMetrics cfg))"
    by (auto simp: no_excludes_set exclude_names_set split: if_splits)
  moreover have "smartmon_device (m1\<lparr>sm_init := True\<rparr>) = smartmon_device m1"
    by (simp add: smartmon_device_def query_command_def fun_eq_iff)
  moreover have start: "sm_config (smartmon_start cfg sudo p e) = cfg" "sm_devices (smartmon_start cfg sudo p e) = []"
      "sm_excludeMetric (smartmon_start cfg sudo p e) = e"
      "sm_tags (smartmon_start cfg sudo p e) = [(''type'', ''node''), (''stype'', ''disk'')]"
    by (simp_all add: smartmon_start_def)
  ultimately show ?thesis using getSmartmonDevices_fields [OF dev start(2), unfolded start] m by auto
qed

lemma smartmon_metrics_names:
  assumes "sm_excludeMetric m = exclude_set X" and "map_of (sm_tags m) ''stype-id'' = None"
  shows "map (\<lambda>r. (rq_name r, map_of (rq_tags r) ''stype-id'')) (smartmon_metrics m t d h) =
         map (\<lambda>n. (n, Some (sd_Name d))) (filter (\<lambda>n. n \<notin> X) smartmon_names)"
proof -
  have read: "smartmon_metrics m t d h = smartmon_read_table X (m, t, d, h)"
    using assms(1) by (cases m) (simp add: smartmon_read_table_def)
  have "map_of (rq_tags r) ''stype-id'' = Some (sd_Name d)" if "r \<in> set (smartmon_metrics m t d h)" for r
    using that by (auto simp: smartmon_metrics_def smartmon_request_def add_tag_def add_meta_def Let_def split: if_splits)
  then have "map (\<lambda>r. (rq_name r, map_of (rq_tags r) ''stype-id'')) (smartmon_metrics m t d h) =
      map (\<lambda>n. (n, Some (sd_Name d))) (map rq_name (smartmon_metrics m t d h))" by simp
  then show ?thesis by (simp only: read smartmon.read_names)
qed

text \<open>C28: What the S.M.A.R.T. collector sends: for every configured (or, if none is configured, every
  scanned) disk that is not excluded and whose query succeeds, in this order, each metric that is
  not excluded exactly once, in the order of the table, tagged with the disk. A disk whose query
  fails loses only its own metrics. Init fails on an excluded name that is no metric.\<close>

theorem smartmon_sends:
  assumes "smartmon_Init cfg lookpath scan = Inr m"
  shows "set (sm_ExcludeMetrics cfg) \<subseteq> set smartmon_names \<and>
    (\<exists>devs. (if sm_Devices cfg \<noteq> [] then devs = sm_Devices cfg else \<exists>cmd. scan cmd = Some devs) \<and>
      map (\<lambda>r. (rq_name r, map_of (rq_tags r) ''stype-id'')) (smartmon_Read t query m) =
      concat (map (\<lambda>(name, type).
        if name \<in> set (sm_ExcludeDevices cfg) \<or> query (query_command m name type) = None then []
        else map (\<lambda>n. (n, Some name)) (filter (\<lambda>n. n \<notin> set (sm_ExcludeMetrics cfg)) smartmon_names)) devs))"
proof (intro conjI)
  show "set (sm_ExcludeMetrics cfg) \<subseteq> set smartmon_names"
    using assms by (auto simp: smartmon_Init_def no_excludes_set exclude_names_set split: if_splits)
next
  from smartmon_Init_fields [OF assms] obtain devs where cfg: "sm_config m = cfg"
    and e: "sm_excludeMetric m = exclude_set (set (sm_ExcludeMetrics cfg))"
    and tags: "map_of (sm_tags m) ''stype-id'' = None"
    and devs: "if sm_Devices cfg \<noteq> [] then devs = sm_Devices cfg else \<exists>cmd. scan cmd = Some devs"
    and m: "sm_devices m = concat (map (smartmon_device m) devs)" by auto
  let ?f = "\<lambda>r. (rq_name r, map_of (rq_tags r) ''stype-id'')"
  have "map ?f (concat (map (smartmon_device_read t query m) (smartmon_device m (name, type)))) =
      (if name \<in> set (sm_ExcludeDevices cfg) \<or> query (query_command m name type) = None then []
       else map (\<lambda>n. (n, Some name)) (filter (\<lambda>n. n \<notin> set (sm_ExcludeMetrics cfg)) smartmon_names))" for name type
    using smartmon_metrics_names [OF e tags]
    by (auto simp: smartmon_device_def smartmon_device_read_def cfg split: option.splits)
  then have "map ?f (smartmon_Read t query m) =
      concat (map (\<lambda>(name, type).
        if name \<in> set (sm_ExcludeDevices cfg) \<or> query (query_command m name type) = None then []
        else map (\<lambda>n. (n, Some name)) (filter (\<lambda>n. n \<notin> set (sm_ExcludeMetrics cfg)) smartmon_names)) devs)"
    unfolding smartmon_Read_def m by (induction devs) auto
  with devs show "\<exists>devs. (if sm_Devices cfg \<noteq> [] then devs = sm_Devices cfg else \<exists>cmd. scan cmd = Some devs) \<and>
      map ?f (smartmon_Read t query m) =
      concat (map (\<lambda>(name, type).
        if name \<in> set (sm_ExcludeDevices cfg) \<or> query (query_command m name type) = None then []
        else map (\<lambda>n. (n, Some name)) (filter (\<lambda>n. n \<notin> set (sm_ExcludeMetrics cfg)) smartmon_names)) devs)"
    by blast
qed

definition demo_smartmon :: SmartMonCollectorConfig where
  "demo_smartmon = \<lparr>sm_UseSudo = False, sm_ExcludeDevices = [''/dev/nvme1''],
     sm_ExcludeMetrics = [''smartmon_temp'', ''smartmon_temp''], sm_Devices = []\<rparr>"

definition demo_scan :: "string list \<Rightarrow> (string \<times> string) list option" where
  "demo_scan cmd = Some [(''/dev/nvme0'', ''nvme''), (''/dev/nvme1'', ''nvme'')]"

definition demo_query :: "string list \<Rightarrow> SmartMonData option" where
  "demo_query cmd = Some \<lparr>sd_SerialNumber = ''1'', sd_UserCapacity = (0, 0), sd_HealthLog =
     \<lparr>hl_Temperature = 0, hl_PercentageUsed = 1, hl_AvailableSpare = 2, hl_DataUnitsRead = 3,
      hl_DataUnitsWrite = 4, hl_HostReads = 5, hl_HostWrites = 6, hl_PowerCycles = 7,
      hl_PowerOnHours = 8, hl_UnsafeShutdowns = 9, hl_MediaErrors = 10, hl_NumErrorLogEntries = 11,
      hl_WarnTempTime = 12, hl_CriticalCompTime = 13\<rparr>\<rparr>"

theorem smartmon_sends_witness:
  "\<exists>m devs. smartmon_Init demo_smartmon Some demo_scan = Inr m \<and>
     map (\<lambda>r. (rq_name r, map_of (rq_tags r) ''stype-id'')) (smartmon_Read 0 demo_query m) =
      concat (map (\<lambda>(name, type).
        if name \<in> set [''/dev/nvme1''] \<or> demo_query (query_command m name type) = None then []
        else map (\<lambda>n. (n, Some name)) (tl smartmon_names)) devs)"
proof -
  have "case smartmon_Init demo_smartmon Some demo_scan of Inl _ \<Rightarrow> False | Inr _ \<Rightarrow> True" by code_simp
  then obtain m where m: "smartmon_Init demo_smartmon Some demo_scan = Inr m" by (auto split: sum.splits)
  have names: "filter (\<lambda>n. n \<notin> set (sm_ExcludeMetrics demo_smartmon)) smartmon_names = tl smartmon_names" by code_simp
  have devices: "sm_ExcludeDevices demo_smartmon = [''/dev/nvme1'']" by (simp add: demo_smartmon_def)
  show ?thesis using conjunct2 [OF smartmon_sends [OF m, of 0 demo_query]] m unfolding names devices by blast
qed

end
