(* ===== verification/Nvidia_Collector.thy ===== *)
theory Nvidia_Collector
  imports Collector_Base
begin

text \<open>
  \<open>collectors/nvidiaMetric.go\<close>: the values that the vendor library NVML gives for the graphics
  cards of a node and for their MIG partitions. The library is not part of the repository: what
  its functions return is a parameter, the record \<open>nvml\<close> with one field per function the source
  calls (\<open>'d\<close> are its device handles, \<open>None\<close> stands for every return code but \<open>SUCCESS\<close>). One
  record describes the calls of one \<open>Init\<close> or one \<open>Read\<close>.
\<close>

section \<open>The library\<close>

datatype nv_return = SUCCESS | ERROR_NOT_SUPPORTED | ERROR_LIBRARY_NOT_FOUND | ERROR_OTHER
datatype nv_state = FEATURE_DISABLED | FEATURE_ENABLED | FEATURE_OTHER
datatype nv_clock = CLOCK_GRAPHICS | CLOCK_SM | CLOCK_MEM | CLOCK_VIDEO
datatype nv_ecc = MEMORY_ERROR_TYPE_UNCORRECTED | MEMORY_ERROR_TYPE_CORRECTED
datatype nv_policy =
    PERF_POLICY_POWER | PERF_POLICY_THERMAL | PERF_POLICY_SYNC_BOOST | PERF_POLICY_BOARD_LIMIT
  | PERF_POLICY_LOW_UTILIZATION | PERF_POLICY_RELIABILITY | PERF_POLICY_TOTAL_APP_CLOCKS
  | PERF_POLICY_TOTAL_BASE_CLOCKS
datatype nv_counter =
    NVLINK_ERROR_DL_CRC_DATA | NVLINK_ERROR_DL_ECC_DATA | NVLINK_ERROR_DL_REPLAY
  | NVLINK_ERROR_DL_RECOVERY | NVLINK_ERROR_DL_CRC_FLIT

text \<open>Functions about the devices themselves.\<close>

record 'd nvml_devices =
  nv_Init :: nv_return
  nv_DeviceGetCount :: "nat option"
  nv_DeviceGetHandleByIndex :: "nat \<Rightarrow> 'd option"
  nv_DeviceGetPciInfo :: "'d \<Rightarrow> (32 word \<times> 32 word \<times> 32 word) option" \<comment> \<open>domain, bus, device\<close>
  nv_DEVICE_PCI_BUS_ID_FMT :: "32 word \<times> 32 word \<times> 32 word \<Rightarrow> string" \<comment> \<open>printed with this format\<close>
  nv_DeviceGetBoardPartNumber :: "'d \<Rightarrow> string option"
  nv_DeviceGetSerial :: "'d \<Rightarrow> string option"
  nv_DeviceGetUUID :: "'d \<Rightarrow> string option"
  nv_DeviceGetName :: "'d \<Rightarrow> string option"
  nv_DeviceIsMigDeviceHandle :: "'d \<Rightarrow> bool option"
  nv_DeviceGetMigMode :: "'d \<Rightarrow> bool option" \<comment> \<open>\<open>False\<close> is \<open>DEVICE_MIG_DISABLE\<close>\<close>
  nv_DeviceGetMaxMigDeviceCount :: "'d \<Rightarrow> nat option"
  nv_DeviceGetMigDeviceHandleByIndex :: "'d \<Rightarrow> nat \<Rightarrow> 'd option"

text \<open>
  The measurements, and the clock before and after the energy query of a device. A list of
  processes is given by its length. The NVLink counter is used even if the call fails.
\<close>

record 'd nvml = "'d nvml_devices" +
  nv_now :: "'d \<Rightarrow> gotime \<times> gotime"
  nv_DeviceGetMemoryInfo :: "'d \<Rightarrow> (goint \<times> goint) option" \<comment> \<open>total, used\<close>
  nv_DeviceGetBAR1MemoryInfo :: "'d \<Rightarrow> (goint \<times> goint) option"
  nv_DeviceGetUtilizationRates :: "'d \<Rightarrow> (32 word \<times> 32 word) option" \<comment> \<open>GPU, memory\<close>
  nv_DeviceGetTemperature :: "'d \<Rightarrow> 32 word option"
  nv_DeviceGetFanSpeed :: "'d \<Rightarrow> 32 word option"
  nv_DeviceGetEccMode :: "'d \<Rightarrow> nv_state \<times> nv_return" \<comment> \<open>pending mode\<close>
  nv_DeviceGetPerformanceState :: "'d \<Rightarrow> 32 word option"
  nv_DeviceGetPowerManagementMode :: "'d \<Rightarrow> nv_state option"
  nv_DeviceGetPowerUsage :: "'d \<Rightarrow> 32 word option"
  nv_DeviceGetTotalEnergyConsumption :: "'d \<Rightarrow> goint option"
  nv_DeviceGetClockInfo :: "'d \<Rightarrow> nv_clock \<Rightarrow> 32 word option"
  nv_DeviceGetMaxClockInfo :: "'d \<Rightarrow> nv_clock \<Rightarrow> 32 word option"
  nv_DeviceGetTotalEccErrors :: "'d \<Rightarrow> nv_ecc \<Rightarrow> goint option"
  nv_DeviceGetPowerManagementLimit :: "'d \<Rightarrow> 32 word option"
  nv_DeviceGetEncoderUtilization :: "'d \<Rightarrow> 32 word option"
  nv_DeviceGetDecoderUtilization :: "'d \<Rightarrow> 32 word option"
  nv_DeviceGetRemappedRows :: "'d \<Rightarrow> (goint \<times> goint \<times> bool \<times> bool) option"
  nv_DeviceGetComputeRunningProcesses :: "'d \<Rightarrow> nat option"
  nv_DeviceGetGraphicsRunningProcesses :: "'d \<Rightarrow> nat option"
  nv_DeviceGetViolationStatus :: "'d \<Rightarrow> nv_policy \<Rightarrow> goint option"
  nv_NVLINK_MAX_LINKS :: nat
  nv_DeviceGetNvLinkState :: "'d \<Rightarrow> nat \<Rightarrow> nv_state option"
  nv_DeviceGetNvLinkErrorCounter :: "'d \<Rightarrow> nat \<Rightarrow> nv_counter \<Rightarrow> goint \<times> bool"

section \<open>State\<close>

record NvidiaCollectorConfig =
  nf_ExcludeMetrics :: "string list"
  nf_ExcludeDevices :: "string list"
  nf_AddPciInfoTag :: bool
  nf_UsePciInfoAsTypeId :: bool
  nf_AddUuidMeta :: bool
  nf_AddBoardNumberMeta :: bool
  nf_AddSerialMeta :: bool
  nf_ProcessMigDevices :: bool
  nf_UseUuidForMigDevices :: bool
  nf_UseSliceForMigDevices :: bool

record 'd NvidiaCollectorDevice =
  nd_device :: 'd
  nd_excludeMetrics :: "string list" \<comment> \<open>the keys of the map\<close>
  nd_tags :: tagmap
  nd_meta :: tagmap
  nd_lastEnergyReading :: goint
  nd_lastEnergyTimestamp :: gotime

text \<open>\<open>nc_gpus\<close> are the entries of the slice that have been filled.\<close>

record 'd NvidiaCollector =
  nc_init :: bool
  nc_config :: NvidiaCollectorConfig
  nc_gpus :: "'d NvidiaCollectorDevice list"
  nc_num_gpus :: nat

section \<open>Reading a device\<close>

definition nv_request ::
  "'d NvidiaCollectorDevice \<Rightarrow> string \<Rightarrow> unit govalue \<Rightarrow> string \<Rightarrow> gotime option \<Rightarrow> request" where
  "nv_request dev name v unit t =
     (let r = \<lparr>rq_name = name, rq_tags = nd_tags dev, rq_meta = nd_meta dev, rq_value = v, rq_time = t\<rparr>
      in if unit = [] then r else add_meta ''unit'' unit r)"

abbreviation excluded :: "'d NvidiaCollectorDevice \<Rightarrow> string \<Rightarrow> bool" where
  "excluded dev name \<equiv> name \<in> set (nd_excludeMetrics dev)"

text \<open>The pattern of most metrics: unless excluded, a call, and a metric if it succeeds.\<close>

definition nv_metric :: "'d NvidiaCollectorDevice \<Rightarrow> string \<Rightarrow> unit govalue option \<Rightarrow> string \<Rightarrow> request list" where
  "nv_metric dev name v unit =
     (if excluded dev name then [] else case v of None \<Rightarrow> [] | Some x \<Rightarrow> [nv_request dev name x unit None])"

definition uint_value :: "'a::len word \<Rightarrow> unit govalue" where
  "uint_value x = VFloat64 (f64_of_int (uint x))"

text \<open>\<open>float64(x) / 1000\<close>, \<open>float64(x) / (1024 * 1024)\<close> and \<open>float64(x) * 1e-9\<close>.\<close>

definition milli_value :: "32 word \<Rightarrow> unit govalue" where
  "milli_value x = VFloat64 (fdiv binary64 (f64_of_int (uint x)) (f64_of_int 1000))"

definition mbyte_value :: "goint \<Rightarrow> unit govalue" where
  "mbyte_value x = VFloat64 (fdiv binary64 (f64_of_int (uint x)) (f64_of_int 1048576))"

definition nano_value :: "goint \<Rightarrow> unit govalue" where
  "nano_value x = VFloat64 (fmul binary64 (f64_of_int (uint x)) (fround binary64 (1 / 1000000000)))"

definition nvml_error :: goerror where
  "nvml_error = GoError ''nvml''"

text \<open>A read that may fail sends nothing when it does.\<close>

definition readMemoryInfo :: "('d, 'z) nvml_scheme \<Rightarrow> 'd NvidiaCollectorDevice \<Rightarrow> goerror + request list" where
  "readMemoryInfo lib dev =
     (if excluded dev ''nv_fb_mem_total'' \<and> excluded dev ''nv_fb_mem_used'' \<and> excluded dev ''nv_fb_mem_reserved'' then Inr []
      else let reserved = 0; v2 = False in
        case nv_DeviceGetMemoryInfo lib (nd_device dev) of
          None \<Rightarrow> Inl nvml_error
        | Some (tot, used) \<Rightarrow>
            Inr (nv_metric dev ''nv_fb_mem_total'' (Some (mbyte_value tot)) ''MByte'' @
                 nv_metric dev ''nv_fb_mem_used'' (Some (mbyte_value used)) ''MByte'' @
                 (if v2 then nv_metric dev ''nv_fb_mem_reserved'' (Some (mbyte_value reserved)) ''MByte'' else [])))"

definition readBarMemoryInfo :: "('d, 'z) nvml_scheme \<Rightarrow> 'd NvidiaCollectorDevice \<Rightarrow> goerror + request list" where
  "readBarMemoryInfo lib dev =
     (if excluded dev ''nv_bar1_mem_total'' \<and> excluded dev ''nv_bar1_mem_used'' then Inr []
      else case nv_DeviceGetBAR1MemoryInfo lib (nd_device dev) of
        None \<Rightarrow> Inl nvml_error
      | Some (tot, used) \<Rightarrow>
          Inr (nv_metric dev ''nv_bar1_mem_total'' (Some (mbyte_value tot)) ''MByte'' @
               nv_metric dev ''nv_bar1_mem_used'' (Some (mbyte_value used)) ''MByte''))"

text \<open>The guard of the reads that do not work on MIG devices.\<close>

definition unless_mig :: "('d, 'z) nvml_scheme \<Rightarrow> 'd NvidiaCollectorDevice \<Rightarrow> request list \<Rightarrow> goerror + request list" where
  "unless_mig lib dev rs =
     (case nv_DeviceIsMigDeviceHandle lib (nd_device dev) of
        None \<Rightarrow> Inl nvml_error
      | Some isMig \<Rightarrow> Inr (if isMig then [] else rs))"

definition readUtilization :: "('d, 'z) nvml_scheme \<Rightarrow> 'd NvidiaCollectorDevice \<Rightarrow> goerror + request list" where
  "readUtilization lib dev =
     unless_mig lib dev
       (if excluded dev ''nv_util'' \<and> excluded dev ''nv_mem_util'' then []
        else case nv_DeviceGetUtilizationRates lib (nd_device dev) of
          None \<Rightarrow> []
        | Some (gpu, memory) \<Rightarrow>
            nv_metric dev ''nv_util'' (Some (uint_value gpu)) ''%'' @
            nv_metric dev ''nv_mem_util'' (Some (uint_value memory)) ''%'')"

definition readTemp :: "('d, 'z) nvml_scheme \<Rightarrow> 'd NvidiaCollectorDevice \<Rightarrow> request list" where
  "readTemp lib dev = nv_metric dev ''nv_temp'' (map_option uint_value (nv_DeviceGetTemperature lib (nd_device dev))) ''degC''"

definition readFan :: "('d, 'z) nvml_scheme \<Rightarrow> 'd NvidiaCollectorDevice \<Rightarrow> request list" where
  "readFan lib dev = nv_metric dev ''nv_fan'' (map_option uint_value (nv_DeviceGetFanSpeed lib (nd_device dev))) ''%''"

definition readEccMode :: "('d, 'z) nvml_scheme \<Rightarrow> 'd NvidiaCollectorDevice \<Rightarrow> request list" where
  "readEccMode lib dev =
     nv_metric dev ''nv_ecc_mode''
       (case nv_DeviceGetEccMode lib (nd_device dev) of
          (ecc_pend, SUCCESS) \<Rightarrow>
            Some (VString (case ecc_pend of FEATURE_DISABLED \<Rightarrow> ''OFF'' | FEATURE_ENABLED \<Rightarrow> ''ON'' | _ \<Rightarrow> ''UNKNOWN''))
        | (_, ERROR_NOT_SUPPORTED) \<Rightarrow> Some (VString ''N/A'')
        | _ \<Rightarrow> None) []"

definition readPerfState :: "('d, 'z) nvml_scheme \<Rightarrow> 'd NvidiaCollectorDevice \<Rightarrow> request list" where
  "readPerfState lib dev =
     nv_metric dev ''nv_perf_state''
       (map_option (\<lambda>p. VString (''P'' @ itoa (ucast p))) (nv_DeviceGetPerformanceState lib (nd_device dev))) []"

definition readPowerUsage :: "('d, 'z) nvml_scheme \<Rightarrow> 'd NvidiaCollectorDevice \<Rightarrow> request list" where
  "readPowerUsage lib dev =
     nv_metric dev ''nv_power_usage''
       (if nv_DeviceGetPowerManagementMode lib (nd_device dev) = Some FEATURE_ENABLED
        then map_option milli_value (nv_DeviceGetPowerUsage lib (nd_device dev)) else None) ''watts''"

text \<open>
  Energy since the last read, average power, and energy so far. Any one of the three names
  excludes them all. The division by the whole seconds panics when there are none.
\<close>

definition readEnergyConsumption ::
  "('d, 'z) nvml_scheme \<Rightarrow> 'd NvidiaCollectorDevice \<Rightarrow> ('d NvidiaCollectorDevice \<times> request list) run" where
  "readEnergyConsumption lib dev =
     (if excluded dev ''nv_energy'' \<or> excluded dev ''nv_energy_abs'' \<or> excluded dev ''nv_average_power'' then Inr (dev, [])
      else if nv_DeviceGetPowerManagementMode lib (nd_device dev) \<noteq> Some FEATURE_ENABLED then Inr (dev, [])
      else case nv_DeviceGetTotalEnergyConsumption lib (nd_device dev) of
        None \<Rightarrow> Inr (dev, [])
      | Some energy \<Rightarrow>
          (let now = fst (nv_now lib (nd_device dev));
               energyDiff = (energy - nd_lastEnergyReading dev) div 1000;
               secs = word_of_int (uint64_of_float (duration_seconds (time_sub now (nd_lastEnergyTimestamp dev)))) :: goint;
               absolute = [nv_request dev ''nv_energy_abs'' (VUint64 (energy div 1000)) ''Joules'' (Some now)];
               dev' = dev\<lparr>nd_lastEnergyReading := energy, nd_lastEnergyTimestamp := snd (nv_now lib (nd_device dev))\<rparr>
           in if nd_lastEnergyReading dev = 0 then Inr (dev', absolute)
              else if secs = 0 then Inl DivideByZero
              else Inr (dev',
                [nv_request dev ''nv_energy'' (VUint64 energyDiff) ''Joules'' (Some now),
                 nv_request dev ''nv_average_power'' (VUint64 (energyDiff div secs)) ''watts'' (Some now)] @ absolute)))"

definition readClocks :: "('d, 'z) nvml_scheme \<Rightarrow> 'd NvidiaCollectorDevice \<Rightarrow> request list" where
  "readClocks lib dev =
     (let clock = \<lambda>c. map_option uint_value (nv_DeviceGetClockInfo lib (nd_device dev) c)
      in nv_metric dev ''nv_graphics_clock'' (clock CLOCK_GRAPHICS) ''MHz'' @
         nv_metric dev ''nv_sm_clock'' (clock CLOCK_SM) ''MHz'' @
         nv_metric dev ''nv_mem_clock'' (clock CLOCK_MEM) ''MHz'' @
         nv_metric dev ''nv_video_clock'' (clock CLOCK_VIDEO) ''MHz'')"

definition readMaxClocks :: "('d, 'z) nvml_scheme \<Rightarrow> 'd NvidiaCollectorDevice \<Rightarrow> request list" where
  "readMaxClocks lib dev =
     (let clock = \<lambda>c. map_option uint_value (nv_DeviceGetMaxClockInfo lib (nd_device dev) c)
      in nv_metric dev ''nv_max_graphics_clock'' (clock CLOCK_GRAPHICS) ''MHz'' @
         nv_metric dev ''nv_max_sm_clock'' (clock CLOCK_SM) ''MHz'' @
         nv_metric dev ''nv_max_mem_clock'' (clock CLOCK_MEM) ''MHz'' @
         nv_metric dev ''nv_max_video_clock'' (clock CLOCK_VIDEO) ''MHz'')"

definition readEccErrors :: "('d, 'z) nvml_scheme \<Rightarrow> 'd NvidiaCollectorDevice \<Rightarrow> request list" where
  "readEccErrors lib dev =
     (let errors = \<lambda>e. map_option uint_value (nv_DeviceGetTotalEccErrors lib (nd_device dev) e)
      in nv_metric dev ''nv_ecc_uncorrected_error'' (errors MEMORY_ERROR_TYPE_UNCORRECTED) [] @
         nv_metric dev ''nv_ecc_corrected_error'' (errors MEMORY_ERROR_TYPE_CORRECTED) [])"

definition readPowerLimit :: "('d, 'z) nvml_scheme \<Rightarrow> 'd NvidiaCollectorDevice \<Rightarrow> request list" where
  "readPowerLimit lib dev =
     nv_metric dev ''nv_power_max_limit'' (map_option milli_value (nv_DeviceGetPowerManagementLimit lib (nd_device dev))) ''watts''"

definition readEncUtilization :: "('d, 'z) nvml_scheme \<Rightarrow> 'd NvidiaCollectorDevice \<Rightarrow> goerror + request list" where
  "readEncUtilization lib dev =
     unless_mig lib dev
       (nv_metric dev ''nv_encoder_util'' (map_option uint_value (nv_DeviceGetEncoderUtilization lib (nd_device dev))) ''%'')"

definition readDecUtilization :: "('d, 'z) nvml_scheme \<Rightarrow> 'd NvidiaCollectorDevice \<Rightarrow> goerror + request list" where
  "readDecUtilization lib dev =
     unless_mig lib dev
       (nv_metric dev ''nv_decoder_util'' (map_option uint_value (nv_DeviceGetDecoderUtilization lib (nd_device dev))) ''%'')"

text \<open>The uncorrected rows are sent under the name of the corrected ones.\<close>

definition readRemappedRows :: "('d, 'z) nvml_scheme \<Rightarrow> 'd NvidiaCollectorDevice \<Rightarrow> request list" where
  "readRemappedRows lib dev =
     (if excluded dev ''nv_remapped_rows_corrected'' \<and> excluded dev ''nv_remapped_rows_uncorrected'' \<and>
         excluded dev ''nv_remapped_rows_pending'' \<and> excluded dev ''nv_remapped_rows_failure'' then []
      else case nv_DeviceGetRemappedRows lib (nd_device dev) of
        None \<Rightarrow> []
      | Some (corrected, uncorrected, pending, failure) \<Rightarrow>
          nv_metric dev ''nv_remapped_rows_corrected'' (Some (VFloat64 (f64_of_int (sint corrected)))) [] @
          (if excluded dev ''nv_remapped_rows_uncorrected'' then []
           else [nv_request dev ''nv_remapped_rows_corrected'' (VFloat64 (f64_of_int (sint uncorrected))) [] None]) @
          nv_metric dev ''nv_remapped_rows_pending'' (Some (VInt (if pending then 1 else 0))) [] @
          nv_metric dev ''nv_remapped_rows_failure'' (Some (VInt (if failure then 1 else 0))) [])"

definition readProcessCounts :: "('d, 'z) nvml_scheme \<Rightarrow> 'd NvidiaCollectorDevice \<Rightarrow> request list" where
  "readProcessCounts lib dev =
     nv_metric dev ''nv_compute_processes''
       (map_option (\<lambda>n. VInt (of_nat n)) (nv_DeviceGetComputeRunningProcesses lib (nd_device dev))) [] @
     nv_metric dev ''nv_graphics_processes''
       (map_option (\<lambda>n. VInt (of_nat n)) (nv_DeviceGetGraphicsRunningProcesses lib (nd_device dev))) []"

definition readViolationStats :: "('d, 'z) nvml_scheme \<Rightarrow> 'd NvidiaCollectorDevice \<Rightarrow> request list" where
  "readViolationStats lib dev =
     (let viol = \<lambda>name p. nv_metric dev name (map_option nano_value (nv_DeviceGetViolationStatus lib (nd_device dev) p)) ''sec''
      in viol ''nv_violation_power'' PERF_POLICY_POWER @
         viol ''nv_violation_thermal'' PERF_POLICY_THERMAL @
         viol ''nv_violation_sync_boost'' PERF_POLICY_SYNC_BOOST @
         viol ''nv_violation_board_limit'' PERF_POLICY_BOARD_LIMIT @
         viol ''nv_violation_low_util'' PERF_POLICY_LOW_UTILIZATION @
         viol ''nv_violation_reliability'' PERF_POLICY_RELIABILITY @
         viol ''nv_violation_below_app_clock'' PERF_POLICY_TOTAL_APP_CLOCKS @
         viol ''nv_violation_below_base_clock'' PERF_POLICY_TOTAL_BASE_CLOCKS)"

subsection \<open>NVLink\<close>

definition nvlink_kinds :: "(string \<times> nv_counter) list" where
  "nvlink_kinds =
     [(''nv_nvlink_crc_errors'', NVLINK_ERROR_DL_CRC_DATA),
      (''nv_nvlink_ecc_errors'', NVLINK_ERROR_DL_ECC_DATA),
      (''nv_nvlink_replay_errors'', NVLINK_ERROR_DL_REPLAY),
      (''nv_nvlink_recovery_errors'', NVLINK_ERROR_DL_RECOVERY),
      (''nv_nvlink_crc_flit_errors'', NVLINK_ERROR_DL_CRC_FLIT)]"

definition nvlink_enabled :: "('d, 'z) nvml_scheme \<Rightarrow> 'd NvidiaCollectorDevice \<Rightarrow> nat \<Rightarrow> bool" where
  "nvlink_enabled lib dev i = (nv_DeviceGetNvLinkState lib (nd_device dev) i = Some FEATURE_ENABLED)"

definition nvlink_counter ::
  "('d, 'z) nvml_scheme \<Rightarrow> 'd NvidiaCollectorDevice \<Rightarrow> nat \<Rightarrow> string \<times> nv_counter \<Rightarrow> request list" where
  "nvlink_counter lib dev i kind =
     (let (count, ok) = nv_DeviceGetNvLinkErrorCounter lib (nd_device dev) i (snd kind)
      in if excluded dev (fst kind) \<or> \<not> ok then []
         else [add_tag ''stype-id'' (itoa (of_nat i)) (add_tag ''stype'' ''nvlink''
                 (nv_request dev (fst kind) (VUint64 count) [] None))])"

text \<open>The sums count every enabled link, also one whose counter could not be read.\<close>

definition nvlink_sum :: "('d, 'z) nvml_scheme \<Rightarrow> 'd NvidiaCollectorDevice \<Rightarrow> nv_counter \<Rightarrow> goint" where
  "nvlink_sum lib dev kind =
     fold (\<lambda>i acc. if nvlink_enabled lib dev i
                   then acc + fst (nv_DeviceGetNvLinkErrorCounter lib (nd_device dev) i kind) else acc)
       [0..<nv_NVLINK_MAX_LINKS lib] 0"

definition readNVLinkStats :: "('d, 'z) nvml_scheme \<Rightarrow> 'd NvidiaCollectorDevice \<Rightarrow> request list" where
  "readNVLinkStats lib dev =
     concat (map (\<lambda>i. if nvlink_enabled lib dev i then concat (map (nvlink_counter lib dev i) nvlink_kinds) else [])
       [0..<nv_NVLINK_MAX_LINKS lib]) @
     concat (map (\<lambda>(name, kind). if excluded dev name then []
                   else [add_tag ''stype'' ''nvlink''
                           (nv_request dev (name @ ''_sum'') (VUint64 (nvlink_sum lib dev kind)) [] None)])
       nvlink_kinds)"

section \<open>Read and Close\<close>

definition nv_sent :: "goerror + request list \<Rightarrow> request list" where
  "nv_sent r = (case r of Inl _ \<Rightarrow> [] | Inr rs \<Rightarrow> rs)"

text \<open>Errors are only logged.\<close>

definition readAll ::
  "('d, 'z) nvml_scheme \<Rightarrow> 'd NvidiaCollectorDevice \<Rightarrow> ('d NvidiaCollectorDevice \<times> request list) run" where
  "readAll lib dev =
     run_bind (readEnergyConsumption lib dev) (\<lambda>(dev', energy).
       Inr (dev',
         nv_sent (readMemoryInfo lib dev) @ nv_sent (readUtilization lib dev) @ readTemp lib dev @ readFan lib dev @
         readEccMode lib dev @ readPerfState lib dev @ readPowerUsage lib dev @ energy @ readClocks lib dev' @
         readMaxClocks lib dev' @ readEccErrors lib dev' @ readPowerLimit lib dev' @
         nv_sent (readEncUtilization lib dev') @ nv_sent (readDecUtilization lib dev') @ readRemappedRows lib dev' @
         nv_sent (readBarMemoryInfo lib dev') @ readProcessCounts lib dev' @ readViolationStats lib dev' @
         readNVLinkStats lib dev'))"

text \<open>
  The device of a MIG partition. When its UUID is wanted and not available, the message prints
  the error of the last read, and that is always nil.
\<close>

definition mig_stype_id ::
  "('d, 'z) nvml_scheme \<Rightarrow> NvidiaCollectorConfig \<Rightarrow> 'd \<Rightarrow> 'd \<Rightarrow> tagmap \<Rightarrow> tagmap run" where
  "mig_stype_id lib cfg gpu mdev tags =
     (if nf_UseUuidForMigDevices cfg then
        (case nv_DeviceGetUUID lib mdev of
           None \<Rightarrow> Inl NilDereference
         | Some uuid \<Rightarrow> Inr (map_put ''stype-id'' uuid tags))
      else if nf_UseSliceForMigDevices cfg then
        (case (nv_DeviceGetName lib gpu, nv_DeviceGetName lib mdev) of
           (Some name, Some mname) \<Rightarrow>
             Inr (map_put ''stype-id'' (trim_space (replace_all (replace_all mname name []) ''MIG'' [])) tags)
         | _ \<Rightarrow> Inr tags)
      else Inr tags)"

definition mig_device ::
  "('d, 'z) nvml_scheme \<Rightarrow> NvidiaCollectorConfig \<Rightarrow> 'd NvidiaCollectorDevice \<Rightarrow> nat \<Rightarrow> 'd \<Rightarrow>
   'd NvidiaCollectorDevice run" where
  "mig_device lib cfg gpu j mdev =
     run_bind (mig_stype_id lib cfg (nd_device gpu) mdev (map_put ''stype'' ''mig'' (nd_tags gpu))) (\<lambda>tags.
       let tags' = (if map_of tags ''stype-id'' = None then map_put ''stype-id'' (itoa (of_nat j)) tags else tags);
           meta = (if map_of (nd_meta gpu) ''uuid'' \<noteq> None \<and> \<not> nf_UseUuidForMigDevices cfg
                   then (case nv_DeviceGetUUID lib mdev of
                           None \<Rightarrow> nd_meta gpu
                         | Some uuid \<Rightarrow> map_put ''uuid'' uuid (nd_meta gpu))
                   else nd_meta gpu)
       in Inr \<lparr>nd_device = mdev, nd_excludeMetrics = nf_ExcludeMetrics cfg, nd_tags = tags', nd_meta = meta,
               nd_lastEnergyReading = 0, nd_lastEnergyTimestamp = 0\<rparr>)"

definition mig_read ::
  "('d, 'z) nvml_scheme \<Rightarrow> NvidiaCollectorConfig \<Rightarrow> 'd NvidiaCollectorDevice \<Rightarrow> nat \<Rightarrow> request list run" where
  "mig_read lib cfg gpu j =
     (case nv_DeviceGetMigDeviceHandleByIndex lib (nd_device gpu) j of
        None \<Rightarrow> Inr []
      | Some mdev \<Rightarrow>
          run_bind (mig_device lib cfg gpu j mdev) (\<lambda>dev. run_bind (readAll lib dev) (\<lambda>(_, rs). Inr rs)))"

definition mig_count :: "('d, 'z) nvml_scheme \<Rightarrow> NvidiaCollectorConfig \<Rightarrow> 'd \<Rightarrow> nat" where
  "mig_count lib cfg d =
     (if \<not> nf_ProcessMigDevices cfg then 0
      else if nv_DeviceGetMigMode lib d \<noteq> Some True then 0
      else case nv_DeviceGetMaxMigDeviceCount lib d of None \<Rightarrow> 0 | Some n \<Rightarrow> n)"

definition gpu_read ::
  "('d, 'z) nvml_scheme \<Rightarrow> NvidiaCollectorConfig \<Rightarrow> 'd NvidiaCollectorDevice \<Rightarrow>
   ('d NvidiaCollectorDevice \<times> request list) run" where
  "gpu_read lib cfg gpu =
     run_bind (readAll lib gpu) (\<lambda>(gpu', rs).
       run_bind (run_concat (mig_read lib cfg gpu') [0..<mig_count lib cfg (nd_device gpu')]) (\<lambda>migs.
         Inr (gpu', rs @ migs)))"

definition nvidia_Read ::
  "('d, 'z) nvml_scheme \<Rightarrow> 'd NvidiaCollector \<Rightarrow> ('d NvidiaCollector \<times> request list) run" where
  "nvidia_Read lib m =
     (if \<not> nc_init m then Inr (m, [])
      else run_bind (run_steps (\<lambda>acc gpu. run_bind (gpu_read lib (nc_config m) gpu) (\<lambda>(gpu', rs). Inr (acc @ [gpu'], rs)))
                       [] (take (nc_num_gpus m) (nc_gpus m))) (\<lambda>(gpus, rs).
             Inr (m\<lparr>nc_gpus := gpus @ drop (nc_num_gpus m) (nc_gpus m)\<rparr>, rs)))"

definition nvidia_Close :: "'d NvidiaCollector \<Rightarrow> 'd NvidiaCollector" where
  "nvidia_Close m = (if nc_init m then m\<lparr>nc_init := False\<rparr> else m)"

section \<open>Init\<close>

text \<open>
  An optional entry of the meta data. The message about a failed call prints \<open>err\<close>, which is
  nil unless an earlier device could not be queried: \<open>err\<close> is whether it is set.
\<close>

definition meta_entry :: "bool \<Rightarrow> string \<Rightarrow> string option \<Rightarrow> bool \<Rightarrow> tagmap \<Rightarrow> tagmap run" where
  "meta_entry wanted key answer err meta =
     (if \<not> wanted then Inr meta
      else case answer of
        Some v \<Rightarrow> Inr (map_put key v meta)
      | None \<Rightarrow> if err then Inr meta else Inl NilDereference)"

definition gpu_tags :: "NvidiaCollectorConfig \<Rightarrow> nat \<Rightarrow> string \<Rightarrow> tagmap" where
  "gpu_tags cfg i pci_id =
     (let tags = [(''type'', ''accelerator''),
                  (''type-id'', if nf_UsePciInfoAsTypeId cfg then pci_id else itoa (of_nat i))]
      in if nf_AddPciInfoTag cfg \<and> \<not> nf_UsePciInfoAsTypeId cfg then map_put ''pci_identifier'' pci_id tags else tags)"

definition gpu_meta :: "('d, 'z) nvml_devices_scheme \<Rightarrow> NvidiaCollectorConfig \<Rightarrow> bool \<Rightarrow> 'd \<Rightarrow> tagmap run" where
  "gpu_meta lib cfg err d =
     run_bind (meta_entry (nf_AddBoardNumberMeta cfg) ''board_number'' (nv_DeviceGetBoardPartNumber lib d) err
                 [(''source'', ''NvidiaCollector''), (''group'', ''Nvidia'')]) (\<lambda>meta.
     run_bind (meta_entry (nf_AddSerialMeta cfg) ''serial'' (nv_DeviceGetSerial lib d) err meta) (\<lambda>meta.
       meta_entry (nf_AddUuidMeta cfg) ''uuid'' (nv_DeviceGetUUID lib d) err meta))"

text \<open>One device: the devices so far and whether \<open>err\<close> is set. \<open>clock\<close>: the time at each device.\<close>

definition gpu_init ::
  "('d, 'z) nvml_devices_scheme \<Rightarrow> (nat \<Rightarrow> gotime) \<Rightarrow> NvidiaCollectorConfig \<Rightarrow> bool \<Rightarrow> nat \<Rightarrow>
   (bool \<times> 'd NvidiaCollectorDevice list) run" where
  "gpu_init lib clock cfg err i =
     (if itoa (of_nat i) \<in> set (nf_ExcludeDevices cfg) then Inr (err, [])
      else case nv_DeviceGetHandleByIndex lib i of
        None \<Rightarrow> Inr (True, [])
      | Some d \<Rightarrow>
          (case nv_DeviceGetPciInfo lib d of
             None \<Rightarrow> Inr (True, [])
           | Some pciInfo \<Rightarrow>
               (let pci_id = nv_DEVICE_PCI_BUS_ID_FMT lib pciInfo
                in if pci_id \<in> set (nf_ExcludeDevices cfg) then Inr (err, [])
                   else run_bind (gpu_meta lib cfg err d) (\<lambda>meta.
                     Inr (err, [\<lparr>nd_device = d, nd_excludeMetrics = nf_ExcludeMetrics cfg,
                                 nd_tags = gpu_tags cfg i pci_id, nd_meta = meta,
                                 nd_lastEnergyReading = 0, nd_lastEnergyTimestamp = clock i\<rparr>])))))"

text \<open>
  \<open>CatchPanic\<close> turns a panic into a return without error and clears \<open>init\<close>. The number of
  devices is then still 0, and the devices so far are not kept in \<open>nc_gpus\<close>, since nothing reads them.
\<close>

definition nvidia_Init ::
  "NvidiaCollectorConfig \<Rightarrow> ('d, 'z) nvml_devices_scheme \<Rightarrow> (nat \<Rightarrow> gotime) \<Rightarrow> goerror + 'd NvidiaCollector" where
  "nvidia_Init cfg lib clock =
     (if nv_Init lib = ERROR_LIBRARY_NOT_FOUND then Inl (GoError ''NVML library not found'')
      else if nv_Init lib \<noteq> SUCCESS then Inl (GoError ''Unable to initialize NVML'')
      else case nv_DeviceGetCount lib of
        None \<Rightarrow> Inl (GoError ''Unable to get device count'')
      | Some n \<Rightarrow>
          (case run_steps (gpu_init lib clock cfg) False [0..<n] of
             Inl _ \<Rightarrow> Inr \<lparr>nc_init = False, nc_config = cfg, nc_gpus = [], nc_num_gpus = 0\<rparr>
           | Inr (_, gpus) \<Rightarrow> Inr \<lparr>nc_init = True, nc_config = cfg, nc_gpus = gpus, nc_num_gpus = length gpus\<rparr>))"

end
