(* ===== verification/Nvidia_Properties.thy ===== *)
theory Nvidia_Properties
  imports Nvidia_Collector
begin

text \<open>
  What holds of the NVIDIA collector: which devices \<open>Init\<close> selects and when it gives up, when a
  read panics, that what it sends is typed and wanted, and what the energy metrics add up to.
\<close>

section \<open>Init\<close>

text \<open>The device of an index and its PCI identifier, unless it is excluded or does not answer.\<close>

definition nv_choice :: "('d, 'z) nvml_devices_scheme \<Rightarrow> NvidiaCollectorConfig \<Rightarrow> nat \<Rightarrow> ('d \<times> string) option" where
  "nv_choice lib cfg i =
     (if itoa (of_nat i) \<in> set (nf_ExcludeDevices cfg) then None
      else Option.bind (nv_DeviceGetHandleByIndex lib i) (\<lambda>d.
           Option.bind (nv_DeviceGetPciInfo lib d) (\<lambda>p.
             if nv_DEVICE_PCI_BUS_ID_FMT lib p \<in> set (nf_ExcludeDevices cfg) then None
             else Some (d, nv_DEVICE_PCI_BUS_ID_FMT lib p))))"

definition nv_mute :: "('d, 'z) nvml_devices_scheme \<Rightarrow> NvidiaCollectorConfig \<Rightarrow> nat \<Rightarrow> bool" where
  "nv_mute lib cfg i =
     (itoa (of_nat i) \<notin> set (nf_ExcludeDevices cfg) \<and>
      Option.bind (nv_DeviceGetHandleByIndex lib i) (nv_DeviceGetPciInfo lib) = None)"

definition nv_lacks_meta :: "('d, 'z) nvml_devices_scheme \<Rightarrow> NvidiaCollectorConfig \<Rightarrow> nat \<Rightarrow> bool" where
  "nv_lacks_meta lib cfg i =
     (case nv_choice lib cfg i of
        None \<Rightarrow> False
      | Some (d, _) \<Rightarrow> nf_AddBoardNumberMeta cfg \<and> nv_DeviceGetBoardPartNumber lib d = None \<or>
                      nf_AddSerialMeta cfg \<and> nv_DeviceGetSerial lib d = None \<or>
                      nf_AddUuidMeta cfg \<and> nv_DeviceGetUUID lib d = None)"

lemma gpu_meta_panics:
  "(\<exists>p. gpu_meta lib cfg err d = Inl p) \<longleftrightarrow>
   \<not> err \<and> (nf_AddBoardNumberMeta cfg \<and> nv_DeviceGetBoardPartNumber lib d = None \<or>
            nf_AddSerialMeta cfg \<and> nv_DeviceGetSerial lib d = None \<or>
            nf_AddUuidMeta cfg \<and> nv_DeviceGetUUID lib d = None)"
  by (auto simp: gpu_meta_def meta_entry_def split: option.splits)

lemma gpu_init_panics:
  "(\<exists>p. gpu_init lib clock cfg err i = Inl p) \<longleftrightarrow> \<not> err \<and> nv_lacks_meta lib cfg i"
  by (auto simp: gpu_init_def nv_lacks_meta_def nv_choice_def Let_def run_bind_Inl_iff gpu_meta_panics
      split: option.splits)

lemma gpu_init_devices:
  assumes "gpu_init lib clock cfg err i = Inr (err', gs)"
  shows "err' = (err \<or> nv_mute lib cfg i) \<and>
    map (\<lambda>g. (nd_device g, nd_tags g)) gs =
      (case nv_choice lib cfg i of None \<Rightarrow> [] | Some (d, pci_id) \<Rightarrow> [(d, gpu_tags cfg i pci_id)]) \<and>
    (\<forall>g \<in> set gs. nd_excludeMetrics g = nf_ExcludeMetrics cfg)"
  using assms
  by (auto simp: gpu_init_def nv_choice_def nv_mute_def Let_def run_simps split: if_splits option.splits)

text \<open>The error of the loop is set from the first device on that does not answer.\<close>

lemma gpus_init_panics:
  "(\<exists>p. run_steps (gpu_init lib clock cfg) err is = Inl p) \<longleftrightarrow>
   \<not> err \<and> (\<exists>k < length is. nv_lacks_meta lib cfg (is ! k) \<and> (\<forall>j < k. \<not> nv_mute lib cfg (is ! j)))"
proof (induction "is" arbitrary: err)
  case (Cons i "is")
  show ?case
  proof (cases "gpu_init lib clock cfg err i")
    case (Inl p)
    with gpu_init_panics [of lib clock cfg err i] show ?thesis by auto
  next
    case (Inr sr)
    obtain err' gs where sr: "sr = (err', gs)" by (cases sr)
    have step: "err' = (err \<or> nv_mute lib cfg i)" "\<not> err \<Longrightarrow> \<not> nv_lacks_meta lib cfg i"
      using gpu_init_devices [of lib clock cfg err i err' gs] gpu_init_panics [of lib clock cfg err i] Inr sr by auto
    have "(\<exists>p. run_steps (gpu_init lib clock cfg) err (i # is) = Inl p) \<longleftrightarrow>
        (\<exists>p. run_steps (gpu_init lib clock cfg) err' is = Inl p)"
      using Inr sr by (cases "run_steps (gpu_init lib clock cfg) err' is") auto
    also have "\<dots> \<longleftrightarrow> \<not> err \<and> (\<exists>k < Suc (length is). nv_lacks_meta lib cfg ((i # is) ! k) \<and>
        (\<forall>j < k. \<not> nv_mute lib cfg ((i # is) ! j)))"
      using step by (auto simp: Cons.IH Ex_less_Suc2 All_less_Suc2)
    finally show ?thesis by simp
  qed
qed simp

lemma gpus_init_panics_upt:
  "(\<exists>p. run_steps (gpu_init lib clock cfg) False [0..<n] = Inl p) \<longleftrightarrow>
   (\<exists>k < n. nv_lacks_meta lib cfg k \<and> (\<forall>j < k. \<not> nv_mute lib cfg j))"
proof -
  have "(\<exists>k < n. nv_lacks_meta lib cfg ([0..<n] ! k) \<and> (\<forall>j < k. \<not> nv_mute lib cfg ([0..<n] ! j))) \<longleftrightarrow>
      (\<exists>k < n. nv_lacks_meta lib cfg k \<and> (\<forall>j < k. \<not> nv_mute lib cfg j))"
    by (intro ex_cong1 conj_cong refl) auto
  then show ?thesis using gpus_init_panics [of lib clock cfg False "[0..<n]"] by simp
qed

lemma gpus_init_devices:
  "run_steps (gpu_init lib clock cfg) err is = Inr (err', gs) \<Longrightarrow>
   map (\<lambda>g. (nd_device g, nd_tags g)) gs =
     concat (map (\<lambda>i. case nv_choice lib cfg i of None \<Rightarrow> [] | Some (d, pci_id) \<Rightarrow> [(d, gpu_tags cfg i pci_id)]) is) \<and>
   (\<forall>g \<in> set gs. nd_excludeMetrics g = nf_ExcludeMetrics cfg)"
proof (induction "is" arbitrary: err gs)
  case (Cons i "is")
  from Cons.prems obtain e1 g1 g2 where "gpu_init lib clock cfg err i = Inr (e1, g1)"
    and "run_steps (gpu_init lib clock cfg) e1 is = Inr (err', g2)" and "gs = g1 @ g2"
    by (auto simp: run_simps)
  with gpu_init_devices [of lib clock cfg err i e1 g1] Cons.IH [of e1 g2] show ?case by auto
qed simp

text \<open>C16: Init of the NVIDIA collector. Once the library answers the number of devices, Init returns
  no error. The collector is usable unless some chosen device lacks an answer for wanted meta
  data (board number, serial or UUID) and every device before it answered to the queries for its
  handle and PCI address: the message about the missing answer then prints a nil error, the
  panic is caught, and the collector never reads anything although Init reported success.
  Otherwise it has exactly the devices that answer and are not excluded by index or PCI
  identifier, in order, with their tags.\<close>

theorem nvidia_Init_devices:
  assumes "nv_Init lib = SUCCESS" and "nv_DeviceGetCount lib = Some n"
  shows "\<exists>m. nvidia_Init cfg lib clock = Inr m \<and>
    (nc_init m \<longleftrightarrow> \<not> (\<exists>k < n. nv_lacks_meta lib cfg k \<and> (\<forall>j < k. \<not> nv_mute lib cfg j))) \<and>
    (nc_init m \<longrightarrow> nc_num_gpus m = length (nc_gpus m) \<and>
      map (\<lambda>g. (nd_device g, nd_tags g)) (nc_gpus m) =
      concat (map (\<lambda>i. case nv_choice lib cfg i of None \<Rightarrow> [] | Some (d, pci_id) \<Rightarrow> [(d, gpu_tags cfg i pci_id)]) [0..<n])) \<and>
    (\<not> nc_init m \<longrightarrow> (\<forall>readings. nvidia_Read (readings :: 'd nvml) m = Inr (m, [])))"
proof (cases "run_steps (gpu_init lib clock cfg) False [0..<n]")
  case (Inl p)
  then have "\<exists>k < n. nv_lacks_meta lib cfg k \<and> (\<forall>j < k. \<not> nv_mute lib cfg j)"
    using gpus_init_panics_upt [of lib clock cfg n] by auto
  with Inl assms show ?thesis by (auto simp: nvidia_Init_def nvidia_Read_def)
next
  case (Inr sr)
  obtain err gs where sr: "sr = (err, gs)" by (cases sr)
  have "\<not> (\<exists>k < n. nv_lacks_meta lib cfg k \<and> (\<forall>j < k. \<not> nv_mute lib cfg j))"
    using gpus_init_panics_upt [of lib clock cfg n] Inr by auto
  moreover have "map (\<lambda>g. (nd_device g, nd_tags g)) gs =
      concat (map (\<lambda>i. case nv_choice lib cfg i of None \<Rightarrow> [] | Some (d, pci_id) \<Rightarrow> [(d, gpu_tags cfg i pci_id)]) [0..<n])"
    using gpus_init_devices [of lib clock cfg False "[0..<n]" err gs] Inr sr by simp
  ultimately show ?thesis using assms Inr sr by (simp add: nvidia_Init_def)
qed

definition demo_nvml :: "nat nvml" where
  "demo_nvml =
     \<lparr>nv_Init = SUCCESS, nv_DeviceGetCount = Some 2, nv_DeviceGetHandleByIndex = Some,
      nv_DeviceGetPciInfo = (\<lambda>d. Some (0, of_nat d, 0)), nv_DEVICE_PCI_BUS_ID_FMT = (\<lambda>(_, b, _). itoa (ucast b)),
      nv_DeviceGetBoardPartNumber = (\<lambda>_. None), nv_DeviceGetSerial = (\<lambda>d. if d = 1 then None else Some ''7''),
      nv_DeviceGetUUID = (\<lambda>_. None), nv_DeviceGetName = (\<lambda>_. None), nv_DeviceIsMigDeviceHandle = (\<lambda>_. Some False),
      nv_DeviceGetMigMode = (\<lambda>_. Some True), nv_DeviceGetMaxMigDeviceCount = (\<lambda>_. Some 1),
      nv_DeviceGetMigDeviceHandleByIndex = (\<lambda>d j. Some (10 * (d + 1) + j)),
      nv_now = (\<lambda>_. (20000000000, 20000000000)), nv_DeviceGetMemoryInfo = (\<lambda>_. Some (2097152, 1048576)),
      nv_DeviceGetBAR1MemoryInfo = (\<lambda>_. None), nv_DeviceGetUtilizationRates = (\<lambda>_. None),
      nv_DeviceGetTemperature = (\<lambda>_. Some 45), nv_DeviceGetFanSpeed = (\<lambda>_. None),
      nv_DeviceGetEccMode = (\<lambda>_. (FEATURE_OTHER, ERROR_NOT_SUPPORTED)), nv_DeviceGetPerformanceState = (\<lambda>_. None),
      nv_DeviceGetPowerManagementMode = (\<lambda>_. Some FEATURE_ENABLED), nv_DeviceGetPowerUsage = (\<lambda>_. None),
      nv_DeviceGetTotalEnergyConsumption = (\<lambda>_. Some 5000000), nv_DeviceGetClockInfo = (\<lambda>_ _. None),
      nv_DeviceGetMaxClockInfo = (\<lambda>_ _. None), nv_DeviceGetTotalEccErrors = (\<lambda>_ _. None),
      nv_DeviceGetPowerManagementLimit = (\<lambda>_. None), nv_DeviceGetEncoderUtilization = (\<lambda>_. None),
      nv_DeviceGetDecoderUtilization = (\<lambda>_. None), nv_DeviceGetRemappedRows = (\<lambda>_. Some (3, 4, False, True)),
      nv_DeviceGetComputeRunningProcesses = (\<lambda>_. None), nv_DeviceGetGraphicsRunningProcesses = (\<lambda>_. None),
      nv_DeviceGetViolationStatus = (\<lambda>_ _. None), nv_NVLINK_MAX_LINKS = 0,
      nv_DeviceGetNvLinkState = (\<lambda>_ _. None), nv_DeviceGetNvLinkErrorCounter = (\<lambda>_ _ _. (0, False))\<rparr>"

definition demo_nvidia :: NvidiaCollectorConfig where
  "demo_nvidia =
     \<lparr>nf_ExcludeMetrics = [''nv_temp'', ''nv_remapped_rows_corrected''], nf_ExcludeDevices = [], nf_AddPciInfoTag = False,
      nf_UsePciInfoAsTypeId = False, nf_AddUuidMeta = False, nf_AddBoardNumberMeta = False, nf_AddSerialMeta = True,
      nf_ProcessMigDevices = True, nf_UseUuidForMigDevices = True, nf_UseSliceForMigDevices = False\<rparr>"

theorem nvidia_Init_devices_witness:
  "\<exists>m. nvidia_Init demo_nvidia demo_nvml (\<lambda>_. 0) = Inr m \<and> \<not> nc_init m \<and> nvidia_Read demo_nvml m = Inr (m, [])"
proof -
  have "nv_Init demo_nvml = SUCCESS" "nv_DeviceGetCount demo_nvml = Some 2" by (simp_all add: demo_nvml_def)
  from nvidia_Init_devices [OF this, of demo_nvidia "\<lambda>_. 0"] obtain m
    where m: "nvidia_Init demo_nvidia demo_nvml (\<lambda>_. 0) = Inr m"
      "nc_init m \<longleftrightarrow> \<not> (\<exists>k < 2. nv_lacks_meta demo_nvml demo_nvidia k \<and> (\<forall>j < k. \<not> nv_mute demo_nvml demo_nvidia j))"
      "\<not> nc_init m \<longrightarrow> (\<forall>readings. nvidia_Read (readings :: nat nvml) m = Inr (m, []))" by blast
  have "nv_lacks_meta demo_nvml demo_nvidia 1" "\<not> nv_mute demo_nvml demo_nvidia 0" by code_simp+
  then have "\<exists>k < 2. nv_lacks_meta demo_nvml demo_nvidia k \<and> (\<forall>j < k. \<not> nv_mute demo_nvml demo_nvidia j)"
    by (intro exI [of _ 1]) simp
  with m show ?thesis by blast
qed

section \<open>Panics of a read\<close>

text \<open>The device reads its average power, so that it divides by the whole seconds since its last energy value.\<close>

definition nv_power_read :: "('d, 'z) nvml_scheme \<Rightarrow> 'd NvidiaCollectorDevice \<Rightarrow> bool" where
  "nv_power_read lib dev =
     (\<not> excluded dev ''nv_energy'' \<and> \<not> excluded dev ''nv_energy_abs'' \<and> \<not> excluded dev ''nv_average_power'' \<and>
      nv_DeviceGetPowerManagementMode lib (nd_device dev) = Some FEATURE_ENABLED \<and>
      nv_DeviceGetTotalEnergyConsumption lib (nd_device dev) \<noteq> None \<and> nd_lastEnergyReading dev \<noteq> 0)"

definition nv_elapsed :: "('d, 'z) nvml_scheme \<Rightarrow> 'd NvidiaCollectorDevice \<Rightarrow> int" where
  "nv_elapsed lib dev = fst (nv_now lib (nd_device dev)) - nd_lastEnergyTimestamp dev"

text \<open>A MIG partition whose UUID is wanted and missing.\<close>

definition nv_mig_unnamed :: "('d, 'z) nvml_scheme \<Rightarrow> NvidiaCollectorConfig \<Rightarrow> 'd \<Rightarrow> bool" where
  "nv_mig_unnamed lib cfg gpu =
     (nf_UseUuidForMigDevices cfg \<and>
      (\<exists>j < mig_count lib cfg gpu. \<exists>mdev. nv_DeviceGetMigDeviceHandleByIndex lib gpu j = Some mdev \<and>
         nv_DeviceGetUUID lib mdev = None))"

lemma elapsed_seconds:
  assumes "0 \<le> nv_elapsed lib dev" and "nv_elapsed lib dev < 2 ^ 20 * 1000000000"
  shows "uint64_of_float (duration_seconds (time_sub (fst (nv_now lib (nd_device dev))) (nd_lastEnergyTimestamp dev))) =
         nv_elapsed lib dev div 1000000000"
proof -
  have "time_sub (fst (nv_now lib (nd_device dev))) (nd_lastEnergyTimestamp dev) = nv_elapsed lib dev"
    using assms by (simp add: time_sub_def nv_elapsed_def two63_def)
  then show ?thesis using whole_seconds [OF assms] by simp
qed

lemma small_word_zero:
  assumes "0 \<le> k" and "k < 2 ^ 20"
  shows "(word_of_int k :: goint) = 0 \<longleftrightarrow> k = 0"
proof -
  have "uint (word_of_int k :: goint) = k" using assms by (simp add: uint_word_of_int)
  then show ?thesis by (metis of_int_0 uint_0_iff)
qed

lemma energy_panics:
  assumes "0 \<le> nv_elapsed lib dev" and "nv_elapsed lib dev < 2 ^ 20 * 1000000000"
  shows "(\<exists>p. readEnergyConsumption lib dev = Inl p) \<longleftrightarrow> nv_power_read lib dev \<and> nv_elapsed lib dev < 1000000000"
proof -
  let ?k = "nv_elapsed lib dev div 1000000000"
  have "0 \<le> ?k" "?k < 2 ^ 20" using assms by (simp_all add: pos_imp_zdiv_nonneg_iff)
  from small_word_zero [OF this] have "(word_of_int ?k :: goint) = 0 \<longleftrightarrow> nv_elapsed lib dev < 1000000000"
    using assms by (auto simp: zdiv_eq_0_iff)
  then show ?thesis
    using elapsed_seconds [OF assms]
    by (auto simp: readEnergyConsumption_def nv_power_read_def Let_def split: option.splits)
qed

lemma energy_fields:
  "readEnergyConsumption lib dev = Inr (dev', rs) \<Longrightarrow>
   nd_device dev' = nd_device dev \<and> nd_excludeMetrics dev' = nd_excludeMetrics dev \<and> nd_tags dev' = nd_tags dev \<and>
   nd_meta dev' = nd_meta dev"
  by (auto simp: readEnergyConsumption_def Let_def split: if_splits option.splits)

lemma readAll_panics: "(\<exists>p. readAll lib dev = Inl p) \<longleftrightarrow> (\<exists>p. readEnergyConsumption lib dev = Inl p)"
  by (auto simp: readAll_def run_bind_Inl_iff)

lemma readAll_fields:
  "readAll lib dev = Inr (dev', rs) \<Longrightarrow>
   nd_device dev' = nd_device dev \<and> nd_excludeMetrics dev' = nd_excludeMetrics dev \<and> nd_tags dev' = nd_tags dev \<and>
   nd_meta dev' = nd_meta dev"
  using energy_fields by (fastforce simp: readAll_def run_simps)

lemma mig_stype_id_panics:
  "(\<exists>p. mig_stype_id lib cfg gpu mdev tags = Inl p) \<longleftrightarrow> nf_UseUuidForMigDevices cfg \<and> nv_DeviceGetUUID lib mdev = None"
  by (auto simp: mig_stype_id_def split: option.splits)

text \<open>The device of a partition is new in every read, so that its energy is never divided.\<close>

lemma fresh_energy: "nd_lastEnergyReading dev = 0 \<Longrightarrow> \<exists>x. readEnergyConsumption lib dev = Inr x"
  by (auto simp: readEnergyConsumption_def Let_def split: option.splits)

lemma mig_read_panics:
  "(\<exists>p. mig_read lib cfg gpu j = Inl p) \<longleftrightarrow>
   nf_UseUuidForMigDevices cfg \<and>
   (\<exists>mdev. nv_DeviceGetMigDeviceHandleByIndex lib (nd_device gpu) j = Some mdev \<and> nv_DeviceGetUUID lib mdev = None)"
proof (cases "nv_DeviceGetMigDeviceHandleByIndex lib (nd_device gpu) j")
  case (Some mdev)
  have "(\<exists>p. mig_device lib cfg gpu j mdev = Inl p) \<longleftrightarrow> nf_UseUuidForMigDevices cfg \<and> nv_DeviceGetUUID lib mdev = None"
    using mig_stype_id_panics [of lib cfg "nd_device gpu" mdev] by (simp add: mig_device_def run_bind_Inl_iff Let_def)
  moreover have "\<exists>x. readAll lib dev = Inr x" if "mig_device lib cfg gpu j mdev = Inr dev" for dev
  proof -
    from that have "nd_lastEnergyReading dev = 0" by (auto simp: mig_device_def run_simps Let_def)
    then have "\<nexists>p. readEnergyConsumption lib dev = Inl p" using fresh_energy [of dev lib] by auto
    then show ?thesis using readAll_panics [of lib dev] by (cases "readAll lib dev") auto
  qed
  then have "run_bind (readAll lib dev) (\<lambda>(_, rs). Inr rs) \<noteq> Inl p" if "mig_device lib cfg gpu j mdev = Inr dev" for dev p
    using that by (fastforce simp: run_bind_Inl_iff)
  ultimately show ?thesis using Some by (auto simp: mig_read_def run_bind_Inl_iff)
qed (simp add: mig_read_def)

lemma gpu_read_panics:
  "(\<exists>p. gpu_read lib cfg gpu = Inl p) \<longleftrightarrow>
   (\<exists>p. readEnergyConsumption lib gpu = Inl p) \<or> nv_mig_unnamed lib cfg (nd_device gpu)"
proof (cases "readAll lib gpu")
  case (Inl p)
  then show ?thesis using readAll_panics [of lib gpu] by (auto simp: gpu_read_def)
next
  case (Inr sr)
  obtain gpu' rs where sr: "sr = (gpu', rs)" by (cases sr)
  have same: "nd_device gpu' = nd_device gpu" using readAll_fields Inr sr by blast
  have "(\<exists>p. gpu_read lib cfg gpu = Inl p) \<longleftrightarrow> (\<exists>p. run_concat (mig_read lib cfg gpu') [0..<mig_count lib cfg (nd_device gpu')] = Inl p)"
    using Inr sr by (simp add: gpu_read_def run_bind_Inl_iff)
  also have "\<dots> \<longleftrightarrow> nv_mig_unnamed lib cfg (nd_device gpu)"
    by (auto simp: run_concat_panics_iff mig_read_panics nv_mig_unnamed_def same)
  finally show ?thesis using readAll_panics [of lib gpu] Inr by auto
qed

text \<open>C26: When a read of the NVIDIA collector panics (nothing recovers the panic, so that the daemon
  ends): exactly if a graphics card divides by the whole seconds since its last energy value and
  less than a second has passed, or if the UUID of a MIG partition is wanted and not available.\<close>

theorem nvidia_Read_panics_iff:
  assumes "nc_init m" and "nc_num_gpus m = length (nc_gpus m)"
    and "\<forall>g \<in> set (nc_gpus m). 0 \<le> nv_elapsed lib g \<and> nv_elapsed lib g < 2 ^ 20 * 1000000000"
  shows "(\<exists>p. nvidia_Read lib m = Inl p) \<longleftrightarrow>
    (\<exists>g \<in> set (nc_gpus m). nv_power_read lib g \<and> nv_elapsed lib g < 1000000000 \<or>
                           nv_mig_unnamed lib (nc_config m) (nd_device g))"
proof -
  let ?f = "\<lambda>acc gpu. run_bind (gpu_read lib (nc_config m) gpu) (\<lambda>(gpu', rs). Inr (acc @ [gpu'], rs))"
  have "(\<exists>p. nvidia_Read lib m = Inl p) \<longleftrightarrow> (\<exists>p. run_steps ?f [] (nc_gpus m) = Inl p)"
    using assms(1,2) by (simp add: nvidia_Read_def run_bind_Inl_iff case_prod_beta)
  also have "\<dots> \<longleftrightarrow> (\<exists>g \<in> set (nc_gpus m). nv_power_read lib g \<and> nv_elapsed lib g < 1000000000 \<or>
                           nv_mig_unnamed lib (nc_config m) (nd_device g))"
  proof (rule run_steps_panics_iff [of "\<lambda>_. True"])
    show "(\<exists>p. ?f acc g = Inl p) \<longleftrightarrow> nv_power_read lib g \<and> nv_elapsed lib g < 1000000000 \<or>
        nv_mig_unnamed lib (nc_config m) (nd_device g)" if "g \<in> set (nc_gpus m)" for acc g
      using gpu_read_panics [of lib "nc_config m" g] energy_panics [of lib g] assms(3) that
      by (simp add: run_bind_Inl_iff case_prod_beta)
  qed simp_all
  finally show ?thesis .
qed

definition demo_gpu :: "nat NvidiaCollectorDevice" where
  "demo_gpu =
     \<lparr>nd_device = 0, nd_excludeMetrics = [''nv_temp'', ''nv_remapped_rows_corrected''],
      nd_tags = [(''type'', ''accelerator''), (''type-id'', ''0'')], nd_meta = [],
      nd_lastEnergyReading = 4000000, nd_lastEnergyTimestamp = 19000000001\<rparr>"

definition demo_gpus :: "nat NvidiaCollector" where
  "demo_gpus = \<lparr>nc_init = True, nc_config = demo_nvidia\<lparr>nf_ProcessMigDevices := False\<rparr>, nc_gpus = [demo_gpu], nc_num_gpus = 1\<rparr>"

theorem nvidia_Read_panics_iff_witness:
  "nv_elapsed demo_nvml demo_gpu = 999999999 \<and> (\<exists>p. nvidia_Read demo_nvml demo_gpus = Inl p)"
proof -
  have elapsed: "nv_elapsed demo_nvml demo_gpu = 999999999" by code_simp
  have power: "nv_power_read demo_nvml demo_gpu" by code_simp
  have "nc_init demo_gpus" "nc_num_gpus demo_gpus = length (nc_gpus demo_gpus)" "set (nc_gpus demo_gpus) = {demo_gpu}"
    by (simp_all add: demo_gpus_def)
  with nvidia_Read_panics_iff [of demo_gpus demo_nvml] elapsed power show ?thesis by simp
qed

section \<open>Types and wanted names\<close>

text \<open>
  The value of a metric has the type that belongs to its name. The names in \<open>nv_exempt\<close> are
  sent although they may be excluded: the sums, which are excluded with their parts, and the
  name that the uncorrected rows are sent under.
\<close>

definition nv_uints :: "string list" where
  "nv_uints = [''nv_energy'', ''nv_average_power'', ''nv_energy_abs''] @ map fst nvlink_kinds @
              map (\<lambda>(n, _). n @ ''_sum'') nvlink_kinds"

definition nv_ints :: "string list" where
  "nv_ints = [''nv_remapped_rows_pending'', ''nv_remapped_rows_failure'', ''nv_compute_processes'', ''nv_graphics_processes'']"

definition nv_strings :: "string list" where
  "nv_strings = [''nv_ecc_mode'', ''nv_perf_state'']"

definition nv_typed :: "string \<Rightarrow> unit govalue \<Rightarrow> bool" where
  "nv_typed n v =
     (case v of
        VUint64 _ \<Rightarrow> n \<in> set nv_uints
      | VInt _ \<Rightarrow> n \<in> set nv_ints
      | VString _ \<Rightarrow> n \<in> set nv_strings
      | VFloat64 _ \<Rightarrow> has_prefix n ''nv_'' \<and> n \<notin> set nv_uints \<and> n \<notin> set nv_ints \<and> n \<notin> set nv_strings
      | _ \<Rightarrow> False)"

definition nv_exempt :: "string list" where
  "nv_exempt = ''nv_remapped_rows_corrected'' # map (\<lambda>(n, _). n @ ''_sum'') nvlink_kinds"

definition nv_request_ok :: "string set \<Rightarrow> request \<Rightarrow> bool" where
  "nv_request_ok X r =
     (map_of (rq_tags r) ''type'' = Some ''accelerator'' \<and> nv_typed (rq_name r) (rq_value r) \<and>
      (rq_name r \<in> X \<longrightarrow> rq_name r \<in> set nv_exempt))"

definition nv_dev_ok :: "string set \<Rightarrow> 'd NvidiaCollectorDevice \<Rightarrow> bool" where
  "nv_dev_ok X dev = (set (nd_excludeMetrics dev) = X \<and> map_of (nd_tags dev) ''type'' = Some ''accelerator'')"

named_theorems nv_ok

lemma nv_request_fields [simp]:
  "rq_name (nv_request dev n v u t) = n" "rq_tags (nv_request dev n v u t) = nd_tags dev"
  "rq_value (nv_request dev n v u t) = v"
  by (simp_all add: nv_request_def add_meta_def Let_def)

lemma add_tag_fields [simp]:
  "rq_name (add_tag k v r) = rq_name r" "rq_value (add_tag k v r) = rq_value r"
  "rq_tags (add_tag k v r) = map_put k v (rq_tags r)"
  by (simp_all add: add_tag_def)

lemma nv_metric_ok:
  assumes "nv_dev_ok X dev" and "\<And>x. v = Some x \<Longrightarrow> nv_typed n x"
  shows "list_all (nv_request_ok X) (nv_metric dev n v u)"
  using assms by (auto simp: nv_metric_def nv_request_ok_def nv_dev_ok_def split: option.splits)

lemma nv_typed_floats [simp]:
  "nv_typed n (uint_value x) = nv_typed n (VFloat64 NaN)" "nv_typed n (milli_value y) = nv_typed n (VFloat64 NaN)"
  "nv_typed n (mbyte_value z) = nv_typed n (VFloat64 NaN)" "nv_typed n (nano_value z) = nv_typed n (VFloat64 NaN)"
  "NO_MATCH NaN f \<Longrightarrow> nv_typed n (VFloat64 f) = nv_typed n (VFloat64 NaN)"
  by (simp_all add: uint_value_def milli_value_def mbyte_value_def nano_value_def nv_typed_def)

lemma nv_typed_others [simp]:
  "nv_typed n (VUint64 w) = (n \<in> set nv_uints)" "nv_typed n (VInt w) = (n \<in> set nv_ints)"
  "nv_typed n (VString s) = (n \<in> set nv_strings)"
  by (simp_all add: nv_typed_def)

definition nv_floats :: "string list" where
  "nv_floats =
     [''nv_fb_mem_total'', ''nv_fb_mem_used'', ''nv_fb_mem_reserved'', ''nv_bar1_mem_total'', ''nv_bar1_mem_used'',
      ''nv_util'', ''nv_mem_util'', ''nv_temp'', ''nv_fan'', ''nv_power_usage'', ''nv_graphics_clock'', ''nv_sm_clock'',
      ''nv_mem_clock'', ''nv_video_clock'', ''nv_max_graphics_clock'', ''nv_max_sm_clock'', ''nv_max_mem_clock'',
      ''nv_max_video_clock'', ''nv_ecc_uncorrected_error'', ''nv_ecc_corrected_error'', ''nv_power_max_limit'',
      ''nv_encoder_util'', ''nv_decoder_util'', ''nv_remapped_rows_corrected'', ''nv_violation_power'',
      ''nv_violation_thermal'', ''nv_violation_sync_boost'', ''nv_violation_board_limit'', ''nv_violation_low_util'',
      ''nv_violation_reliability'', ''nv_violation_below_app_clock'', ''nv_violation_below_base_clock'']"

lemma nv_floats_typed: "list_all (\<lambda>n. nv_typed n (VFloat64 NaN)) nv_floats"
  by code_simp

lemma nv_floats_typed' [simp]: "n \<in> set nv_floats \<Longrightarrow> nv_typed n (VFloat64 NaN)"
  using nv_floats_typed by (simp add: list_all_iff)

lemma simple_reads_ok [nv_ok]:
  assumes "nv_dev_ok X dev"
  shows "list_all (nv_request_ok X) (readTemp lib dev)" "list_all (nv_request_ok X) (readFan lib dev)"
    "list_all (nv_request_ok X) (readPowerUsage lib dev)" "list_all (nv_request_ok X) (readPowerLimit lib dev)"
    "list_all (nv_request_ok X) (readEccMode lib dev)" "list_all (nv_request_ok X) (readPerfState lib dev)"
  unfolding readTemp_def readFan_def readPowerUsage_def readPowerLimit_def readEccMode_def readPerfState_def
  by (rule nv_metric_ok [OF assms],
      auto simp: nv_floats_def nv_strings_def split: option.splits if_splits prod.splits nv_return.splits)+

lemma grouped_reads_ok [nv_ok]:
  assumes "nv_dev_ok X dev"
  shows "list_all (nv_request_ok X) (readClocks lib dev)" "list_all (nv_request_ok X) (readMaxClocks lib dev)"
    "list_all (nv_request_ok X) (readEccErrors lib dev)" "list_all (nv_request_ok X) (readProcessCounts lib dev)"
    "list_all (nv_request_ok X) (readViolationStats lib dev)"
  unfolding readClocks_def readMaxClocks_def readEccErrors_def readProcessCounts_def readViolationStats_def Let_def
    list_all_append
  by (intro conjI nv_metric_ok [OF assms]; auto simp: nv_floats_def nv_ints_def)+

lemma nv_sent_list_all: "list_all P (nv_sent r) \<longleftrightarrow> (\<forall>rs. r = Inr rs \<longrightarrow> list_all P rs)"
  by (simp add: nv_sent_def split: sum.split)

lemma unless_mig_list_all: "list_all P rs \<Longrightarrow> list_all P (nv_sent (unless_mig lib dev rs))"
  by (simp add: nv_sent_def unless_mig_def split: option.split)

lemma fallible_reads_ok [nv_ok]:
  assumes "nv_dev_ok X dev"
  shows "list_all (nv_request_ok X) (nv_sent (readUtilization lib dev))"
    "list_all (nv_request_ok X) (nv_sent (readEncUtilization lib dev))"
    "list_all (nv_request_ok X) (nv_sent (readDecUtilization lib dev))"
    "list_all (nv_request_ok X) (nv_sent (readMemoryInfo lib dev))"
    "list_all (nv_request_ok X) (nv_sent (readBarMemoryInfo lib dev))"
  subgoal
    unfolding readUtilization_def
    by (rule unless_mig_list_all) (auto intro!: nv_metric_ok [OF assms] simp: nv_floats_def split: option.split)
  subgoal
    unfolding readEncUtilization_def
    by (rule unless_mig_list_all) (auto intro!: nv_metric_ok [OF assms] simp: nv_floats_def)
  subgoal
    unfolding readDecUtilization_def
    by (rule unless_mig_list_all) (auto intro!: nv_metric_ok [OF assms] simp: nv_floats_def)
  subgoal
    by (auto intro!: nv_metric_ok [OF assms] simp: nv_sent_list_all readMemoryInfo_def Let_def nv_floats_def
        split: if_splits option.splits)
  subgoal
    by (auto intro!: nv_metric_ok [OF assms] simp: nv_sent_list_all readBarMemoryInfo_def nv_floats_def
        split: if_splits option.splits)
  done

lemma remapped_ok [nv_ok]:
  assumes "nv_dev_ok X dev"
  shows "list_all (nv_request_ok X) (readRemappedRows lib dev)"
proof -
  have "nv_request_ok X (nv_request dev ''nv_remapped_rows_corrected'' (VFloat64 f) [] None)" for f
    using assms by (simp add: nv_request_ok_def nv_dev_ok_def nv_floats_def nv_exempt_def)
  then show ?thesis
    by (auto intro!: nv_metric_ok [OF assms] simp: readRemappedRows_def nv_floats_def nv_ints_def split: option.split)
qed

lemma nvlink_names:
  "(n, k) \<in> set nvlink_kinds \<Longrightarrow> n \<in> set nv_uints \<and> n @ ''_sum'' \<in> set nv_uints \<and> n @ ''_sum'' \<in> set nv_exempt"
  by (force simp: nv_uints_def nv_exempt_def)

lemma nvlink_ok [nv_ok]:
  assumes "nv_dev_ok X dev"
  shows "list_all (nv_request_ok X) (readNVLinkStats lib dev)"
  using assms
  by (auto simp: readNVLinkStats_def list_all_iff nvlink_counter_def Let_def nv_request_ok_def nv_dev_ok_def
      case_prod_beta dest: nvlink_names split: if_splits)

lemma energy_ok:
  assumes "nv_dev_ok X dev" and "readEnergyConsumption lib dev = Inr (dev', rs)"
  shows "list_all (nv_request_ok X) rs" and "nv_dev_ok X dev'"
  using assms
  by (auto simp: readEnergyConsumption_def Let_def nv_request_ok_def nv_dev_ok_def nv_uints_def
      split: if_splits option.splits)

lemma readAll_ok:
  assumes "nv_dev_ok X dev" and "readAll lib dev = Inr (dev', rs)"
  shows "nv_dev_ok X dev'" and "list_all (nv_request_ok X) rs"
proof -
  from assms(2) obtain energy where e: "readEnergyConsumption lib dev = Inr (dev', energy)"
    unfolding readAll_def run_bind_Inr_iff by auto
  have rs: "rs = nv_sent (readMemoryInfo lib dev) @ nv_sent (readUtilization lib dev) @ readTemp lib dev @ readFan lib dev @
         readEccMode lib dev @ readPerfState lib dev @ readPowerUsage lib dev @ energy @ readClocks lib dev' @
         readMaxClocks lib dev' @ readEccErrors lib dev' @ readPowerLimit lib dev' @
         nv_sent (readEncUtilization lib dev') @ nv_sent (readDecUtilization lib dev') @ readRemappedRows lib dev' @
         nv_sent (readBarMemoryInfo lib dev') @ readProcessCounts lib dev' @ readViolationStats lib dev' @
         readNVLinkStats lib dev'"
    using assms(2) unfolding readAll_def e run_bind_simps prod.case by (simp only: sum.inject prod.inject)
  show ok: "nv_dev_ok X dev'" using energy_ok(2) [OF assms(1) e] .
  show "list_all (nv_request_ok X) rs"
    unfolding rs list_all_append by (intro conjI nv_ok [OF assms(1)] nv_ok [OF ok] energy_ok(1) [OF assms(1) e])
qed

lemma map_put_other: "k \<noteq> k' \<Longrightarrow> map_of (map_put k v m) k' = map_of m k'"
  by simp

lemma mig_device_ok:
  assumes "nv_dev_ok X gpu" and "set (nf_ExcludeMetrics cfg) = X" and "mig_device lib cfg gpu j mdev = Inr dev"
  shows "nv_dev_ok X dev"
proof -
  have "map_of tags ''type'' = Some ''accelerator''"
    if "mig_stype_id lib cfg (nd_device gpu) mdev (map_put ''stype'' ''mig'' (nd_tags gpu)) = Inr tags" for tags
    using that assms(1) by (auto simp: mig_stype_id_def nv_dev_ok_def split: if_splits option.splits)
  with assms(2,3) show ?thesis by (auto simp: mig_device_def nv_dev_ok_def run_simps Let_def)
qed

lemma mig_read_ok:
  assumes "nv_dev_ok X gpu" and "set (nf_ExcludeMetrics cfg) = X" and "mig_read lib cfg gpu j = Inr rs"
  shows "list_all (nv_request_ok X) rs"
proof (cases "nv_DeviceGetMigDeviceHandleByIndex lib (nd_device gpu) j")
  case None
  with assms(3) show ?thesis by (simp add: mig_read_def)
next
  case (Some mdev)
  with assms(3) obtain dev dev' where "mig_device lib cfg gpu j mdev = Inr dev" "readAll lib dev = Inr (dev', rs)"
    by (auto simp: mig_read_def run_simps)
  with mig_device_ok [OF assms(1,2)] readAll_ok(2) show ?thesis by blast
qed

lemma run_concat_all:
  "run_concat f xs = Inr rs \<Longrightarrow> \<forall>x \<in> set xs. \<forall>rs. f x = Inr rs \<longrightarrow> list_all P rs \<Longrightarrow> list_all P rs"
  by (induction xs arbitrary: rs) (fastforce simp: run_simps)+

lemma gpu_read_ok:
  assumes "nv_dev_ok X gpu" and "set (nf_ExcludeMetrics cfg) = X" and "gpu_read lib cfg gpu = Inr (gpu', rs)"
  shows "nv_dev_ok X gpu' \<and> list_all (nv_request_ok X) rs"
proof -
  from assms(3) obtain r1 migs where r1: "readAll lib gpu = Inr (gpu', r1)"
    and migs: "run_concat (mig_read lib cfg gpu') [0..<mig_count lib cfg (nd_device gpu')] = Inr migs" and rs: "rs = r1 @ migs"
    by (auto simp: gpu_read_def run_simps)
  have ok: "nv_dev_ok X gpu'" using readAll_ok(1) [OF assms(1) r1] .
  have "list_all (nv_request_ok X) migs" using run_concat_all [OF migs] mig_read_ok [OF ok assms(2)] by blast
  with ok readAll_ok(2) [OF assms(1) r1] rs show ?thesis by simp
qed

text \<open>The states of a collector: after \<open>Init\<close>, and after reads with any answers of the library.\<close>

inductive nv_reachable :: "NvidiaCollectorConfig \<Rightarrow> 'd NvidiaCollector \<Rightarrow> bool" for cfg where
  init: "nvidia_Init cfg (lib :: 'd nvml) clock = Inr m \<Longrightarrow> nv_reachable cfg m"
| read: "nv_reachable cfg m \<Longrightarrow> nvidia_Read (lib :: 'd nvml) m = Inr (m', rs) \<Longrightarrow> nv_reachable cfg m'"

definition nv_state_ok :: "NvidiaCollectorConfig \<Rightarrow> 'd NvidiaCollector \<Rightarrow> bool" where
  "nv_state_ok cfg m = (nc_config m = cfg \<and> nc_num_gpus m = length (nc_gpus m) \<and>
     (\<forall>g \<in> set (nc_gpus m). nv_dev_ok (set (nf_ExcludeMetrics cfg)) g))"

lemma gpu_tags_type: "map_of (gpu_tags cfg i pci_id) ''type'' = Some ''accelerator''"
  by (simp add: gpu_tags_def Let_def)

lemma nv_init_ok:
  assumes "nvidia_Init cfg lib clock = Inr m"
  shows "nv_state_ok cfg m"
proof (cases "nc_init m")
  case True
  with assms obtain n err where run: "run_steps (gpu_init lib clock cfg) False [0..<n] = Inr (err, nc_gpus m)"
    and m: "nc_config m = cfg" "nc_num_gpus m = length (nc_gpus m)"
    by (auto simp: nvidia_Init_def split: if_splits option.splits sum.splits)
  have "map_of (nd_tags g) ''type'' = Some ''accelerator''" if "g \<in> set (nc_gpus m)" for g
  proof -
    have "(nd_device g, nd_tags g) \<in> set (map (\<lambda>g. (nd_device g, nd_tags g)) (nc_gpus m))" using that by simp
    then obtain i pci_id where "nd_tags g = gpu_tags cfg i pci_id"
      by (auto simp: gpus_init_devices [OF run] split: option.splits)
    then show ?thesis by (simp add: gpu_tags_type)
  qed
  with gpus_init_devices [OF run] m show ?thesis by (simp add: nv_state_ok_def nv_dev_ok_def)
next
  case False
  with assms show ?thesis by (auto simp: nvidia_Init_def nv_state_ok_def split: if_splits option.splits sum.splits)
qed

lemma collected_length:
  "run_steps (\<lambda>acc x. run_bind (f x) (\<lambda>(y, rs). Inr (acc @ [y], rs))) acc xs = Inr (ys, rs) \<Longrightarrow>
   length ys = length acc + length xs"
  by (induction xs arbitrary: acc rs) (fastforce simp: run_simps)+

lemma nv_read_ok:
  assumes "nv_state_ok cfg m" and "nvidia_Read lib m = Inr (m', rs)"
  shows "nv_state_ok cfg m' \<and> list_all (nv_request_ok (set (nf_ExcludeMetrics cfg))) rs"
proof (cases "nc_init m")
  case True
  let ?X = "set (nf_ExcludeMetrics cfg)"
  let ?f = "\<lambda>acc gpu. run_bind (gpu_read lib cfg gpu) (\<lambda>(gpu', rs). Inr (acc @ [gpu'], rs))"
  let ?ok = "\<lambda>acc. \<forall>g \<in> set acc. nv_dev_ok ?X g"
  from True assms obtain gpus where run: "run_steps ?f [] (nc_gpus m) = Inr (gpus, rs)" and m': "m' = m\<lparr>nc_gpus := gpus\<rparr>"
    by (auto simp: nvidia_Read_def nv_state_ok_def run_simps)
  have "?ok gpus \<and> list_all (nv_request_ok ?X) rs"
  proof (rule run_steps_all [OF _ run])
    show "?ok acc' \<and> list_all (nv_request_ok ?X) rs'"
      if "?ok acc" "g \<in> set (nc_gpus m)" "?f acc g = Inr (acc', rs')" for acc g acc' rs'
      using that gpu_read_ok [OF _ refl, of cfg g] assms(1) by (fastforce simp: nv_state_ok_def run_simps)
  qed simp
  moreover have "length gpus = length (nc_gpus m)" using collected_length [OF run] by simp
  ultimately show ?thesis using assms(1) m' by (simp add: nv_state_ok_def)
next
  case False
  with assms show ?thesis by (auto simp: nvidia_Read_def)
qed

lemma nv_reachable_ok: "nv_reachable cfg m \<Longrightarrow> nv_state_ok cfg m"
  by (induction rule: nv_reachable.induct) (use nv_init_ok nv_read_ok in blast)+

text \<open>C17: What the NVIDIA collector sends is typed and wanted, for every state it can reach and for
  all answers of the library: the tag \<open>type\<close> is \<open>accelerator\<close>, also for MIG partitions; the
  value has the type that belongs to the name; and a name of the configuration's
  \<open>exclude_metrics\<close> is sent only if it is one of the NVLink sums or
  \<open>nv_remapped_rows_corrected\<close>, which the count of uncorrected rows is sent under.\<close>

theorem nvidia_requests_typed:
  assumes "nv_reachable cfg m" and "nvidia_Read lib m = Inr (m', rs)" and "r \<in> set rs"
  shows "map_of (rq_tags r) ''type'' = Some ''accelerator'' \<and> nv_typed (rq_name r) (rq_value r) \<and>
         (rq_name r \<in> set (nf_ExcludeMetrics cfg) \<longrightarrow> rq_name r \<in> set nv_exempt)"
  using nv_read_ok [OF nv_reachable_ok [OF assms(1)] assms(2)] assms(3)
  by (auto simp: list_all_iff nv_request_ok_def)

text \<open>The exemption is needed: the excluded name is sent, with the number of uncorrected rows.\<close>

theorem nvidia_requests_typed_witness:
  "\<exists>m m' rs r. nv_reachable (demo_nvidia\<lparr>nf_AddSerialMeta := False, nf_ProcessMigDevices := False\<rparr>) m \<and>
     nvidia_Read demo_nvml m = Inr (m', rs) \<and> r \<in> set rs \<and> rq_name r = ''nv_remapped_rows_corrected'' \<and>
     rq_value r = VFloat64 (Num 4) \<and> rq_name r \<in> set (nf_ExcludeMetrics demo_nvidia) \<and>
     map_of (rq_tags r) ''type'' = Some ''accelerator''"
proof -
  let ?cfg = "demo_nvidia\<lparr>nf_AddSerialMeta := False, nf_ProcessMigDevices := False\<rparr>"
  have "case nvidia_Init ?cfg demo_nvml (\<lambda>_. 0) of
      Inl _ \<Rightarrow> False
    | Inr m \<Rightarrow> (case nvidia_Read demo_nvml m of
        Inl _ \<Rightarrow> False
      | Inr (m', rs) \<Rightarrow> (''nv_remapped_rows_corrected'', VFloat64 (Num 4)) \<in> set (map (\<lambda>r. (rq_name r, rq_value r)) rs))"
    by code_simp
  then obtain m m' rs r where init: "nvidia_Init ?cfg demo_nvml (\<lambda>_. 0) = Inr m"
    and read: "nvidia_Read demo_nvml m = Inr (m', rs)" and r: "r \<in> set rs"
    and name: "rq_name r = ''nv_remapped_rows_corrected''" "rq_value r = VFloat64 (Num 4)"
    by (auto split: sum.splits)
  have reach: "nv_reachable ?cfg m" using nv_reachable.init [OF init] .
  from nvidia_requests_typed [OF reach read r] reach read r name show ?thesis
    by (intro exI [of _ m] exI [of _ m'] exI [of _ rs] exI [of _ r]) (simp add: demo_nvidia_def)
qed

section \<open>Energy\<close>

text \<open>The energy of a device in millijoules, when it is read.\<close>

definition nv_sample :: "('d, 'z) nvml_scheme \<Rightarrow> 'd \<Rightarrow> goint option" where
  "nv_sample lib d =
     (if nv_DeviceGetPowerManagementMode lib d = Some FEATURE_ENABLED
      then nv_DeviceGetTotalEnergyConsumption lib d else None)"

definition nv_joules :: "request \<Rightarrow> int" where
  "nv_joules r = (if rq_name r = ''nv_energy'' then case rq_value r of VUint64 v \<Rightarrow> uint v | _ \<Rightarrow> 0 else 0)"

lemma word_diff_div:
  fixes a b :: goint
  assumes "uint a \<le> uint b"
  shows "uint ((b - a) div 1000) = (uint b - uint a) div 1000"
proof -
  have "uint (b - a) = uint b - uint a" using assms by (simp add: uint_sub_if_size)
  then show ?thesis by (simp add: uint_div)
qed

lemma energy_step:
  assumes "readEnergyConsumption lib dev = Inr (dev', rs)" and "nd_lastEnergyReading dev \<noteq> 0"
    and "set (nd_excludeMetrics dev) \<inter> {''nv_energy'', ''nv_energy_abs'', ''nv_average_power''} = {}"
  shows "nd_device dev' = nd_device dev \<and> nd_excludeMetrics dev' = nd_excludeMetrics dev \<and>
    (case nv_sample lib (nd_device dev) of
       None \<Rightarrow> dev' = dev \<and> rs = []
     | Some e \<Rightarrow> nd_lastEnergyReading dev' = e \<and>
         (uint (nd_lastEnergyReading dev) \<le> uint e \<longrightarrow>
          sum_list (map nv_joules rs) = (uint e - uint (nd_lastEnergyReading dev)) div 1000))"
  using assms
  by (auto simp: readEnergyConsumption_def nv_sample_def nv_joules_def Let_def word_diff_div split: if_splits option.splits)

text \<open>C27: The energy metric over any number of reads. If the counter of the device never decreases
  (and is not 0), the joules that are sent add up to its growth in millijoules but for less than
  one joule per read, and never exceed it.\<close>

theorem nv_energy_bounds:
  assumes "run_steps (\<lambda>dev lib. readEnergyConsumption lib dev) dev libs = Inr (dev', rs)"
    and "set (nd_excludeMetrics dev) \<inter> {''nv_energy'', ''nv_energy_abs'', ''nv_average_power''} = {}"
    and "0 < uint (nd_lastEnergyReading dev)"
    and "sorted (map uint (nd_lastEnergyReading dev # List.map_filter (\<lambda>lib. nv_sample lib (nd_device dev)) libs))"
  shows "1000 * sum_list (map nv_joules rs) \<le> uint (nd_lastEnergyReading dev') - uint (nd_lastEnergyReading dev) \<and>
    uint (nd_lastEnergyReading dev') - uint (nd_lastEnergyReading dev) \<le>
      1000 * sum_list (map nv_joules rs) + 999 * int (length libs)"
  using assms
proof (induction libs arbitrary: dev rs)
  case (Cons lib libs)
  from Cons.prems(1) obtain d1 r1 r2 where step: "readEnergyConsumption lib dev = Inr (d1, r1)"
    and rest: "run_steps (\<lambda>dev lib. readEnergyConsumption lib dev) d1 libs = Inr (dev', r2)" and rs: "rs = r1 @ r2"
    by (auto simp: run_simps)
  have "nd_lastEnergyReading dev \<noteq> 0" using Cons.prems(3) by auto
  note one = energy_step [OF step this Cons.prems(2)]
  show ?case
  proof (cases "nv_sample lib (nd_device dev)")
    case None
    with one have "d1 = dev" "r1 = []" by simp_all
    with Cons.IH [OF rest] Cons.prems(2-4) None rs show ?thesis by (simp add: List.map_filter_simps)
  next
    case (Some e)
    with Cons.prems(4) have le: "uint (nd_lastEnergyReading dev) \<le> uint e" by (simp add: List.map_filter_simps)
    with one Some have d1: "nd_lastEnergyReading d1 = e" "nd_device d1 = nd_device dev" "nd_excludeMetrics d1 = nd_excludeMetrics dev"
      and j: "sum_list (map nv_joules r1) = (uint e - uint (nd_lastEnergyReading dev)) div 1000" by simp_all
    have "1000 * sum_list (map nv_joules r2) \<le> uint (nd_lastEnergyReading dev') - uint e \<and>
        uint (nd_lastEnergyReading dev') - uint e \<le> 1000 * sum_list (map nv_joules r2) + 999 * int (length libs)"
      using Cons.IH [OF rest] Cons.prems(2-4) d1 Some le by (simp add: List.map_filter_simps)
    moreover have "1000 * (D div 1000) \<le> D \<and> D \<le> 1000 * (D div 1000) + 999" for D :: int by presburger
    from this [of "uint e - uint (nd_lastEnergyReading dev)"] j rs
    have "1000 * sum_list (map nv_joules rs) \<le> uint e - uint (nd_lastEnergyReading dev) + 1000 * sum_list (map nv_joules r2) \<and>
        uint e - uint (nd_lastEnergyReading dev) + 1000 * sum_list (map nv_joules r2) \<le> 1000 * sum_list (map nv_joules rs) + 999"
      by simp
    ultimately show ?thesis by simp
  qed
qed simp

theorem nv_energy_bounds_witness:
  "\<exists>dev' rs. run_steps (\<lambda>dev lib. readEnergyConsumption lib dev)
       (demo_gpu\<lparr>nd_lastEnergyReading := 3999001, nd_lastEnergyTimestamp := 0\<rparr>) [demo_nvml] = Inr (dev', rs) \<and>
     sum_list (map nv_joules rs) = 1000 \<and> nd_lastEnergyReading dev' = 5000000"
proof -
  let ?dev = "demo_gpu\<lparr>nd_lastEnergyReading := 3999001, nd_lastEnergyTimestamp := 0\<rparr>"
  have "case run_steps (\<lambda>dev lib. readEnergyConsumption lib dev) ?dev [demo_nvml] of
      Inl _ \<Rightarrow> False
    | Inr (dev', rs) \<Rightarrow> nd_lastEnergyReading dev' = 5000000 \<and> sum_list (map nv_joules rs) = 1000" by code_simp
  then obtain dev' rs where run: "run_steps (\<lambda>dev lib. readEnergyConsumption lib dev) ?dev [demo_nvml] = Inr (dev', rs)"
    and v: "nd_lastEnergyReading dev' = 5000000" "sum_list (map nv_joules rs) = 1000" by (auto split: sum.splits)
  have "set (nd_excludeMetrics ?dev) \<inter> {''nv_energy'', ''nv_energy_abs'', ''nv_average_power''} = {}" by (simp add: demo_gpu_def)
  moreover have "0 < uint (nd_lastEnergyReading ?dev)" by code_simp
  moreover have "sorted (map uint (nd_lastEnergyReading ?dev # List.map_filter (\<lambda>lib. nv_sample lib (nd_device ?dev)) [demo_nvml]))"
    by code_simp
  ultimately have "1000 * sum_list (map nv_joules rs) \<le> uint (nd_lastEnergyReading dev') - uint (nd_lastEnergyReading ?dev)"
    using nv_energy_bounds [OF run] by blast
  with run v show ?thesis by blast
qed

text \<open>
  The average power is the energy divided by the whole seconds since the last value, so that
  almost a second is lost: after 9.99 seconds the divisor is 9.
\<close>

theorem nv_average_power_whole_seconds:
  assumes "readEnergyConsumption lib dev = Inr (dev', rs)" and "r \<in> set rs" and "rq_name r = ''nv_average_power''"
    and "0 \<le> nv_elapsed lib dev" and "nv_elapsed lib dev < 2 ^ 20 * 1000000000"
  shows "\<exists>e. nv_sample lib (nd_device dev) = Some e \<and>
    rq_value r = VUint64 ((e - nd_lastEnergyReading dev) div 1000 div word_of_int (nv_elapsed lib dev div 1000000000))"
  using assms(1-3) elapsed_seconds [OF assms(4,5)]
  by (auto simp: readEnergyConsumption_def nv_sample_def Let_def split: if_splits option.splits)

lemma nvlink_counter_fields:
  "r \<in> set (nvlink_counter lib dev i kind) \<Longrightarrow>
   rq_name r = fst kind \<and> rq_tags r = map_put ''stype-id'' (itoa (of_nat i)) (map_put ''stype'' ''nvlink'' (nd_tags dev))"
  by (auto simp: nvlink_counter_def case_prod_beta split: if_splits)

text \<open>
  The counters of a link of a MIG partition have the same tags as those of its graphics card:
  the tags of the link replace the ones that tell partition and card apart.
\<close>

theorem mig_nvlink_tags_clash:
  assumes "mig_device lib cfg gpu j mdev = Inr dev" and "r1 \<in> set (nvlink_counter lib gpu i kind)"
    and "r2 \<in> set (nvlink_counter lib dev i kind)"
  shows "rq_name r1 = rq_name r2 \<and> map_of (rq_tags r1) = map_of (rq_tags r2)"
proof -
  from assms(1) obtain tags
    where tags: "mig_stype_id lib cfg (nd_device gpu) mdev (map_put ''stype'' ''mig'' (nd_tags gpu)) = Inr tags"
      and dev: "nd_tags dev = (if map_of tags ''stype-id'' = None then map_put ''stype-id'' (itoa (of_nat j)) tags else tags)"
    unfolding mig_device_def run_bind_Inr_iff Let_def by auto
  have "map_of tags k = map_of (nd_tags gpu) k" if "k \<noteq> ''stype''" "k \<noteq> ''stype-id''" for k
    using tags that by (auto simp: mig_stype_id_def split: if_splits option.splits)
  then have "map_of (nd_tags dev) k = map_of (nd_tags gpu) k" if "k \<noteq> ''stype''" "k \<noteq> ''stype-id''" for k
    using dev that by simp
  then have "map_of (map_put ''stype-id'' l (map_put ''stype'' ''nvlink'' (nd_tags dev))) =
      map_of (map_put ''stype-id'' l (map_put ''stype'' ''nvlink'' (nd_tags gpu)))" for l
    by (simp add: fun_eq_iff)
  then show ?thesis using nvlink_counter_fields [OF assms(2)] nvlink_counter_fields [OF assms(3)] by simp
qed

end
