(* ===== verification/Rocm_Collector.thy ===== *)
theory Rocm_Collector
  imports Collector_Base
begin

text \<open>
  \<open>collectors/rocmsmiMetric.go\<close>: the metrics of AMD graphics cards. The vendor library
  \<open>rocm_smi\<close> is not part of the repository: the results of its functions are a parameter (\<open>None\<close>
  for every status but \<open>STATUS_SUCCESS\<close>), and so are the types of the values, which the
  collector passes on as they are. The PCI identifier is formatted by the collector.
\<close>

section \<open>The library\<close>

record rocm_metrics =
  rm_Average_gfx_activity :: "unit govalue"
  rm_Average_umc_activity :: "unit govalue"
  rm_Average_mm_activity :: "unit govalue"
  rm_Average_socket_power :: "unit govalue"
  rm_Temperature_mem :: "unit govalue"
  rm_Temperature_hotspot :: "unit govalue"
  rm_Temperature_edge :: "unit govalue"
  rm_Temperature_vrgfx :: "unit govalue"
  rm_Temperature_vrsoc :: "unit govalue"
  rm_Temperature_vrmem :: "unit govalue"
  rm_Average_gfxclk_frequency :: "unit govalue"
  rm_Average_socclk_frequency :: "unit govalue"
  rm_Average_uclk_frequency :: "unit govalue"
  rm_Average_vclk0_frequency :: "unit govalue"
  rm_Average_vclk1_frequency :: "unit govalue"
  rm_Average_dclk0_frequency :: "unit govalue"
  rm_Average_dclk1_frequency :: "unit govalue"
  rm_Temperature_hbm :: "nat \<Rightarrow> unit govalue"

record 'd rocm_smi =
  rs_Init :: bool
  rs_NumMonitorDevices :: "nat option"
  rs_DeviceGetHandleByIndex :: "nat \<Rightarrow> 'd option"
  rs_DeviceGetPciInfo :: "'d \<Rightarrow> (nat \<times> nat \<times> nat \<times> nat) option" \<comment> \<open>domain, bus, device, function\<close>
  rs_DeviceGetSerialNumber :: "'d \<Rightarrow> string option"
  rs_DeviceGetMetrics :: "'d \<Rightarrow> rocm_metrics option"
  rs_NUM_HBM_INSTANCES :: nat

section \<open>State and Init\<close>

record RocmSmiCollectorConfig =
  rf_ExcludeMetrics :: "string list"
  rf_ExcludeDevices :: "string list"
  rf_AddPciInfoTag :: bool
  rf_UsePciInfoAsTypeId :: bool
  rf_AddSerialMeta :: bool

record 'd RocmSmiCollectorDevice =
  rd_device :: 'd
  rd_index :: nat
  rd_tags :: tagmap
  rd_meta :: tagmap
  rd_excludeMetrics :: "string list" \<comment> \<open>the keys of the map\<close>

record 'd RocmSmiCollector =
  ro_init :: bool
  ro_config :: RocmSmiCollectorConfig
  ro_devices :: "'d RocmSmiCollectorDevice list"

text \<open>\<open>%X\<close> and \<open>%0nX\<close> of an unsigned number.\<close>

definition hex_digit :: "nat \<Rightarrow> char" where
  "hex_digit d = (if d < 10 then char_of (48 + d) else char_of (55 + d))"

fun hex_digits :: "nat \<Rightarrow> string" where
  "hex_digits n = (if n < 16 then [hex_digit n] else hex_digits (n div 16) @ [hex_digit (n mod 16)])"

declare hex_digits.simps [simp del]

definition hex_padded :: "nat \<Rightarrow> nat \<Rightarrow> string" where
  "hex_padded w n = replicate (w - length (hex_digits n)) (CHR ''0'') @ hex_digits n"

definition pci_identifier :: "nat \<times> nat \<times> nat \<times> nat \<Rightarrow> string" where
  "pci_identifier = (\<lambda>(domain, bus, device, function).
     hex_padded 8 domain @ '':'' @ hex_padded 2 bus @ '':'' @ hex_padded 2 device @ ''.'' @ hex_digits function)"

definition rocm_tags :: "RocmSmiCollectorConfig \<Rightarrow> nat \<Rightarrow> string \<Rightarrow> tagmap" where
  "rocm_tags cfg i pciId =
     (let tags = [(''type'', ''accelerator''), (''type-id'', itoa (of_nat i))]
      in if rf_UsePciInfoAsTypeId cfg then map_put ''type-id'' pciId tags
         else if rf_AddPciInfoTag cfg then map_put ''pci_identifier'' pciId tags else tags)"

definition rocm_meta :: "'d rocm_smi \<Rightarrow> RocmSmiCollectorConfig \<Rightarrow> 'd \<Rightarrow> tagmap" where
  "rocm_meta lib cfg d =
     (let meta = [(''source'', ''RocmSmiCollector''), (''group'', ''AMD'')]
      in if rf_AddSerialMeta cfg
         then (case rs_DeviceGetSerialNumber lib d of None \<Rightarrow> meta | Some serial \<Rightarrow> map_put ''serial'' serial meta)
         else meta)"

definition rocm_device :: "'d rocm_smi \<Rightarrow> RocmSmiCollectorConfig \<Rightarrow> nat \<Rightarrow> goerror + 'd RocmSmiCollectorDevice list" where
  "rocm_device lib cfg i =
     (if itoa (of_nat i) \<in> set (rf_ExcludeDevices cfg) then Inr []
      else case rs_DeviceGetHandleByIndex lib i of
        None \<Rightarrow> Inl (GoError ''failed to get get handle for GPU'')
      | Some d \<Rightarrow>
          (case rs_DeviceGetPciInfo lib d of
             None \<Rightarrow> Inl (GoError ''failed to get PCI information for GPU'')
           | Some pciInfo \<Rightarrow>
               (let pciId = pci_identifier pciInfo
                in if pciId \<in> set (rf_ExcludeDevices cfg) then Inr []
                   else Inr [\<lparr>rd_device = d, rd_index = i, rd_tags = rocm_tags cfg i pciId, rd_meta = rocm_meta lib cfg d,
                              rd_excludeMetrics = rf_ExcludeMetrics cfg\<rparr>])))"

text \<open>The loop over the devices returns at the first error.\<close>

fun rocm_device_list ::
  "'d rocm_smi \<Rightarrow> RocmSmiCollectorConfig \<Rightarrow> nat list \<Rightarrow> goerror + 'd RocmSmiCollectorDevice list" where
  "rocm_device_list lib cfg [] = Inr []"
| "rocm_device_list lib cfg (i # is) =
     (case rocm_device lib cfg i of
        Inl e \<Rightarrow> Inl e
      | Inr d \<Rightarrow> (case rocm_device_list lib cfg is of Inl e \<Rightarrow> Inl e | Inr ds \<Rightarrow> Inr (d @ ds)))"

definition rocm_Init :: "RocmSmiCollectorConfig \<Rightarrow> 'd rocm_smi \<Rightarrow> goerror + 'd RocmSmiCollector" where
  "rocm_Init cfg lib =
     (if \<not> rs_Init lib then Inl (GoError ''failed to initialize ROCm SMI library'')
      else case rs_NumMonitorDevices lib of
        None \<Rightarrow> Inl (GoError ''failed to get number of GPUs from ROCm SMI library'')
      | Some n \<Rightarrow>
          (case rocm_device_list lib cfg [0..<n] of
             Inl e \<Rightarrow> Inl e
           | Inr devices \<Rightarrow> Inr \<lparr>ro_init = True, ro_config = cfg, ro_devices = devices\<rparr>))"

section \<open>Read and Close\<close>

definition rocm_values :: "rocm_metrics \<Rightarrow> (string \<times> unit govalue) list" where
  "rocm_values metrics =
     [(''rocm_gfx_util'', rm_Average_gfx_activity metrics),
      (''rocm_umc_util'', rm_Average_umc_activity metrics),
      (''rocm_mm_util'', rm_Average_mm_activity metrics),
      (''rocm_avg_power'', rm_Average_socket_power metrics),
      (''rocm_temp_mem'', rm_Temperature_mem metrics),
      (''rocm_temp_hotspot'', rm_Temperature_hotspot metrics),
      (''rocm_temp_edge'', rm_Temperature_edge metrics),
      (''rocm_temp_vrgfx'', rm_Temperature_vrgfx metrics),
      (''rocm_temp_vrsoc'', rm_Temperature_vrsoc metrics),
      (''rocm_temp_vrmem'', rm_Temperature_vrmem metrics),
      (''rocm_gfx_clock'', rm_Average_gfxclk_frequency metrics),
      (''rocm_soc_clock'', rm_Average_socclk_frequency metrics),
      (''rocm_u_clock'', rm_Average_uclk_frequency metrics),
      (''rocm_v0_clock'', rm_Average_vclk0_frequency metrics),
      (''rocm_v1_clock'', rm_Average_vclk1_frequency metrics),
      (''rocm_d0_clock'', rm_Average_dclk0_frequency metrics),
      (''rocm_d1_clock'', rm_Average_dclk1_frequency metrics)]"

definition rocm_request :: "'d RocmSmiCollectorDevice \<Rightarrow> gotime \<Rightarrow> string \<Rightarrow> unit govalue \<Rightarrow> request" where
  "rocm_request dev t name v =
     \<lparr>rq_name = name, rq_tags = rd_tags dev, rq_meta = rd_meta dev, rq_value = v, rq_time = Some t\<rparr>"

definition rocm_hbm :: "'d RocmSmiCollectorDevice \<Rightarrow> gotime \<Rightarrow> rocm_metrics \<Rightarrow> nat \<Rightarrow> request" where
  "rocm_hbm dev t metrics i =
     add_tag ''stype-id'' (itoa (of_nat i)) (add_tag ''stype'' ''device''
       (rocm_request dev t ''rocm_temp_hbm'' (rm_Temperature_hbm metrics i)))"

definition rocm_metrics_read ::
  "nat \<Rightarrow> gotime \<Rightarrow> 'd RocmSmiCollectorDevice \<Rightarrow> rocm_metrics \<Rightarrow> request list" where
  "rocm_metrics_read num_hbm t dev metrics =
     concat (map (\<lambda>(name, v). if name \<in> set (rd_excludeMetrics dev) then [] else [rocm_request dev t name v])
       (rocm_values metrics)) @
     (if ''rocm_temp_hbm'' \<in> set (rd_excludeMetrics dev) then [] else map (rocm_hbm dev t metrics) [0..<num_hbm])"

definition rocm_device_read :: "gotime \<Rightarrow> 'd rocm_smi \<Rightarrow> 'd RocmSmiCollectorDevice \<Rightarrow> request list" where
  "rocm_device_read t lib dev =
     (case rs_DeviceGetMetrics lib (rd_device dev) of
        None \<Rightarrow> []
      | Some metrics \<Rightarrow> rocm_metrics_read (rs_NUM_HBM_INSTANCES lib) t dev metrics)"

definition rocm_Read :: "gotime \<Rightarrow> 'd rocm_smi \<Rightarrow> 'd RocmSmiCollector \<Rightarrow> request list" where
  "rocm_Read t lib m = concat (map (rocm_device_read t lib) (ro_devices m))"

definition rocm_Close :: "'d RocmSmiCollector \<Rightarrow> 'd RocmSmiCollector" where
  "rocm_Close m = m\<lparr>ro_init := False\<rparr>"

section \<open>What a read sends\<close>

definition rocm_names :: "nat \<Rightarrow> string list" where
  "rocm_names num_hbm =
     [''rocm_gfx_util'', ''rocm_umc_util'', ''rocm_mm_util'', ''rocm_avg_power'', ''rocm_temp_mem'',
      ''rocm_temp_hotspot'', ''rocm_temp_edge'', ''rocm_temp_vrgfx'', ''rocm_temp_vrsoc'', ''rocm_temp_vrmem'',
      ''rocm_gfx_clock'', ''rocm_soc_clock'', ''rocm_u_clock'', ''rocm_v0_clock'', ''rocm_v1_clock'',
      ''rocm_d0_clock'', ''rocm_d1_clock''] @
     replicate num_hbm ''rocm_temp_hbm''"

definition rocm_table :: "string set \<Rightarrow> nat \<times> gotime \<times> 'd RocmSmiCollectorDevice \<times> rocm_metrics \<Rightarrow> request list" where
  "rocm_table X = (\<lambda>(num_hbm, t, dev, metrics).
     without X (map (\<lambda>(n, v). rocm_request dev t n v) (rocm_values metrics) @ map (rocm_hbm dev t metrics) [0..<num_hbm]))"

lemma rocm_request_fields [simp]:
  "rq_name (rocm_request dev t n v) = n" "rq_tags (rocm_request dev t n v) = rd_tags dev"
  "rq_name (rocm_hbm dev t ms i) = ''rocm_temp_hbm''"
  "map_of (rq_tags (rocm_hbm dev t ms i)) ''type-id'' = map_of (rd_tags dev) ''type-id''"
  by (simp_all add: rocm_request_def rocm_hbm_def add_tag_def)

lemma concat_excluded:
  "concat (map (\<lambda>(n, v). if n \<in> X then [] else [rocm_request dev t n v]) vs) =
   without X (map (\<lambda>(n, v). rocm_request dev t n v) vs)"
  by (induction vs) auto

lemma hbm_excluded:
  "(if ''rocm_temp_hbm'' \<in> X then [] else map (rocm_hbm dev t ms) is) = without X (map (rocm_hbm dev t ms) is)"
  by (induction "is") auto

lemma rocm_metrics_table: "rocm_metrics_read num_hbm t dev ms = rocm_table (set (rd_excludeMetrics dev)) (num_hbm, t, dev, ms)"
  by (simp add: rocm_metrics_read_def rocm_table_def concat_excluded hbm_excluded)

interpretation rocm: metric_table "rocm_table {}" rocm_table
  by unfold_locales (simp add: rocm_table_def without_def case_prod_beta)

lemma rocm_table_names:
  "map rq_name (rocm_table {} (num_hbm, t, dev, ms)) = rocm_names num_hbm"
  by (simp add: rocm_table_def without_def rocm_values_def rocm_names_def comp_def map_replicate_const)

lemma rocm_table_type_id:
  "r \<in> set (rocm_table {} (num_hbm, t, dev, ms)) \<Longrightarrow> map_of (rq_tags r) ''type-id'' = map_of (rd_tags dev) ''type-id''"
  by (auto simp: rocm_table_def without_def)

lemma rocm_device_sends:
  "map (\<lambda>r. (rq_name r, map_of (rq_tags r) ''type-id'')) (rocm_device_read t lib dev) =
   (if rs_DeviceGetMetrics lib (rd_device dev) = None then []
    else map (\<lambda>n. (n, map_of (rd_tags dev) ''type-id''))
           (filter (\<lambda>n. n \<notin> set (rd_excludeMetrics dev)) (rocm_names (rs_NUM_HBM_INSTANCES lib))))"
proof (cases "rs_DeviceGetMetrics lib (rd_device dev)")
  case (Some ms)
  let ?T = "rocm_table {} (rs_NUM_HBM_INSTANCES lib, t, dev, ms)" and ?X = "set (rd_excludeMetrics dev)"
  have "map (\<lambda>r. (rq_name r, map_of (rq_tags r) ''type-id'')) (without ?X ?T) =
      map (\<lambda>n. (n, map_of (rd_tags dev) ''type-id'')) (map rq_name (without ?X ?T))"
    using rocm_table_type_id by (auto simp: without_def)
  also have "map rq_name (without ?X ?T) = filter (\<lambda>n. n \<notin> ?X) (map rq_name ?T)"
    by (simp add: without_def filter_map comp_def)
  finally show ?thesis
    using Some by (simp only: rocm_device_read_def option.case rocm_metrics_table rocm.read_table [of ?X] rocm_table_names) simp
qed (simp add: rocm_device_read_def)

text \<open>The device of an index with its type-id, unless it is excluded.\<close>

definition rocm_choice :: "'d rocm_smi \<Rightarrow> RocmSmiCollectorConfig \<Rightarrow> nat \<Rightarrow> ('d \<times> string) option" where
  "rocm_choice lib cfg i =
     (if itoa (of_nat i) \<in> set (rf_ExcludeDevices cfg) then None
      else Option.bind (rs_DeviceGetHandleByIndex lib i) (\<lambda>d.
           Option.bind (rs_DeviceGetPciInfo lib d) (\<lambda>p.
             if pci_identifier p \<in> set (rf_ExcludeDevices cfg) then None
             else Some (d, if rf_UsePciInfoAsTypeId cfg then pci_identifier p else itoa (of_nat i)))))"

lemma rocm_device_choice:
  "rocm_device lib cfg i = Inr ds \<Longrightarrow>
   map (\<lambda>g. (rd_device g, map_of (rd_tags g) ''type-id'', rd_excludeMetrics g)) ds =
   (case rocm_choice lib cfg i of None \<Rightarrow> [] | Some (d, tid) \<Rightarrow> [(d, Some tid, rf_ExcludeMetrics cfg)])"
  by (auto simp: rocm_device_def rocm_choice_def rocm_tags_def Let_def split: if_splits option.splits)

lemma rocm_device_list_choices:
  "rocm_device_list lib cfg is = Inr ds \<Longrightarrow>
   map (\<lambda>g. (rd_device g, map_of (rd_tags g) ''type-id'', rd_excludeMetrics g)) ds =
   concat (map (\<lambda>i. case rocm_choice lib cfg i of None \<Rightarrow> [] | Some (d, tid) \<Rightarrow> [(d, Some tid, rf_ExcludeMetrics cfg)]) is)"
proof (induction "is" arbitrary: ds)
  case (Cons i "is")
  from Cons.prems obtain d1 d2 where "rocm_device lib cfg i = Inr d1" "rocm_device_list lib cfg is = Inr d2" "ds = d1 @ d2"
    by (auto split: sum.splits)
  with rocm_device_choice Cons.IH show ?case by simp
qed simp

lemma concat_map_concat: "concat (map f (concat xss)) = concat (map (\<lambda>xs. concat (map f xs)) xss)"
  by (induction xss) simp_all

text \<open>C29: What the ROCm collector sends: for every device of the library, in order, that is not
  excluded by index or PCI identifier and whose metrics can be read, each metric that is not
  excluded (the memory temperature once per memory instance), tagged with the index or the PCI
  identifier of the device. A device whose metrics cannot be read loses only its own.\<close>

theorem rocm_sends:
  assumes "rocm_Init cfg lib = Inr m"
  shows "\<exists>n. rs_NumMonitorDevices lib = Some n \<and>
    map (\<lambda>r. (rq_name r, map_of (rq_tags r) ''type-id'')) (rocm_Read t lib' m) =
    concat (map (\<lambda>i. case rocm_choice lib cfg i of
        None \<Rightarrow> []
      | Some (d, tid) \<Rightarrow>
          if rs_DeviceGetMetrics lib' d = None then []
          else map (\<lambda>n. (n, Some tid))
                 (filter (\<lambda>n. n \<notin> set (rf_ExcludeMetrics cfg)) (rocm_names (rs_NUM_HBM_INSTANCES lib')))) [0..<n])"
proof -
  let ?f = "\<lambda>r. (rq_name r, map_of (rq_tags r) ''type-id'')"
  let ?sends = "\<lambda>(d, tid, X). if rs_DeviceGetMetrics lib' d = None then []
      else map (\<lambda>n. (n, tid)) (filter (\<lambda>n. n \<notin> set X) (rocm_names (rs_NUM_HBM_INSTANCES lib')))"
  let ?key = "\<lambda>g. (rd_device g, map_of (rd_tags g) ''type-id'', rd_excludeMetrics g)"
  from assms obtain n where n: "rs_NumMonitorDevices lib = Some n"
    and ds: "rocm_device_list lib cfg [0..<n] = Inr (ro_devices m)"
    by (auto simp: rocm_Init_def split: if_splits option.splits sum.splits)
  have "map ?f (rocm_device_read t lib' g) = ?sends (?key g)" for g
    by (simp add: rocm_device_sends)
  then have "map ?f (rocm_Read t lib' m) = concat (map ?sends (map ?key (ro_devices m)))"
    by (simp add: rocm_Read_def map_concat comp_def)
  also have "\<dots> = concat (map (\<lambda>i. concat (map ?sends
      (case rocm_choice lib cfg i of None \<Rightarrow> [] | Some (d, tid) \<Rightarrow> [(d, Some tid, rf_ExcludeMetrics cfg)]))) [0..<n])"
    unfolding rocm_device_list_choices [OF ds] by (simp add: concat_map_concat comp_def)
  also have "\<dots> = concat (map (\<lambda>i. case rocm_choice lib cfg i of
        None \<Rightarrow> []
      | Some (d, tid) \<Rightarrow>
          if rs_DeviceGetMetrics lib' d = None then []
          else map (\<lambda>n. (n, Some tid))
                 (filter (\<lambda>n. n \<notin> set (rf_ExcludeMetrics cfg)) (rocm_names (rs_NUM_HBM_INSTANCES lib')))) [0..<n])"
    by (intro arg_cong [of _ _ concat] map_cong refl) (simp split: option.split)
  finally show ?thesis using n by blast
qed

definition demo_rocm_metrics :: rocm_metrics where
  "demo_rocm_metrics =
     (let z = VNil in \<lparr>rm_Average_gfx_activity = z, rm_Average_umc_activity = z, rm_Average_mm_activity = z,
      rm_Average_socket_power = z, rm_Temperature_mem = z, rm_Temperature_hotspot = z, rm_Temperature_edge = z,
      rm_Temperature_vrgfx = z, rm_Temperature_vrsoc = z, rm_Temperature_vrmem = z, rm_Average_gfxclk_frequency = z,
      rm_Average_socclk_frequency = z, rm_Average_uclk_frequency = z, rm_Average_vclk0_frequency = z,
      rm_Average_vclk1_frequency = z, rm_Average_dclk0_frequency = z, rm_Average_dclk1_frequency = z,
      rm_Temperature_hbm = (\<lambda>_. z)\<rparr>)"

definition demo_rocm :: "nat rocm_smi" where
  "demo_rocm =
     \<lparr>rs_Init = True, rs_NumMonitorDevices = Some 2, rs_DeviceGetHandleByIndex = Some,
      rs_DeviceGetPciInfo = (\<lambda>d. Some (0, 195 + d, 0, 0)), rs_DeviceGetSerialNumber = (\<lambda>_. None),
      rs_DeviceGetMetrics = (\<lambda>_. Some demo_rocm_metrics), rs_NUM_HBM_INSTANCES = 4\<rparr>"

definition demo_rocm_config :: RocmSmiCollectorConfig where
  "demo_rocm_config = \<lparr>rf_ExcludeMetrics = tl (rocm_names 0), rf_ExcludeDevices = [''00000000:C3:00.0''],
     rf_AddPciInfoTag = False, rf_UsePciInfoAsTypeId = True, rf_AddSerialMeta = False\<rparr>"

theorem rocm_sends_witness:
  "\<exists>m. rocm_Init demo_rocm_config demo_rocm = Inr m \<and>
     map (\<lambda>r. (rq_name r, map_of (rq_tags r) ''type-id'')) (rocm_Read 0 demo_rocm m) =
     map (\<lambda>n. (n, Some ''00000000:C4:00.0''))
       [''rocm_gfx_util'', ''rocm_temp_hbm'', ''rocm_temp_hbm'', ''rocm_temp_hbm'', ''rocm_temp_hbm'']"
proof -
  have "case rocm_Init demo_rocm_config demo_rocm of Inl _ \<Rightarrow> False | Inr _ \<Rightarrow> True" by code_simp
  then obtain m where m: "rocm_Init demo_rocm_config demo_rocm = Inr m" by (auto split: sum.splits)
  have n: "rs_NumMonitorDevices demo_rocm = Some 2" by (simp add: demo_rocm_def)
  from rocm_sends [OF m, of 0 demo_rocm] obtain k where devices: "rs_NumMonitorDevices demo_rocm = Some k"
    and sends: "map (\<lambda>r. (rq_name r, map_of (rq_tags r) ''type-id'')) (rocm_Read 0 demo_rocm m) =
      concat (map (\<lambda>i. case rocm_choice demo_rocm demo_rocm_config i of
        None \<Rightarrow> []
      | Some (d, tid) \<Rightarrow>
          if rs_DeviceGetMetrics demo_rocm d = None then []
          else map (\<lambda>n. (n, Some tid))
                 (filter (\<lambda>n. n \<notin> set (rf_ExcludeMetrics demo_rocm_config)) (rocm_names (rs_NUM_HBM_INSTANCES demo_rocm)))) [0..<k])"
    by blast
  have k: "k = 2" using devices n by simp
  have "concat (map (\<lambda>i. case rocm_choice demo_rocm demo_rocm_config i of
        None \<Rightarrow> []
      | Some (d, tid) \<Rightarrow>
          if rs_DeviceGetMetrics demo_rocm d = None then []
          else map (\<lambda>n. (n, Some tid))
                 (filter (\<lambda>n. n \<notin> set (rf_ExcludeMetrics demo_rocm_config)) (rocm_names (rs_NUM_HBM_INSTANCES demo_rocm)))) [0..<2]) =
     map (\<lambda>n. (n, Some ''00000000:C4:00.0''))
       [''rocm_gfx_util'', ''rocm_temp_hbm'', ''rocm_temp_hbm'', ''rocm_temp_hbm'', ''rocm_temp_hbm'']" by code_simp
  then show ?thesis using m sends [unfolded k] by (intro exI [of _ m] conjI) (assumption, rule trans)
qed

end
