(* ===== verification/Sample_Collectors.thy ===== *)
theory Sample_Collectors
  imports Collector_Base
begin

text \<open>
  \<open>collectors/sampleMetric.go\<close> and \<open>collectors/sampleTimerMetric.go\<close>, the templates for authors
  of collectors. The second one has a goroutine of its own with a timer; it runs beside the
  runtime that fires the timer, the callers of \<open>Read\<close> and the caller of \<open>Close\<close>, and each atomic
  action of one of them is a step.
\<close>

section \<open>SampleCollector\<close>

record SampleCollector =
  sp_init :: bool
  sp_meta :: tagmap
  sp_tags :: tagmap
  sp_Interval :: string

definition sample_Init :: "string \<Rightarrow> SampleCollector" where
  "sample_Init interval =
     \<lparr>sp_init = True, sp_meta = [(''source'', ''SampleCollector''), (''group'', ''SAMPLE'')],
      sp_tags = [(''type'', ''node'')], sp_Interval = interval\<rparr>"

definition sample_Read :: "gotime \<Rightarrow> SampleCollector \<Rightarrow> request list" where
  "sample_Read t m =
     [\<lparr>rq_name = ''sample_metric'', rq_tags = sp_tags m, rq_meta = sp_meta m, rq_value = VFloat64 (Num 1), rq_time = Some t\<rparr>]"

definition sample_Close :: "SampleCollector \<Rightarrow> SampleCollector" where
  "sample_Close m = m\<lparr>sp_init := False\<rparr>"

section \<open>SampleTimerCollector\<close>

text \<open>
  The goroutine waits in its \<open>select\<close>, has taken a tick, is about to send a metric, or has
  returned. \<open>Close\<close> sends on the unbuffered channel \<open>done\<close>, waits for the goroutine, and returns.
\<close>

datatype timer_mode = Selecting | Ticked gotime | Emitting gotime | Returned
datatype close_mode = NotClosing | Signalling | Joining | ClosedDown

record SampleTimerCollector =
  sx_init :: bool
  sx_meta :: tagmap
  sx_tags :: tagmap
  sx_interval :: int
  sx_C :: "gotime option" \<comment> \<open>the channel of the ticker, which buffers one tick\<close>
  sx_output :: bool \<comment> \<open>the output channel has been captured\<close>
  sx_mode :: timer_mode
  sx_closer :: close_mode
  sx_sent :: "request list" \<comment> \<open>what was sent so far\<close>

definition sampletimer_Init :: "string \<Rightarrow> (goerror + SampleTimerCollector) run" where
  "sampletimer_Init interval =
     (case ParseDuration interval of
        None \<Rightarrow> Inr (Inl (GoError ''error parsing interval''))
      | Some d \<Rightarrow>
          if d \<le> 0 then Inl NonPositiveTicker
          else Inr (Inr \<lparr>sx_init = True, sx_meta = [(''source'', ''SampleTimerCollector''), (''group'', ''SAMPLE'')],
                         sx_tags = [(''type'', ''node'')], sx_interval = d, sx_C = None, sx_output = False,
                         sx_mode = Selecting, sx_closer = NotClosing, sx_sent = []\<rparr>))"

definition sampletimer_request :: "SampleTimerCollector \<Rightarrow> gotime \<Rightarrow> request" where
  "sampletimer_request m ts =
     \<lparr>rq_name = ''sample_metric'', rq_tags = sx_tags m, rq_meta = sx_meta m, rq_value = VFloat64 (Num 1), rq_time = Some ts\<rparr>"

definition sampletimer_Read :: "SampleTimerCollector \<Rightarrow> SampleTimerCollector" where
  "sampletimer_Read m = m\<lparr>sx_output := True\<rparr>"

text \<open>The rule \<open>create_fails\<close> is the message constructor reporting an error.\<close>

inductive sampletimer_step :: "SampleTimerCollector \<Rightarrow> SampleTimerCollector \<Rightarrow> bool" where
  fire: "sx_C m = None \<Longrightarrow> sampletimer_step m (m\<lparr>sx_C := Some ts\<rparr>)"
| read: "sampletimer_step m (sampletimer_Read m)"
| take_tick: "sx_mode m = Selecting \<Longrightarrow> sx_C m = Some ts \<Longrightarrow>
    sampletimer_step m (m\<lparr>sx_C := None, sx_mode := Ticked ts\<rparr>)"
| no_output: "sx_mode m = Ticked ts \<Longrightarrow> \<not> sx_output m \<Longrightarrow> sampletimer_step m (m\<lparr>sx_mode := Returned\<rparr>)"
| read_metrics: "sx_mode m = Ticked ts \<Longrightarrow> sx_output m \<Longrightarrow> sampletimer_step m (m\<lparr>sx_mode := Emitting ts\<rparr>)"
| emit: "sx_mode m = Emitting ts \<Longrightarrow>
    sampletimer_step m (m\<lparr>sx_sent := sx_sent m @ [sampletimer_request m ts], sx_mode := Returned\<rparr>)"
| create_fails: "sx_mode m = Emitting ts \<Longrightarrow> sampletimer_step m (m\<lparr>sx_mode := Returned\<rparr>)"
| close: "sx_closer m = NotClosing \<Longrightarrow> sampletimer_step m (m\<lparr>sx_closer := Signalling\<rparr>)"
| signal: "sx_closer m = Signalling \<Longrightarrow> sx_mode m = Selecting \<Longrightarrow>
    sampletimer_step m (m\<lparr>sx_closer := Joining, sx_mode := Returned\<rparr>)"
| join: "sx_closer m = Joining \<Longrightarrow> sx_mode m = Returned \<Longrightarrow>
    sampletimer_step m (m\<lparr>sx_closer := ClosedDown, sx_init := False\<rparr>)"

inductive_cases sampletimer_stepE: "sampletimer_step m m'"

abbreviation sampletimer_run :: "SampleTimerCollector \<Rightarrow> SampleTimerCollector \<Rightarrow> bool" where
  "sampletimer_run \<equiv> rtranclp sampletimer_step"

text \<open>Until its one metric is out, the goroutine has sent nothing; it never gets back to its \<open>select\<close>.\<close>

definition single_shot :: "SampleTimerCollector \<Rightarrow> bool" where
  "single_shot m = (sx_sent m = [] \<or> sx_mode m = Returned \<and> (\<exists>ts. sx_sent m = [sampletimer_request m ts]))"

lemma single_shot_step: "sampletimer_step m m' \<Longrightarrow> single_shot m \<Longrightarrow> single_shot m'"
  by (erule sampletimer_stepE) (auto simp: single_shot_def sampletimer_request_def sampletimer_Read_def)

lemma single_shot_run:
  assumes "sampletimer_Init interval = Inr (Inr m0)" and "sampletimer_run m0 m"
  shows "single_shot m"
  using assms(2)
proof (induction rule: rtranclp_induct)
  case base
  then show ?case using assms(1) by (auto simp: sampletimer_Init_def single_shot_def split: option.splits if_splits)
qed (rule single_shot_step)

definition unclosable :: "SampleTimerCollector \<Rightarrow> bool" where
  "unclosable m = (sx_mode m \<noteq> Selecting \<and> sx_closer m \<in> {NotClosing, Signalling} \<and> sx_init m)"

lemma unclosable_step: "sampletimer_step m m' \<Longrightarrow> unclosable m \<Longrightarrow> unclosable m'"
  by (erule sampletimer_stepE) (auto simp: unclosable_def sampletimer_Read_def)

lemma unclosable_run: "sampletimer_run m m' \<Longrightarrow> unclosable m \<Longrightarrow> unclosable m'"
  by (induction rule: rtranclp_induct) (auto dest: unclosable_step)

text \<open>Before anything closed the collector, it is initialized.\<close>

lemma open_initialized:
  assumes "sampletimer_Init interval = Inr (Inr m0)" and "sampletimer_run m0 m"
  shows "sx_closer m \<noteq> ClosedDown \<longrightarrow> sx_init m"
  using assms(2)
proof (induction rule: rtranclp_induct)
  case base
  then show ?case using assms(1) by (auto simp: sampletimer_Init_def split: option.splits if_splits)
next
  case (step m m')
  from step(2,3) show ?case by (auto elim!: sampletimer_stepE simp: sampletimer_Read_def)
qed

text \<open>C30: The goroutine of the timer template handles one tick and returns, since its \<open>select\<close> is not
  in a loop. In any run the collector sends at most one metric; and once the first tick was taken
  before \<open>Close\<close> sent its signal, \<open>Close\<close> never returns, because nobody receives the signal.\<close>

theorem sampletimer_single_shot:
  assumes "sampletimer_Init interval = Inr (Inr m0)" and "sampletimer_run m0 m"
    and "sx_mode m \<noteq> Selecting" and "sx_closer m \<in> {NotClosing, Signalling}" and "sampletimer_run m m'"
  shows "length (sx_sent m') \<le> 1 \<and> sx_closer m' \<in> {NotClosing, Signalling} \<and> sx_init m'"
proof -
  have "unclosable m" using assms(3,4) open_initialized [OF assms(1,2)] by (auto simp: unclosable_def)
  from unclosable_run [OF assms(5) this] have "sx_closer m' \<in> {NotClosing, Signalling} \<and> sx_init m'"
    by (simp add: unclosable_def)
  moreover have "single_shot m'" using single_shot_run [OF assms(1)] rtranclp_trans [OF assms(2,5)] by blast
  then have "length (sx_sent m') \<le> 1" by (auto simp: single_shot_def)
  ultimately show ?thesis by blast
qed

text \<open>Closing before the first tick ends.\<close>

theorem sampletimer_close_early:
  assumes "sx_mode m = Selecting" and "sx_closer m = NotClosing"
  shows "\<exists>m'. sampletimer_run m m' \<and> sx_closer m' = ClosedDown \<and> \<not> sx_init m'"
proof -
  let ?m1 = "m\<lparr>sx_closer := Signalling\<rparr>"
  let ?m2 = "?m1\<lparr>sx_closer := Joining, sx_mode := Returned\<rparr>"
  have "sampletimer_step m ?m1" using assms(2) by (rule sampletimer_step.close)
  moreover have "sampletimer_step ?m1 ?m2" using assms(1) by (intro sampletimer_step.signal) simp_all
  moreover have "sampletimer_step ?m2 (?m2\<lparr>sx_closer := ClosedDown, sx_init := False\<rparr>)"
    by (intro sampletimer_step.join) simp_all
  ultimately have "sampletimer_run m (?m2\<lparr>sx_closer := ClosedDown, sx_init := False\<rparr>)"
    by (meson converse_rtranclp_into_rtranclp rtranclp.rtrancl_refl)
  then show ?thesis by (rule exI [of _ "?m2\<lparr>sx_closer := ClosedDown, sx_init := False\<rparr>", OF conjI]) simp
qed

theorem sampletimer_single_shot_witness:
  "\<exists>m0 m m'. sampletimer_Init ''1s'' = Inr (Inr m0) \<and> sampletimer_run m0 m \<and> sampletimer_run m m' \<and>
     length (sx_sent m') = 1 \<and> sx_closer m' = Signalling"
proof -
  have "case sampletimer_Init ''1s'' of Inr (Inr m) \<Rightarrow> sx_mode m = Selecting \<and> sx_C m = None \<and> sx_sent m = [] \<and>
      sx_closer m = NotClosing | _ \<Rightarrow> False" by code_simp
  then obtain m0 where init: "sampletimer_Init ''1s'' = Inr (Inr m0)"
    and m0: "sx_mode m0 = Selecting" "sx_C m0 = None" "sx_sent m0 = []" "sx_closer m0 = NotClosing"
    by (auto split: sum.splits)
  let ?a = "sampletimer_Read m0"
  let ?b = "?a\<lparr>sx_C := Some 7\<rparr>"
  let ?c = "?b\<lparr>sx_C := None, sx_mode := Ticked 7\<rparr>"
  let ?d = "?c\<lparr>sx_mode := Emitting 7\<rparr>"
  let ?e = "?d\<lparr>sx_sent := sx_sent ?d @ [sampletimer_request ?d 7], sx_mode := Returned\<rparr>"
  let ?f = "?e\<lparr>sx_closer := Signalling\<rparr>"
  have "sampletimer_step m0 ?a" by (rule sampletimer_step.read)
  moreover have "sampletimer_step ?a ?b" using m0 by (intro sampletimer_step.fire) (simp add: sampletimer_Read_def)
  moreover have "sampletimer_step ?b ?c" using m0 by (intro sampletimer_step.take_tick) (simp_all add: sampletimer_Read_def)
  ultimately have run1: "sampletimer_run m0 ?c" by (meson converse_rtranclp_into_rtranclp rtranclp.rtrancl_refl)
  have "sampletimer_step ?c ?d" by (intro sampletimer_step.read_metrics) (simp_all add: sampletimer_Read_def)
  moreover have "sampletimer_step ?d ?e" by (intro sampletimer_step.emit) simp
  moreover have "sampletimer_step ?e ?f" using m0 by (intro sampletimer_step.close) (simp add: sampletimer_Read_def)
  ultimately have run2: "sampletimer_run ?c ?f" by (meson converse_rtranclp_into_rtranclp rtranclp.rtrancl_refl)
  have "length (sx_sent ?f) \<le> 1 \<and> sx_closer ?f \<in> {NotClosing, Signalling} \<and> sx_init ?f"
    using m0 by (intro sampletimer_single_shot [OF init run1 _ _ run2]) (simp_all add: sampletimer_Read_def)
  moreover have "length (sx_sent ?f) = 1" "sx_closer ?f = Signalling" using m0 by (simp_all add: sampletimer_Read_def)
  ultimately show ?thesis using init run1 run2 by blast
qed

end
