(* ===== verification/Spec2Isabelle.thy ===== *)
theory Spec2Isabelle
  imports Topology Aggregator Metric_Cache Metric_Router Interval_Pipeline Ticker Collector_Manager Main_Program
    Disk_Collectors Cpu_Collectors Memory_Collectors Net_Collectors Slurm_Collector Rapl_Collector
    Infiniband_Collector Lustre_Collector Gpfs_Collector Nfsiostat_Collector Beegfs_Collectors
    Cpufreq_Collectors Likwid_Collector Sensor_Collectors Misc_Collectors Smartmon_Collector
    Nvidia_Properties Rocm_Collector Sample_Collectors
begin

text \<open>
  cc-metric-collector is a daemon that measures a compute node. A ticker fires every interval;
  the collector manager then reads the configured collectors; their metrics go to the router,
  which tags, filters and time-stamps them, sends them to its outputs (the sinks) and stores them
  in the metric cache; at the end of an interval the cache hands its metrics to the aggregator,
  whose results return to the router. This library models these parts and the collectors, and
  proves what each promises to the next one.

  Parts and theories (the paths are under \<open>src/\<close>):

  \<^item> The language. \<open>Go_Prelude\<close>: machine integers, panics, errors, slices, maps as association
    lists, labelled runs and their contracts (locales \<open>step_order\<close>, \<open>step_invariant\<close>). \<open>Go_Strings\<close>, \<open>Go_Float\<close>, \<open>Go_Duration\<close>, \<open>Go_Regexp\<close>: the parts of
    the standard library the sources use (string splitting and scanning, number parsing, IEEE
    arithmetic, durations, regular expressions). \<open>Values\<close>: dynamically typed values and messages.
  \<^item> \<open>Topology\<close> (\<open>pkg/ccTopology\<close>): the CPU topology read from sysfs. Its lemmas give the contents
    of the ID lists, the partition of the hardware threads by socket, die, core and NUMA domain
    (locale \<open>thread_index\<close>), and when reading a range list returns.
  \<^item> \<open>Aggregator_Functions\<close>, \<open>Aggregator\<close> (\<open>internal/metricAggregator\<close>): the functions of the
    expression language with their overflow and rounding, the contract of sorting (locale
    \<open>sort_order\<close>), the store of aggregations (locale
    \<open>named_store\<close>), and \<open>Eval\<close> from the metrics of an interval to the messages it sends.
  \<^item> \<open>Metric_Cache\<close>, \<open>Router_Core\<close>, \<open>Metric_Router\<close> (\<open>internal/metricRouter\<close>): the round-robin
    buffer (locale \<open>message_cache\<close>), the configuration and the three forwarding functions, and
    the goroutine of the router as a labelled step relation beside its senders. Theorems: what the
    outputs and the cache receive for a run, order, batch limits, and where a run panics.
    \<open>Interval_Pipeline\<close> joins router, cache and aggregator: which messages the aggregations of an
    interval see and where their results go.
  \<^item> \<open>Ticker\<close> (\<open>pkg/multiChanTicker\<close>) and \<open>Collector_Manager\<close> (\<open>collectors/collectorManager.go\<close>,
    \<open>metricCollector.go\<close>): step relations of the two goroutines with the runtime, the reading
    goroutines and the callers of \<open>Close\<close>. Theorems: delivery of ticks, rounds of reads, exclusion
    of serial reads and of reads and \<open>Close\<close>, and that closing ends.
  \<^item> \<open>Main_Program\<close> (\<open>cc-metric-collector.go\<close>): configuration checks, the order of start-up and
    shutdown, and when the start panics.
  \<^item> The collectors (\<open>collectors/*Metric.go\<close>). \<open>Collector_Base\<close> holds the requests to the message
    constructor, the loops and the two contracts of collectors that send differences
    (\<open>difference_source\<close>, \<open>clamped_source\<close>). \<open>Disk_Collectors\<close> (iostat, diskstat),
    \<open>Cpu_Collectors\<close> (loadavg, schedstat, cpustat), \<open>Memory_Collectors\<close> (memstat, numastats),
    \<open>Net_Collectors\<close> (netstat, nfs), \<open>Slurm_Collector\<close>, \<open>Rapl_Collector\<close>,
    \<open>Infiniband_Collector\<close>, \<open>Lustre_Collector\<close>, \<open>Gpfs_Collector\<close>, \<open>Nfsiostat_Collector\<close>,
    \<open>Beegfs_Collectors\<close> (metadata and storage), \<open>Cpufreq_Collectors\<close> (sysfs and cpuinfo),
    \<open>Likwid_Collector\<close>, \<open>Sensor_Collectors\<close> (temp, ipmi), \<open>Smartmon_Collector\<close>, \<open>Misc_Collectors\<close>
    (topprocs, customCmd, self), \<open>Nvidia_Collector\<close> with \<open>Nvidia_Properties\<close>, \<open>Rocm_Collector\<close> and
    \<open>Sample_Collectors\<close> (the two templates) each model \<open>Init\<close>, \<open>Read\<close> and \<open>Close\<close> and state what a
    read sends: telescoping sums for differences, exact rates between two reads, refinement of an
    energy meter (RAPL) or of a sequence of samples (GPFS), coverage of the hardware threads
    (Slurm, cpufreq), exact totals and the discipline of library calls (LIKWID), the metrics of
    each device without the excluded ones (locales \<open>metric_table\<close> and \<open>distinct_table\<close>, for
    smartmon and ROCm), types and wanted names, bounds on the energy sent and the panics of
    \<open>Init\<close> and \<open>Read\<close> (NVIDIA), and the inputs that panic. The timer template is a step relation of
    its goroutine with \<open>Read\<close> and \<open>Close\<close>.

  Conventions. A record is the struct of the same name with its fields abbreviated; an operation
  takes and returns the state; \<open>Inl\<close> is a panic (type \<open>run\<close>) or an error, an option result of a
  loop that may run forever is \<open>None\<close> when it does not return. Map iteration follows the order of
  the association list, which stands for Go's unspecified order. Loops are structural, or
  \<open>partial_function\<close> where they need not end; no fuel is used but in \<open>Go_Regexp\<close>, where the number
  of repetitions and of matches is bounded by the length of the text, since every counted
  repetition and match consumes a character. Finite runs of the goroutines have any length.

  Parameters. The expression engine gval, the message processor and the messages of cc-lib, the
  sinks and receivers, the libraries LIKWID, NVML and rocm_smi, statfs, the clock, the contents
  of files and the output of programs are arguments of the definitions; the answers of a library
  are those of one \<open>Init\<close> or one \<open>Read\<close>. Decoded JSON configurations are taken as values; the
  decoder is the standard library's. Log output is left out, except where printing it panics.

  Not modelled. The registration tables (\<open>AvailableCollectors\<close> apart), the functions that only
  print, and the wiring of the packages outside the repository; scripts and packaging are no
  part of the daemon. The mutex of a LIKWID measurement and data races on the fields of the timer
  template are left out: their steps are atomic here.
\<close>

end
